(* ===== verification/Prelude.thy ===== *)
theory Prelude
  imports Main "HOL-Library.Sublist"
begin

text \<open>
  Shared vocabulary of the development: the result type of fallible operations (a sum
  whose left side is the thrown value), the string routines of the JavaScript standard
  library that the sources use (split, join, trim, case mapping, startsWith and
  endsWith), the order-preserving removal of duplicates of a JavaScript Set, decimal
  printing, and the generic lemmas about them.  A JavaScript string is modelled by the
  bytes of its UTF-8 encoding, as an Isabelle string (a list of 8-bit characters); the two
  agree character by character on ASCII, which is all that the identifiers, paths, keys,
  headers and tokens of the program may contain.
\<close>

named_theorems result_simps \<open>unfolding and case rules for the result type\<close>
named_theorems char_class \<open>definitions of the character classes of the regular expressions\<close>

section \<open>Results\<close>

definition rbind :: "'e + 'a \<Rightarrow> ('a \<Rightarrow> 'e + 'b) \<Rightarrow> 'e + 'b" where
  "rbind m f = (case m of Inl e \<Rightarrow> Inl e | Inr x \<Rightarrow> f x)"

lemma rbind_simps [simp, result_simps]:
  "rbind (Inl e) f = Inl e"
  "rbind (Inr x) f = f x"
  by (simp_all add: rbind_def)

lemma rbind_Inr_iff [result_simps]:
  "rbind m f = Inr y \<longleftrightarrow> (\<exists>x. m = Inr x \<and> f x = Inr y)"
  by (cases m) simp_all

lemma rbind_InrE:
  assumes "rbind m f = Inr y"
  obtains x where "m = Inr x" and "f x = Inr y"
  using assms by (cases m) simp_all

lemma rbind_Inl_iff [result_simps]:
  "rbind m f = Inl e \<longleftrightarrow> m = Inl e \<or> (\<exists>x. m = Inr x \<and> f x = Inl e)"
  by (cases m) simp_all

lemma rbind_cong [fundef_cong]:
  assumes "m = m'" and "\<And>x. m' = Inr x \<Longrightarrow> f x = g x"
  shows "rbind m f = rbind m' g"
  using assms by (cases m') simp_all

definition ensure :: "bool \<Rightarrow> 'e \<Rightarrow> 'e + unit" where
  "ensure c e = (if c then Inr () else Inl e)"

lemma ensure_simps [simp, result_simps]:
  "ensure True e = Inr ()"
  "ensure False e = Inl e"
  "ensure c e = Inr u \<longleftrightarrow> c"
  "ensure c e = Inl d \<longleftrightarrow> \<not> c \<and> d = e"
  by (auto simp: ensure_def)

definition is_ok :: "'e + 'a \<Rightarrow> bool" where
  "is_ok m = (case m of Inl _ \<Rightarrow> False | Inr _ \<Rightarrow> True)"

lemma is_ok_simps [simp]:
  "is_ok (Inl e) \<longleftrightarrow> False"
  "is_ok (Inr x) \<longleftrightarrow> True"
  by (simp_all add: is_ok_def)

text \<open>A loop over a list whose body may throw: the first exception ends it.\<close>

fun rmap :: "('a \<Rightarrow> 'e + 'b) \<Rightarrow> 'a list \<Rightarrow> 'e + 'b list" where
  "rmap f [] = Inr []"
| "rmap f (x # xs) = rbind (f x) (\<lambda>y. rbind (rmap f xs) (\<lambda>ys. Inr (y # ys)))"

lemma rmap_Inr_iff:
  "rmap f xs = Inr ys \<longleftrightarrow> list_all2 (\<lambda>x y. f x = Inr y) xs ys"
proof (induction xs arbitrary: ys)
  case Nil
  show ?case by auto
next
  case (Cons x xs)
  show ?case
    by (cases ys) (auto simp: rbind_Inr_iff Cons.IH list_all2_Cons1)
qed

lemma rmap_length: "rmap f xs = Inr ys \<Longrightarrow> length ys = length xs"
  by (simp add: rmap_Inr_iff list_all2_lengthD)

section \<open>Optional values\<close>

text \<open>The nullish-coalescing operator \<^verbatim>\<open>a ?? b\<close>: null and undefined are both \<^term>\<open>None\<close>.\<close>

definition or_default :: "'a option \<Rightarrow> 'a \<Rightarrow> 'a" where
  "or_default m d = (case m of None \<Rightarrow> d | Some x \<Rightarrow> x)"

lemma or_default_simps [simp]:
  "or_default None d = d"
  "or_default (Some x) d = x"
  by (simp_all add: or_default_def)

text \<open>The truth value of a string or null in a condition: the empty string is false.\<close>

definition truthy :: "string option \<Rightarrow> bool" where
  "truthy m = (case m of None \<Rightarrow> False | Some s \<Rightarrow> s \<noteq> [])"

lemma truthy_simps [simp]:
  "truthy None \<longleftrightarrow> False"
  "truthy (Some s) \<longleftrightarrow> s \<noteq> []"
  by (simp_all add: truthy_def)

lemma find_SomeD: "find P xs = Some x \<Longrightarrow> P x \<and> x \<in> set xs"
  by (induction xs) (auto split: if_splits)

lemma list_all2_in: "list_all2 P xs ys \<Longrightarrow> x \<in> set xs \<Longrightarrow> \<exists>y. P x y"
  by (induction rule: list_all2_induct) auto

section \<open>Characters and strings\<close>

definition is_lower :: "char \<Rightarrow> bool" where [char_class]:
  "is_lower c \<longleftrightarrow> 97 \<le> (of_char c :: nat) \<and> (of_char c :: nat) \<le> 122"

definition is_upper :: "char \<Rightarrow> bool" where [char_class]:
  "is_upper c \<longleftrightarrow> 65 \<le> (of_char c :: nat) \<and> (of_char c :: nat) \<le> 90"

definition is_digit :: "char \<Rightarrow> bool" where [char_class]:
  "is_digit c \<longleftrightarrow> 48 \<le> (of_char c :: nat) \<and> (of_char c :: nat) \<le> 57"

definition is_lower_alnum :: "char \<Rightarrow> bool" where [char_class]:
  "is_lower_alnum c \<longleftrightarrow> is_lower c \<or> is_digit c"

text \<open>White space as \<^verbatim>\<open>String.prototype.trim\<close> removes it, restricted to ASCII.\<close>

definition is_ws :: "char \<Rightarrow> bool" where
  "is_ws c \<longleftrightarrow> (let n = (of_char c :: nat) in (9 \<le> n \<and> n \<le> 13) \<or> n = 32)"

definition js_trim :: "string \<Rightarrow> string" where
  "js_trim s = rev (dropWhile is_ws (rev (dropWhile is_ws s)))"

lemma js_trim_Nil_iff: "js_trim s = [] \<longleftrightarrow> (\<forall>c \<in> set s. is_ws c)"
proof -
  have "dropWhile is_ws xs = [] \<longleftrightarrow> (\<forall>c \<in> set xs. is_ws c)" for xs
    by (rule dropWhile_eq_Nil_conv)
  moreover have "(\<forall>c \<in> set (dropWhile is_ws s). is_ws c) \<longleftrightarrow> (\<forall>c \<in> set s. is_ws c)"
    by (induction s) auto
  ultimately show ?thesis by (simp add: js_trim_def)
qed

definition lower_letters :: string where
  "lower_letters = ''abcdefghijklmnopqrstuvwxyz''"

definition upper_letters :: string where
  "upper_letters = ''ABCDEFGHIJKLMNOPQRSTUVWXYZ''"

definition to_lower_char :: "char \<Rightarrow> char" where
  "to_lower_char c = or_default (map_of (zip upper_letters lower_letters) c) c"

definition to_upper_char :: "char \<Rightarrow> char" where
  "to_upper_char c = or_default (map_of (zip lower_letters upper_letters) c) c"

definition to_lower :: "string \<Rightarrow> string" where
  "to_lower s = map to_lower_char s"

definition to_upper :: "string \<Rightarrow> string" where
  "to_upper s = map to_upper_char s"

text \<open>\<^verbatim>\<open>s.split(c)\<close> for a one-character separator: never the empty list.\<close>

fun split_on :: "char \<Rightarrow> string \<Rightarrow> string list" where
  "split_on c [] = [[]]"
| "split_on c (x # xs) =
     (if x = c then [] # split_on c xs
      else (case split_on c xs of [] \<Rightarrow> [[x]] | p # ps \<Rightarrow> (x # p) # ps))"

fun join_with :: "string \<Rightarrow> string list \<Rightarrow> string" where
  "join_with sep [] = []"
| "join_with sep [p] = p"
| "join_with sep (p # q # ps) = p @ sep @ join_with sep (q # ps)"

definition starts_with :: "string \<Rightarrow> string \<Rightarrow> bool" where
  "starts_with s p \<longleftrightarrow> prefix p s"

definition ends_with :: "string \<Rightarrow> string \<Rightarrow> bool" where
  "ends_with s p \<longleftrightarrow> suffix p s"

fun str_includes :: "string \<Rightarrow> string \<Rightarrow> bool" where
  "str_includes [] p = (p = [])"
| "str_includes (x # xs) p = (prefix p (x # xs) \<or> str_includes xs p)"

text \<open>
  The expression of runs of lower-case letters and digits joined by single characters
  \<^term>\<open>c\<close>: snake case, kebab case and dotted paths.
\<close>

definition is_runs :: "char \<Rightarrow> string \<Rightarrow> bool" where
  "is_runs c s \<longleftrightarrow> list_all (\<lambda>p. p \<noteq> [] \<and> list_all is_lower_alnum p) (split_on c s)"

lemma split_on_ne [simp]: "split_on c s \<noteq> []"
  by (induction s) (auto split: list.splits)

lemma split_on_no_sep: "c \<notin> set s \<Longrightarrow> split_on c s = [s]"
  by (induction s) auto

lemma split_on_append_sep: "split_on c (a @ c # b) = split_on c a @ split_on c b"
proof (induction a)
  case Nil
  show ?case by simp
next
  case (Cons x a)
  show ?case
    by (cases "split_on c a") (use Cons.IH in auto)
qed

lemma join_with_cons: "ps \<noteq> [] \<Longrightarrow> join_with sep (p # ps) = p @ sep @ join_with sep ps"
  by (cases ps) simp_all

lemma join_with_append:
  "ps \<noteq> [] \<Longrightarrow> qs \<noteq> [] \<Longrightarrow>
   join_with sep (ps @ qs) = join_with sep ps @ sep @ join_with sep qs"
proof (induction ps)
  case Nil
  then show ?case by simp
next
  case (Cons p ps)
  show ?case
    by (cases "ps = []") (use Cons in \<open>simp_all add: join_with_cons\<close>)
qed

lemma join_split [simp]: "join_with [c] (split_on c s) = s"
proof (induction s)
  case Nil
  show ?case by simp
next
  case (Cons x s)
  obtain p ps where sp: "split_on c s = p # ps"
    using split_on_ne[of c s] by (cases "split_on c s") blast+
  show ?case
    using Cons.IH sp by (cases ps) auto
qed

lemma split_on_pieces: "p \<in> set (split_on c s) \<Longrightarrow> c \<notin> set p"
  by (induction s arbitrary: p) (fastforce split: if_splits list.splits)+

lemma split_join:
  "ps \<noteq> [] \<Longrightarrow> (\<And>p. p \<in> set ps \<Longrightarrow> c \<notin> set p) \<Longrightarrow> split_on c (join_with [c] ps) = ps"
proof (induction ps rule: induct_list012)
  case (3 p q ps)
  have "split_on c (p @ [c] @ join_with [c] (q # ps)) = split_on c p @ (q # ps)"
    using split_on_append_sep[of c p "join_with [c] (q # ps)"] 3 by simp
  then show ?case using 3 by (simp add: split_on_no_sep)
qed (simp_all add: split_on_no_sep)

lemma split_on_inj: "split_on c s = split_on c t \<Longrightarrow> s = t"
  by (metis join_split)

lemma set_join_with: "set (join_with sep ps) \<subseteq> set sep \<union> (\<Union>p \<in> set ps. set p)"
  by (induction sep ps rule: join_with.induct) auto

lemma split_on_chars: "c \<in> set s \<Longrightarrow> c = d \<or> (\<exists>p \<in> set (split_on d s). c \<in> set p)"
  using set_join_with[of "[d]" "split_on d s"] by auto

lemma split_on_length: "length (split_on c s) = Suc (count_list s c)"
  by (induction s) (auto split: list.splits)

text \<open>Textual prefixes that end at a separator are the prefix order on the pieces.\<close>

lemma split_strict_prefix:
  "starts_with q (p @ [c]) \<longleftrightarrow> (\<exists>r. r \<noteq> [] \<and> split_on c q = split_on c p @ r)"
proof
  assume "starts_with q (p @ [c])"
  then obtain r where "q = p @ c # r" by (auto simp: starts_with_def prefix_def)
  then show "\<exists>r. r \<noteq> [] \<and> split_on c q = split_on c p @ r"
    by (intro exI[of _ "split_on c r"]) (simp add: split_on_append_sep)
next
  assume "\<exists>r. r \<noteq> [] \<and> split_on c q = split_on c p @ r"
  then obtain r where r: "r \<noteq> []" "split_on c q = split_on c p @ r" by blast
  have "q = join_with [c] (split_on c q)" by simp
  also have "\<dots> = p @ [c] @ join_with [c] r"
    using r by (simp add: join_with_append)
  finally show "starts_with q (p @ [c])" by (auto simp: starts_with_def prefix_def)
qed

lemma split_prefix:
  "q = p \<or> starts_with q (p @ [c]) \<longleftrightarrow> prefix (split_on c p) (split_on c q)"
proof -
  have "q = p \<longleftrightarrow> split_on c q = split_on c p" by (auto dest: split_on_inj)
  then show ?thesis by (auto simp: split_strict_prefix prefix_def)
qed

section \<open>Sets as lists\<close>

text \<open>
  A JavaScript Set (and a Map's keys) enumerates in insertion order, so adding an element
  that is present leaves the order alone.
\<close>

definition set_add :: "'a \<Rightarrow> 'a list \<Rightarrow> 'a list" where
  "set_add x xs = (if x \<in> set xs then xs else xs @ [x])"

fun dedupe_acc :: "'a list \<Rightarrow> 'a list \<Rightarrow> 'a list" where
  "dedupe_acc acc [] = acc"
| "dedupe_acc acc (x # xs) = dedupe_acc (set_add x acc) xs"

definition dedupe :: "'a list \<Rightarrow> 'a list" where
  "dedupe xs = dedupe_acc [] xs"

lemma set_add_set [simp]: "set (set_add x xs) = insert x (set xs)"
  by (auto simp: set_add_def)

lemma set_add_distinct [simp]: "distinct (set_add x xs) = distinct xs"
  by (auto simp: set_add_def)

lemma dedupe_acc_set: "set (dedupe_acc acc xs) = set acc \<union> set xs"
  by (induction xs arbitrary: acc) auto

lemma dedupe_acc_distinct: "distinct (dedupe_acc acc xs) = distinct acc"
  by (induction xs arbitrary: acc) auto

lemma dedupe_set [simp]: "set (dedupe xs) = set xs"
  by (simp add: dedupe_def dedupe_acc_set)

lemma dedupe_distinct [simp]: "distinct (dedupe xs)"
  by (simp add: dedupe_def dedupe_acc_distinct)

lemma dedupe_acc_prefix: "\<exists>zs. dedupe_acc acc xs = acc @ zs \<and> set zs \<subseteq> set xs"
proof (induction xs arbitrary: acc)
  case Nil
  show ?case by simp
next
  case (Cons x xs)
  obtain zs where zs: "dedupe_acc (set_add x acc) xs = set_add x acc @ zs" "set zs \<subseteq> set xs"
    using Cons.IH by blast
  then show ?case
    by (cases "x \<in> set acc") (auto simp: set_add_def)
qed

lemma dedupe_acc_id:
  "distinct (acc @ xs) \<Longrightarrow> dedupe_acc acc xs = acc @ xs"
  by (induction xs arbitrary: acc) (auto simp: set_add_def)

lemma dedupe_id: "distinct xs \<Longrightarrow> dedupe xs = xs"
  by (simp add: dedupe_def dedupe_acc_id)

section \<open>Numbers as text\<close>

definition digit_char :: "nat \<Rightarrow> char" where
  "digit_char n = ''0123456789'' ! (n mod 10)"

fun nat_str :: "nat \<Rightarrow> string" where
  "nat_str n = (if n < 10 then [digit_char n] else nat_str (n div 10) @ [digit_char n])"

declare nat_str.simps [simp del]

definition int_str :: "int \<Rightarrow> string" where
  "int_str k = (if k < 0 then CHR ''-'' # nat_str (nat (- k)) else nat_str (nat k))"

definition pad_left :: "nat \<Rightarrow> string \<Rightarrow> string" where
  "pad_left n s = replicate (n - length s) (CHR ''0'') @ s"

end
