(* ===== verification/Kernel.thy ===== *)
theory Kernel
  imports Prelude
begin

text \<open>
  The kernel package (packages/kernel/src): the domain error classes and what a request
  handler can throw, the Guard helpers, cursor pagination, and the event buffer of the
  aggregate base class.  Random v4 UUIDs and the clock are arguments of the operations
  that need them; the check that a string is a UUID belongs to the uuid package and is an
  argument as well.
\<close>

section \<open>Errors\<close>

text \<open>
  The classes a filter can tell apart: the five base classes of the kernel and the two
  direct subclasses of DomainError of other packages.  The other error classes inherit
  from one of these and only fix the message and the reason.
\<close>

datatype error_class =
    CNotFound | CConflict | CValidation | CForbidden | CUnauthenticated
  | CUpstreamUnavailable | CPolicyCompile

record domain_error =
  de_class :: error_class
  de_message :: string
  de_reason :: "string option"
  de_decisionId :: "string option"

text \<open>The body of a NestJS HttpException: a text, or an object whose message is a text or a list.\<close>

datatype http_message = MsgText string | MsgList "string list"
datatype http_body = BodyText string | BodyObject "http_message option"

text \<open>What can be thrown: a domain error, a NestJS HttpException, anything else.\<close>

datatype exn = Domain domain_error | HttpExn nat http_body string | Crash string

type_synonym 'a result = "exn + 'a"

fun error_code :: "error_class \<Rightarrow> string" where
  "error_code CNotFound = ''not_found''"
| "error_code CConflict = ''conflict''"
| "error_code CValidation = ''validation_failed''"
| "error_code CForbidden = ''forbidden''"
| "error_code CUnauthenticated = ''unauthenticated''"
| "error_code CUpstreamUnavailable = ''upstream_unavailable''"
| "error_code CPolicyCompile = ''policy_compile_failed''"

definition newDomainError ::
  "error_class \<Rightarrow> string \<Rightarrow> string option \<Rightarrow> string option \<Rightarrow> exn" where
  "newDomainError c m r d =
     Domain \<lparr>de_class = c, de_message = m, de_reason = r, de_decisionId = d\<rparr>"

definition NotFoundError :: "string \<Rightarrow> string option \<Rightarrow> exn" where
  "NotFoundError m r = newDomainError CNotFound m r None"

definition ConflictError :: "string \<Rightarrow> string option \<Rightarrow> exn" where
  "ConflictError m r = newDomainError CConflict m r None"

definition ValidationError :: "string \<Rightarrow> string option \<Rightarrow> exn" where
  "ValidationError m r = newDomainError CValidation m r None"

definition ForbiddenError :: "string \<Rightarrow> string option \<Rightarrow> string option \<Rightarrow> exn" where
  "ForbiddenError m r d = newDomainError CForbidden m r d"

definition UnauthenticatedError :: "string \<Rightarrow> string option \<Rightarrow> exn" where
  "UnauthenticatedError m r = newDomainError CUnauthenticated m r None"

text \<open>The error class of what was thrown, when it is a domain error.\<close>

definition exn_class :: "exn \<Rightarrow> error_class option" where
  "exn_class e = (case e of Domain d \<Rightarrow> Some (de_class d) | _ \<Rightarrow> None)"

definition exn_reason :: "exn \<Rightarrow> string option" where
  "exn_reason e = (case e of Domain d \<Rightarrow> de_reason d | _ \<Rightarrow> None)"

lemmas error_ctor_defs =
  newDomainError_def NotFoundError_def ConflictError_def ValidationError_def
  ForbiddenError_def UnauthenticatedError_def

lemma exn_class_simps [simp]:
  "exn_class (NotFoundError m r) = Some CNotFound"
  "exn_class (ConflictError m r) = Some CConflict"
  "exn_class (ValidationError m r) = Some CValidation"
  "exn_class (ForbiddenError m r d) = Some CForbidden"
  "exn_class (UnauthenticatedError m r) = Some CUnauthenticated"
  by (simp_all add: exn_class_def error_ctor_defs)

lemma exn_reason_simps [simp]:
  "exn_reason (NotFoundError m r) = r"
  "exn_reason (ConflictError m r) = r"
  "exn_reason (ValidationError m r) = r"
  "exn_reason (ForbiddenError m r d) = r"
  "exn_reason (UnauthenticatedError m r) = r"
  by (simp_all add: exn_reason_def error_ctor_defs)

section \<open>Guard\<close>

definition guard_invariant :: "bool \<Rightarrow> string \<Rightarrow> string \<Rightarrow> unit result" where
  "guard_invariant c message reason = ensure c (ValidationError message (Some reason))"

definition againstNullOrUndefined :: "'a option \<Rightarrow> string \<Rightarrow> unit result" where
  "againstNullOrUndefined v name =
     (case v of
        None \<Rightarrow> Inl (ValidationError (name @ '' is required'') (Some (name @ ''_required'')))
      | Some _ \<Rightarrow> Inr ())"

definition againstEmpty :: "string option \<Rightarrow> string \<Rightarrow> unit result" where
  "againstEmpty v name =
     (let err = ValidationError (name @ '' must not be empty'') (Some (name @ ''_empty'')) in
      case v of
        None \<Rightarrow> Inl err
      | Some s \<Rightarrow> if length (js_trim s) = 0 then Inl err else Inr ())"

definition inRange :: "int \<Rightarrow> int \<Rightarrow> int \<Rightarrow> string \<Rightarrow> unit result" where
  "inRange v lo hi name =
     (if v < lo \<or> v > hi
      then Inl (ValidationError
             (name @ '' must be between '' @ int_str lo @ '' and '' @ int_str hi)
             (Some (name @ ''_out_of_range'')))
      else Inr ())"

definition oneOf :: "string \<Rightarrow> string list \<Rightarrow> string \<Rightarrow> unit result" where
  "oneOf v allowed name =
     (if v \<notin> set allowed
      then Inl (ValidationError (name @ '' must be one of: '' @ join_with '', '' allowed)
             (Some (name @ ''_invalid'')))
      else Inr ())"

lemma guard_invariant_ok [simp]: "guard_invariant c m r = Inr u \<longleftrightarrow> c"
  by (simp add: guard_invariant_def)

lemma guard_invariant_True [simp]: "guard_invariant True m r = Inr ()"
  by (simp add: guard_invariant_def)

lemma againstEmpty_ok [simp]:
  "againstEmpty (Some s) n = Inr u \<longleftrightarrow> js_trim s \<noteq> []"
  "againstEmpty None n = Inr u \<longleftrightarrow> False"
  by (auto simp: againstEmpty_def Let_def)

lemma againstEmpty_pass: "js_trim s \<noteq> [] \<Longrightarrow> againstEmpty (Some s) n = Inr ()"
  by (simp add: againstEmpty_def)

lemma inRange_ok [simp]: "inRange v lo hi n = Inr u \<longleftrightarrow> lo \<le> v \<and> v \<le> hi"
  by (auto simp: inRange_def)

lemma oneOf_ok [simp]: "oneOf v vs n = Inr u \<longleftrightarrow> v \<in> set vs"
  by (auto simp: oneOf_def)

section \<open>Pagination\<close>

text \<open>
  The requested limit is an integer (the query DTOs validate it with IsInt), so that
  Math.trunc is the identity on it.
\<close>

definition DEFAULT_PAGE_LIMIT :: int where "DEFAULT_PAGE_LIMIT = 20"
definition MAX_PAGE_LIMIT :: int where "MAX_PAGE_LIMIT = 100"

record page_query =
  pq_limit :: int
  pq_cursor :: "string option"

definition pageQueryFrom :: "int option \<Rightarrow> string option \<Rightarrow> page_query" where
  "pageQueryFrom limit cursor =
     (let requested = or_default limit DEFAULT_PAGE_LIMIT in
      \<lparr>pq_limit = min (max 1 requested) MAX_PAGE_LIMIT,
       pq_cursor = (if truthy cursor then cursor else None)\<rparr>)"

record 'a cursor_page =
  cp_items :: "'a list"
  cp_nextCursor :: "string option"
  cp_hasMore :: bool

definition makeCursorPage :: "'a list \<Rightarrow> string option \<Rightarrow> 'a cursor_page" where
  "makeCursorPage items nextCursor =
     \<lparr>cp_items = items, cp_nextCursor = nextCursor, cp_hasMore = (nextCursor \<noteq> None)\<rparr>"

lemma pageQueryFrom_bounds:
  "1 \<le> pq_limit (pageQueryFrom l c) \<and> pq_limit (pageQueryFrom l c) \<le> 100"
  by (simp add: pageQueryFrom_def Let_def MAX_PAGE_LIMIT_def)

lemma pageQueryFrom_cursor: "pq_cursor (pageQueryFrom l c) \<noteq> Some []"
  by (cases c) (auto simp: pageQueryFrom_def Let_def)

text \<open>
  Every repository lists a page the same way: it reads one row more than the limit, in the
  order of its sort key, to learn whether there is a next page, whose cursor is the key of
  the last row it keeps.
\<close>

definition page_of :: "nat \<Rightarrow> ('a \<Rightarrow> string) \<Rightarrow> 'a list \<Rightarrow> 'a cursor_page" where
  "page_of limit key rows =
     (let hasMore = length rows > limit;
          page = (if hasMore then take limit rows else rows);
          nextCursor = (if hasMore \<and> page \<noteq> [] then Some (key (last page)) else None)
      in makeCursorPage page nextCursor)"

lemma page_of_items [simp]: "cp_items (page_of n key rows) = take n rows"
  by (simp add: page_of_def makeCursorPage_def Let_def)

lemma page_of_hasMore: "0 < n \<Longrightarrow> cp_hasMore (page_of n key rows) \<longleftrightarrow> n < length rows"
  by (auto simp: page_of_def makeCursorPage_def Let_def)

section \<open>Aggregate roots\<close>

text \<open>
  The buffer of recorded domain events: an operation appends, and the application layer
  takes the events after the save, which empties the buffer.
\<close>

definition addDomainEvent :: "'e \<Rightarrow> 'e list \<Rightarrow> 'e list" where
  "addDomainEvent e buf = buf @ [e]"

definition pullDomainEvents :: "'e list \<Rightarrow> 'e list \<times> 'e list" where
  "pullDomainEvents buf = (buf, [])"

end
