(* ===== verification/HttpErrors.thy ===== *)
theory HttpErrors
  imports Kernel
begin

text \<open>
  The GlobalExceptionFilter of the five services
  (apps/*/src/shared/presentation/global-exception.filter.ts): the status and the error
  envelope of whatever a handler throws.  Each service has its own copy of the filter; the
  copies of toHttp and extractHttpMessage are the same text, so they are one definition
  applied to the service's own status and code tables.
\<close>

record error_body =
  eb_code :: string
  eb_message :: string
  eb_reason :: "string option"
  eb_decisionId :: "string option"
  eb_traceId :: "string option"

definition if_truthy :: "string option \<Rightarrow> string option" where
  "if_truthy m = (if truthy m then m else None)"

fun extractHttpMessage :: "http_body \<Rightarrow> string \<Rightarrow> string" where
  "extractHttpMessage (BodyText s) fallback = s"
| "extractHttpMessage (BodyObject (Some (MsgList ms))) fallback = join_with ''; '' ms"
| "extractHttpMessage (BodyObject (Some (MsgText s))) fallback = s"
| "extractHttpMessage (BodyObject None) fallback = fallback"

definition to_http ::
  "(domain_error \<Rightarrow> nat) \<Rightarrow> (nat \<Rightarrow> string) \<Rightarrow> exn \<Rightarrow> string option \<Rightarrow> nat \<times> error_body" where
  "to_http statusForDomainError codeForStatus e traceId =
     (case e of
        Domain d \<Rightarrow>
          (statusForDomainError d,
           \<lparr>eb_code = error_code (de_class d), eb_message = de_message d,
            eb_reason = if_truthy (de_reason d), eb_decisionId = if_truthy (de_decisionId d),
            eb_traceId = if_truthy traceId\<rparr>)
      | HttpExn status res fallback \<Rightarrow>
          (status,
           \<lparr>eb_code = codeForStatus status, eb_message = extractHttpMessage res fallback,
            eb_reason = None, eb_decisionId = None, eb_traceId = if_truthy traceId\<rparr>)
      | Crash _ \<Rightarrow>
          (500,
           \<lparr>eb_code = ''internal_error'', eb_message = ''An unexpected error occurred'',
            eb_reason = None, eb_decisionId = None, eb_traceId = if_truthy traceId\<rparr>))"

section \<open>The status tables\<close>

text \<open>authz-admin, expense and audit test the classes in different orders; the classes are disjoint.\<close>

definition statusForDomainError_admin :: "domain_error \<Rightarrow> nat" where
  "statusForDomainError_admin e =
     (if de_class e = CNotFound then 404
      else if de_class e = CConflict then 409
      else if de_class e = CValidation then 400
      else if de_class e = CUnauthenticated then 401
      else if de_class e = CForbidden then 403
      else 422)"

definition statusForDomainError_expense :: "domain_error \<Rightarrow> nat" where
  "statusForDomainError_expense e =
     (if de_class e = CUnauthenticated then 401
      else if de_class e = CNotFound then 404
      else if de_class e = CConflict then 409
      else if de_class e = CValidation then 400
      else if de_class e = CForbidden then 403
      else 422)"

definition statusForDomainError_audit :: "domain_error \<Rightarrow> nat" where
  "statusForDomainError_audit e =
     (if de_class e = CNotFound then 404
      else if de_class e = CConflict then 409
      else if de_class e = CValidation then 400
      else if de_class e = CUnauthenticated then 401
      else if de_class e = CForbidden then 403
      else 422)"

definition statusForDomainError_gateway :: "domain_error \<Rightarrow> nat" where
  "statusForDomainError_gateway e =
     (if de_class e = CUnauthenticated then 401
      else if de_class e = CUpstreamUnavailable then
        (if de_reason e = Some ''upstream_timeout'' then 504 else 502)
      else if de_class e = CNotFound then 404
      else if de_class e = CConflict then 409
      else if de_class e = CValidation then 400
      else if de_class e = CForbidden then 403
      else 422)"

definition statusForDomainError_identity :: "domain_error \<Rightarrow> nat" where
  "statusForDomainError_identity e =
     (if de_class e = CUnauthenticated then 401
      else if de_class e = CNotFound then 404
      else if de_class e = CConflict then 409
      else if de_class e = CValidation then 400
      else if de_class e = CForbidden then 403
      else 422)"

lemmas status_table_defs =
  statusForDomainError_admin_def statusForDomainError_expense_def
  statusForDomainError_audit_def statusForDomainError_gateway_def
  statusForDomainError_identity_def

section \<open>The code tables\<close>

definition codeForStatus_admin :: "nat \<Rightarrow> string" where
  "codeForStatus_admin status =
     (if status = 400 then ''validation_failed''
      else if status = 401 then ''unauthenticated''
      else if status = 403 then ''forbidden''
      else if status = 404 then ''not_found''
      else if status = 409 then ''conflict''
      else if status = 429 then ''rate_limited''
      else if status \<ge> 500 then ''internal_error'' else ''error'')"

definition codeForStatus_expense :: "nat \<Rightarrow> string" where
  "codeForStatus_expense status =
     (if status = 400 then ''validation_failed''
      else if status = 401 then ''unauthenticated''
      else if status = 403 then ''forbidden''
      else if status = 404 then ''not_found''
      else if status = 409 then ''conflict''
      else if status = 429 then ''rate_limited''
      else if status \<ge> 500 then ''internal_error'' else ''error'')"

definition codeForStatus_audit :: "nat \<Rightarrow> string" where
  "codeForStatus_audit status =
     (if status = 400 then ''validation_failed''
      else if status = 401 then ''unauthenticated''
      else if status = 403 then ''forbidden''
      else if status = 404 then ''not_found''
      else if status = 409 then ''conflict''
      else if status = 429 then ''rate_limited''
      else if status \<ge> 500 then ''internal_error'' else ''error'')"

definition codeForStatus_gateway :: "nat \<Rightarrow> string" where
  "codeForStatus_gateway status =
     (if status = 400 then ''validation_failed''
      else if status = 401 then ''unauthenticated''
      else if status = 403 then ''forbidden''
      else if status = 404 then ''not_found''
      else if status = 409 then ''conflict''
      else if status = 429 then ''rate_limited''
      else if status = 502 then ''upstream_unavailable''
      else if status = 504 then ''upstream_timeout''
      else if status \<ge> 500 then ''internal_error'' else ''error'')"

definition codeForStatus_identity :: "nat \<Rightarrow> string" where
  "codeForStatus_identity status =
     (if status = 400 then ''validation_failed''
      else if status = 401 then ''unauthenticated''
      else if status = 403 then ''forbidden''
      else if status = 404 then ''not_found''
      else if status = 409 then ''conflict''
      else if status = 429 then ''rate_limited''
      else if status \<ge> 500 then ''internal_error'' else ''error'')"

lemmas code_table_defs =
  codeForStatus_admin_def codeForStatus_expense_def codeForStatus_audit_def
  codeForStatus_gateway_def codeForStatus_identity_def

section \<open>The filters\<close>

definition toHttp_admin :: "exn \<Rightarrow> string option \<Rightarrow> nat \<times> error_body" where
  "toHttp_admin = to_http statusForDomainError_admin codeForStatus_admin"

definition toHttp_expense :: "exn \<Rightarrow> string option \<Rightarrow> nat \<times> error_body" where
  "toHttp_expense = to_http statusForDomainError_expense codeForStatus_expense"

definition toHttp_audit :: "exn \<Rightarrow> string option \<Rightarrow> nat \<times> error_body" where
  "toHttp_audit = to_http statusForDomainError_audit codeForStatus_audit"

definition toHttp_gateway :: "exn \<Rightarrow> string option \<Rightarrow> nat \<times> error_body" where
  "toHttp_gateway = to_http statusForDomainError_gateway codeForStatus_gateway"

definition toHttp_identity :: "exn \<Rightarrow> string option \<Rightarrow> nat \<times> error_body" where
  "toHttp_identity = to_http statusForDomainError_identity codeForStatus_identity"

lemmas filter_defs =
  toHttp_admin_def toHttp_expense_def toHttp_audit_def toHttp_gateway_def toHttp_identity_def

lemma status_tables_agree:
  "statusForDomainError_expense = statusForDomainError_admin"
  "statusForDomainError_audit = statusForDomainError_admin"
  "statusForDomainError_identity = statusForDomainError_admin"
  by (auto simp: fun_eq_iff status_table_defs)

lemma code_tables_agree:
  "codeForStatus_expense = codeForStatus_admin"
  "codeForStatus_audit = codeForStatus_admin"
  "codeForStatus_identity = codeForStatus_admin"
  by (simp_all add: fun_eq_iff code_table_defs)

lemma status_tables_agree_gateway:
  "de_class e \<noteq> CUpstreamUnavailable \<Longrightarrow>
   statusForDomainError_gateway e = statusForDomainError_admin e"
  by (cases "de_class e") (simp_all add: status_table_defs)

lemma filter_hides_crash:
  "snd (to_http st ct (Crash m) t) = snd (to_http st ct (Crash m') t)"
  by (simp add: to_http_def)

text \<open>
  The four service filters are one function, and the gateway differs from them only on
  its own upstream error and on the status codes 502 and 504.
\<close>

lemma service_filters_agree:
  "toHttp_expense = toHttp_admin \<and> toHttp_audit = toHttp_admin \<and> toHttp_identity = toHttp_admin"
  by (simp add: filter_defs status_tables_agree code_tables_agree)

lemma domain_status_range:
  "statusForDomainError_admin e \<in> {400, 401, 403, 404, 409, 422}"
  by (simp add: statusForDomainError_admin_def)

end
