(* ===== verification/JsStd.thy ===== *)
theory JsStd
  imports Kernel
begin

text \<open>
  The parts of the JavaScript standard library that the sources rely on for their
  results: JSON values and JSON.stringify, and Date.prototype.toISOString.  A Date is its
  number of milliseconds since the epoch.  The numbers in JSON values are integers, with
  one more value for a literal beyond the range of a double, which JSON.parse reads as
  Infinity.
\<close>

datatype json =
    JNull
  | JBool bool
  | JNum int
  | JInfinite
  | JStr string
  | JArr "json list"
  | JObj "(string \<times> json) list"

section \<open>JSON.stringify\<close>

definition hex_digit :: "nat \<Rightarrow> char" where
  "hex_digit n = (if n < 10 then char_of (48 + n) else char_of (87 + n))"

definition json_escape :: "char \<Rightarrow> string" where
  "json_escape c =
     (let n = (of_char c :: nat) in
      if n = 34 then [CHR 0x5C, CHR 0x22]
      else if n = 92 then [CHR 0x5C, CHR 0x5C]
      else if n = 8 then [CHR 0x5C, CHR ''b'']
      else if n = 9 then [CHR 0x5C, CHR ''t'']
      else if n = 10 then [CHR 0x5C, CHR ''n'']
      else if n = 12 then [CHR 0x5C, CHR ''f'']
      else if n = 13 then [CHR 0x5C, CHR ''r'']
      else if n < 32 then
        [CHR 0x5C, CHR ''u'', CHR ''0'', CHR ''0'', hex_digit (n div 16), hex_digit (n mod 16)]
      else [c])"

definition json_quote :: "string \<Rightarrow> string" where
  "json_quote s = CHR 0x22 # concat (map json_escape s) @ [CHR 0x22]"

definition json_opt :: "string option \<Rightarrow> string" where
  "json_opt m = (case m of None \<Rightarrow> ''null'' | Some s \<Rightarrow> json_quote s)"

definition json_member :: "string \<Rightarrow> string \<Rightarrow> string" where
  "json_member k v = json_quote k @ CHR '':'' # v"

fun json_stringify :: "json \<Rightarrow> string" where
  "json_stringify JNull = ''null''"
| "json_stringify (JBool b) = (if b then ''true'' else ''false'')"
| "json_stringify (JNum k) = int_str k"
| "json_stringify JInfinite = ''null''"
| "json_stringify (JStr s) = json_quote s"
| "json_stringify (JArr vs) =
     CHR ''['' # join_with '','' (map json_stringify vs) @ '']''"
| "json_stringify (JObj ms) =
     CHR ''{'' # join_with '','' (map (\<lambda>(k, v). json_member k (json_stringify v)) ms) @ ''}''"

text \<open>
  Reading back one escaped character: what follows a backslash, or the character itself.
  The closing quotation mark is not a character of the literal.
\<close>

definition hex_value :: "char \<Rightarrow> nat" where
  "hex_value c = (let n = (of_char c :: nat) in if n < 58 then n - 48 else n - 87)"

definition unescape_letter :: "char \<Rightarrow> char" where
  "unescape_letter e =
     (if e = CHR ''b'' then char_of (8 :: nat) else if e = CHR ''t'' then char_of (9 :: nat)
      else if e = CHR ''n'' then char_of (10 :: nat) else if e = CHR ''f'' then char_of (12 :: nat)
      else if e = CHR ''r'' then char_of (13 :: nat) else e)"

definition read_char :: "string \<Rightarrow> (char \<times> string) option" where
  "read_char s =
     (case s of
        [] \<Rightarrow> None
      | x # xs \<Rightarrow>
          if x = CHR 0x22 then None
          else if x = CHR 0x5C then
            (case xs of
               [] \<Rightarrow> None
             | e # ys \<Rightarrow>
                 if e = CHR ''u'' then
                   (case ys of
                      a # b # p # q # zs \<Rightarrow> Some (char_of (16 * hex_value p + hex_value q), zs)
                    | _ \<Rightarrow> None)
                 else Some (unescape_letter e, ys))
          else Some (x, xs))"

lemma of_char_inj: "(of_char c :: nat) = of_char d \<longleftrightarrow> c = d"
  by simp

lemma hex_value_digit: "k < 16 \<Longrightarrow> hex_value (hex_digit k) = k"
  by (auto simp: hex_value_def hex_digit_def Let_def of_char_of)

lemma escape_cases:
  obtains (quote) "c = CHR 0x22" "json_escape c = [CHR 0x5C, CHR 0x22]"
  | (slash) "c = CHR 0x5C" "json_escape c = [CHR 0x5C, CHR 0x5C]"
  | (letter) e where "json_escape c = [CHR 0x5C, e]" "unescape_letter e = c" "e \<noteq> CHR ''u''"
  | (hex) "json_escape c = [CHR 0x5C, CHR ''u'', CHR ''0'', CHR ''0'',
        hex_digit (of_char c div 16), hex_digit (of_char c mod 16)]" "(of_char c :: nat) < 32"
  | (plain) "json_escape c = [c]" "c \<noteq> CHR 0x22" "c \<noteq> CHR 0x5C"
proof -
  define n where "n = (of_char c :: nat)"
  have c: "c = char_of n" by (simp add: n_def)
  consider "n = 34" | "n = 92" | "n = 8" | "n = 9" | "n = 10" | "n = 12" | "n = 13"
    | "n < 32" "n \<notin> {8, 9, 10, 12, 13}" | "n \<ge> 32" "n \<noteq> 34" "n \<noteq> 92"
    by force
  then show thesis
  proof cases
    case 1
    then have "(of_char c :: nat) = of_char (CHR 0x22)" by (simp add: n_def)
    then have "c = CHR 0x22" by (simp only: of_char_inj)
    then show thesis using quote by (simp add: json_escape_def)
  next
    case 2
    then have "(of_char c :: nat) = of_char (CHR 0x5C)" by (simp add: n_def)
    then have "c = CHR 0x5C" by (simp only: of_char_inj)
    then show thesis using slash by (simp add: json_escape_def)
  next
    case 3
    show thesis by (rule letter[of "CHR ''b''"])
      (use 3 c in \<open>simp_all add: json_escape_def Let_def unescape_letter_def\<close>)
  next
    case 4
    show thesis by (rule letter[of "CHR ''t''"])
      (use 4 c in \<open>simp_all add: json_escape_def Let_def unescape_letter_def\<close>)
  next
    case 5
    show thesis by (rule letter[of "CHR ''n''"])
      (use 5 c in \<open>simp_all add: json_escape_def Let_def unescape_letter_def\<close>)
  next
    case 6
    show thesis by (rule letter[of "CHR ''f''"])
      (use 6 c in \<open>simp_all add: json_escape_def Let_def unescape_letter_def\<close>)
  next
    case 7
    show thesis by (rule letter[of "CHR ''r''"])
      (use 7 c in \<open>simp_all add: json_escape_def Let_def unescape_letter_def\<close>)
  next
    case 8
    then show thesis using hex by (simp add: json_escape_def Let_def flip: n_def)
  next
    case 9
    have "c \<noteq> CHR 0x22" "c \<noteq> CHR 0x5C" using 9 by (auto simp: n_def)
    then show thesis using plain 9 by (simp add: json_escape_def Let_def flip: n_def)
  qed
qed

lemma read_escape: "read_char (json_escape c @ r) = Some (c, r)"
proof (cases c rule: escape_cases)
  case hex
  have "hex_value (hex_digit (of_char c div 16)) = of_char c div 16"
    "hex_value (hex_digit (of_char c mod 16)) = of_char c mod 16"
    using hex(2) by (simp_all add: hex_value_digit)
  then show ?thesis by (simp add: read_char_def hex(1))
qed (simp_all add: read_char_def unescape_letter_def)

lemma read_end: "read_char (CHR 0x22 # r) = None"
  by (simp add: read_char_def)

lemma escape_prefix_free:
  "concat (map json_escape s) @ CHR 0x22 # r = concat (map json_escape t) @ CHR 0x22 # q \<longleftrightarrow>
   s = t \<and> r = q"
proof (induction s arbitrary: t)
  case Nil
  show ?case
  proof (cases t)
    case (Cons d t')
    have "CHR 0x22 # r \<noteq> json_escape d @ concat (map json_escape t') @ CHR 0x22 # q"
      using read_end[of r] read_escape[of d] by (metis option.distinct(1))
    then show ?thesis by (simp add: Cons)
  qed simp
next
  case (Cons c s)
  show ?case
  proof (cases t)
    case Nil
    have "json_escape c @ concat (map json_escape s) @ CHR 0x22 # r \<noteq> CHR 0x22 # q"
      using read_end[of q] read_escape[of c] by (metis option.distinct(1))
    then show ?thesis by (simp add: Nil)
  next
    case t: (Cons d t')
    have "json_escape c @ x = json_escape d @ y \<longleftrightarrow> c = d \<and> x = y" for x y
      using read_escape[of c x] read_escape[of d y] by (metis option.inject prod.inject)
    then show ?thesis by (simp add: t Cons.IH)
  qed
qed

text \<open>A JSON string literal marks its own end, so what it says can be read off a longer text.\<close>

lemma json_quote_append [simp]:
  "json_quote s @ r = json_quote t @ q \<longleftrightarrow> s = t \<and> r = q"
  using escape_prefix_free[of s r t q] by (simp add: json_quote_def)

lemma json_quote_inj [simp]: "json_quote s = json_quote t \<longleftrightarrow> s = t"
  using json_quote_append[of s "[]" t "[]"] by simp

lemma json_opt_append [simp]:
  "json_opt s @ r = json_opt t @ q \<longleftrightarrow> s = t \<and> r = q"
proof (cases s; cases t)
  fix a b assume "s = Some a" "t = Some b"
  then show ?thesis by (simp add: json_opt_def)
qed (auto simp: json_opt_def json_quote_def)

lemma escape_no_newline: "CHR 0x0A \<notin> set (json_escape c)"
proof (cases c rule: escape_cases)
  case (letter e)
  have "e \<noteq> CHR 0x0A" using letter by (auto simp: unescape_letter_def json_escape_def Let_def)
  then show ?thesis using letter by simp
next
  case hex
  have "hex_digit k \<noteq> CHR 0x0A" if "k < 16" for k
  proof -
    have "(of_char (hex_digit k) :: nat) \<ge> 48" using that by (simp add: hex_digit_def of_char_of)
    then show ?thesis by auto
  qed
  then have "hex_digit (of_char c div 16) \<noteq> CHR 0x0A" "hex_digit (of_char c mod 16) \<noteq> CHR 0x0A"
    using hex(2) by simp_all
  then show ?thesis using hex(1) by (auto dest: sym)
next
  case plain
  then show ?thesis by (auto simp: json_escape_def Let_def)
qed simp_all

lemma json_quote_no_newline: "CHR 0x0A \<notin> set (json_quote s)"
  using escape_no_newline by (auto simp: json_quote_def)

lemma json_opt_no_newline: "CHR 0x0A \<notin> set (json_opt m)"
  using json_quote_no_newline by (cases m) (auto simp: json_opt_def)

section \<open>Dates\<close>

text \<open>
  The civil date of a day number (day 0 is 1 January 1970), in the proleptic Gregorian
  calendar of ECMAScript.
\<close>

definition civil_from_days :: "int \<Rightarrow> int \<times> int \<times> int" where
  "civil_from_days z0 =
     (let z = z0 + 719468;
          era = z div 146097;
          doe = z mod 146097;
          yoe = (doe - doe div 1460 + doe div 36524 - doe div 146096) div 365;
          doy = doe - (365 * yoe + yoe div 4 - yoe div 100);
          mp = (5 * doy + 2) div 153;
          d = doy - (153 * mp + 2) div 5 + 1;
          m = (if mp < 10 then mp + 3 else mp - 9);
          y = yoe + era * 400 + (if m \<le> 2 then 1 else 0)
      in (y, m, d))"

definition pad_int :: "nat \<Rightarrow> int \<Rightarrow> string" where
  "pad_int n k = pad_left n (nat_str (nat k))"

definition iso_year :: "int \<Rightarrow> string" where
  "iso_year y =
     (if 0 \<le> y \<and> y \<le> 9999 then pad_int 4 y
      else if y < 0 then CHR ''-'' # pad_int 6 (- y) else CHR ''+'' # pad_int 6 y)"

definition toISOString :: "int \<Rightarrow> string" where
  "toISOString ms =
     (let (y, m, d) = civil_from_days (ms div 86400000);
          r = ms mod 86400000
      in iso_year y @ ''-'' @ pad_int 2 m @ ''-'' @ pad_int 2 d @ ''T''
         @ pad_int 2 (r div 3600000) @ '':'' @ pad_int 2 (r div 60000 mod 60) @ '':''
         @ pad_int 2 (r div 1000 mod 60) @ ''.'' @ pad_int 3 (r mod 1000) @ ''Z'')"

lemma nat_str_chars: "set (nat_str n) \<subseteq> set ''0123456789''"
proof (induction n rule: nat_str.induct)
  case (1 n)
  have "digit_char n \<in> set ''0123456789''"
    unfolding digit_char_def by (rule nth_mem) simp
  then have "set [digit_char n] \<subseteq> set ''0123456789''" by (simp only: list.set empty_subsetI insert_subset simp_thms)
  then show ?case using 1 by (subst nat_str.simps) (cases "n < 10"; simp only: if_True if_False set_append Un_subset_iff simp_thms)
qed

lemma nat_str_ne: "nat_str n \<noteq> []"
  by (subst nat_str.simps) simp

lemma int_str_ne: "int_str k \<noteq> []"
  by (simp add: int_str_def nat_str_ne)

lemma pad_int_chars: "set (pad_int n k) \<subseteq> set ''0123456789''"
  using nat_str_chars by (auto simp: pad_int_def pad_left_def)

lemma toISOString_no_bar: "CHR ''|'' \<notin> set (toISOString ms)"
proof -
  have "CHR ''|'' \<notin> set (pad_int n k)" for n k using pad_int_chars[of n k] by auto
  then show ?thesis by (simp add: toISOString_def iso_year_def Let_def split: prod.split)
qed

end
