(* ===== verification/HashChain.thy ===== *)
theory HashChain
  imports JsStd
begin

text \<open>
  The tamper-evident hash chain of the audit service
  (apps/audit/src/modules/audit-event/domain/hash-chain.ts) and its replay
  (application/use-cases/verify-chain.use-case.ts).  SHA-256 with hexadecimal output is
  node's crypto module and is the argument \<^term>\<open>sha\<close> of the definitions; nothing is
  assumed of it: what a forger would need is stated as an explicit collision or an
  explicit preimage of the genesis hash.
\<close>

definition GENESIS_HASH :: string where
  "GENESIS_HASH = replicate 64 (CHR ''0'')"

record canonical_event =
  ce_id :: string
  ce_tenantId :: string
  ce_actor :: string
  ce_action :: string
  ce_decision :: string
  ce_resourceKind :: string
  ce_resourceId :: string
  ce_reason :: "string option"
  ce_policy :: "string option"
  ce_decisionId :: "string option"
  ce_traceId :: "string option"
  ce_occurredAt :: string

definition json_of_opt :: "string option \<Rightarrow> json" where
  "json_of_opt m = (case m of None \<Rightarrow> JNull | Some s \<Rightarrow> JStr s)"

definition canonicalizeEvent :: "canonical_event \<Rightarrow> string" where
  "canonicalizeEvent e =
     json_stringify (JObj [
       (''id'', JStr (ce_id e)),
       (''tenantId'', JStr (ce_tenantId e)),
       (''actor'', JStr (ce_actor e)),
       (''action'', JStr (ce_action e)),
       (''decision'', JStr (ce_decision e)),
       (''resourceKind'', JStr (ce_resourceKind e)),
       (''resourceId'', JStr (ce_resourceId e)),
       (''reason'', json_of_opt (ce_reason e)),
       (''policy'', json_of_opt (ce_policy e)),
       (''decisionId'', json_of_opt (ce_decisionId e)),
       (''traceId'', json_of_opt (ce_traceId e)),
       (''occurredAt'', JStr (ce_occurredAt e))])"

text \<open>The three updates of the hash object: the previous hash, a newline, the canonical event.\<close>

definition chain_input :: "string \<Rightarrow> canonical_event \<Rightarrow> string" where
  "chain_input prevHash e = prevHash @ CHR 0x0A # canonicalizeEvent e"

definition computeRecordHash ::
  "(string \<Rightarrow> string) \<Rightarrow> string \<Rightarrow> canonical_event \<Rightarrow> string" where
  "computeRecordHash sha prevHash e = sha (chain_input prevHash e)"

section \<open>The canonical form determines the event\<close>

lemma json_stringify_of_opt [simp]: "json_stringify (json_of_opt m) = json_opt m"
  by (cases m) (simp_all add: json_of_opt_def json_opt_def)

lemma canonicalizeEvent_inj: "canonicalizeEvent e = canonicalizeEvent f \<longleftrightarrow> e = f"
proof
  assume "canonicalizeEvent e = canonicalizeEvent f"
  then show "e = f"
    by (cases e; cases f)
      (simp add: canonicalizeEvent_def json_member_def)
qed simp

lemma canonicalizeEvent_no_newline: "CHR 0x0A \<notin> set (canonicalizeEvent e)"
  using json_quote_no_newline json_opt_no_newline
  by (simp add: canonicalizeEvent_def json_member_def)

lemma append_last_sep:
  assumes "a @ x # b = c @ x # d" and "x \<notin> set b" and "x \<notin> set d"
  shows "a = c \<and> b = d"
  using assms
proof (induction a arbitrary: c)
  case Nil
  then show ?case by (cases c) auto
next
  case (Cons y a)
  then show ?case by (cases c) auto
qed

lemma chain_input_inj: "chain_input p e = chain_input q f \<Longrightarrow> p = q \<and> e = f"
  using append_last_sep[OF _ canonicalizeEvent_no_newline canonicalizeEvent_no_newline]
  by (auto simp: chain_input_def canonicalizeEvent_inj)

section \<open>Chaining over an injective encoding\<close>

text \<open>
  The strings that replaying a log hashes, in order.  A hash function with bounded output
  has collisions somewhere; what a forger has to exhibit is one among these strings.
\<close>

fun hashed_inputs ::
  "(string \<Rightarrow> 'c \<Rightarrow> string) \<Rightarrow> (string \<Rightarrow> string) \<Rightarrow> string \<Rightarrow> 'c list \<Rightarrow> string list" where
  "hashed_inputs enc sha p [] = []"
| "hashed_inputs enc sha p (c # cs) = enc p c # hashed_inputs enc sha (sha (enc p c)) cs"

definition hash_after ::
  "(string \<Rightarrow> 'c \<Rightarrow> string) \<Rightarrow> (string \<Rightarrow> string) \<Rightarrow> string \<Rightarrow> 'c list \<Rightarrow> string" where
  "hash_after enc sha p cs = foldl (\<lambda>q c. sha (enc q c)) p cs"

definition collision_in :: "(string \<Rightarrow> string) \<Rightarrow> string list \<Rightarrow> string list \<Rightarrow> bool" where
  "collision_in sha xs ys \<longleftrightarrow> (\<exists>x \<in> set xs. \<exists>y \<in> set ys. x \<noteq> y \<and> sha x = sha y)"

definition genesis_in :: "(string \<Rightarrow> string) \<Rightarrow> string list \<Rightarrow> bool" where
  "genesis_in sha xs \<longleftrightarrow> (\<exists>x \<in> set xs. sha x = GENESIS_HASH)"

lemma hashed_inputs_snoc:
  "hashed_inputs enc sha p (cs @ [c]) = hashed_inputs enc sha p cs @ [enc (hash_after enc sha p cs) c]"
  by (induction cs arbitrary: p) (simp_all add: hash_after_def)

lemma hash_after_snoc:
  "hash_after enc sha p (cs @ [c]) = sha (enc (hash_after enc sha p cs) c)"
  by (simp add: hash_after_def)

text \<open>
  The interface between the chain and its encoding: what is hashed determines both the
  previous hash and the content.  That the last hash fixes the whole log follows from it.
\<close>

locale chain_encoding =
  fixes enc :: "string \<Rightarrow> 'c \<Rightarrow> string"
  assumes enc_inj: "enc p c = enc q d \<Longrightarrow> p = q \<and> c = d"
begin

lemma head_determines_log:
  "hash_after enc sha GENESIS_HASH cs = hash_after enc sha GENESIS_HASH ds \<Longrightarrow>
   cs = ds \<or>
   collision_in sha (hashed_inputs enc sha GENESIS_HASH cs) (hashed_inputs enc sha GENESIS_HASH ds) \<or>
   genesis_in sha (hashed_inputs enc sha GENESIS_HASH cs @ hashed_inputs enc sha GENESIS_HASH ds)"
proof (induction cs arbitrary: ds rule: rev_induct)
  case Nil
  then show ?case
    by (cases ds rule: rev_cases)
      (auto simp: genesis_in_def hashed_inputs_snoc hash_after_snoc hash_after_def dest: sym)
next
  case (snoc c cs)
  show ?case
  proof (cases ds rule: rev_cases)
    case Nil
    then show ?thesis using snoc.prems
      by (auto simp: genesis_in_def hashed_inputs_snoc hash_after_snoc) (simp add: hash_after_def)
  next
    case ds: (snoc ds' d)
    let ?p = "hash_after enc sha GENESIS_HASH cs"
    let ?q = "hash_after enc sha GENESIS_HASH ds'"
    have eq: "sha (enc ?p c) = sha (enc ?q d)" using snoc.prems ds by (simp add: hash_after_snoc)
    show ?thesis
    proof (cases "enc ?p c = enc ?q d")
      case True
      then have "?p = ?q" "c = d" using enc_inj by blast+
      from snoc.IH[OF this(1)] this(2) show ?thesis
        by (auto simp: ds hashed_inputs_snoc collision_in_def genesis_in_def)
    next
      case False
      then show ?thesis using eq by (auto simp: ds collision_in_def hashed_inputs_snoc)
    qed
  qed
qed

end

interpretation event_chain: chain_encoding chain_input
  by unfold_locales (rule chain_input_inj)

end
