(* ===== verification/Base64.thy ===== *)
theory Base64
  imports JsStd
begin

text \<open>
  The base64url coding of node's Buffer without padding (toString and from with
  'base64url'), on bit lists: encoding cuts the bits of the bytes into groups of six,
  filled up with zeros; decoding skips characters outside the alphabet and drops the
  incomplete byte at the end.  The cursors of the kernel package
  (packages/kernel/src/pagination/pagination.ts) are this coding.
\<close>

fun char_bits :: "char \<Rightarrow> bool list" where
  "char_bits (Char b0 b1 b2 b3 b4 b5 b6 b7) = [b7, b6, b5, b4, b3, b2, b1, b0]"

fun bits_char :: "bool list \<Rightarrow> char" where
  "bits_char [b7, b6, b5, b4, b3, b2, b1, b0] = Char b0 b1 b2 b3 b4 b5 b6 b7"
| "bits_char _ = CHR 0x00"

definition b64_alphabet :: string where
  "b64_alphabet = ''ABCDEFGHIJKLMNOPQRSTUVWXYZabcdefghijklmnopqrstuvwxyz0123456789-_''"

definition sextets :: "bool list list" where
  "sextets = map rev (List.n_lists 6 [False, True])"

definition sextet_char :: "bool list \<Rightarrow> char" where
  "sextet_char bs = or_default (map_of (zip sextets b64_alphabet) bs) (CHR ''A'')"

definition char_sextet :: "char \<Rightarrow> bool list option" where
  "char_sextet c = map_of (zip b64_alphabet sextets) c"

function chunks6 :: "bool list \<Rightarrow> bool list list" where
  "chunks6 bs = (if bs = [] then [] else take 6 (bs @ replicate 5 False) # chunks6 (drop 6 bs))"
  by auto
termination by (relation "measure length") auto

function bytes8 :: "bool list \<Rightarrow> string" where
  "bytes8 bs = (if length bs < 8 then [] else bits_char (take 8 bs) # bytes8 (drop 8 bs))"
  by auto
termination by (relation "measure length") auto

declare chunks6.simps [simp del] bytes8.simps [simp del]

definition base64url_encode :: "string \<Rightarrow> string" where
  "base64url_encode s = map sextet_char (chunks6 (concat (map char_bits s)))"

definition base64url_decode :: "string \<Rightarrow> string" where
  "base64url_decode s = bytes8 (concat (List.map_filter char_sextet s))"

definition Cursor_encode :: "string \<Rightarrow> string" where
  "Cursor_encode value = base64url_encode value"

definition Cursor_decode :: "string \<Rightarrow> string" where
  "Cursor_decode cursor = base64url_decode cursor"

section \<open>Decoding what was encoded\<close>

lemma alphabet_facts: "distinct b64_alphabet" "length b64_alphabet = 64" "CHR ''.'' \<notin> set b64_alphabet"
  by (simp_all add: b64_alphabet_def)

lemma sextets_facts: "distinct sextets" "length sextets = 64"
proof -
  show "distinct sextets" by (simp add: sextets_def distinct_map distinct_n_lists inj_on_def)
  have "length sextets = length [False, True] ^ 6"
    by (simp only: sextets_def length_map length_n_lists)
  then show "length sextets = 64" by (simp add: eval_nat_numeral)
qed

lemma sextets_set: "length bs = 6 \<Longrightarrow> bs \<in> set sextets"
proof -
  assume "length bs = 6"
  then have "rev bs \<in> set (List.n_lists 6 [False, True])" by (auto simp: set_n_lists)
  then show ?thesis by (force simp: sextets_def image_iff)
qed

lemma sextet_char_decode:
  assumes "length bs = 6"
  shows "char_sextet (sextet_char bs) = Some bs" and "sextet_char bs \<in> set b64_alphabet"
proof -
  obtain i where i: "i < 64" "sextets ! i = bs"
    using sextets_set[OF assms] sextets_facts by (metis in_set_conv_nth)
  have "map_of (zip sextets b64_alphabet) (sextets ! i) = Some (b64_alphabet ! i)"
    using i(1) sextets_facts alphabet_facts by (intro map_of_zip_nth) simp_all
  then have c: "sextet_char bs = b64_alphabet ! i" using i by (simp add: sextet_char_def)
  have "map_of (zip b64_alphabet sextets) (b64_alphabet ! i) = Some (sextets ! i)"
    using i(1) sextets_facts alphabet_facts by (intro map_of_zip_nth) simp_all
  then show "char_sextet (sextet_char bs) = Some bs" using c i by (simp add: char_sextet_def)
  show "sextet_char bs \<in> set b64_alphabet" using c i alphabet_facts by simp
qed

lemma chunks6_length: "b \<in> set (chunks6 bs) \<Longrightarrow> length b = 6"
proof (induction bs rule: chunks6.induct)
  case (1 bs)
  show ?case
  proof (cases "bs = []")
    case True
    then show ?thesis using 1 by (simp add: chunks6.simps)
  next
    case False
    then have "b = take 6 (bs @ replicate 5 False) \<or> b \<in> set (chunks6 (drop 6 bs))"
      using 1(2) by (simp add: chunks6.simps[of bs])
    moreover have "0 < length bs" using False by simp
    ultimately show ?thesis using 1(1)[OF False] by auto
  qed
qed

lemma chunks6_concat: "\<exists>k < 6. concat (chunks6 bs) = bs @ replicate k False"
proof (induction bs rule: chunks6.induct)
  case (1 bs)
  show ?case
  proof (cases "bs = []")
    case True
    then show ?thesis by (auto simp: chunks6.simps)
  next
    case False
    show ?thesis
    proof (cases "length bs \<le> 5")
      case True
      moreover have "6 - length bs \<le> 5" using False by (cases bs) simp_all
      ultimately have "concat (chunks6 bs) = bs @ replicate (6 - length bs) False"
        using False by (simp add: chunks6.simps[of bs] chunks6.simps[of "[]"] min_def)
      moreover have "6 - length bs < 6" using False by (cases bs) simp_all
      ultimately show ?thesis by blast
    next
      case long: False
      from 1[OF False] obtain k where "k < 6" "concat (chunks6 (drop 6 bs)) = drop 6 bs @ replicate k False"
        by blast
      then show ?thesis using False long
        by (intro exI[of _ k]) (simp add: chunks6.simps[of bs] flip: append_assoc)
    qed
  qed
qed

lemma map_filter_sextets:
  "(\<And>b. b \<in> set bss \<Longrightarrow> length b = 6) \<Longrightarrow> List.map_filter char_sextet (map sextet_char bss) = bss"
  by (induction bss) (simp_all add: List.map_filter_simps sextet_char_decode)

lemma char_bits_length [simp]: "length (char_bits c) = 8"
  by (cases c) simp

lemma bits_char_bits [simp]: "bits_char (char_bits c) = c"
  by (cases c) simp

lemma bytes8_bits: "length r < 8 \<Longrightarrow> bytes8 (concat (map char_bits s) @ r) = s"
  by (induction s) (simp_all add: bytes8.simps)

lemma base64url_roundtrip [simp]: "base64url_decode (base64url_encode s) = s"
proof -
  let ?bits = "concat (map char_bits s)"
  obtain k where k: "k < 6" "concat (chunks6 ?bits) = ?bits @ replicate k False"
    using chunks6_concat by blast
  have "List.map_filter char_sextet (map sextet_char (chunks6 ?bits)) = chunks6 ?bits"
    by (rule map_filter_sextets) (rule chunks6_length)
  then show ?thesis
    using k by (simp add: base64url_decode_def base64url_encode_def bytes8_bits)
qed

lemma base64url_no_dot: "CHR ''.'' \<notin> set (base64url_encode s)"
proof
  assume "CHR ''.'' \<in> set (base64url_encode s)"
  then obtain b where b: "b \<in> set (chunks6 (concat (map char_bits s)))" "CHR ''.'' = sextet_char b"
    by (auto simp: base64url_encode_def)
  show False using sextet_char_decode(2)[OF chunks6_length[OF b(1)]] b(2) alphabet_facts(3) by simp
qed

lemma base64url_encode_inj: "base64url_encode s = base64url_encode t \<longleftrightarrow> s = t"
  by (metis base64url_roundtrip)

lemma cursor_roundtrip: "Cursor_decode (Cursor_encode v) = v"
  by (simp add: Cursor_encode_def Cursor_decode_def)

end
