(* ===== verification/Keyset.thy ===== *)
theory Keyset
  imports Base64 "HOL-Library.Multiset" "HOL-Library.List_Lexorder" "HOL-Library.Char_ord"
begin

text \<open>
  Keyset pagination.  Every repository of the program lists a page the same way: it orders
  the visible rows, keeps those behind the row its cursor names, reads one row more than the
  limit and turns the rows of the page into aggregates.  The theory states that listing
  once, the contract between its order, its cursor and its test (the locale keyset), and
  what a client that follows the cursors reads under it.  Text is ordered byte by byte (the
  C collation).
\<close>

section \<open>One page\<close>

text \<open>
  \<^term>\<open>read\<close> decodes a cursor and lets Postgres read the parts of it, which throws when a
  part is no value of its column.
\<close>

definition keyset_page ::
  "('r \<Rightarrow> string) \<Rightarrow> (string \<Rightarrow> 'k result) \<Rightarrow> ('k \<Rightarrow> 'r \<Rightarrow> bool) \<Rightarrow> page_query \<Rightarrow> 'r list \<Rightarrow>
   'r cursor_page result" where
  "keyset_page key read after q ordered =
     rbind (case pq_cursor q of
              None \<Rightarrow> Inr ordered
            | Some c \<Rightarrow> rbind (read c) (\<lambda>k. Inr [r \<leftarrow> ordered. after k r])) (\<lambda>rest.
     Inr (page_of (nat (pq_limit q)) key (take (nat (pq_limit q) + 1) rest)))"

definition list_page ::
  "('r \<Rightarrow> string) \<Rightarrow> (string \<Rightarrow> 'k result) \<Rightarrow> ('k \<Rightarrow> 'r \<Rightarrow> bool) \<Rightarrow> ('r \<Rightarrow> 'r result) \<Rightarrow> page_query \<Rightarrow>
   'r list \<Rightarrow> 'r cursor_page result" where
  "list_page key read after toDomain q ordered =
     rbind (keyset_page key read after q ordered) (\<lambda>page.
     rbind (rmap toDomain (cp_items page)) (\<lambda>items. Inr (page\<lparr>cp_items := items\<rparr>)))"

text \<open>
  The cursors with two parts: the text before the first bar and, when there is one, the text
  between it and the second.  A part that is missing reaches Postgres as null.
\<close>

definition cursor_parts :: "string \<Rightarrow> string \<times> string option" where
  "cursor_parts c =
     (case split_on (CHR ''|'') (Cursor_decode c) of
        [] \<Rightarrow> ([], None)
      | [a] \<Rightarrow> (a, None)
      | a # b # _ \<Rightarrow> (a, Some b))"

definition invalid_input :: exn where
  "invalid_input = Crash ''QueryFailedError: invalid input syntax''"

definition read_row_cursor ::
  "(string \<Rightarrow> 'a option) \<Rightarrow> (string \<Rightarrow> string option) \<Rightarrow> string \<Rightarrow> ('a \<times> string option) result" where
  "read_row_cursor pg_first pg_id c =
     (case cursor_parts c of (a, b) \<Rightarrow>
       (case pg_first a of
          None \<Rightarrow> Inl invalid_input
        | Some x \<Rightarrow>
            (case b of
               None \<Rightarrow> Inr (x, None)
             | Some i \<Rightarrow> (case pg_id i of None \<Rightarrow> Inl invalid_input | Some i \<Rightarrow> Inr (x, Some i)))))"

text \<open>
  The comparison of two rows by Postgres, restricted to where it is true: a null in the
  second column decides nothing.
\<close>

definition row_greater :: "('r \<Rightarrow> 'a::linorder) \<Rightarrow> ('r \<Rightarrow> string) \<Rightarrow> 'a \<times> string option \<Rightarrow> 'r \<Rightarrow> bool" where
  "row_greater first id_of k r \<longleftrightarrow>
     fst k < first r \<or> (fst k = first r \<and> (case snd k of None \<Rightarrow> False | Some i \<Rightarrow> i < id_of r))"

definition row_less :: "('r \<Rightarrow> 'a::linorder) \<Rightarrow> ('r \<Rightarrow> string) \<Rightarrow> 'a \<times> string option \<Rightarrow> 'r \<Rightarrow> bool" where
  "row_less first id_of k r \<longleftrightarrow>
     first r < fst k \<or> (first r = fst k \<and> (case snd k of None \<Rightarrow> False | Some i \<Rightarrow> id_of r < i))"

lemma split_bar:
  "CHR ''|'' \<notin> set a \<Longrightarrow> CHR ''|'' \<notin> set b \<Longrightarrow> split_on (CHR ''|'') (a @ CHR ''|'' # b) = [a, b]"
  by (simp add: split_on_append_sep split_on_no_sep)

lemma read_row_cursor_encode:
  assumes "CHR ''|'' \<notin> set a" "CHR ''|'' \<notin> set i" "pg_first a = Some x" "pg_id i = Some i"
  shows "read_row_cursor pg_first pg_id (Cursor_encode (a @ ''|'' @ i)) = Inr (x, Some i)"
  using assms by (simp add: read_row_cursor_def cursor_parts_def cursor_roundtrip split_bar)

lemma cursor_ne: "s \<noteq> [] \<Longrightarrow> Cursor_encode s \<noteq> []"
proof
  assume "s \<noteq> []" "Cursor_encode s = []"
  moreover have "Cursor_encode [] = []" by code_simp
  ultimately show False using cursor_roundtrip[of s] cursor_roundtrip[of "[]"] by simp
qed

lemma rmap_same: "(\<And>x. x \<in> set xs \<Longrightarrow> f x = Inr x) \<Longrightarrow> rmap f xs = Inr xs"
  by (induction xs) auto

section \<open>The client\<close>

text \<open>
  The client asks for pages until one has no next cursor.  The fuel bounds the number of
  pages; running out of it is an error.
\<close>

fun walk_pages :: "(string option \<Rightarrow> 'a cursor_page result) \<Rightarrow> nat \<Rightarrow> string option \<Rightarrow> 'a list result" where
  "walk_pages listing 0 c = Inl (Crash ''more pages than expected'')"
| "walk_pages listing (Suc n) c =
     rbind (listing c) (\<lambda>page.
     case cp_nextCursor page of
       None \<Rightarrow> Inr (cp_items page)
     | Some c' \<Rightarrow> rbind (walk_pages listing n (Some c')) (\<lambda>rest. Inr (cp_items page @ rest)))"

lemma cut_at:
  assumes "sorted_wrt R (xs @ x # ys)" and "\<And>a b. R a b \<Longrightarrow> \<not> R b a" and "\<not> R x x"
  shows "filter (R x) (xs @ x # ys) = ys"
proof -
  have "filter (R x) xs = []" using assms(1,2) by (auto simp: sorted_wrt_append filter_empty_conv)
  moreover have "filter (R x) ys = ys" using assms(1) by (auto simp: sorted_wrt_append filter_id_conv)
  ultimately show ?thesis using assms(3) by simp
qed

lemma page_of_next:
  assumes "0 < n"
  shows "cp_nextCursor (page_of n key rows) =
    (if n < length rows then Some (key (rows ! (n - 1))) else None)"
  using assms by (auto simp: page_of_def makeCursorPage_def Let_def last_conv_nth min_def)

definition page_size :: "int option \<Rightarrow> nat" where
  "page_size limit = nat (pq_limit (pageQueryFrom limit None))"

lemma page_size_pos: "0 < page_size limit"
  using pageQueryFrom_bounds[of limit None] by (simp add: page_size_def)

lemma page_size_query: "nat (pq_limit (pageQueryFrom limit c)) = page_size limit"
  by (simp add: page_size_def pageQueryFrom_def)

lemma query_cursor: "pq_cursor (pageQueryFrom limit None) = None"
  "x \<noteq> [] \<Longrightarrow> pq_cursor (pageQueryFrom limit (Some x)) = Some x"
  by (simp_all add: pageQueryFrom_def)

lemma list_page_ok:
  assumes "keyset_page key read after q ordered = Inr page"
    and "\<And>r. r \<in> set (cp_items page) \<Longrightarrow> toDomain r = Inr r"
  shows "list_page key read after toDomain q ordered = Inr page"
proof -
  have "rmap toDomain (cp_items page) = Inr (cp_items page)" using assms(2) by (rule rmap_same)
  then show ?thesis by (simp add: list_page_def assms(1))
qed

text \<open>
  The contract of a listing: on the good tables the cursor of a row reads back as a key
  behind which are exactly the rows behind that row in the order.
\<close>

locale keyset =
  fixes good :: "'r list \<Rightarrow> bool"
    and ordered :: "'r list \<Rightarrow> 'r list"
    and key :: "'r \<Rightarrow> string"
    and read :: "string \<Rightarrow> 'k result"
    and after :: "'k \<Rightarrow> 'r \<Rightarrow> bool"
  assumes key_ne: "key r \<noteq> []"
    and after_key: "good rows \<Longrightarrow> ordered rows = xs @ x # ys \<Longrightarrow>
      \<exists>k. read (key x) = Inr k \<and> filter (after k) (ordered rows) = ys"
begin

lemma page_first:
  assumes "\<And>r. r \<in> set (ordered rows) \<Longrightarrow> toDomain r = Inr r"
  shows "list_page key read after toDomain (pageQueryFrom limit None) (ordered rows) =
     Inr (page_of (page_size limit) key (take (page_size limit + 1) (ordered rows)))"
proof (rule list_page_ok)
  show "keyset_page key read after (pageQueryFrom limit None) (ordered rows) =
     Inr (page_of (page_size limit) key (take (page_size limit + 1) (ordered rows)))"
    by (simp only: keyset_page_def query_cursor(1) option.case rbind_simps page_size_query)
qed (auto dest!: in_set_takeD intro: assms)

lemma page_behind:
  assumes "good rows" and "ordered rows = xs @ x # ys" and "\<And>r. r \<in> set (ordered rows) \<Longrightarrow> toDomain r = Inr r"
  shows "list_page key read after toDomain (pageQueryFrom limit (Some (key x))) (ordered rows) =
     Inr (page_of (page_size limit) key (take (page_size limit + 1) ys))"
proof (rule list_page_ok)
  obtain k where k: "read (key x) = Inr k" "filter (after k) (ordered rows) = ys"
    using after_key[OF assms(1,2)] by blast
  show "keyset_page key read after (pageQueryFrom limit (Some (key x))) (ordered rows) =
     Inr (page_of (page_size limit) key (take (page_size limit + 1) ys))"
    by (simp only: keyset_page_def query_cursor(2)[OF key_ne] option.case k rbind_simps page_size_query)
  show "toDomain r = Inr r" if "r \<in> set (cp_items (page_of (page_size limit) key (take (page_size limit + 1) ys)))" for r
    using that assms(2,3) by (auto dest!: in_set_takeD)
qed

lemma walk_rest:
  fixes limit :: "int option" and rows :: "'r list" and toDomain :: "'r \<Rightarrow> 'r result"
  assumes good: "good rows" and same: "\<And>r. r \<in> set (ordered rows) \<Longrightarrow> toDomain r = Inr r"
  defines "listing \<equiv> \<lambda>c. list_page key read after toDomain (pageQueryFrom limit c) (ordered rows)"
  shows "listing c = Inr (page_of (page_size limit) key (take (page_size limit + 1) ys)) \<Longrightarrow>
     ordered rows = xs @ ys \<Longrightarrow> length ys \<le> fuel \<Longrightarrow> walk_pages listing (Suc fuel) c = Inr ys"
proof (induction fuel arbitrary: c xs ys)
  case 0
  then show ?case using page_size_pos[of limit] by (simp add: page_of_next)
next
  case (Suc fuel)
  let ?n = "page_size limit"
  note n = page_size_pos[of limit]
  show ?case
  proof (cases "?n < length ys")
    case False
    then show ?thesis using n Suc.prems(1) by (simp add: page_of_next)
  next
    case True
    let ?last = "ys ! (?n - 1)"
    have "ys = take (?n - 1) ys @ ?last # drop ?n ys"
      using True n id_take_nth_drop[of "?n - 1" ys] by simp
    then have ord: "ordered rows = (xs @ take (?n - 1) ys) @ ?last # drop ?n ys"
      using Suc.prems(2) by (metis append.assoc)
    have rest: "ordered rows = (xs @ take ?n ys) @ drop ?n ys" using Suc.prems(2) by simp
    have "listing (Some (key ?last)) = Inr (page_of ?n key (take (?n + 1) (drop ?n ys)))"
      unfolding listing_def by (rule page_behind[OF good ord same])
    from Suc.IH[OF this rest] have "walk_pages listing (Suc fuel) (Some (key ?last)) = Inr (drop ?n ys)"
      using Suc.prems(3) n by simp
    then show ?thesis using True n Suc.prems(1)
      by (subst walk_pages.simps) (simp add: page_of_next min_def del: walk_pages.simps)
  qed
qed

lemma walk_complete:
  assumes "good rows" and "\<And>r. r \<in> set (ordered rows) \<Longrightarrow> toDomain r = Inr r" and "length (ordered rows) \<le> fuel"
  shows "walk_pages (\<lambda>c. list_page key read after toDomain (pageQueryFrom limit c) (ordered rows)) (Suc fuel) None =
    Inr (ordered rows)"
  using walk_rest[OF assms(1,2) page_first[OF assms(2)], of "[]"] assms(3) by simp

end

section \<open>Orders with two keys\<close>

lemma filter_split2:
  "filter P (as @ a # bs @ b # cs) = filter P as @ (if P a then [a] else []) @ filter P bs @
     (if P b then [b] else []) @ filter P cs"
  by simp

lemma sorted_wrt_splitI:
  assumes "\<And>as a bs b cs. xs = as @ a # bs @ b # cs \<Longrightarrow> R a b"
  shows "sorted_wrt R xs"
  using assms
proof (induction xs)
  case (Cons x xs)
  have "R x y" if "y \<in> set xs" for y
    using Cons.prems[of "[]" x _ y] split_list[OF that] by auto
  moreover have "sorted_wrt R xs" using Cons.prems by (intro Cons.IH) (metis append_Cons)
  ultimately show ?case by simp
qed simp

text \<open>Sorting by the minor key and then, stably, by the major one is sorting by the pair.\<close>

lemma sort_two_keys:
  fixes f :: "'a \<Rightarrow> 'b::linorder" and g :: "'a \<Rightarrow> 'c::linorder"
  shows "sorted_wrt (\<lambda>a b. f a < f b \<or> f a = f b \<and> g a \<le> g b) (sort_key f (sort_key g xs))"
proof (rule sorted_wrt_splitI)
  fix as a bs b cs
  assume s: "sort_key f (sort_key g xs) = as @ a # bs @ b # cs"
  have "f a \<le> f b" using sorted_sort_key[of f "sort_key g xs"] unfolding s by (simp add: sorted_append)
  moreover have "g a \<le> g b" if "f a = f b"
  proof -
    let ?P = "\<lambda>y. f y = f a"
    have "filter ?P (sort_key f (sort_key g xs)) = filter ?P (sort_key g xs)" by (rule sort_key_stable)
    moreover have "sorted (map g (filter ?P (sort_key g xs)))" by (rule sorted_filter) (rule sorted_sort_key)
    ultimately have "sorted (map g (filter ?P (as @ a # bs @ b # cs)))" unfolding s by simp
    then show ?thesis unfolding filter_split2 using that by (simp add: sorted_append)
  qed
  ultimately show "f a < f b \<or> f a = f b \<and> g a \<le> g b" by auto
qed

lemma sort_two_keys_strict:
  fixes f :: "'a \<Rightarrow> 'b::linorder" and g :: "'a \<Rightarrow> 'c::linorder"
  assumes "distinct (map g xs)"
  shows "sorted_wrt (\<lambda>a b. f a < f b \<or> f a = f b \<and> g a < g b) (sort_key f (sort_key g xs))"
proof (rule sorted_wrt_splitI)
  fix as a bs b cs
  assume s: "sort_key f (sort_key g xs) = as @ a # bs @ b # cs"
  have "mset (map g (sort_key f (sort_key g xs))) = mset (map g xs)" by simp
  then have "distinct (map g (sort_key f (sort_key g xs)))" using assms by (metis mset_eq_imp_distinct_iff)
  then have "g a \<noteq> g b" unfolding s by simp
  then show "f a < f b \<or> f a = f b \<and> g a < g b"
    using sort_two_keys[of f g xs] unfolding s by (auto simp: sorted_wrt_append)
qed

end
