(* ===== verification/AuditLog.thy ===== *)
theory AuditLog
  imports HashChain Keyset
begin

text \<open>
  The audit service (apps/audit/src/modules/audit-event): the AuditEvent entity, the
  append-only repository with its serializable append and bounded retries, the replay of
  the chain, the record, list and verify use cases and the tenant scoping of the reads.

  Postgres is a parameter where its behaviour is not written in the repository:
  \<^term>\<open>pg_uuid\<close> is the text-to-uuid cast followed by uuid output (None is the error
  of an invalid literal), and a list of aborts and of other sessions' effects says what
  happens to each attempt of a transaction.  The unique indexes are those of the
  migration.  The hash function, the UUID check, the fresh UUID and the clock are
  arguments.
\<close>

section \<open>The entity\<close>

definition valid_decisions :: "string list" where
  "valid_decisions = [''ALLOW'', ''DENY'', ''N/A'']"

definition parseAuditDecision :: "string \<Rightarrow> string result" where
  "parseAuditDecision v =
     (let upper = to_upper v in
      rbind (oneOf upper valid_decisions ''decision'') (\<lambda>_. Inr upper))"

record audit_event =
  ae_id :: string
  ae_tenantId :: string
  ae_actor :: string
  ae_action :: string
  ae_decision :: string
  ae_resourceKind :: string
  ae_resourceId :: string
  ae_reason :: "string option"
  ae_policy :: "string option"
  ae_decisionId :: "string option"
  ae_traceId :: "string option"
  ae_occurredAt :: int
  ae_recordedAt :: int
  ae_seq :: int
  ae_prevHash :: string
  ae_recordHash :: string

record record_props =
  rp_id :: "string option"
  rp_tenantId :: string
  rp_actor :: string
  rp_action :: string
  rp_decision :: string
  rp_resourceKind :: string
  rp_resourceId :: string
  rp_reason :: "string option"
  rp_policy :: "string option"
  rp_decisionId :: "string option"
  rp_traceId :: "string option"
  rp_occurredAt :: int
  rp_recordedAt :: int
  rp_prevHash :: string

definition normalizeOptional :: "string option \<Rightarrow> string option" where
  "normalizeOptional v =
     (case v of
        None \<Rightarrow> None
      | Some s \<Rightarrow> (let trimmed = js_trim s in if length trimmed > 0 then Some trimmed else None))"

definition toCanonical :: "audit_event \<Rightarrow> canonical_event" where
  "toCanonical e =
     \<lparr>ce_id = ae_id e, ce_tenantId = ae_tenantId e, ce_actor = ae_actor e,
      ce_action = ae_action e, ce_decision = ae_decision e,
      ce_resourceKind = ae_resourceKind e, ce_resourceId = ae_resourceId e,
      ce_reason = ae_reason e, ce_policy = ae_policy e, ce_decisionId = ae_decisionId e,
      ce_traceId = ae_traceId e, ce_occurredAt = toISOString (ae_occurredAt e)\<rparr>"

definition recomputeHash :: "(string \<Rightarrow> string) \<Rightarrow> audit_event \<Rightarrow> string \<Rightarrow> string" where
  "recomputeHash sha e prevHash = computeRecordHash sha prevHash (toCanonical e)"

definition auditEvent_record ::
  "(string \<Rightarrow> string) \<Rightarrow> (string \<Rightarrow> bool) \<Rightarrow> string \<Rightarrow> record_props \<Rightarrow> audit_event result" where
  "auditEvent_record sha is_uuid freshId p =
     rbind (againstEmpty (Some (rp_tenantId p)) ''tenantId'') (\<lambda>_.
     rbind (guard_invariant (is_uuid (rp_tenantId p))
              ''tenantId must be a UUID'' ''tenant_id_invalid'') (\<lambda>_.
     rbind (againstEmpty (Some (rp_actor p)) ''actor'') (\<lambda>_.
     rbind (againstEmpty (Some (rp_action p)) ''action'') (\<lambda>_.
     rbind (againstEmpty (Some (rp_resourceKind p)) ''resourceKind'') (\<lambda>_.
     rbind (againstEmpty (Some (rp_resourceId p)) ''resourceId'') (\<lambda>_.
     rbind (againstEmpty (Some (rp_prevHash p)) ''prevHash'') (\<lambda>_.
     let theId = or_default (rp_id p) freshId in
     rbind (guard_invariant (is_uuid theId) ''id must be a UUID'' ''audit_event_id_invalid'') (\<lambda>_.
     let reason = normalizeOptional (rp_reason p);
         policy = normalizeOptional (rp_policy p);
         decisionId = normalizeOptional (rp_decisionId p);
         traceId = normalizeOptional (rp_traceId p);
         canonical =
           \<lparr>ce_id = theId, ce_tenantId = rp_tenantId p, ce_actor = rp_actor p,
            ce_action = rp_action p, ce_decision = rp_decision p,
            ce_resourceKind = rp_resourceKind p, ce_resourceId = rp_resourceId p,
            ce_reason = reason, ce_policy = policy, ce_decisionId = decisionId,
            ce_traceId = traceId, ce_occurredAt = toISOString (rp_occurredAt p)\<rparr>
     in Inr \<lparr>ae_id = theId, ae_tenantId = rp_tenantId p, ae_actor = rp_actor p,
             ae_action = rp_action p, ae_decision = rp_decision p,
             ae_resourceKind = rp_resourceKind p, ae_resourceId = rp_resourceId p,
             ae_reason = reason, ae_policy = policy, ae_decisionId = decisionId,
             ae_traceId = traceId, ae_occurredAt = rp_occurredAt p,
             ae_recordedAt = rp_recordedAt p, ae_seq = -1, ae_prevHash = rp_prevHash p,
             ae_recordHash = computeRecordHash sha (rp_prevHash p) canonical\<rparr>))))))))"

text \<open>A new event carries the hash of its own content over the head it was given.\<close>

lemma auditEvent_record_hash:
  "auditEvent_record sha u f p = Inr e \<Longrightarrow>
   ae_prevHash e = rp_prevHash p \<and> ae_recordHash e = recomputeHash sha e (rp_prevHash p)"
  unfolding auditEvent_record_def Let_def
  by (elim rbind_InrE) (auto simp: recomputeHash_def toCanonical_def)

lemma normalizeOptional_not_empty [simp]: "normalizeOptional v \<noteq> Some []"
  by (cases v) (simp_all add: normalizeOptional_def Let_def)

lemma auditEvent_record_content:
  "auditEvent_record sha u f p = Inr e \<Longrightarrow>
   u (ae_id e) \<and> u (ae_tenantId e) \<and> ae_tenantId e = rp_tenantId p \<and>
   ae_id e = or_default (rp_id p) f \<and> js_trim (ae_actor e) \<noteq> [] \<and> ae_reason e \<noteq> Some []"
  unfolding auditEvent_record_def Let_def
  by (elim rbind_InrE) auto

section \<open>Replaying the chain\<close>

record chain_view =
  cv_valid :: bool
  cv_count :: nat
  cv_headHash :: string
  cv_brokenAt :: "(int \<times> string) option"

fun verify_loop ::
  "(string \<Rightarrow> string) \<Rightarrow> nat \<Rightarrow> string \<Rightarrow> audit_event list \<Rightarrow> chain_view" where
  "verify_loop sha n prevHash [] =
     \<lparr>cv_valid = True, cv_count = n, cv_headHash = prevHash, cv_brokenAt = None\<rparr>"
| "verify_loop sha n prevHash (r # rs) =
     (if ae_prevHash r \<noteq> prevHash then
        \<lparr>cv_valid = False, cv_count = n, cv_headHash = prevHash,
         cv_brokenAt = Some (ae_seq r,
           ''prev_hash does not match the previous record (deletion or reorder)'')\<rparr>
      else if recomputeHash sha r prevHash \<noteq> ae_recordHash r then
        \<lparr>cv_valid = False, cv_count = n, cv_headHash = prevHash,
         cv_brokenAt = Some (ae_seq r,
           ''record_hash does not match recomputed hash (record content was modified)'')\<rparr>
      else verify_loop sha n (ae_recordHash r) rs)"

definition verifyChain :: "(string \<Rightarrow> string) \<Rightarrow> audit_event list \<Rightarrow> chain_view" where
  "verifyChain sha records = verify_loop sha (length records) GENESIS_HASH records"

text \<open>The specification of an intact chain, and the hash it ends with.\<close>

fun chain_from :: "(string \<Rightarrow> string) \<Rightarrow> string \<Rightarrow> audit_event list \<Rightarrow> bool" where
  "chain_from sha p [] = True"
| "chain_from sha p (r # rs) =
     (ae_prevHash r = p \<and> ae_recordHash r = recomputeHash sha r p \<and>
      chain_from sha (ae_recordHash r) rs)"

definition chain_end :: "string \<Rightarrow> audit_event list \<Rightarrow> string" where
  "chain_end p rs = foldl (\<lambda>_ r. ae_recordHash r) p rs"

lemma chain_end_simps [simp]:
  "chain_end p [] = p"
  "chain_end p (r # rs) = chain_end (ae_recordHash r) rs"
  "chain_end p (rs @ [r]) = ae_recordHash r"
  by (simp_all add: chain_end_def)

lemma chain_end_append [simp]: "chain_end p (rs @ ts) = chain_end (chain_end p rs) ts"
  by (simp add: chain_end_def)

lemma chain_from_append [simp]:
  "chain_from sha p (rs @ ts) \<longleftrightarrow> chain_from sha p rs \<and> chain_from sha (chain_end p rs) ts"
  by (induction rs arbitrary: p) auto

lemma chain_end_hash:
  "chain_from sha p rs \<Longrightarrow> chain_end p rs = hash_after chain_input sha p (map toCanonical rs)"
  unfolding hash_after_def
  by (induction rs arbitrary: p) (auto simp: recomputeHash_def computeRecordHash_def)

lemma verify_loop_valid: "cv_valid (verify_loop sha n p rs) \<longleftrightarrow> chain_from sha p rs"
  by (induction rs arbitrary: p) auto

lemma verify_loop_head: "chain_from sha p rs \<Longrightarrow> cv_headHash (verify_loop sha n p rs) = chain_end p rs"
  by (induction rs arbitrary: p) auto

lemma verify_loop_count: "cv_count (verify_loop sha n p rs) = n"
  by (induction rs arbitrary: p) auto

lemma verify_loop_first_broken:
  "\<not> chain_from sha p rs \<Longrightarrow>
   \<exists>good bad rest m. rs = good @ bad # rest \<and> chain_from sha p good \<and>
     \<not> chain_from sha (chain_end p good) [bad] \<and>
     cv_brokenAt (verify_loop sha n p rs) = Some (ae_seq bad, m) \<and>
     cv_headHash (verify_loop sha n p rs) = chain_end p good"
proof (induction rs arbitrary: p)
  case Nil
  then show ?case by simp
next
  case (Cons r rs)
  show ?case
  proof (cases "chain_from sha p [r]")
    case True
    then have "\<not> chain_from sha (ae_recordHash r) rs" using Cons.prems by simp
    from Cons.IH[OF this] obtain good bad rest m where
      "rs = good @ bad # rest" "chain_from sha (ae_recordHash r) good"
      "\<not> chain_from sha (chain_end (ae_recordHash r) good) [bad]"
      "cv_brokenAt (verify_loop sha n (ae_recordHash r) rs) = Some (ae_seq bad, m)"
      "cv_headHash (verify_loop sha n (ae_recordHash r) rs) = chain_end (ae_recordHash r) good"
      by blast
    with True show ?thesis
      by (intro exI[of _ "r # good"] exI[of _ bad] exI[of _ rest] exI[of _ m]) simp
  next
    case False
    have "\<exists>m. cv_brokenAt (verify_loop sha n p (r # rs)) = Some (ae_seq r, m)"
      "cv_headHash (verify_loop sha n p (r # rs)) = p"
      using False by (cases "ae_prevHash r = p"; simp)+
    then have "r # rs = [] @ r # rs \<and> chain_from sha p [] \<and>
        \<not> chain_from sha (chain_end p []) [r] \<and>
        (\<exists>m. cv_brokenAt (verify_loop sha n p (r # rs)) = Some (ae_seq r, m)) \<and>
        cv_headHash (verify_loop sha n p (r # rs)) = chain_end p []"
      using False by (simp del: verify_loop.simps)
    then show ?thesis by blast
  qed
qed


section \<open>The repository\<close>

text \<open>
  The audit\_events table in ascending order of the primary key, and the next value of
  its sequence.  A query failure carries the SQLSTATE and the message of the driver.
\<close>

record audit_db =
  adb_rows :: "audit_event list"
  adb_nextSeq :: int

datatype db_error = QueryFailed string string | OtherFailure string

definition db_exn :: "db_error \<Rightarrow> exn" where
  "db_exn e = (case e of QueryFailed c m \<Rightarrow> Crash m | OtherFailure m \<Rightarrow> Crash m)"

definition DuplicateAuditEventError :: "string \<Rightarrow> exn" where
  "DuplicateAuditEventError i =
     ConflictError (''Audit event '' @ i @ '' was already recorded'') (Some ''audit_event_duplicate'')"

definition readHead :: "audit_db \<Rightarrow> (int \<times> string) option" where
  "readHead db =
     (if adb_rows db = [] then None
      else Some (ae_seq (last (adb_rows db)), ae_recordHash (last (adb_rows db))))"

definition head_hash :: "audit_db \<Rightarrow> string" where
  "head_hash db = or_default (map_option snd (readHead db)) GENESIS_HASH"

text \<open>
  The INSERT: the uuid columns keep the value of the cast, the sequence advances whether
  or not the row is kept, and the two unique indexes reject a repeated id or hash.
\<close>

definition pg_insert ::
  "(string \<Rightarrow> string option) \<Rightarrow> audit_event \<Rightarrow> audit_db \<Rightarrow> (db_error + int) \<times> audit_db" where
  "pg_insert pg_uuid row db =
     (case (pg_uuid (ae_id row), pg_uuid (ae_tenantId row)) of
        (Some i, Some t) \<Rightarrow>
          (let n = adb_nextSeq db;
               db1 = db\<lparr>adb_nextSeq := n + 1\<rparr> in
           if i \<in> set (map ae_id (adb_rows db)) then
             (Inl (QueryFailed ''23505''
                ''duplicate key value violates unique constraint uq_audit_events_id''), db1)
           else if ae_recordHash row \<in> set (map ae_recordHash (adb_rows db)) then
             (Inl (QueryFailed ''23505''
                ''duplicate key value violates unique constraint uq_audit_events_record_hash''), db1)
           else (Inr n, db1\<lparr>adb_rows := adb_rows db @
                   [row\<lparr>ae_id := i, ae_tenantId := t, ae_seq := n\<rparr>]\<rparr>))
      | _ \<Rightarrow> (Inl (QueryFailed ''22P02'' ''invalid input syntax for type uuid''), db))"

text \<open>One attempt of the append: the body of the serializable transaction, or its abort.\<close>

definition append_tx ::
  "(string \<Rightarrow> string) \<Rightarrow> (string \<Rightarrow> string option) \<Rightarrow> audit_event \<Rightarrow> db_error option \<Rightarrow> audit_db
   \<Rightarrow> (db_error + audit_event) \<times> audit_db" where
  "append_tx sha pg_uuid e abort db =
     (case abort of
        Some err \<Rightarrow> (Inl err, db)
      | None \<Rightarrow>
          (let prevHash = head_hash db;
               recordHash = recomputeHash sha e prevHash;
               orm = e\<lparr>ae_prevHash := prevHash, ae_recordHash := recordHash\<rparr> in
           case pg_insert pg_uuid orm db of
             (Inl err, db') \<Rightarrow> (Inl err, db')
           | (Inr n, db') \<Rightarrow> (Inr (orm\<lparr>ae_seq := n\<rparr>), db')))"

definition isDuplicateId :: "db_error \<Rightarrow> bool" where
  "isDuplicateId err =
     (case err of
        QueryFailed code msg \<Rightarrow> code = ''23505'' \<and> str_includes msg ''uq_audit_events_id''
      | OtherFailure _ \<Rightarrow> False)"

definition isSerializationFailure :: "db_error \<Rightarrow> bool" where
  "isSerializationFailure err =
     (case err of
        QueryFailed code msg \<Rightarrow>
          code = ''40001'' \<or> code = ''40P01'' \<or>
          (code = ''23505'' \<and> str_includes msg ''uq_audit_events_record_hash'')
      | OtherFailure _ \<Rightarrow> False)"

definition MAX_APPEND_RETRIES :: nat where "MAX_APPEND_RETRIES = 5"

text \<open>
  The retry loop.  Before attempt \<^term>\<open>k\<close> other sessions have changed the table by
  \<^term>\<open>env k\<close>, and \<^term>\<open>aborts k\<close> says whether Postgres aborts the attempt.
\<close>

fun append_loop ::
  "(string \<Rightarrow> string) \<Rightarrow> (string \<Rightarrow> string option) \<Rightarrow> (nat \<Rightarrow> audit_db \<Rightarrow> audit_db) \<Rightarrow>
   (nat \<Rightarrow> db_error option) \<Rightarrow> audit_event \<Rightarrow> nat \<Rightarrow> nat \<Rightarrow> exn \<Rightarrow> audit_db \<Rightarrow>
   audit_event result \<times> audit_db" where
  "append_loop sha pg_uuid env aborts e 0 k lastError db = (Inl lastError, db)"
| "append_loop sha pg_uuid env aborts e (Suc n) k lastError db =
     (case append_tx sha pg_uuid e (aborts k) (env k db) of
        (Inr saved, db') \<Rightarrow> (Inr saved, db')
      | (Inl err, db') \<Rightarrow>
          if isDuplicateId err then (Inl (DuplicateAuditEventError (ae_id e)), db')
          else if isSerializationFailure err then
            append_loop sha pg_uuid env aborts e n (Suc k) (db_exn err) db'
          else (Inl (db_exn err), db'))"

definition audit_append ::
  "(string \<Rightarrow> string) \<Rightarrow> (string \<Rightarrow> string option) \<Rightarrow> (nat \<Rightarrow> audit_db \<Rightarrow> audit_db) \<Rightarrow>
   (nat \<Rightarrow> db_error option) \<Rightarrow> audit_event \<Rightarrow> audit_db \<Rightarrow> audit_event result \<times> audit_db" where
  "audit_append sha pg_uuid env aborts e db =
     append_loop sha pg_uuid env aborts e MAX_APPEND_RETRIES 0
       (Crash ''Audit append failed after serialization retries'') db"

definition audit_findById ::
  "(string \<Rightarrow> string option) \<Rightarrow> string \<Rightarrow> audit_db \<Rightarrow> audit_event option result" where
  "audit_findById pg_uuid i db =
     (case pg_uuid i of
        None \<Rightarrow> Inl (Crash ''invalid input syntax for type uuid'')
      | Some u \<Rightarrow> Inr (find (\<lambda>r. ae_id r = u) (adb_rows db)))"

definition listAllInChainOrder :: "audit_db \<Rightarrow> audit_event list" where
  "listAllInChainOrder db = adb_rows db"

text \<open>
  The newest-first page.  The tenant filter is compared with a uuid column, so Postgres reads
  it as a uuid; the cursor is an encoded seq, which it reads as a bigint
  (\<^term>\<open>pg_bigint\<close>, None for the error of an invalid literal).
\<close>

definition audit_tenant :: "(string \<Rightarrow> string option) \<Rightarrow> string option \<Rightarrow> string option result" where
  "audit_tenant pg_uuid tenant =
     (if truthy tenant
      then (case pg_uuid (or_default tenant []) of None \<Rightarrow> Inl invalid_input | Some u \<Rightarrow> Inr (Some u))
      else Inr None)"

definition audit_visible :: "string option \<Rightarrow> audit_event list \<Rightarrow> audit_event list" where
  "audit_visible tenant rows =
     (case tenant of None \<Rightarrow> rev rows | Some t \<Rightarrow> [r \<leftarrow> rev rows. ae_tenantId r = t])"

definition audit_cursor :: "audit_event \<Rightarrow> string" where
  "audit_cursor e = Cursor_encode (int_str (ae_seq e))"

definition read_seq :: "(string \<Rightarrow> int option) \<Rightarrow> string \<Rightarrow> int result" where
  "read_seq pg_bigint c =
     (case pg_bigint (Cursor_decode c) of None \<Rightarrow> Inl invalid_input | Some n \<Rightarrow> Inr n)"

definition audit_list ::
  "(string \<Rightarrow> string option) \<Rightarrow> (string \<Rightarrow> int option) \<Rightarrow> string option \<Rightarrow> page_query \<Rightarrow> audit_db \<Rightarrow>
   audit_event cursor_page result" where
  "audit_list pg_uuid pg_bigint tenant q db =
     rbind (audit_tenant pg_uuid tenant) (\<lambda>t.
     list_page audit_cursor (read_seq pg_bigint) (\<lambda>n r. ae_seq r < n) Inr q
       (audit_visible t (adb_rows db)))"

section \<open>The use cases\<close>

record record_command =
  rc_id :: "string option"
  rc_tenantId :: string
  rc_actor :: string
  rc_action :: string
  rc_decision :: string
  rc_resourceKind :: string
  rc_resourceId :: string
  rc_reason :: "string option"
  rc_policy :: "string option"
  rc_decisionId :: "string option"
  rc_traceId :: "string option"
  rc_occurredAt :: "string option"

definition parseOccurredAt :: "(string \<Rightarrow> int option) \<Rightarrow> int \<Rightarrow> string option \<Rightarrow> int result" where
  "parseOccurredAt parse_date now v =
     (case v of
        None \<Rightarrow> Inr now
      | Some s \<Rightarrow>
          if length (js_trim s) = 0 then Inr now
          else (case parse_date s of
                  None \<Rightarrow> Inl (ValidationError ''occurredAt must be an ISO-8601 timestamp''
                            (Some ''occurred_at_invalid''))
                | Some t \<Rightarrow> Inr t))"

text \<open>
  The record use case on the table as its own reads find it (\<^term>\<open>db\<close>) and with the
  other sessions' effects before each attempt of the append.
\<close>

definition recordAuditEvent_execute ::
  "(string \<Rightarrow> string) \<Rightarrow> (string \<Rightarrow> bool) \<Rightarrow> (string \<Rightarrow> string option) \<Rightarrow> (string \<Rightarrow> int option) \<Rightarrow>
   string \<Rightarrow> int \<Rightarrow> (nat \<Rightarrow> audit_db \<Rightarrow> audit_db) \<Rightarrow> (nat \<Rightarrow> db_error option) \<Rightarrow>
   record_command \<Rightarrow> audit_db \<Rightarrow> audit_event result \<times> audit_db" where
  "recordAuditEvent_execute sha is_uuid pg_uuid parse_date freshId now env aborts c db =
     (let built =
        rbind (parseAuditDecision (rc_decision c)) (\<lambda>decision.
        rbind (parseOccurredAt parse_date now (rc_occurredAt c)) (\<lambda>occurredAt.
        rbind (if truthy (rc_id c) then
                 rbind (audit_findById pg_uuid (or_default (rc_id c) []) db) (\<lambda>existing.
                   if existing \<noteq> None
                   then Inl (DuplicateAuditEventError (or_default (rc_id c) []))
                   else Inr ())
               else Inr ()) (\<lambda>_.
        auditEvent_record sha is_uuid freshId
          \<lparr>rp_id = rc_id c, rp_tenantId = rc_tenantId c, rp_actor = rc_actor c,
           rp_action = rc_action c, rp_decision = decision,
           rp_resourceKind = rc_resourceKind c, rp_resourceId = rc_resourceId c,
           rp_reason = rc_reason c, rp_policy = rc_policy c,
           rp_decisionId = rc_decisionId c, rp_traceId = rc_traceId c,
           rp_occurredAt = occurredAt, rp_recordedAt = now, rp_prevHash = head_hash db\<rparr>)))
      in case built of
           Inl err \<Rightarrow> (Inl err, db)
         | Inr e \<Rightarrow> audit_append sha pg_uuid env aborts e db)"

definition verifyChain_execute :: "(string \<Rightarrow> string) \<Rightarrow> audit_db \<Rightarrow> chain_view" where
  "verifyChain_execute sha db = verifyChain sha (listAllInChainOrder db)"

definition listAuditEvents_execute ::
  "(string \<Rightarrow> string option) \<Rightarrow> (string \<Rightarrow> int option) \<Rightarrow> string option \<Rightarrow> int option \<Rightarrow>
   string option \<Rightarrow> audit_db \<Rightarrow> audit_event cursor_page result" where
  "listAuditEvents_execute pg_uuid pg_bigint tenantId limit cursor db =
     audit_list pg_uuid pg_bigint (if truthy tenantId then tenantId else None) (pageQueryFrom limit cursor) db"

end
