(* ===== verification/AuditSafety.thy ===== *)
theory AuditSafety
  imports AuditLog
begin

text \<open>
  What the audit log promises: the invariant of the table, its preservation by every
  append under interference of other sessions, the contract of the repository as a locale
  with its interpretation on the modelled repository, and the properties of the replay.
\<close>

section \<open>The invariant of the table\<close>

definition audit_inv :: "(string \<Rightarrow> string) \<Rightarrow> audit_db \<Rightarrow> bool" where
  "audit_inv sha db \<longleftrightarrow>
     chain_from sha GENESIS_HASH (adb_rows db) \<and>
     distinct (map ae_id (adb_rows db)) \<and>
     distinct (map ae_recordHash (adb_rows db)) \<and>
     sorted_wrt (<) (map ae_seq (adb_rows db)) \<and>
     (\<forall>r \<in> set (adb_rows db). ae_seq r < adb_nextSeq db)"

text \<open>The two uuids of an event are written the way Postgres writes them back.\<close>

definition uuid_stable :: "(string \<Rightarrow> string option) \<Rightarrow> audit_event \<Rightarrow> bool" where
  "uuid_stable pg_uuid e \<longleftrightarrow>
     pg_uuid (ae_id e) = Some (ae_id e) \<and> pg_uuid (ae_tenantId e) = Some (ae_tenantId e)"

text \<open>Other sessions append through the same transaction; their retries are further entries.\<close>

definition sessions ::
  "(string \<Rightarrow> string) \<Rightarrow> (string \<Rightarrow> string option) \<Rightarrow>
   (nat \<Rightarrow> (audit_event \<times> db_error option) list) \<Rightarrow> nat \<Rightarrow> audit_db \<Rightarrow> audit_db" where
  "sessions sha pg_uuid others k db =
     foldl (\<lambda>d (e, a). snd (append_tx sha pg_uuid e a d)) db (others k)"

lemma recomputeHash_links [simp]:
  "recomputeHash sha (e\<lparr>ae_prevHash := x\<rparr>) p = recomputeHash sha e p"
  "recomputeHash sha (e\<lparr>ae_recordHash := x\<rparr>) p = recomputeHash sha e p"
  "recomputeHash sha (e\<lparr>ae_seq := n\<rparr>) p = recomputeHash sha e p"
  by (simp_all add: recomputeHash_def toCanonical_def)

lemma toCanonical_links [simp]:
  "toCanonical (e\<lparr>ae_prevHash := x\<rparr>) = toCanonical e"
  "toCanonical (e\<lparr>ae_recordHash := x\<rparr>) = toCanonical e"
  "toCanonical (e\<lparr>ae_seq := n\<rparr>) = toCanonical e"
  by (simp_all add: toCanonical_def)

lemma head_hash_chain_end: "head_hash db = chain_end GENESIS_HASH (adb_rows db)"
  by (cases "adb_rows db" rule: rev_cases) (simp_all add: head_hash_def readHead_def)

definition linked :: "(string \<Rightarrow> string) \<Rightarrow> audit_event \<Rightarrow> audit_db \<Rightarrow> audit_event" where
  "linked sha e db =
     e\<lparr>ae_prevHash := head_hash db, ae_recordHash := recomputeHash sha e (head_hash db),
       ae_seq := adb_nextSeq db\<rparr>"

lemma append_tx_error:
  "append_tx sha pg e a db = (Inl err, db') \<Longrightarrow>
   adb_rows db' = adb_rows db \<and> adb_nextSeq db \<le> adb_nextSeq db'"
  by (auto simp: append_tx_def pg_insert_def Let_def split: option.splits if_splits sum.splits prod.splits)

lemma append_tx_success:
  assumes "append_tx sha pg e a db = (Inr s, db')"
  obtains i t where "a = None" "pg (ae_id e) = Some i" "pg (ae_tenantId e) = Some t"
    "s = linked sha e db" "i \<notin> set (map ae_id (adb_rows db))"
    "ae_recordHash s \<notin> set (map ae_recordHash (adb_rows db))"
    "adb_rows db' = adb_rows db @ [s\<lparr>ae_id := i, ae_tenantId := t\<rparr>]"
    "adb_nextSeq db' = adb_nextSeq db + 1"
proof -
  obtain i t where *: "a = None" "pg (ae_id e) = Some i" "pg (ae_tenantId e) = Some t"
    using assms by (cases a; cases "pg (ae_id e)"; cases "pg (ae_tenantId e)")
      (simp_all add: append_tx_def pg_insert_def Let_def)
  show thesis
    by (rule that[OF *])
      (use assms * in \<open>auto simp: append_tx_def pg_insert_def Let_def linked_def split: if_splits\<close>)
qed

text \<open>One attempt of any session keeps the invariant and only ever adds a record at the end.\<close>

lemma append_tx_inv:
  assumes inv: "audit_inv sha db" and ok: "uuid_stable pg e"
    and run: "append_tx sha pg e a db = (r, db')"
  shows "audit_inv sha db' \<and> adb_rows db' = adb_rows db @ (case r of Inl _ \<Rightarrow> [] | Inr s \<Rightarrow> [s])"
proof (cases r)
  case (Inl err)
  with run append_tx_error[of sha pg e a db err db'] inv show ?thesis
    by (auto simp: audit_inv_def intro: less_le_trans)
next
  case (Inr s)
  have "s\<lparr>ae_id := ae_id e, ae_tenantId := ae_tenantId e\<rparr> = s" if "s = linked sha e db"
    by (simp add: that linked_def)
  with run Inr ok obtain
    s: "s = linked sha e db" "ae_id e \<notin> set (map ae_id (adb_rows db))"
      "ae_recordHash s \<notin> set (map ae_recordHash (adb_rows db))"
      "adb_rows db' = adb_rows db @ [s]" "adb_nextSeq db' = adb_nextSeq db + 1"
    by (auto simp: uuid_stable_def elim!: append_tx_success)
  have "chain_from sha (chain_end GENESIS_HASH (adb_rows db)) [s]"
    by (simp add: s(1) linked_def head_hash_chain_end)
  moreover have "ae_id s = ae_id e" "ae_seq s = adb_nextSeq db"
    by (simp_all add: s(1) linked_def)
  ultimately show ?thesis
    using inv s(2-5) Inr by (fastforce simp: audit_inv_def sorted_wrt_append)
qed

lemma sessions_inv:
  assumes "audit_inv sha db" and "\<forall>(e, a) \<in> set (others k). uuid_stable pg e"
  shows "audit_inv sha (sessions sha pg others k db) \<and>
         prefix (adb_rows db) (adb_rows (sessions sha pg others k db))"
proof -
  have "audit_inv sha (foldl (\<lambda>d (e, a). snd (append_tx sha pg e a d)) db xs) \<and>
        prefix (adb_rows db) (adb_rows (foldl (\<lambda>d (e, a). snd (append_tx sha pg e a d)) db xs))"
    if "audit_inv sha db" "\<forall>(e, a) \<in> set xs. uuid_stable pg e" for xs db
    using that
  proof (induction xs arbitrary: db)
    case (Cons x xs)
    obtain e a where x: "x = (e, a)" by (cases x)
    obtain r db' where run: "append_tx sha pg e a db = (r, db')" by fastforce
    have "audit_inv sha db'" "prefix (adb_rows db) (adb_rows db')"
      using append_tx_inv[OF _ _ run] Cons.prems x by auto
    then show ?case using Cons.IH[of db'] Cons.prems x run by (auto intro: prefix_order.trans)
  qed simp
  then show ?thesis using assms by (simp add: sessions_def)
qed

lemma append_loop_inv:
  assumes "audit_inv sha db" and "uuid_stable pg e"
    and "\<forall>k. \<forall>(e, a) \<in> set (others k). uuid_stable pg e"
    and "append_loop sha pg (sessions sha pg others) aborts e n k err db = (r, db')"
  shows "audit_inv sha db' \<and>
         (\<exists>ts. adb_rows db' = adb_rows db @ ts @ (case r of Inl _ \<Rightarrow> [] | Inr s \<Rightarrow> [s])) \<and>
         (\<forall>s. r = Inr s \<longrightarrow> toCanonical s = toCanonical e)"
  using assms
proof (induction n arbitrary: k err db)
  case 0
  then show ?case by auto
next
  case (Suc n)
  let ?db1 = "sessions sha pg others k db"
  have db1: "audit_inv sha ?db1" "prefix (adb_rows db) (adb_rows ?db1)"
    using sessions_inv[of sha db others k pg] Suc.prems by auto
  obtain q db2 where run: "append_tx sha pg e (aborts k) ?db1 = (q, db2)" by fastforce
  have db2: "audit_inv sha db2"
    "adb_rows db2 = adb_rows ?db1 @ (case q of Inl _ \<Rightarrow> [] | Inr s \<Rightarrow> [s])"
    using append_tx_inv[OF db1(1) Suc.prems(2) run] by auto
  obtain ts where ts: "adb_rows ?db1 = adb_rows db @ ts" using db1(2) by (auto elim: prefixE)
  show ?case
  proof (cases q)
    case (Inr s)
    then have "toCanonical s = toCanonical e"
      using run by (auto simp: linked_def elim!: append_tx_success)
    then show ?thesis using Suc.prems(4) run Inr db2 ts by auto
  next
    case (Inl er)
    show ?thesis
    proof (cases "isSerializationFailure er \<and> \<not> isDuplicateId er")
      case True
      then have "append_loop sha pg (sessions sha pg others) aborts e n (Suc k) (db_exn er) db2 = (r, db')"
        using Suc.prems(4) run Inl by simp
      from Suc.IH[OF db2(1) Suc.prems(2,3) this] show ?thesis
        using db2(2) ts Inl by (auto)
    next
      case False
      then show ?thesis using Suc.prems(4) run Inl db2 ts by (auto split: if_splits)
    qed
  qed
qed

lemmas audit_append_inv = append_loop_inv[where n = MAX_APPEND_RETRIES and k = 0
    and err = "Crash ''Audit append failed after serialization retries''", folded audit_append_def]

section \<open>The contract of the repository\<close>

text \<open>
  What the use cases rely on: the log only grows, a successful append puts the event last,
  and the entries are an intact chain.  A request is what one call of append works on.
\<close>

locale audit_repository =
  fixes append :: "'req \<Rightarrow> 'db \<Rightarrow> audit_event result \<times> 'db"
    and entries :: "'db \<Rightarrow> audit_event list"
    and inv :: "'db \<Rightarrow> bool"
    and ok :: "'req \<Rightarrow> bool"
    and sha :: "string \<Rightarrow> string"
  assumes inv_chain: "inv db \<Longrightarrow> chain_from sha GENESIS_HASH (entries db)"
    and append_inv: "inv db \<Longrightarrow> ok q \<Longrightarrow> inv (snd (append q db))"
    and append_grows: "inv db \<Longrightarrow> ok q \<Longrightarrow>
      \<exists>ts. entries (snd (append q db)) =
           entries db @ ts @ (case fst (append q db) of Inl _ \<Rightarrow> [] | Inr s \<Rightarrow> [s])"
begin

lemma run_inv: "inv db \<Longrightarrow> \<forall>q \<in> set qs. ok q \<Longrightarrow> inv (foldl (\<lambda>d q. snd (append q d)) db qs)"
  by (induction qs arbitrary: db) (simp_all add: append_inv)

lemma run_grows:
  "inv db \<Longrightarrow> \<forall>q \<in> set qs. ok q \<Longrightarrow>
   prefix (entries db) (entries (foldl (\<lambda>d q. snd (append q d)) db qs))"
proof (induction qs arbitrary: db)
  case (Cons q qs)
  have "prefix (entries db) (entries (snd (append q db)))"
    using append_grows[of db q] Cons.prems by auto
  then show ?case
    using Cons.IH[of "snd (append q db)"] Cons.prems append_inv[of db q]
    by (auto intro: prefix_order.trans)
qed simp

lemma verify_after_run:
  "inv db \<Longrightarrow> \<forall>q \<in> set qs. ok q \<Longrightarrow>
   cv_valid (verifyChain sha (entries (foldl (\<lambda>d q. snd (append q d)) db qs)))"
  by (simp add: verifyChain_def verify_loop_valid inv_chain run_inv)

end

type_synonym append_req =
  "(nat \<Rightarrow> (audit_event \<times> db_error option) list) \<times> (nat \<Rightarrow> db_error option) \<times> audit_event"

definition repo_append ::
  "(string \<Rightarrow> string) \<Rightarrow> (string \<Rightarrow> string option) \<Rightarrow> append_req \<Rightarrow> audit_db \<Rightarrow>
   audit_event result \<times> audit_db" where
  "repo_append sha pg q db =
     (case q of (others, aborts, e) \<Rightarrow>
        audit_append sha pg (sessions sha pg others) aborts e db)"

definition req_ok :: "(string \<Rightarrow> string option) \<Rightarrow> append_req \<Rightarrow> bool" where
  "req_ok pg q \<longleftrightarrow>
     (case q of (others, aborts, e) \<Rightarrow>
        uuid_stable pg e \<and> (\<forall>k. \<forall>(d, a) \<in> set (others k). uuid_stable pg d))"

interpretation typeorm_repo:
  audit_repository "repo_append sha pg" listAllInChainOrder "audit_inv sha" "req_ok pg" sha
  for sha pg
proof unfold_locales
  fix db q
  assume inv: "audit_inv sha db" and ok: "req_ok pg q"
  obtain others aborts e where q: "q = (others, aborts, e)" by (cases q)
  obtain r db' where run: "audit_append sha pg (sessions sha pg others) aborts e db = (r, db')"
    by fastforce
  have "audit_inv sha db' \<and>
      (\<exists>ts. adb_rows db' = adb_rows db @ ts @ (case r of Inl _ \<Rightarrow> [] | Inr s \<Rightarrow> [s]))"
    using audit_append_inv[OF inv _ _ run] ok q by (auto simp: req_ok_def)
  then show "audit_inv sha (snd (repo_append sha pg q db))"
    "\<exists>ts. listAllInChainOrder (snd (repo_append sha pg q db)) =
       listAllInChainOrder db @ ts @
       (case fst (repo_append sha pg q db) of Inl _ \<Rightarrow> [] | Inr s \<Rightarrow> [s])"
    using run q by (simp_all add: repo_append_def listAllInChainOrder_def)
qed (simp add: audit_inv_def listAllInChainOrder_def)


section \<open>Properties\<close>

text \<open>The strings hashed when the records of a log are replayed.\<close>

definition log_inputs :: "(string \<Rightarrow> string) \<Rightarrow> audit_event list \<Rightarrow> string list" where
  "log_inputs sha rs = hashed_inputs chain_input sha GENESIS_HASH (map toCanonical rs)"

lemma verifyChain_valid: "cv_valid (verifyChain sha rs) \<longleftrightarrow> chain_from sha GENESIS_HASH rs"
  by (simp add: verifyChain_def verify_loop_valid)

lemma verifyChain_head:
  "cv_valid (verifyChain sha rs) \<Longrightarrow>
   cv_headHash (verifyChain sha rs) = hash_after chain_input sha GENESIS_HASH (map toCanonical rs)"
  by (simp add: verifyChain_def verify_loop_valid verify_loop_head chain_end_hash)

lemma same_head_same_log:
  assumes "cv_valid (verifyChain sha rs)" and "cv_valid (verifyChain sha ts)"
    and "cv_headHash (verifyChain sha rs) = cv_headHash (verifyChain sha ts)"
  shows "map toCanonical rs = map toCanonical ts \<or> collision_in sha (log_inputs sha rs) (log_inputs sha ts) \<or>
         genesis_in sha (log_inputs sha rs @ log_inputs sha ts)"
  unfolding log_inputs_def
  by (rule event_chain.head_determines_log) (use assms in \<open>simp add: verifyChain_head\<close>)

definition sample_event :: "string \<Rightarrow> audit_event" where
  "sample_event i =
     \<lparr>ae_id = i, ae_tenantId = ''t'', ae_actor = ''u1'', ae_action = ''read'', ae_decision = ''ALLOW'',
      ae_resourceKind = ''doc'', ae_resourceId = ''1'', ae_reason = None, ae_policy = None,
      ae_decisionId = None, ae_traceId = None, ae_occurredAt = 0, ae_recordedAt = 0, ae_seq = -1,
      ae_prevHash = [], ae_recordHash = []\<rparr>"


definition sample_db :: "string list \<Rightarrow> audit_db" where
  "sample_db ids =
     foldl (\<lambda>d i. snd (repo_append (\<lambda>s. CHR ''h'' # s) Some ((\<lambda>_. []), (\<lambda>_. None), sample_event i) d))
       \<lparr>adb_rows = [], adb_nextSeq = 1\<rparr> ids"

lemma sample_db_one:
  "sample_db [i] = \<lparr>adb_rows = [linked (\<lambda>s. CHR ''h'' # s) (sample_event i) \<lparr>adb_rows = [], adb_nextSeq = 1\<rparr>],
                    adb_nextSeq = 2\<rparr>"
  by (simp add: sample_db_def repo_append_def audit_append_def MAX_APPEND_RETRIES_def sessions_def
      eval_nat_numeral append_tx_def pg_insert_def Let_def linked_def sample_event_def)

lemma sample_db_verifies: "cv_valid (verifyChain_execute (\<lambda>s. CHR ''h'' # s) (sample_db [i]))"
  by (simp add: verifyChain_execute_def verifyChain_valid sample_db_one listAllInChainOrder_def
      linked_def head_hash_chain_end)



lemma empty_audit_inv: "audit_inv sha \<lparr>adb_rows = [], adb_nextSeq = n\<rparr>"
  by (simp add: audit_inv_def)


text \<open>
  Removing records from inside the log (so that at least one record follows the gap)
  makes the replay of what is left fail, or exhibits a collision or a genesis preimage
  among the strings hashed for the two halves.
\<close>

theorem audit_deletion_detected:
  assumes "cv_valid (verifyChain sha (before @ gone @ after))" and "gone \<noteq> []" and "after \<noteq> []"
    and "\<not> collision_in sha (log_inputs sha before) (log_inputs sha (before @ gone))"
    and "\<not> genesis_in sha (log_inputs sha before @ log_inputs sha (before @ gone))"
  shows "\<not> cv_valid (verifyChain sha (before @ after))"
proof
  assume v: "cv_valid (verifyChain sha (before @ after))"
  obtain r rs where a: "after = r # rs" using assms(3) by (cases after) auto
  have same: "chain_end GENESIS_HASH before = chain_end GENESIS_HASH (before @ gone)"
  proof -
    have "ae_prevHash r = chain_end GENESIS_HASH before"
      using v a by (simp add: verifyChain_valid)
    moreover have "ae_prevHash r = chain_end GENESIS_HASH (before @ gone)"
      using assms(1) a by (simp add: verifyChain_valid)
    ultimately show ?thesis by (rule trans[OF sym])
  qed
  have "cv_valid (verifyChain sha before)" "cv_valid (verifyChain sha (before @ gone))"
    using v assms(1) by (simp_all add: verifyChain_valid)
  moreover from this have "cv_headHash (verifyChain sha before) = cv_headHash (verifyChain sha (before @ gone))"
    unfolding verifyChain_def verify_loop_valid by (simp only: verify_loop_head same)
  ultimately have "map toCanonical before = map toCanonical (before @ gone)"
    using same_head_same_log[of sha before "before @ gone"] assms(4,5) by blast
  then show False using assms(2) by simp
qed


lemma audit_deletion_detected_witness:
  "\<not> cv_valid (verifyChain (\<lambda>s. CHR ''h'' # s)
     ([] @ drop 1 (adb_rows (sample_db [''a'', ''b'']))))"
proof -
  let ?sha = "\<lambda>s. CHR ''h'' # s"
  let ?rs = "adb_rows (sample_db [''a'', ''b''])"
  have len: "length ?rs = 2" and v: "cv_valid (verifyChain ?sha ?rs)"
    by (simp_all add: sample_db_def repo_append_def audit_append_def MAX_APPEND_RETRIES_def
        sessions_def eval_nat_numeral append_tx_def pg_insert_def Let_def sample_event_def
        head_hash_def readHead_def recomputeHash_def computeRecordHash_def chain_input_def
        verifyChain_valid toCanonical_def)
  have ne: "take 1 ?rs \<noteq> []" "drop 1 ?rs \<noteq> []" using len by (cases ?rs; force)+
  have "\<not> collision_in ?sha (log_inputs ?sha []) (log_inputs ?sha ([] @ take 1 ?rs))"
    by (simp add: collision_in_def)
  moreover have "\<not> genesis_in ?sha (log_inputs ?sha [] @ log_inputs ?sha ([] @ take 1 ?rs))"
    by (simp add: genesis_in_def GENESIS_HASH_def eval_nat_numeral)
  ultimately show ?thesis
    using audit_deletion_detected[of ?sha "[]" "take 1 ?rs" "drop 1 ?rs"] ne v
    by (simp only: append_take_drop_id append_Nil) blast
qed

text \<open>
  C3. The replay decides the integrity of the chain exactly: it answers valid if and only
  if every record links to the one before it and carries the hash of its own content, and
  otherwise it reports the first record that does not, with everything before it intact.
\<close>

theorem audit_verify_exact:
  "if cv_valid (verifyChain sha rs)
   then chain_from sha GENESIS_HASH rs \<and> cv_brokenAt (verifyChain sha rs) = None
   else (\<exists>good bad rest m. rs = good @ bad # rest \<and> chain_from sha GENESIS_HASH good \<and>
           (ae_prevHash bad \<noteq> chain_end GENESIS_HASH good \<or>
            ae_recordHash bad \<noteq> recomputeHash sha bad (ae_prevHash bad)) \<and>
           cv_brokenAt (verifyChain sha rs) = Some (ae_seq bad, m))"
proof (cases "chain_from sha GENESIS_HASH rs")
  case True
  have "cv_brokenAt (verify_loop sha n p rs) = None" if "chain_from sha p rs" for n p
    using that by (induction rs arbitrary: p) auto
  then show ?thesis using True by (simp add: verifyChain_valid verifyChain_def verify_loop_valid)
next
  case False
  from verify_loop_first_broken[OF this, of "length rs"] show ?thesis
    using False by (simp add: verifyChain_def verify_loop_valid) metis
qed

lemma audit_verify_exact_witness:
  "\<exists>good bad rest m. [sample_event ''a''] = good @ bad # rest \<and>
     cv_brokenAt (verifyChain (\<lambda>s. s) [sample_event ''a'']) = Some (ae_seq bad, m)"
proof -
  have "\<not> cv_valid (verifyChain (\<lambda>s. s) [sample_event ''a''])"
    by (simp add: verifyChain_valid sample_event_def GENESIS_HASH_def)
  then show ?thesis
    using audit_verify_exact[of "\<lambda>s. s" "[sample_event ''a'']"] by (simp only: if_False) blast
qed

text \<open>
  Uuids are stored in lower case: after recording, through the repository, an event
  whose id or tenant id the uuid column rewrites, the replay of the untouched table fails
  (or the two different strings that were hashed collide), although nobody tampered.
\<close>

theorem audit_uuid_rewrite_breaks_replay:
  assumes "audit_inv sha db"
    and "append_tx sha pg e None db = (Inr s, db')" and "\<not> uuid_stable pg e"
    and "\<And>x y. x \<noteq> y \<Longrightarrow> sha x = sha y \<Longrightarrow> x \<noteq> chain_input (head_hash db) (toCanonical e)"
  shows "\<not> cv_valid (verifyChain_execute sha db')"
proof -
  from assms(2) obtain i t where it: "pg (ae_id e) = Some i" "pg (ae_tenantId e) = Some t"
    "s = linked sha e db" "adb_rows db' = adb_rows db @ [s\<lparr>ae_id := i, ae_tenantId := t\<rparr>]"
    by (rule append_tx_success)
  let ?row = "s\<lparr>ae_id := i, ae_tenantId := t\<rparr>"
  have "toCanonical ?row \<noteq> toCanonical e"
    using assms(3) it(1,2) by (auto simp: toCanonical_def uuid_stable_def)
  then have ne: "chain_input (head_hash db) (toCanonical ?row) \<noteq> chain_input (head_hash db) (toCanonical e)"
    using chain_input_inj by blast
  have "ae_recordHash ?row = sha (chain_input (head_hash db) (toCanonical e))"
    by (simp add: it(3) linked_def recomputeHash_def computeRecordHash_def)
  then have "ae_recordHash ?row \<noteq> recomputeHash sha ?row (head_hash db)"
    using assms(4)[OF ne[symmetric]] by (auto simp: recomputeHash_def computeRecordHash_def)
  then show ?thesis
    by (simp add: verifyChain_execute_def verifyChain_valid listAllInChainOrder_def it(4)
        head_hash_chain_end)
qed

lemma audit_uuid_rewrite_breaks_replay_witness:
  "\<not> cv_valid (verifyChain_execute (\<lambda>s. CHR ''h'' # s)
     (snd (append_tx (\<lambda>s. CHR ''h'' # s) (\<lambda>_. Some ''ab'') (sample_event ''AB'') None
        \<lparr>adb_rows = [], adb_nextSeq = 1\<rparr>)))"
  by (rule audit_uuid_rewrite_breaks_replay[where db = "\<lparr>adb_rows = [], adb_nextSeq = 1\<rparr>"
        and pg = "\<lambda>_. Some ''ab''" and e = "sample_event ''AB''"
        and s = "linked (\<lambda>s. CHR ''h'' # s) (sample_event ''AB'') \<lparr>adb_rows = [], adb_nextSeq = 1\<rparr>"])
    (simp_all add: empty_audit_inv append_tx_def pg_insert_def Let_def linked_def uuid_stable_def
      sample_event_def)

text \<open>
  Recording is idempotent on the event id: a command that repeats the id of a stored
  event is refused with the conflict audit\_event\_duplicate and the table is unchanged.
\<close>

theorem audit_record_idempotent:
  assumes "rc_id c = Some i" and "i \<noteq> []" and "pg i = Some u"
    and "u \<in> set (map ae_id (adb_rows db))"
    and "is_ok (parseAuditDecision (rc_decision c))"
    and "is_ok (parseOccurredAt pd now (rc_occurredAt c))"
  shows "recordAuditEvent_execute sha iu pg pd f now env aborts c db = (Inl (DuplicateAuditEventError i), db)"
proof -
  have "find (\<lambda>r. ae_id r = u) (adb_rows db) \<noteq> None"
    using assms(4) by (auto simp: find_None_iff)
  then show ?thesis
    using assms by (auto simp: recordAuditEvent_execute_def audit_findById_def is_ok_def
        split: sum.splits)
qed


lemma audit_record_idempotent_witness:
  "fst (recordAuditEvent_execute (\<lambda>s. CHR ''h'' # s) (\<lambda>_. True) Some (\<lambda>_. None) ''f'' 0 (\<lambda>_ d. d) (\<lambda>_. None)
     \<lparr>rc_id = Some ''a'', rc_tenantId = ''t'', rc_actor = ''u'', rc_action = ''read'', rc_decision = ''allow'',
      rc_resourceKind = ''doc'', rc_resourceId = ''1'', rc_reason = None, rc_policy = None,
      rc_decisionId = None, rc_traceId = None, rc_occurredAt = None\<rparr> (sample_db [''a'']))
   = Inl (DuplicateAuditEventError ''a'')"
  by (subst audit_record_idempotent[where i = "''a''" and u = "''a''"])
    (simp_all add: sample_db_one linked_def sample_event_def parseOccurredAt_def
      parseAuditDecision_def to_upper_def to_upper_char_def lower_letters_def
      upper_letters_def valid_decisions_def oneOf_def Let_def)

end
