(* ===== verification/IdentityToken.thy ===== *)
theory IdentityToken
  imports Base64
begin

text \<open>
  The signed internal identity token: its minting at the gateway
  (apps/gateway/src/modules/auth/infrastructure/hmac-internal-token-minter.ts) and its
  verification by the IdentityContextMiddleware of every service
  (packages/authz/src/pep/identity-context.middleware.ts), with the principal context it
  yields (packages/authz/src/pep/authz-request-context.ts).  The HMAC
  (\<^term>\<open>hmac key message\<close>, the bytes of the tag) and JSON.parse
  (\<^term>\<open>parse\<close>, None for a SyntaxError) are arguments of the definitions.
\<close>

section \<open>Requests and JSON objects\<close>

datatype header_value = HOne string | HMany "string list"

type_synonym request_headers = "string \<Rightarrow> header_value option"

text \<open>A property of a parsed value: of several members with one name, the last counts.\<close>

fun jget :: "string \<Rightarrow> json \<Rightarrow> json option" where
  "jget k (JObj ms) = map_of (rev ms) k"
| "jget k _ = None"

fun is_object :: "json \<Rightarrow> bool" where
  "is_object (JObj ms) = True"
| "is_object _ = False"

definition jget_string :: "string \<Rightarrow> json \<Rightarrow> string option" where
  "jget_string k v = (case jget k v of Some (JStr s) \<Rightarrow> Some s | _ \<Rightarrow> None)"

record principal_context =
  pc_principalId :: string
  pc_tenantId :: string
  pc_actorId :: string
  pc_sessionId :: string
  pc_platformAdmin :: bool

record authz_options =
  ao_secret :: string
  ao_issuer :: string
  ao_tolerance :: int

definition newAuthzOptions :: "string option \<Rightarrow> string option \<Rightarrow> int option \<Rightarrow> authz_options" where
  "newAuthzOptions secret issuer tolerance =
     \<lparr>ao_secret = or_default secret [], ao_issuer = or_default issuer ''api-gateway'',
      ao_tolerance = or_default tolerance 60\<rparr>"

definition TOKEN_HEADER :: string where "TOKEN_HEADER = ''x-internal-identity''"
definition SIGNATURE_HEADER :: string where
  "SIGNATURE_HEADER = ''x-internal-identity-signature''"

definition unauthenticated :: "string \<Rightarrow> exn" where
  "unauthenticated reason = UnauthenticatedError ''Authentication required'' (Some reason)"

definition principalContextFromToken :: "json \<Rightarrow> principal_context" where
  "principalContextFromToken t =
     \<lparr>pc_principalId = or_default (jget_string ''sub'' t) [],
      pc_tenantId = or_default (jget_string ''tid'' t) [],
      pc_actorId = or_default (jget_string ''actorId'' t) [],
      pc_sessionId = or_default (jget_string ''sessionId'' t) [],
      pc_platformAdmin = (jget ''platformAdmin'' t = Some (JBool True))\<rparr>"

section \<open>The middleware\<close>

definition singleHeader :: "request_headers \<Rightarrow> string \<Rightarrow> string option" where
  "singleHeader headers name =
     (let raw = (case headers name of
                   None \<Rightarrow> None
                 | Some (HOne s) \<Rightarrow> Some s
                 | Some (HMany []) \<Rightarrow> None
                 | Some (HMany (s # _)) \<Rightarrow> Some s)
      in case raw of
           None \<Rightarrow> None
         | Some s \<Rightarrow> if length (js_trim s) = 0 then None else Some s)"

definition decodeJsonSegment ::
  "(string \<Rightarrow> json option) \<Rightarrow> string \<Rightarrow> string \<Rightarrow> json result" where
  "decodeJsonSegment parse segment what =
     (case parse (base64url_decode segment) of
        None \<Rightarrow> Inl (unauthenticated (''malformed_internal_'' @ what))
      | Some v \<Rightarrow>
          if \<not> is_object v then Inl (unauthenticated (''malformed_internal_'' @ what)) else Inr v)"

definition isValidToken :: "json \<Rightarrow> bool" where
  "isValidToken v \<longleftrightarrow>
     jget_string ''sub'' v \<noteq> None \<and> jget_string ''tid'' v \<noteq> None \<and>
     jget_string ''actorId'' v \<noteq> None \<and> jget_string ''sessionId'' v \<noteq> None"

definition assertHeaderMatchesSignedClaims ::
  "(string \<Rightarrow> json option) \<Rightarrow> request_headers \<Rightarrow> json \<Rightarrow> unit result" where
  "assertHeaderMatchesSignedClaims parse headers signed =
     (case singleHeader headers TOKEN_HEADER of
        None \<Rightarrow> Inr ()
      | Some raw \<Rightarrow>
          (case parse (base64url_decode raw) of
             None \<Rightarrow> Inl (unauthenticated ''malformed_internal_identity'')
           | Some headerToken \<Rightarrow>
               if \<not> isValidToken headerToken then Inl (unauthenticated ''internal_claims_missing'')
               else
                 (let headerIsAdmin = (jget ''platformAdmin'' headerToken = Some (JBool True));
                      signedIsAdmin = (jget ''platformAdmin'' signed = Some (JBool True));
                      matches =
                        jget ''sub'' headerToken = jget ''sub'' signed \<and>
                        jget ''tid'' headerToken = jget ''tid'' signed \<and>
                        jget ''actorId'' headerToken = jget ''actorId'' signed \<and>
                        jget ''sessionId'' headerToken = jget ''sessionId'' signed \<and>
                        headerIsAdmin = signedIsAdmin
                  in if \<not> matches then Inl (unauthenticated ''internal_identity_mismatch'')
                     else Inr ())))"

text \<open>The exp claim: a finite number of seconds.\<close>

definition finite_exp :: "json \<Rightarrow> int option" where
  "finite_exp payload = (case jget ''exp'' payload of Some (JNum e) \<Rightarrow> Some e | _ \<Rightarrow> None)"

definition verifySignedToken ::
  "(string \<Rightarrow> string \<Rightarrow> string) \<Rightarrow> (string \<Rightarrow> json option) \<Rightarrow> authz_options \<Rightarrow> int \<Rightarrow>
   request_headers \<Rightarrow> json result" where
  "verifySignedToken hmac parse opts nowMs headers =
     (case singleHeader headers SIGNATURE_HEADER of
        None \<Rightarrow> Inl (unauthenticated ''missing_internal_signature'')
      | Some compactJws \<Rightarrow>
          (case split_on (CHR ''.'') compactJws of
             [headerB64, payloadB64, signatureB64] \<Rightarrow>
               rbind (decodeJsonSegment parse headerB64 ''header'') (\<lambda>header.
               rbind (ensure (jget ''alg'' header = Some (JStr ''HS256''))
                        (unauthenticated ''unsupported_internal_alg'')) (\<lambda>_.
               let signingInput = headerB64 @ CHR ''.'' # payloadB64;
                   expected = hmac (ao_secret opts) signingInput;
                   provided = base64url_decode signatureB64 in
               rbind (ensure (length provided = length expected \<and> provided = expected)
                        (unauthenticated ''invalid_internal_signature'')) (\<lambda>_.
               rbind (decodeJsonSegment parse payloadB64 ''payload'') (\<lambda>payload.
               rbind (ensure (jget ''iss'' payload = Some (JStr (ao_issuer opts)))
                        (unauthenticated ''internal_issuer_mismatch'')) (\<lambda>_.
               rbind (ensure (finite_exp payload \<noteq> None)
                        (unauthenticated ''internal_exp_missing'')) (\<lambda>_.
               let nowSeconds = nowMs div 1000 in
               rbind (ensure (\<not> or_default (finite_exp payload) 0 + ao_tolerance opts < nowSeconds)
                        (unauthenticated ''internal_token_expired'')) (\<lambda>_.
               rbind (ensure (isValidToken payload)
                        (unauthenticated ''internal_claims_missing'')) (\<lambda>_.
               rbind (assertHeaderMatchesSignedClaims parse headers payload) (\<lambda>_.
               Inr payload)))))))))
           | _ \<Rightarrow> Inl (unauthenticated ''malformed_internal_signature'')))"

definition decodePlaceholder ::
  "(string \<Rightarrow> json option) \<Rightarrow> request_headers \<Rightarrow> json result" where
  "decodePlaceholder parse headers =
     (case singleHeader headers TOKEN_HEADER of
        None \<Rightarrow> Inl (UnauthenticatedError
          (''Missing '' @ TOKEN_HEADER @
           '' header (dev/test placeholder for the signed internal token)'')
          (Some ''missing_internal_identity''))
      | Some raw \<Rightarrow>
          (case parse (base64url_decode raw) of
             None \<Rightarrow> Inl (UnauthenticatedError ''Malformed internal identity token''
                       (Some ''malformed_internal_identity''))
           | Some v \<Rightarrow>
               if \<not> isValidToken v
               then Inl (UnauthenticatedError ''Internal identity token missing required claims''
                           (Some ''internal_claims_missing''))
               else Inr v))"

definition middleware_use ::
  "(string \<Rightarrow> string \<Rightarrow> string) \<Rightarrow> (string \<Rightarrow> json option) \<Rightarrow> authz_options \<Rightarrow> int \<Rightarrow>
   request_headers \<Rightarrow> principal_context result" where
  "middleware_use hmac parse opts nowMs headers =
     rbind (if length (ao_secret opts) > 0
            then verifySignedToken hmac parse opts nowMs headers
            else decodePlaceholder parse headers) (\<lambda>token.
     Inr (principalContextFromToken token))"

section \<open>The minter\<close>

record gateway_identity =
  gi_sub :: string
  gi_tid :: string
  gi_sessionId :: string
  gi_actorId :: string
  gi_platformAdmin :: bool

record minter_config =
  mc_secret :: string
  mc_kid :: string
  mc_issuer :: string
  mc_ttlSeconds :: int

record minted_token =
  mt_headerValue :: string
  mt_signature :: string

text \<open>The claims the proxy hands to the minter; platformAdmin is left out for a non-admin.\<close>

definition identity_claims :: "gateway_identity \<Rightarrow> (string \<times> json) list" where
  "identity_claims i =
     [(''sub'', JStr (gi_sub i)), (''tid'', JStr (gi_tid i)), (''actorId'', JStr (gi_actorId i)),
      (''sessionId'', JStr (gi_sessionId i))]
     @ (if gi_platformAdmin i then [(''platformAdmin'', JBool True)] else [])"

definition mint ::
  "(string \<Rightarrow> string \<Rightarrow> string) \<Rightarrow> minter_config \<Rightarrow> int \<Rightarrow> (string \<times> json) list \<Rightarrow> minted_token" where
  "mint hmac cfg nowMs claims =
     (let headerValue = base64url_encode (json_stringify (JObj claims));
          nowSeconds = nowMs div 1000;
          jwsHeader = JObj [(''alg'', JStr ''HS256''), (''typ'', JStr ''JWT''), (''kid'', JStr (mc_kid cfg))];
          jwsPayload = JObj (claims @ [(''iss'', JStr (mc_issuer cfg)), (''iat'', JNum nowSeconds),
                                       (''exp'', JNum (nowSeconds + mc_ttlSeconds cfg))]);
          signingInput = base64url_encode (json_stringify jwsHeader) @ CHR ''.'' #
                         base64url_encode (json_stringify jwsPayload);
          signature = base64url_encode (hmac (mc_secret cfg) signingInput)
      in \<lparr>mt_headerValue = headerValue, mt_signature = signingInput @ CHR ''.'' # signature\<rparr>)"

section \<open>What an accepted token means\<close>

text \<open>The signed claims an accepted request carries: a JWS under the secret, in time, complete.\<close>

definition signed_claims ::
  "(string \<Rightarrow> string \<Rightarrow> string) \<Rightarrow> (string \<Rightarrow> json option) \<Rightarrow> authz_options \<Rightarrow> int \<Rightarrow> string \<Rightarrow> json \<Rightarrow> bool" where
  "signed_claims hmac parse opts nowMs jws payload \<longleftrightarrow>
     (\<exists>h p s header.
        split_on (CHR ''.'') jws = [h, p, s] \<and>
        parse (base64url_decode h) = Some header \<and> jget ''alg'' header = Some (JStr ''HS256'') \<and>
        base64url_decode s = hmac (ao_secret opts) (h @ CHR ''.'' # p) \<and>
        parse (base64url_decode p) = Some payload \<and>
        jget ''iss'' payload = Some (JStr (ao_issuer opts)) \<and>
        (\<exists>e. jget ''exp'' payload = Some (JNum e) \<and> nowMs div 1000 \<le> e + ao_tolerance opts) \<and>
        isValidToken payload)"

lemma finite_exp_iff: "finite_exp v = Some e \<longleftrightarrow> jget ''exp'' v = Some (JNum e)"
  by (auto simp: finite_exp_def split: option.splits json.splits)

lemma decodeJsonSegment_ok:
  "decodeJsonSegment parse seg w = Inr v \<longleftrightarrow> parse (base64url_decode seg) = Some v \<and> is_object v"
  by (auto simp: decodeJsonSegment_def split: option.splits)

lemma verifySignedToken_sound:
  assumes "verifySignedToken hmac parse opts now hs = Inr payload"
  shows "\<exists>jws. singleHeader hs SIGNATURE_HEADER = Some jws \<and>
           signed_claims hmac parse opts now jws payload \<and>
           assertHeaderMatchesSignedClaims parse hs payload = Inr ()"
proof -
  obtain jws where jws: "singleHeader hs SIGNATURE_HEADER = Some jws"
    using assms by (auto simp: verifySignedToken_def split: option.splits)
  obtain h p s where seg: "split_on (CHR ''.'') jws = [h, p, s]"
    using assms jws by (auto simp: verifySignedToken_def split: list.splits)
  have "signed_claims hmac parse opts now jws payload \<and>
      assertHeaderMatchesSignedClaims parse hs payload = Inr ()"
    using assms unfolding verifySignedToken_def jws signed_claims_def seg Let_def option.case list.case
    by (elim rbind_InrE) (auto simp: decodeJsonSegment_ok finite_exp_def split: option.splits json.splits)
  then show ?thesis using jws by blast
qed

lemma signed_claims_unique:
  "signed_claims hmac parse opts now jws p \<Longrightarrow> signed_claims hmac parse opts now' jws q \<Longrightarrow> p = q"
  by (auto simp: signed_claims_def)


section \<open>What the gateway mints is accepted\<close>

definition mint_objects :: "minter_config \<Rightarrow> int \<Rightarrow> (string \<times> json) list \<Rightarrow> json list" where
  "mint_objects cfg nowMs claims =
     [JObj [(''alg'', JStr ''HS256''), (''typ'', JStr ''JWT''), (''kid'', JStr (mc_kid cfg))],
      JObj (claims @ [(''iss'', JStr (mc_issuer cfg)), (''iat'', JNum (nowMs div 1000)),
                      (''exp'', JNum (nowMs div 1000 + mc_ttlSeconds cfg))]),
      JObj claims]"

text \<open>JSON.parse reads back what JSON.stringify wrote.\<close>

definition parses_back :: "(string \<Rightarrow> json option) \<Rightarrow> json list \<Rightarrow> bool" where
  "parses_back parse js \<longleftrightarrow> (\<forall>j \<in> set js. parse (json_stringify j) = Some j)"

lemma base64url_not_ws: "c \<in> set (base64url_encode s) \<Longrightarrow> \<not> is_ws c"
proof -
  assume "c \<in> set (base64url_encode s)"
  then obtain b where "b \<in> set (chunks6 (concat (map char_bits s)))" "c = sextet_char b"
    by (auto simp: base64url_encode_def)
  then have "c \<in> set b64_alphabet" using sextet_char_decode(2) chunks6_length by blast
  then show ?thesis by (auto simp: b64_alphabet_def is_ws_def)
qed

lemma base64url_not_blank: "s \<noteq> [] \<Longrightarrow> js_trim (base64url_encode s) \<noteq> []"
proof
  assume "s \<noteq> []" "js_trim (base64url_encode s) = []"
  then have "base64url_encode s = []"
    using base64url_not_ws by (auto simp: js_trim_Nil_iff)
  then have "s = base64url_decode []" using base64url_roundtrip[of s] by simp
  then show False using \<open>s \<noteq> []\<close> by (simp add: base64url_decode_def List.map_filter_simps bytes8.simps)
qed

lemma split_jws: "split_on (CHR ''.'')
    (base64url_encode a @ CHR ''.'' # base64url_encode b @ CHR ''.'' # base64url_encode c) =
  [base64url_encode a, base64url_encode b, base64url_encode c]"
  by (simp add: split_on_append_sep split_on_no_sep base64url_no_dot)

lemma jws_not_blank: "js_trim (a @ CHR ''.'' # b) \<noteq> []"
  by (auto simp: js_trim_Nil_iff is_ws_def)

lemma claims_lookup:
  "isValidToken (JObj (identity_claims i @ [(''iss'', a), (''iat'', b), (''exp'', c)]))"
  "isValidToken (JObj (identity_claims i))"
  by (simp_all add: isValidToken_def jget_string_def identity_claims_def)

lemma minted_context:
  "principalContextFromToken (JObj (identity_claims i @ [(''iss'', a), (''iat'', b), (''exp'', c)])) =
   \<lparr>pc_principalId = gi_sub i, pc_tenantId = gi_tid i, pc_actorId = gi_actorId i,
    pc_sessionId = gi_sessionId i, pc_platformAdmin = gi_platformAdmin i\<rparr>"
  by (simp add: principalContextFromToken_def jget_string_def identity_claims_def)

text \<open>The request a service receives from the gateway, with or without the plain claims header.\<close>

definition carries_token :: "request_headers \<Rightarrow> minted_token \<Rightarrow> bool" where
  "carries_token hs t \<longleftrightarrow>
     hs SIGNATURE_HEADER = Some (HOne (mt_signature t)) \<and>
     (hs TOKEN_HEADER = Some (HOne (mt_headerValue t)) \<or> hs TOKEN_HEADER = None)"

lemma minted_header_matches:
  assumes "parses_back parse (mint_objects cfg t (identity_claims i))"
    and "hs TOKEN_HEADER = Some (HOne (base64url_encode (json_stringify (JObj (identity_claims i)))))
         \<or> hs TOKEN_HEADER = None"
  shows "assertHeaderMatchesSignedClaims parse hs
           (JObj (identity_claims i @ [(''iss'', a), (''iat'', b), (''exp'', c)])) = Inr ()"
proof (cases "hs TOKEN_HEADER = None")
  case True
  then show ?thesis by (simp add: assertHeaderMatchesSignedClaims_def singleHeader_def)
next
  case False
  have "js_trim (base64url_encode (json_stringify (JObj (identity_claims i)))) \<noteq> []"
    by (rule base64url_not_blank) simp
  then have "singleHeader hs TOKEN_HEADER =
      Some (base64url_encode (json_stringify (JObj (identity_claims i))))"
    using False assms(2) by (auto simp: singleHeader_def simp del: json_stringify.simps)
  moreover have "parse (json_stringify (JObj (identity_claims i))) = Some (JObj (identity_claims i))"
    using assms(1) by (simp add: parses_back_def mint_objects_def del: json_stringify.simps)
  ultimately show ?thesis
    by (simp add: assertHeaderMatchesSignedClaims_def claims_lookup del: json_stringify.simps)
qed

lemma minted_token_verifies:
  assumes "opts = \<lparr>ao_secret = mc_secret cfg, ao_issuer = mc_issuer cfg, ao_tolerance = tol\<rparr>"
    and "parses_back parse (mint_objects cfg t0 (identity_claims i))"
    and "carries_token hs (mint hmac cfg t0 (identity_claims i))"
    and "now div 1000 \<le> t0 div 1000 + mc_ttlSeconds cfg + tol"
  shows "verifySignedToken hmac parse opts now hs =
     Inr (JObj (identity_claims i @ [(''iss'', JStr (mc_issuer cfg)), (''iat'', JNum (t0 div 1000)),
                    (''exp'', JNum (t0 div 1000 + mc_ttlSeconds cfg))]))"
proof -
  let ?h = "JObj [(''alg'', JStr ''HS256''), (''typ'', JStr ''JWT''), (''kid'', JStr (mc_kid cfg))]"
  let ?p = "JObj (identity_claims i @ [(''iss'', JStr (mc_issuer cfg)), (''iat'', JNum (t0 div 1000)),
                    (''exp'', JNum (t0 div 1000 + mc_ttlSeconds cfg))])"
  let ?b = "\<lambda>j. base64url_encode (json_stringify j)"
  let ?msg = "?b ?h @ CHR ''.'' # ?b ?p"
  let ?jws = "?b ?h @ CHR ''.'' # ?b ?p @ CHR ''.'' # base64url_encode (hmac (mc_secret cfg) ?msg)"
  have sig: "singleHeader hs SIGNATURE_HEADER = Some ?jws"
    using assms(3) jws_not_blank
    by (simp add: carries_token_def mint_def Let_def singleHeader_def del: json_stringify.simps)
  have reads: "parse (json_stringify ?h) = Some ?h" "parse (json_stringify ?p) = Some ?p"
    using assms(2) by (simp_all add: parses_back_def mint_objects_def del: json_stringify.simps)
  have hdr: "assertHeaderMatchesSignedClaims parse hs ?p = Inr ()"
    by (rule minted_header_matches[OF assms(2)])
      (use assms(3) in \<open>simp add: carries_token_def mint_def Let_def del: json_stringify.simps\<close>)
  show ?thesis
    using assms(4) reads hdr claims_lookup
    by (simp add: verifySignedToken_def sig split_jws assms(1) decodeJsonSegment_def Let_def
        finite_exp_def del: json_stringify.simps)
qed

text \<open>
  A token the gateway mints for a verified identity is accepted by every service that
  shares the secret and the issuer, from the moment it is minted until its time to live
  plus the tolerance has passed, and the service sees exactly the identity, tenant, actor,
  session and platform-admin scope the gateway verified.
\<close>

theorem minted_token_accepted:
  assumes "mc_secret cfg \<noteq> []"
    and "opts = \<lparr>ao_secret = mc_secret cfg, ao_issuer = mc_issuer cfg, ao_tolerance = tol\<rparr>"
    and "parses_back parse (mint_objects cfg t0 (identity_claims i))"
    and "carries_token hs (mint hmac cfg t0 (identity_claims i))"
    and "now div 1000 \<le> t0 div 1000 + mc_ttlSeconds cfg + tol"
  shows "middleware_use hmac parse opts now hs =
         Inr \<lparr>pc_principalId = gi_sub i, pc_tenantId = gi_tid i, pc_actorId = gi_actorId i,
              pc_sessionId = gi_sessionId i, pc_platformAdmin = gi_platformAdmin i\<rparr>"
  using minted_token_verifies[OF assms(2-5)] assms(1,2)
  by (simp add: middleware_use_def minted_context)

definition sample_identity :: gateway_identity where
  "sample_identity = \<lparr>gi_sub = ''u1'', gi_tid = ''t1'', gi_sessionId = ''s1'', gi_actorId = ''u1'',
                      gi_platformAdmin = False\<rparr>"

definition sample_minter :: minter_config where
  "sample_minter = \<lparr>mc_secret = ''key'', mc_kid = ''k'', mc_issuer = ''api-gateway'', mc_ttlSeconds = 300\<rparr>"

definition sample_parse :: "string \<Rightarrow> json option" where
  "sample_parse s =
     find (\<lambda>j. json_stringify j = s) (mint_objects sample_minter 0 (identity_claims sample_identity))"

definition sample_request :: "(string \<Rightarrow> string \<Rightarrow> string) \<Rightarrow> request_headers" where
  "sample_request hmac n =
     (if n = SIGNATURE_HEADER
      then Some (HOne (mt_signature (mint hmac sample_minter 0 (identity_claims sample_identity))))
      else None)"

lemma sample_parses_back:
  "parses_back sample_parse (mint_objects sample_minter 0 (identity_claims sample_identity))"
  by (simp add: parses_back_def sample_parse_def mint_objects_def sample_minter_def
      sample_identity_def identity_claims_def json_member_def)

lemma minted_token_accepted_witness:
  "middleware_use (\<lambda>k m. k) sample_parse (newAuthzOptions (Some ''key'') None None) 359000
     (sample_request (\<lambda>k m. k)) =
   Inr \<lparr>pc_principalId = ''u1'', pc_tenantId = ''t1'', pc_actorId = ''u1'', pc_sessionId = ''s1'',
        pc_platformAdmin = False\<rparr>"
  by (subst minted_token_accepted[where cfg = sample_minter and ?t0.0 = 0 and i = sample_identity
        and tol = 60, OF _ _ sample_parses_back])
    (simp_all add: sample_minter_def newAuthzOptions_def carries_token_def sample_request_def
      sample_identity_def TOKEN_HEADER_def SIGNATURE_HEADER_def)

text \<open>
  C4. In the signature-verifying mode every accepted request carries a three-part HS256
  token whose tag is the HMAC of its first two parts under the shared secret, issued by
  the gateway and not expired; and the principal is read off that signed payload.  In
  particular a plain identity header alone, a token with another algorithm, issuer or
  tag, and an expired token are rejected.
\<close>

theorem accepted_principal_is_signed:
  assumes "ao_secret opts \<noteq> []" and "middleware_use hmac parse opts now hs = Inr pc"
  shows "\<exists>jws payload. singleHeader hs SIGNATURE_HEADER = Some jws \<and>
           signed_claims hmac parse opts now jws payload \<and> pc = principalContextFromToken payload"
  using assms verifySignedToken_sound
  by (fastforce simp: middleware_use_def elim!: rbind_InrE)

lemma sample_accepted:
  "middleware_use (\<lambda>k m. k) sample_parse (newAuthzOptions (Some ''key'') None None) 359000
     (sample_request (\<lambda>k m. k)) =
   Inr \<lparr>pc_principalId = ''u1'', pc_tenantId = ''t1'', pc_actorId = ''u1'', pc_sessionId = ''s1'',
        pc_platformAdmin = False\<rparr>"
proof -
  have "verifySignedToken (\<lambda>k m. k) sample_parse (newAuthzOptions (Some ''key'') None None) 359000
      (sample_request (\<lambda>k m. k)) =
    Inr (JObj (identity_claims sample_identity @ [(''iss'', JStr ''api-gateway''), (''iat'', JNum 0),
                    (''exp'', JNum 300)]))"
    by (subst minted_token_verifies[where cfg = sample_minter and ?t0.0 = 0 and i = sample_identity
          and tol = 60, OF _ sample_parses_back])
      (simp_all add: sample_minter_def newAuthzOptions_def carries_token_def sample_request_def
        TOKEN_HEADER_def SIGNATURE_HEADER_def)
  then show ?thesis
    by (simp add: middleware_use_def newAuthzOptions_def minted_context sample_identity_def)
qed

lemma accepted_principal_is_signed_witness:
  "\<exists>jws payload. singleHeader (sample_request (\<lambda>k m. k)) SIGNATURE_HEADER = Some jws \<and>
     signed_claims (\<lambda>k m. k) sample_parse (newAuthzOptions (Some ''key'') None None) 359000 jws payload \<and>
     \<lparr>pc_principalId = ''u1'', pc_tenantId = ''t1'', pc_actorId = ''u1'', pc_sessionId = ''s1'',
        pc_platformAdmin = False\<rparr> = principalContextFromToken payload"
  by (rule accepted_principal_is_signed[OF _ sample_accepted]) (simp add: newAuthzOptions_def)

text \<open>
  The plain x-internal-identity header never decides who the caller is: two requests
  with the same signature header that are both accepted, whatever else their headers say
  and whenever they arrive, act as the same principal.
\<close>

theorem plain_header_never_identifies:
  assumes "ao_secret opts \<noteq> []" and "hs SIGNATURE_HEADER = hs' SIGNATURE_HEADER"
    and "middleware_use hmac parse opts now hs = Inr pc"
    and "middleware_use hmac parse opts now' hs' = Inr pc'"
  shows "pc = pc'"
proof -
  have same: "singleHeader hs SIGNATURE_HEADER = singleHeader hs' SIGNATURE_HEADER"
    using assms(2) by (simp add: singleHeader_def)
  obtain p q where "verifySignedToken hmac parse opts now hs = Inr p" "pc = principalContextFromToken p"
      "verifySignedToken hmac parse opts now' hs' = Inr q" "pc' = principalContextFromToken q"
    using assms(1,3,4) by (auto simp: middleware_use_def elim!: rbind_InrE)
  then show ?thesis
    using verifySignedToken_sound[of hmac parse opts] same signed_claims_unique by (metis option.inject)
qed

text \<open>The same token with the plain claims header beside it.\<close>

definition sample_request_full :: "(string \<Rightarrow> string \<Rightarrow> string) \<Rightarrow> request_headers" where
  "sample_request_full hmac n =
     (if n = TOKEN_HEADER
      then Some (HOne (mt_headerValue (mint hmac sample_minter 0 (identity_claims sample_identity))))
      else sample_request hmac n)"

lemma sample_full_accepted:
  "middleware_use (\<lambda>k m. k) sample_parse (newAuthzOptions (Some ''key'') None None) 5000
     (sample_request_full (\<lambda>k m. k)) =
   Inr (principalContextFromToken (JObj (identity_claims sample_identity @
      [(''iss'', JStr ''api-gateway''), (''iat'', JNum 0), (''exp'', JNum 300)])))"
proof -
  have "verifySignedToken (\<lambda>k m. k) sample_parse (newAuthzOptions (Some ''key'') None None) 5000
      (sample_request_full (\<lambda>k m. k)) =
    Inr (JObj (identity_claims sample_identity @ [(''iss'', JStr ''api-gateway''), (''iat'', JNum 0),
                    (''exp'', JNum 300)]))"
    by (subst minted_token_verifies[where cfg = sample_minter and ?t0.0 = 0 and i = sample_identity
          and tol = 60, OF _ sample_parses_back])
      (simp_all add: sample_minter_def newAuthzOptions_def carries_token_def sample_request_def
        sample_request_full_def TOKEN_HEADER_def SIGNATURE_HEADER_def)
  then show ?thesis by (simp add: middleware_use_def newAuthzOptions_def)
qed

lemma plain_header_never_identifies_witness:
  "\<lparr>pc_principalId = ''u1'', pc_tenantId = ''t1'', pc_actorId = ''u1'', pc_sessionId = ''s1'',
        pc_platformAdmin = False\<rparr> =
   principalContextFromToken (JObj (identity_claims sample_identity @
      [(''iss'', JStr ''api-gateway''), (''iat'', JNum 0), (''exp'', JNum 300)]))"
  by (rule plain_header_never_identifies[OF _ _ sample_accepted sample_full_accepted])
    (simp_all add: newAuthzOptions_def sample_request_full_def TOKEN_HEADER_def SIGNATURE_HEADER_def)

end
