(* ===== verification/Pdp.thy ===== *)
theory Pdp
  imports IdentityToken
begin

text \<open>
  The policy decision client (packages/authz/src/pdp/cerbos-pdp.client.ts) and the shared
  request and result shapes (packages/contracts/src/pdp, packages/contracts/src/identity).
  The Cerbos server is the argument \<^term>\<open>cerbos\<close>: what it answers to a request, or the
  error of the call.
\<close>

type_synonym attribute_bag = "string \<Rightarrow> json option"

record effective_principal =
  ep_id :: string
  ep_tenantId :: string
  ep_roles :: "string list"
  ep_attr :: attribute_bag

record pdp_principal =
  pp_id :: string
  pp_roles :: "string list"
  pp_attr :: attribute_bag

record pdp_resource =
  pr_kind :: string
  pr_id :: string
  pr_attr :: attribute_bag

datatype pdp_effect = ALLOW | DENY

record pdp_action_result =
  par_action :: string
  par_effect :: pdp_effect
  par_policy :: "string option"
  par_reason :: "string option"

record pdp_check_result =
  pcr_decisionId :: string
  pcr_results :: "pdp_action_result list"

record cerbos_request =
  cq_principal :: pdp_principal
  cq_resource :: pdp_resource
  cq_scope :: "string option"
  cq_actions :: "string list"

text \<open>Per action: whether it is allowed (undefined for an unknown action) and the matched policy.\<close>

record cerbos_response =
  cr_isAllowed :: "string \<Rightarrow> bool option"
  cr_matchedPolicy :: "string \<Rightarrow> string option"

definition NO_ROLES_SENTINEL :: string where "NO_ROLES_SENTINEL = ''_no_roles''"

text \<open>
  The position of the first occurrence of a character, and of the last occurrence of a
  two-character text (indexOf and lastIndexOf).
\<close>

fun index_of :: "char \<Rightarrow> string \<Rightarrow> nat option" where
  "index_of c [] = None"
| "index_of c (x # xs) = (if x = c then Some 0 else map_option Suc (index_of c xs))"

fun last_index_of2 :: "char \<Rightarrow> char \<Rightarrow> string \<Rightarrow> nat option" where
  "last_index_of2 a b (x # y # xs) =
     (case last_index_of2 a b (y # xs) of
        Some i \<Rightarrow> Some (Suc i)
      | None \<Rightarrow> if x = a \<and> y = b then Some 0 else None)"
| "last_index_of2 a b _ = None"

definition formatPolicy :: "string option \<Rightarrow> string option" where
  "formatPolicy matched =
     (if \<not> truthy matched then None
      else
        (let m = or_default matched [];
             slash = index_of (CHR ''/'') m;
             fqn = (case slash of None \<Rightarrow> m | Some i \<Rightarrow> take i m);
             scope = (case slash of None \<Rightarrow> None | Some i \<Rightarrow> Some (drop (i + 1) m));
             withoutPrefix = (if starts_with fqn ''resource.'' then drop 9 fqn else fqn);
             lastDot = last_index_of2 (CHR ''.'') (CHR ''v'') withoutPrefix;
             kind = (case lastDot of
                       None \<Rightarrow> withoutPrefix
                     | Some i \<Rightarrow> if i > 0 then take i withoutPrefix else withoutPrefix)
         in Some (if truthy scope then kind @ ''/'' @ or_default scope [] else kind)))"

definition reasonFor :: "string \<Rightarrow> bool \<Rightarrow> string option \<Rightarrow> string option" where
  "reasonFor action allowed policy =
     (if allowed
      then (if truthy policy then Some (''allowed by '' @ or_default policy []) else None)
      else Some (if truthy policy then ''denied by '' @ or_default policy []
                 else ''no rule grants '' @ action))"

definition cerbos_roles :: "string list \<Rightarrow> string list" where
  "cerbos_roles roles = (if length roles > 0 then roles else [NO_ROLES_SENTINEL])"

definition action_result :: "cerbos_response \<Rightarrow> string \<Rightarrow> pdp_action_result" where
  "action_result response action =
     (let allowed = or_default (cr_isAllowed response action) False;
          policy = formatPolicy (cr_matchedPolicy response action)
      in \<lparr>par_action = action, par_effect = (if allowed then ALLOW else DENY),
          par_policy = (if truthy policy then policy else None),
          par_reason = reasonFor action allowed policy\<rparr>)"

definition pdp_check ::
  "(cerbos_request \<Rightarrow> cerbos_response result) \<Rightarrow> string \<Rightarrow> pdp_principal \<Rightarrow> pdp_resource \<Rightarrow>
   string list \<Rightarrow> string option \<Rightarrow> pdp_check_result result" where
  "pdp_check cerbos uuid subj resource actions scope =
     (let decisionId = ''dec_'' @ uuid in
      rbind (cerbos \<lparr>cq_principal = subj\<lparr>pp_roles := cerbos_roles (pp_roles subj)\<rparr>,
                     cq_resource = resource, cq_scope = scope, cq_actions = actions\<rparr>)
        (\<lambda>response. Inr \<lparr>pcr_decisionId = decisionId,
                         pcr_results = map (action_result response) actions\<rparr>))"

lemma action_result_simps [simp]:
  "par_action (action_result r a) = a"
  "par_effect (action_result r a) = ALLOW \<longleftrightarrow> cr_isAllowed r a = Some True"
  "par_effect (action_result r a) = DENY \<longleftrightarrow> cr_isAllowed r a \<noteq> Some True"
  by (cases "cr_isAllowed r a"; auto simp: action_result_def Let_def)+

lemma denied_has_reason: "par_effect (action_result r a) = DENY \<Longrightarrow> par_reason (action_result r a) \<noteq> None"
  by (auto simp: action_result_def Let_def reasonFor_def split: if_splits)

end
