(* ===== verification/AuthzGuard.thy ===== *)
theory AuthzGuard
  imports Pdp
begin

text \<open>
  The policy enforcement point (packages/authz/src/pep/authz.guard.ts): the guard of every
  route that declares what it authorizes, and the audit record it emits per decision
  (packages/authz/src/audit/http-audit.sink.ts gives its wire form).  The guard returns
  its verdict together with the trace of its calls to the PIP, the PDP and the audit sink,
  in order, and the decision it leaves on the request.  The resource loader, the PIP, the
  Cerbos server, the random decision id and the clock are arguments.
\<close>

record loaded_resource =
  lr_id :: string
  lr_attr :: attribute_bag
  lr_scope :: "string option"

record authorize_options =
  az_action :: "string list"
  az_resourceKind :: string
  az_sensitive :: "bool option"

record decision_audit_record =
  dar_decisionId :: string
  dar_traceId :: string
  dar_tenantId :: string
  dar_principalId :: string
  dar_actorId :: string
  dar_resourceKind :: string
  dar_resourceId :: string
  dar_action :: string
  dar_effect :: pdp_effect
  dar_policy :: "string option"
  dar_reason :: "string option"
  dar_decidedAt :: string

datatype pep_call =
    PipResolve string string string bool
  | PdpCheck cerbos_request
  | AuditRecord decision_audit_record

record guard_result =
  gr_verdict :: "bool result"
  gr_trace :: "pep_call list"
  gr_decision :: "pdp_check_result option"

definition enforceTenantGuardrail :: "principal_context \<Rightarrow> loaded_resource \<Rightarrow> unit result" where
  "enforceTenantGuardrail subj resource =
     (if lr_attr resource ''tenantId'' \<noteq> Some (JStr (pc_tenantId subj))
      then Inl (ForbiddenError ''Resource not in your tenant'' (Some ''tenant isolation guardrail'') None)
      else Inr ())"

definition underscores_to_spaces :: "string \<Rightarrow> string" where
  "underscores_to_spaces s = map (\<lambda>c. if c = CHR ''_'' then CHR '' '' else c) s"

definition denyMessage :: "string \<Rightarrow> pdp_action_result \<Rightarrow> string" where
  "denyMessage resourceKind denied =
     ''Cannot '' @ par_action denied @ '' this '' @ underscores_to_spaces resourceKind"

definition emitAudit ::
  "int \<Rightarrow> string \<Rightarrow> string \<Rightarrow> principal_context \<Rightarrow> pdp_resource \<Rightarrow> pdp_action_result \<Rightarrow>
   decision_audit_record" where
  "emitAudit now decisionId traceId subj resource r =
     \<lparr>dar_decisionId = decisionId, dar_traceId = traceId,
      dar_tenantId = pc_tenantId subj, dar_principalId = pc_principalId subj,
      dar_actorId = pc_actorId subj, dar_resourceKind = pr_kind resource,
      dar_resourceId = pr_id resource, dar_action = par_action r, dar_effect = par_effect r,
      dar_policy = (if truthy (par_policy r) then par_policy r else None),
      dar_reason = (if truthy (par_reason r) then par_reason r else None),
      dar_decidedAt = toISOString now\<rparr>"

definition guard_stop :: "exn \<Rightarrow> pep_call list \<Rightarrow> guard_result" where
  "guard_stop e trace = \<lparr>gr_verdict = Inl e, gr_trace = trace, gr_decision = None\<rparr>"

text \<open>Steps 5 to 7: the PDP call, the audit of every result, the enforcement.\<close>

definition guard_decide ::
  "(cerbos_request \<Rightarrow> cerbos_response result) \<Rightarrow> string \<Rightarrow> int \<Rightarrow> string \<Rightarrow> authorize_options \<Rightarrow>
   principal_context \<Rightarrow> loaded_resource \<Rightarrow> effective_principal \<Rightarrow> pep_call list \<Rightarrow> guard_result" where
  "guard_decide cerbos uuid now traceId options principalCtx resource effective trace =
     (let pdpPrincipal = \<lparr>pp_id = pc_principalId principalCtx, pp_roles = ep_roles effective,
                          pp_attr = (ep_attr effective)(''tenantId'' \<mapsto> JStr (pc_tenantId principalCtx))\<rparr>;
          pdpResource = \<lparr>pr_kind = az_resourceKind options, pr_id = lr_id resource,
                         pr_attr = lr_attr resource\<rparr>;
          trace = trace @ [PdpCheck
            \<lparr>cq_principal = pdpPrincipal\<lparr>pp_roles := cerbos_roles (pp_roles pdpPrincipal)\<rparr>,
             cq_resource = pdpResource, cq_scope = lr_scope resource, cq_actions = az_action options\<rparr>]
      in case pdp_check cerbos uuid pdpPrincipal pdpResource (az_action options) (lr_scope resource) of
           Inl e \<Rightarrow> guard_stop e trace
         | Inr decision \<Rightarrow>
             (let trace = trace @ map (\<lambda>r. AuditRecord
                    (emitAudit now (pcr_decisionId decision) traceId principalCtx pdpResource r))
                    (pcr_results decision)
              in case find (\<lambda>r. par_effect r = DENY) (pcr_results decision) of
                   Some denied \<Rightarrow>
                     guard_stop (ForbiddenError (denyMessage (az_resourceKind options) denied)
                       (Some (or_default (par_reason denied) (''no rule grants '' @ par_action denied)))
                       (Some (pcr_decisionId decision))) trace
                 | None \<Rightarrow> \<lparr>gr_verdict = Inr True, gr_trace = trace, gr_decision = Some decision\<rparr>))"

definition canActivate ::
  "(cerbos_request \<Rightarrow> cerbos_response result) \<Rightarrow>
   (string \<Rightarrow> string \<Rightarrow> string \<Rightarrow> bool \<Rightarrow> effective_principal result) \<Rightarrow>
   (principal_context \<Rightarrow> loaded_resource option result) \<Rightarrow> string \<Rightarrow> int \<Rightarrow> string option \<Rightarrow>
   authorize_options option \<Rightarrow> principal_context option \<Rightarrow> guard_result" where
  "canActivate cerbos pip loadResource uuid now traceId options subj =
     (case options of
        None \<Rightarrow> \<lparr>gr_verdict = Inr True, gr_trace = [], gr_decision = None\<rparr>
      | Some options \<Rightarrow>
      (case subj of
        None \<Rightarrow> guard_stop (HttpExn 401
                  (BodyObject (Some (MsgText ''No authenticated principal context on the request'')))
                  ''No authenticated principal context on the request'') []
      | Some principalCtx \<Rightarrow>
      (case loadResource principalCtx of
        Inl e \<Rightarrow> guard_stop e []
      | Inr None \<Rightarrow> guard_stop (HttpExn 404 (BodyObject (Some (MsgText ''Resource not found'')))
                      ''Resource not found'') []
      | Inr (Some resource) \<Rightarrow>
      (case enforceTenantGuardrail principalCtx resource of
        Inl e \<Rightarrow> guard_stop e []
      | Inr _ \<Rightarrow>
      (let scope = or_default (lr_scope resource) [];
           sensitive = or_default (az_sensitive options) False;
           call = PipResolve (pc_principalId principalCtx) (pc_tenantId principalCtx) scope sensitive
       in case pip (pc_principalId principalCtx) (pc_tenantId principalCtx) scope sensitive of
        Inl e \<Rightarrow> guard_stop e [call]
      | Inr effective \<Rightarrow>
          guard_decide cerbos uuid now (or_default traceId []) options principalCtx resource
            effective [call])))))"

section \<open>The verdict\<close>

text \<open>The request the guard puts to Cerbos for a principal the PIP has resolved.\<close>

definition guard_request ::
  "authorize_options \<Rightarrow> principal_context \<Rightarrow> loaded_resource \<Rightarrow> effective_principal \<Rightarrow> cerbos_request" where
  "guard_request options pc resource eff =
     \<lparr>cq_principal = \<lparr>pp_id = pc_principalId pc, pp_roles = cerbos_roles (ep_roles eff),
                      pp_attr = (ep_attr eff)(''tenantId'' \<mapsto> JStr (pc_tenantId pc))\<rparr>,
      cq_resource = \<lparr>pr_kind = az_resourceKind options, pr_id = lr_id resource, pr_attr = lr_attr resource\<rparr>,
      cq_scope = lr_scope resource, cq_actions = az_action options\<rparr>"

lemma guard_decide_verdict:
  "gr_verdict (guard_decide cerbos u now t options pc resource eff tr) =
   rbind (cerbos (guard_request options pc resource eff)) (\<lambda>response.
     case find (\<lambda>a. cr_isAllowed response a \<noteq> Some True) (az_action options) of
       None \<Rightarrow> Inr True
     | Some a \<Rightarrow> Inl (ForbiddenError (denyMessage (az_resourceKind options) (action_result response a))
         (par_reason (action_result response a)) (Some (''dec_'' @ u))))"
proof -
  have find: "find (\<lambda>r. par_effect r = DENY) (map (action_result response) as) =
      map_option (action_result response) (find (\<lambda>a. cr_isAllowed response a \<noteq> Some True) as)" for response as
    by (induction as) auto
  have reason: "Some (or_default (par_reason (action_result response a)) d) = par_reason (action_result response a)"
    if "cr_isAllowed response a \<noteq> Some True" for response a d
    using denied_has_reason[of response a] that by auto
  show ?thesis
    by (auto simp: guard_decide_def pdp_check_def guard_request_def guard_stop_def Let_def rbind_def find
        reason dest: find_SomeD split: sum.splits option.splits)
qed

lemma guard_decide_trace:
  "gr_trace (guard_decide cerbos u now t options pc resource eff tr) =
   tr @ PdpCheck (guard_request options pc resource eff) #
     (case cerbos (guard_request options pc resource eff) of
        Inl _ \<Rightarrow> []
      | Inr response \<Rightarrow> map (\<lambda>a. AuditRecord (emitAudit now (''dec_'' @ u) t pc
           (cq_resource (guard_request options pc resource eff)) (action_result response a))) (az_action options))"
  by (auto simp: guard_decide_def pdp_check_def guard_request_def guard_stop_def Let_def rbind_def
      split: sum.splits option.splits)

lemma canActivate_past_guardrail:
  assumes "enforceTenantGuardrail pc resource = Inr ()" and "load pc = Inr (Some resource)"
  shows "canActivate cerbos pip load u now t (Some options) (Some pc) =
     (case pip (pc_principalId pc) (pc_tenantId pc) (or_default (lr_scope resource) [])
             (or_default (az_sensitive options) False) of
        Inl e \<Rightarrow> guard_stop e [PipResolve (pc_principalId pc) (pc_tenantId pc)
                   (or_default (lr_scope resource) []) (or_default (az_sensitive options) False)]
      | Inr eff \<Rightarrow> guard_decide cerbos u now (or_default t []) options pc resource eff
                   [PipResolve (pc_principalId pc) (pc_tenantId pc)
                     (or_default (lr_scope resource) []) (or_default (az_sensitive options) False)])"
  using assms by (simp add: canActivate_def Let_def)

lemma guardrail_iff [simp]:
  "enforceTenantGuardrail pc resource = Inr u \<longleftrightarrow>
   lr_attr resource ''tenantId'' = Some (JStr (pc_tenantId pc))"
  by (simp add: enforceTenantGuardrail_def)


section \<open>Properties\<close>

lemma canActivate_no_resource:
  "load pc \<noteq> Inr (Some resource) \<or> lr_attr resource ''tenantId'' \<noteq> Some (JStr (pc_tenantId pc)) \<Longrightarrow>
   load pc = Inr (Some resource) \<or> (\<forall>r. load pc \<noteq> Inr (Some r)) \<Longrightarrow>
   gr_verdict (canActivate cerbos pip load u now t (Some options) (Some pc)) \<noteq> Inr True \<and>
   gr_trace (canActivate cerbos pip load u now t (Some options) (Some pc)) = []"
  by (auto simp: canActivate_def guard_stop_def enforceTenantGuardrail_def split: sum.splits option.splits)

text \<open>What an allowed request has passed, and the decision it carries on.\<close>

lemma guard_decide_allowed:
  assumes "gr_verdict (guard_decide cerbos u now t options pc resource eff tr) = Inr True"
  shows "\<exists>response d. cerbos (guard_request options pc resource eff) = Inr response \<and>
    (\<forall>a \<in> set (az_action options). cr_isAllowed response a = Some True) \<and>
    gr_decision (guard_decide cerbos u now t options pc resource eff tr) = Some d \<and> pcr_decisionId d = ''dec_'' @ u"
proof -
  have "\<exists>d. gr_decision (guard_decide cerbos u now t options pc resource eff tr) = Some d \<and> pcr_decisionId d = ''dec_'' @ u"
    using assms
    by (auto simp: guard_decide_def pdp_check_def guard_stop_def Let_def rbind_def split: sum.splits option.splits)
  moreover have "\<exists>response. cerbos (guard_request options pc resource eff) = Inr response \<and>
      (\<forall>a \<in> set (az_action options). cr_isAllowed response a = Some True)"
    using assms by (auto simp: guard_decide_verdict rbind_Inr_iff find_None_iff split: option.splits)
  ultimately show ?thesis by blast
qed

lemma canActivate_allowed:
  assumes "gr_verdict (canActivate cerbos pip load u now t (Some options) p) = Inr True"
  shows "\<exists>pc resource eff response d. p = Some pc \<and> load pc = Inr (Some resource) \<and>
    lr_attr resource ''tenantId'' = Some (JStr (pc_tenantId pc)) \<and>
    pip (pc_principalId pc) (pc_tenantId pc) (or_default (lr_scope resource) []) (or_default (az_sensitive options) False) = Inr eff \<and>
    cerbos (guard_request options pc resource eff) = Inr response \<and>
    (\<forall>a \<in> set (az_action options). cr_isAllowed response a = Some True) \<and>
    gr_decision (canActivate cerbos pip load u now t (Some options) p) = Some d \<and> pcr_decisionId d = ''dec_'' @ u"
proof -
  obtain pc resource where r: "p = Some pc" "load pc = Inr (Some resource)" "enforceTenantGuardrail pc resource = Inr ()"
    using assms by (auto simp: canActivate_def guard_stop_def split: option.splits sum.splits)
  note past = canActivate_past_guardrail[where load = load and pc = pc and resource = resource and cerbos = cerbos
      and pip = pip and u = u and now = now and t = t and options = options, OF r(3,2)]
  obtain eff where eff: "pip (pc_principalId pc) (pc_tenantId pc) (or_default (lr_scope resource) []) (or_default (az_sensitive options) False) = Inr eff"
    using assms unfolding r(1) past by (auto simp: guard_stop_def split: sum.splits)
  from assms have "gr_verdict (guard_decide cerbos u now (or_default t []) options pc resource eff
      [PipResolve (pc_principalId pc) (pc_tenantId pc) (or_default (lr_scope resource) []) (or_default (az_sensitive options) False)]) = Inr True"
    unfolding r(1) past eff by simp
  from guard_decide_allowed[OF this] obtain response d where q:
    "cerbos (guard_request options pc resource eff) = Inr response"
    "\<forall>a \<in> set (az_action options). cr_isAllowed response a = Some True"
    "gr_decision (guard_decide cerbos u now (or_default t []) options pc resource eff
      [PipResolve (pc_principalId pc) (pc_tenantId pc) (or_default (lr_scope resource) []) (or_default (az_sensitive options) False)]) = Some d"
    "pcr_decisionId d = ''dec_'' @ u" by blast
  have "gr_decision (canActivate cerbos pip load u now t (Some options) p) = Some d"
    unfolding r(1) past eff using q(3) by simp
  then show ?thesis using r(1,2) r(3)[unfolded guardrail_iff] eff q(1,2,4) by blast
qed

text \<open>The sample deployment of the witnesses: one resource, one role, a PDP that allows read.\<close>

definition sample_pc :: principal_context where
  "sample_pc = \<lparr>pc_principalId = ''u1'', pc_tenantId = ''t1'', pc_actorId = ''a1'', pc_sessionId = ''s1'',
                pc_platformAdmin = False\<rparr>"

definition sample_resource :: "string \<Rightarrow> loaded_resource" where
  "sample_resource tenant =
     \<lparr>lr_id = ''r1'', lr_attr = [''tenantId'' \<mapsto> JStr tenant], lr_scope = None\<rparr>"

definition sample_eff :: effective_principal where
  "sample_eff = \<lparr>ep_id = ''u1'', ep_tenantId = ''t1'', ep_roles = [''viewer''], ep_attr = Map.empty\<rparr>"

definition sample_cerbos :: "cerbos_request \<Rightarrow> cerbos_response result" where
  "sample_cerbos q =
     Inr \<lparr>cr_isAllowed = (\<lambda>a. Some (a = ''read'' \<and> ''viewer'' \<in> set (pp_roles (cq_principal q)))),
          cr_matchedPolicy = (\<lambda>a. None)\<rparr>"

definition sample_options :: "string list \<Rightarrow> authorize_options" where
  "sample_options as = \<lparr>az_action = as, az_resourceKind = ''doc'', az_sensitive = None\<rparr>"

text \<open>
  C5. The guard lets a request through if and only if there is a verified principal, the
  resource exists and belongs to the principal's tenant, the PIP resolves the principal,
  and Cerbos, asked with the principal's tenant from the token as its tenantId attribute,
  allows every action the route declares.  Every other outcome is an exception: an absent
  answer, an error of the PIP or of Cerbos, and an undefined verdict all deny.
\<close>

theorem guard_allows_iff_authorized:
  "gr_verdict (canActivate cerbos pip load u now t (Some options) p) = Inr True \<longleftrightarrow>
   (\<exists>pc resource eff response.
      p = Some pc \<and> load pc = Inr (Some resource) \<and>
      lr_attr resource ''tenantId'' = Some (JStr (pc_tenantId pc)) \<and>
      pip (pc_principalId pc) (pc_tenantId pc) (or_default (lr_scope resource) [])
        (or_default (az_sensitive options) False) = Inr eff \<and>
      pp_attr (cq_principal (guard_request options pc resource eff)) ''tenantId'' =
        Some (JStr (pc_tenantId pc)) \<and>
      cerbos (guard_request options pc resource eff) = Inr response \<and>
      (\<forall>a \<in> set (az_action options). cr_isAllowed response a = Some True))"
proof (cases p)
  case None
  then show ?thesis by (simp add: canActivate_def guard_stop_def)
next
  case (Some pc)
  show ?thesis
  proof (cases "\<exists>r. load pc = Inr (Some r) \<and> lr_attr r ''tenantId'' = Some (JStr (pc_tenantId pc))")
    case True
    then obtain r where r: "load pc = Inr (Some r)" "lr_attr r ''tenantId'' = Some (JStr (pc_tenantId pc))"
      by blast
    have "enforceTenantGuardrail pc r = Inr ()" using r(2) by simp
    note past = canActivate_past_guardrail[where load = load and pc = pc and resource = r and cerbos = cerbos
        and pip = pip and u = u and now = now and t = t and options = options, OF this r(1)]
    have tid: "pp_attr (cq_principal (guard_request options pc r eff)) ''tenantId'' = Some (JStr (pc_tenantId pc))"
      for eff by (simp add: guard_request_def)
    show ?thesis
      unfolding Some past
      using r tid
      by (auto simp: guard_decide_verdict guard_stop_def rbind_Inr_iff find_None_iff
          split: sum.splits option.splits dest: find_SomeD)
  next
    case False
    have "gr_verdict (canActivate cerbos pip load u now t (Some options) (Some pc)) \<noteq> Inr True"
      using False canActivate_no_resource[of load pc] by (cases "\<exists>r. load pc = Inr (Some r)") blast+
    then show ?thesis using Some False by blast
  qed
qed

lemma guard_allows_iff_authorized_witness:
  "gr_verdict (canActivate sample_cerbos (\<lambda>_ _ _ _. Inr sample_eff) (\<lambda>_. Inr (Some (sample_resource ''t1'')))
     ''1'' 0 None (Some (sample_options [''read''])) (Some sample_pc)) = Inr True"
  by (subst guard_allows_iff_authorized)
    (simp add: sample_cerbos_def sample_eff_def sample_resource_def sample_options_def sample_pc_def
      guard_request_def cerbos_roles_def)

text \<open>
  The tenant guardrail comes first: a resource of another tenant (or without a
  tenant) is refused with the stable reason, and neither the PIP nor Cerbos is asked and
  no decision is recorded, so that nothing about the foreign resource leaves the service.
\<close>

theorem cross_tenant_stops_before_pdp:
  assumes "load pc = Inr (Some resource)"
    and "lr_attr resource ''tenantId'' \<noteq> Some (JStr (pc_tenantId pc))"
  shows "canActivate cerbos pip load u now t (Some options) (Some pc) =
    \<lparr>gr_verdict = Inl (ForbiddenError ''Resource not in your tenant'' (Some ''tenant isolation guardrail'') None),
     gr_trace = [], gr_decision = None\<rparr>"
  using assms by (simp add: canActivate_def enforceTenantGuardrail_def guard_stop_def)

lemma cross_tenant_stops_before_pdp_witness:
  "gr_trace (canActivate sample_cerbos (\<lambda>_ _ _ _. Inr sample_eff) (\<lambda>_. Inr (Some (sample_resource ''t2'')))
     ''1'' 0 None (Some (sample_options [''read''])) (Some sample_pc)) = []"
  by (subst cross_tenant_stops_before_pdp[where resource = "sample_resource ''t2''"])
    (simp_all add: sample_resource_def sample_pc_def)

text \<open>
  Every decision is accounted for: once Cerbos has answered, whatever the verdict,
  the guard has recorded exactly one audit record per declared action, in order, with the
  effect Cerbos gave it, the tenant and the actor of the verified token, and the decision
  id; and a refusal names the first denied action, its reason and the same decision id.
\<close>

theorem decisions_are_audited:
  assumes "load pc = Inr (Some resource)"
    and "lr_attr resource ''tenantId'' = Some (JStr (pc_tenantId pc))"
    and "pip (pc_principalId pc) (pc_tenantId pc) (or_default (lr_scope resource) [])
           (or_default (az_sensitive options) False) = Inr eff"
    and "cerbos (guard_request options pc resource eff) = Inr response"
  shows "\<exists>records.
     [r. AuditRecord r \<leftarrow> gr_trace (canActivate cerbos pip load u now t (Some options) (Some pc))] = records \<and>
     map dar_action records = az_action options \<and>
     (\<forall>r \<in> set records. dar_tenantId r = pc_tenantId pc \<and> dar_actorId r = pc_actorId pc \<and>
        dar_decisionId r = ''dec_'' @ u \<and>
        (dar_effect r = ALLOW \<longleftrightarrow> cr_isAllowed response (dar_action r) = Some True)) \<and>
     (case find (\<lambda>a. cr_isAllowed response a \<noteq> Some True) (az_action options) of
        None \<Rightarrow> gr_verdict (canActivate cerbos pip load u now t (Some options) (Some pc)) = Inr True
      | Some a \<Rightarrow> gr_verdict (canActivate cerbos pip load u now t (Some options) (Some pc)) =
          Inl (ForbiddenError (denyMessage (az_resourceKind options) (action_result response a))
            (par_reason (action_result response a)) (Some (''dec_'' @ u))))"
proof -
  have "enforceTenantGuardrail pc resource = Inr ()" using assms(2) by simp
  note past = canActivate_past_guardrail[where load = load and pc = pc and resource = resource
      and cerbos = cerbos and pip = pip and u = u and now = now and t = t and options = options, OF this assms(1)]
  have collect: "[r. AuditRecord r \<leftarrow> map (\<lambda>a. AuditRecord (f a)) as] = map f as" for f as
    by (induction as) auto
  show ?thesis
    unfolding past assms(3) sum.case guard_decide_trace guard_decide_verdict assms(4)
    by (auto simp: collect emitAudit_def comp_def split: option.splits)
qed

lemma decisions_are_audited_witness:
  "\<exists>records.
     [r. AuditRecord r \<leftarrow> gr_trace (canActivate sample_cerbos (\<lambda>_ _ _ _. Inr sample_eff)
        (\<lambda>_. Inr (Some (sample_resource ''t1''))) ''1'' 0 None (Some (sample_options [''read'', ''delete'']))
        (Some sample_pc))] = records \<and> map dar_action records = [''read'', ''delete'']"
  using decisions_are_audited[where load = "\<lambda>_. Inr (Some (sample_resource ''t1''))" and pc = sample_pc
      and resource = "sample_resource ''t1''" and pip = "\<lambda>_ _ _ _. Inr sample_eff"
      and cerbos = sample_cerbos and options = "sample_options [''read'', ''delete'']" and u = "''1''"
      and now = 0 and t = None and eff = sample_eff, OF refl _ refl, unfolded sample_cerbos_def, OF _ refl]
  by (fold sample_cerbos_def) (auto simp: sample_resource_def sample_pc_def sample_options_def)

end
