(* ===== verification/OptimisticLock.thy ===== *)
theory OptimisticLock
  imports Kernel
begin

text \<open>
  The optimistic-concurrency guard shared by the repositories of authz-admin and expense
  (apps/*/src/shared/infrastructure/database/optimistic-persist.ts) and TypeORM's save of
  one row.  A table is the list of the rows a request can see under row-level security;
  \<^term>\<open>id_of\<close>, \<^term>\<open>ver_of\<close> and \<^term>\<open>set_ver\<close> are its id and version columns.
\<close>

definition version_mismatch :: exn where
  "version_mismatch = ConflictError ''Resource was modified by another request'' (Some ''version_mismatch'')"

definition guardOptimisticLock ::
  "('r \<Rightarrow> string) \<Rightarrow> ('r \<Rightarrow> int) \<Rightarrow> (int \<Rightarrow> 'r \<Rightarrow> 'r) \<Rightarrow> string \<Rightarrow> int \<Rightarrow> 'r list \<Rightarrow> 'r list result" where
  "guardOptimisticLock id_of ver_of set_ver i newVersion table =
     (if newVersion \<le> 1 then Inr table
      else
        (let previousVersion = newVersion - 1;
             matches = (\<lambda>r. id_of r = i \<and> ver_of r = previousVersion);
             affected = length (filter matches table);
             table' = map (\<lambda>r. if matches r then set_ver newVersion r else r) table
         in if affected = 1 then Inr table'
            else if list_ex (\<lambda>r. id_of r = i) table' then Inl version_mismatch
            else Inr table'))"

text \<open>What the driver throws when a unique index rejects a row.\<close>

definition unique_violation :: "string \<Rightarrow> exn" where
  "unique_violation ix = Crash (''duplicate key value violates unique constraint '' @ ix)"

text \<open>save: the row with the same primary key is replaced, a new row is inserted.\<close>

definition save_row :: "('r \<Rightarrow> string) \<Rightarrow> 'r \<Rightarrow> 'r list \<Rightarrow> 'r list" where
  "save_row id_of r table =
     (if list_ex (\<lambda>x. id_of x = id_of r) table
      then map (\<lambda>x. if id_of x = id_of r then r else x) table
      else table @ [r])"

text \<open>The If-Match check of the use cases: an expected version must be the loaded one.\<close>

definition check_expected :: "string \<Rightarrow> int option \<Rightarrow> int \<Rightarrow> unit result" where
  "check_expected what expected version =
     ensure (\<not> (expected \<noteq> None \<and> expected \<noteq> Some version))
       (ConflictError (what @ '' was modified by another request'') (Some ''version_mismatch''))"

lemma check_expected_ok [simp]:
  "check_expected what expected version = Inr u \<longleftrightarrow> expected = None \<or> expected = Some version"
  by (auto simp: check_expected_def)

text \<open>A text that is too long for its column.\<close>

definition value_too_long :: exn where
  "value_too_long = Crash ''QueryFailedError: value too long for type character varying''"

text \<open>
  The interface of a versioned table: setting the version is visible in the version column
  only.  The guard and the save together are a compare-and-set on the version.
\<close>

locale versioned_table =
  fixes id_of :: "'r \<Rightarrow> string" and ver_of :: "'r \<Rightarrow> int" and set_ver :: "int \<Rightarrow> 'r \<Rightarrow> 'r"
  assumes id_set [simp]: "id_of (set_ver v r) = id_of r"
    and ver_set [simp]: "ver_of (set_ver v r) = v"
begin

lemma guard_stale:
  assumes "1 < v" and "r \<in> set table" and "id_of r = i"
    and "\<And>x. x \<in> set table \<Longrightarrow> id_of x = i \<Longrightarrow> ver_of x \<noteq> v - 1"
  shows "guardOptimisticLock id_of ver_of set_ver i v table = Inl version_mismatch"
proof -
  have "filter (\<lambda>r. id_of r = i \<and> ver_of r = v - 1) table = []"
    using assms(4) by (auto simp: filter_empty_conv)
  moreover have "map (\<lambda>r. if id_of r = i \<and> ver_of r = v - 1 then set_ver v r else r) table = table"
    using assms(4) by (intro map_idI) auto
  moreover have "list_ex (\<lambda>r. id_of r = i) table" using assms(2,3) by (auto simp: list_ex_iff)
  ultimately show ?thesis using assms(1) by (simp add: guardOptimisticLock_def Let_def)
qed

lemma guard_ids:
  "guardOptimisticLock id_of ver_of set_ver i v table = Inr table' \<Longrightarrow> map id_of table' = map id_of table"
  by (auto simp: guardOptimisticLock_def Let_def split: if_splits)

lemma guard_current:
  assumes "guardOptimisticLock id_of ver_of set_ver i v table = Inr table'"
    and "1 < v" and "r \<in> set table" and "id_of r = i" and "distinct (map id_of table)"
  shows "ver_of r = v - 1"
proof (rule ccontr)
  assume ne: "ver_of r \<noteq> v - 1"
  have "x = r" if "x \<in> set table" "id_of x = i" for x
    using assms(3-5) that by (metis distinct_map inj_onD)
  then show False using guard_stale[OF assms(2-4)] ne assms(1) by auto
qed

lemma save_ids:
  "map id_of (save_row id_of r table) =
   (if id_of r \<in> id_of ` set table then map id_of table else map id_of table @ [id_of r])"
proof -
  have "list_ex (\<lambda>x. id_of x = id_of r) table \<longleftrightarrow> id_of r \<in> id_of ` set table"
    by (auto simp: list_ex_iff image_iff eq_commute)
  then show ?thesis by (auto simp: save_row_def)
qed

text \<open>
  The table after a successful guard and save: the new row stands in the place of the row it
  was read from, or at the end.
\<close>

lemma guard_save_set:
  assumes "guardOptimisticLock id_of ver_of set_ver (id_of r) (ver_of r) table = Inr table'"
    and "x \<in> set (save_row id_of r table')"
  shows "x = r \<or> x \<in> set table \<and> id_of x \<noteq> id_of r"
proof -
  have "x = r \<or> x \<in> set table' \<and> id_of x \<noteq> id_of r"
    using assms(2) by (auto simp: save_row_def list_ex_iff split: if_splits)
  moreover have "x \<in> set table" if "x \<in> set table'" "id_of x \<noteq> id_of r"
    using assms(1) that by (auto simp: guardOptimisticLock_def Let_def split: if_splits)
  ultimately show ?thesis by blast
qed

lemma guard_save_keeps:
  assumes "guardOptimisticLock id_of ver_of set_ver (id_of r) (ver_of r) table = Inr table'"
    and "x \<in> set table" and "id_of x \<noteq> id_of r"
  shows "x \<in> set (save_row id_of r table')"
proof -
  have "x \<in> set table'" using assms by (auto simp: guardOptimisticLock_def Let_def split: if_splits)
  then show ?thesis using assms(3) by (auto simp: save_row_def list_ex_iff)
qed

lemma save_row_in: "r \<in> set (save_row id_of r table)"
  by (auto simp: save_row_def list_ex_iff image_iff)

lemma guard_save_ids:
  assumes "guardOptimisticLock id_of ver_of set_ver (id_of r) (ver_of r) table = Inr table'"
    and "distinct (map id_of table)"
  shows "distinct (map id_of (save_row id_of r table'))"
  using assms guard_ids[OF assms(1)] save_ids[of r table'] by (auto simp flip: set_map)

text \<open>A column that no other row shares with the saved one stays unique.\<close>

lemma guard_save_unique:
  assumes g: "guardOptimisticLock id_of ver_of set_ver (id_of r) (ver_of r) table = Inr table'"
    and key: "\<And>v x. key_of (set_ver v x) = key_of x"
    and d: "distinct (map id_of table)" "distinct (map key_of table)"
    and other: "\<And>x. x \<in> set table' \<Longrightarrow> id_of x \<noteq> id_of r \<Longrightarrow> key_of x \<noteq> key_of r"
  shows "distinct (map key_of (save_row id_of r table'))"
proof -
  have k: "map key_of table' = map key_of table"
    using g key by (auto simp: guardOptimisticLock_def Let_def split: if_splits)
  have i: "distinct (map id_of table')" using guard_ids[OF g] d(1) by simp
  have kd: "distinct (map key_of table')" using k d(2) by simp
  show ?thesis
  proof (cases "list_ex (\<lambda>x. id_of x = id_of r) table'")
    case True
    have "distinct (map key_of (map (\<lambda>x. if id_of x = id_of r then r else x) table'))"
      using kd i other by (induction table') (fastforce simp: image_iff)+
    then show ?thesis using True by (simp add: save_row_def)
  next
    case False
    then have "key_of r \<notin> key_of ` set table'" using other by (force simp: list_ex_iff)
    then show ?thesis using False kd by (simp add: save_row_def)
  qed
qed

lemma guard_save_map:
  assumes "guardOptimisticLock id_of ver_of set_ver (id_of r) (ver_of r) table = Inr table'"
    and "id_of r \<in> id_of ` set table"
  shows "save_row id_of r table' = map (\<lambda>x. if id_of x = id_of r then r else x) table"
proof -
  have "set (map id_of table') = set (map id_of table)" using guard_ids[OF assms(1)] by simp
  then have "id_of r \<in> id_of ` set table'" using assms(2) by simp
  then have "list_ex (\<lambda>x. id_of x = id_of r) table'" unfolding list_ex_iff by (metis imageE)
  moreover have "map (\<lambda>x. if id_of x = id_of r then r else x) table' =
      map (\<lambda>x. if id_of x = id_of r then r else x) table"
    using assms(1) by (auto simp: guardOptimisticLock_def Let_def split: if_splits)
  ultimately show ?thesis by (simp add: save_row_def)
qed

text \<open>
  Two writers that both read version v and both write v + 1: after the first write the
  second is refused, so no update is lost.
\<close>

lemma no_lost_update:
  assumes "guardOptimisticLock id_of ver_of set_ver (id_of a) (ver_of a) table = Inr table1"
    and "1 < ver_of b" and "id_of b = id_of a" and "ver_of b = ver_of a"
    and "distinct (map id_of table)"
  shows "guardOptimisticLock id_of ver_of set_ver (id_of b) (ver_of b) (save_row id_of a table1) =
         Inl version_mismatch"
proof (rule guard_stale)
  have ids: "map id_of table1 = map id_of table" using guard_ids[OF assms(1)] .
  show "a \<in> set (save_row id_of a table1)"
    by (auto simp: save_row_def list_ex_iff image_iff)
  show "id_of a = id_of b" using assms(3) by simp
  fix x assume x: "x \<in> set (save_row id_of a table1)" "id_of x = id_of b"
  then have "x = a" using assms(3) by (auto simp: save_row_def list_ex_iff split: if_splits)
  then show "ver_of x \<noteq> ver_of b - 1" using assms(4) by simp
qed (rule assms(2))

end

end
