(* ===== verification/TenantDb.thy ===== *)
theory TenantDb
  imports OptimisticLock IdentityToken
begin

text \<open>
  Tenant isolation in the database: the guards that bind the tenant of a request
  (apps/authz-admin/src/shared/presentation, apps/expense/src/shared/presentation,
  apps/authz-admin/src/modules/principal/presentation), the interceptor that runs a handler
  in a transaction of that tenant, the row-level security policies of the migrations, and
  the check at boot that the database role does not bypass them
  (apps/*/src/shared/infrastructure/database).  \<^term>\<open>pg_uuid\<close> is how Postgres reads a
  text as a uuid; stored uuids are in its canonical form.
\<close>

section \<open>The tenant of a request\<close>

record tenant_store =
  ts_tenantId :: string
  ts_isPlatformAdmin :: bool
  ts_actorId :: "string option"

definition unauthorized :: "string \<Rightarrow> exn" where
  "unauthorized m = HttpExn 401 (BodyObject (Some (MsgText m))) m"

definition forbidden :: "string \<Rightarrow> exn" where
  "forbidden m = HttpExn 403 (BodyObject (Some (MsgText m))) m"

text \<open>The guard of the expense service: it binds the tenant of the verified principal.\<close>

definition identityTenantContextGuard ::
  "(string \<Rightarrow> bool) \<Rightarrow> principal_context option \<Rightarrow> string result" where
  "identityTenantContextGuard is_uuid p =
     (case p of
        None \<Rightarrow> Inl (unauthorized ''No authenticated principal context on the request'')
      | Some pc \<Rightarrow>
          if \<not> is_uuid (pc_tenantId pc)
          then Inl (unauthorized ''Internal identity token carries a non-UUID tenant id'')
          else Inr (pc_tenantId pc))"

text \<open>The guard of the administration service: tenant, admin flag and actor of the token.\<close>

definition tenantContextGuard ::
  "(string \<Rightarrow> bool) \<Rightarrow> principal_context option \<Rightarrow> tenant_store result" where
  "tenantContextGuard is_uuid p =
     (case p of
        None \<Rightarrow> Inl (unauthorized ''No authenticated principal context on the request'')
      | Some pc \<Rightarrow>
          if \<not> is_uuid (pc_tenantId pc)
          then Inl (unauthorized ''Internal identity token carries a non-UUID tenant id'')
          else Inr \<lparr>ts_tenantId = pc_tenantId pc, ts_isPlatformAdmin = pc_platformAdmin pc,
                    ts_actorId = Some (pc_actorId pc)\<rparr>)"

text \<open>The guard of the PIP endpoint reads the query parameter, the first one if it is repeated.\<close>

definition pipTenantContextGuard :: "(string \<Rightarrow> bool) \<Rightarrow> string list \<Rightarrow> tenant_store result" where
  "pipTenantContextGuard is_uuid tenantIds =
     (let value = (case tenantIds of [] \<Rightarrow> None | v # _ \<Rightarrow> Some v) in
      case value of
        None \<Rightarrow> Inl (unauthorized
          ''Missing tenantId query parameter (placeholder for the verified service-token tid claim)'')
      | Some v \<Rightarrow>
          if length (js_trim v) = 0 then Inl (unauthorized
            ''Missing tenantId query parameter (placeholder for the verified service-token tid claim)'')
          else if \<not> is_uuid v then Inl (unauthorized ''tenantId must be a valid UUID'')
          else Inr \<lparr>ts_tenantId = v, ts_isPlatformAdmin = False, ts_actorId = None\<rparr>)"

text \<open>The context service: no store means no admin and no actor.\<close>

definition isPlatformAdmin :: "tenant_store option \<Rightarrow> bool" where
  "isPlatformAdmin store = (case store of None \<Rightarrow> False | Some s \<Rightarrow> ts_isPlatformAdmin s)"

definition getActorId :: "tenant_store option \<Rightarrow> string option" where
  "getActorId store = (case store of None \<Rightarrow> None | Some s \<Rightarrow> ts_actorId s)"

definition getTenantId :: "tenant_store option \<Rightarrow> string result" where
  "getTenantId store =
     (case store of None \<Rightarrow> Inl (Crash ''No tenant context bound to the current request'')
      | Some s \<Rightarrow> Inr (ts_tenantId s))"

definition platformAdminGuard :: "tenant_store option \<Rightarrow> unit result" where
  "platformAdminGuard store =
     (if \<not> isPlatformAdmin store then Inl (forbidden ''Platform-admin scope required for this operation'')
      else Inr ())"

section \<open>The role of the connection\<close>

record role_privileges =
  rp_is_superuser :: string
  rp_rolbypassrls :: bool

text \<open>The check at boot, on the rows of pg_roles for the current user.\<close>

definition assertRuntimeRoleEnforcesRls :: "role_privileges list \<Rightarrow> unit result" where
  "assertRuntimeRoleEnforcesRls rows =
     (case rows of
        [] \<Rightarrow> Inl (Crash ''RLS safety check failed: could not read privileges for the runtime DB role'')
      | row # _ \<Rightarrow>
          (let isSuperuser = (rp_is_superuser row = ''on''); bypassesRls = rp_rolbypassrls row in
           if isSuperuser \<or> bypassesRls
           then Inl (Crash (''RLS safety check failed: the runtime DB role '' @
                  (if isSuperuser then ''is a SUPERUSER'' else ''has BYPASSRLS'')))
           else Inr ()))"

text \<open>Postgres applies no policy to a superuser or to a role with BYPASSRLS.\<close>

definition bypasses_rls :: "role_privileges \<Rightarrow> bool" where
  "bypasses_rls r \<longleftrightarrow> rp_is_superuser r = ''on'' \<or> rp_rolbypassrls r"

section \<open>Row-level security\<close>

text \<open>
  The policy tenant_id = current_setting('app.current_tenant', true)::uuid, for reading and
  as the check of what is written.  A setting that was never made is null, which equals no
  tenant; a setting that is not a uuid is an error of the cast.
\<close>

definition current_tenant :: "(string \<Rightarrow> string option) \<Rightarrow> string option \<Rightarrow> string option result" where
  "current_tenant pg_uuid setting =
     (case setting of
        None \<Rightarrow> Inr None
      | Some s \<Rightarrow>
          (case pg_uuid s of
             None \<Rightarrow> Inl (Crash ''invalid input syntax for type uuid'')
           | Some u \<Rightarrow> Inr (Some u)))"

definition rls_violation :: exn where
  "rls_violation = Crash ''new row violates row-level security policy''"

text \<open>
  One statement under the policy: \<^term>\<open>fn\<close> is what it does to the rows it can see.  The
  rows it cannot see stay, except that a new row must not reuse one of their primary keys.
\<close>

definition rls_statement ::
  "bool \<Rightarrow> (string \<Rightarrow> string option) \<Rightarrow> ('r \<Rightarrow> string) \<Rightarrow> ('r \<Rightarrow> string) \<Rightarrow> string option \<Rightarrow>
   ('r list \<Rightarrow> ('v \<times> 'r list) result) \<Rightarrow> 'r list \<Rightarrow> ('v \<times> 'r list) result" where
  "rls_statement bypass pg_uuid id_of tenant_of setting fn rows =
     (if bypass then fn rows
      else
        rbind (current_tenant pg_uuid setting) (\<lambda>tenant.
        let visible = (\<lambda>r. tenant = Some (tenant_of r));
            hidden = filter (\<lambda>r. \<not> visible r) rows in
        rbind (fn (filter visible rows)) (\<lambda>(v, rows').
          if \<not> list_all visible rows' then Inl rls_violation
          else if list_ex (\<lambda>r. id_of r \<in> id_of ` set hidden) rows' then Inl (unique_violation ''primary key'')
          else Inr (v, hidden @ rows'))))"

text \<open>
  A request handler as the database sees it: statements, each chosen by the results of
  those before it, that ends with a result or an exception.
\<close>

datatype ('r, 'v, 'x) handler =
    Return 'x
  | Throw exn
  | Query "'r list \<Rightarrow> ('v \<times> 'r list) result" "'v \<Rightarrow> ('r, 'v, 'x) handler"

text \<open>The result and the table after the last statement that succeeded.\<close>

primrec run_handler ::
  "('r, 'v, 'x) handler \<Rightarrow> bool \<Rightarrow> (string \<Rightarrow> string option) \<Rightarrow> ('r \<Rightarrow> string) \<Rightarrow> ('r \<Rightarrow> string) \<Rightarrow> string option \<Rightarrow>
   'r list \<Rightarrow> 'x result \<times> 'r list" where
  "run_handler (Return x) = (\<lambda>bypass pg_uuid id_of tenant_of setting rows. (Inr x, rows))"
| "run_handler (Throw e) = (\<lambda>bypass pg_uuid id_of tenant_of setting rows. (Inl e, rows))"
| "run_handler (Query fn k) = (\<lambda>bypass pg_uuid id_of tenant_of setting rows.
     case rls_statement bypass pg_uuid id_of tenant_of setting fn rows of
       Inl e \<Rightarrow> (Inl e, rows)
     | Inr (v, rows') \<Rightarrow> run_handler (k v) bypass pg_uuid id_of tenant_of setting rows')"

text \<open>A transaction under set_config of a tenant: what throws is rolled back.\<close>

definition runWithRls ::
  "bool \<Rightarrow> (string \<Rightarrow> string option) \<Rightarrow> ('r \<Rightarrow> string) \<Rightarrow> ('r \<Rightarrow> string) \<Rightarrow> string option \<Rightarrow>
   ('r, 'v, 'x) handler \<Rightarrow> 'r list \<Rightarrow> 'x result \<times> 'r list" where
  "runWithRls bypass pg_uuid id_of tenant_of setting h rows =
     (case run_handler h bypass pg_uuid id_of tenant_of setting rows of
        (Inl e, _) \<Rightarrow> (Inl e, rows)
      | (Inr x, rows') \<Rightarrow> (Inr x, rows'))"

text \<open>
  The interceptor: without a tenant, or with the database disabled, the handler runs as it
  is, every statement on its own.
\<close>

definition intercept ::
  "bool \<Rightarrow> bool \<Rightarrow> (string \<Rightarrow> string option) \<Rightarrow> ('r \<Rightarrow> string) \<Rightarrow> ('r \<Rightarrow> string) \<Rightarrow> string option \<Rightarrow>
   ('r, 'v, 'x) handler \<Rightarrow> 'r list \<Rightarrow> 'x result \<times> 'r list" where
  "intercept db_enabled bypass pg_uuid id_of tenant_of store h rows =
     (if store = None \<or> \<not> db_enabled
      then run_handler h bypass pg_uuid id_of tenant_of None rows
      else runWithRls bypass pg_uuid id_of tenant_of store h rows)"

text \<open>
  The repository of the expense service: in the transaction of the request when one is
  bound, else in one of its own, scoped when there is a tenant.
\<close>

definition withTenantManager ::
  "bool \<Rightarrow> (string \<Rightarrow> string option) \<Rightarrow> ('r \<Rightarrow> string) \<Rightarrow> ('r \<Rightarrow> string) \<Rightarrow> string option \<Rightarrow> string option \<Rightarrow>
   ('r, 'v, 'x) handler \<Rightarrow> 'r list \<Rightarrow> 'x result \<times> 'r list" where
  "withTenantManager bypass pg_uuid id_of tenant_of runner tenantId h rows =
     (case runner of
        Some setting \<Rightarrow> run_handler h bypass pg_uuid id_of tenant_of (Some setting) rows
      | None \<Rightarrow> runWithRls bypass pg_uuid id_of tenant_of (if truthy tenantId then tenantId else None) h rows)"

text \<open>A request to a tenant-scoped route of either service: the guard, then the interceptor.\<close>

definition tenant_route ::
  "(string \<Rightarrow> bool) \<Rightarrow> bool \<Rightarrow> bool \<Rightarrow> (string \<Rightarrow> string option) \<Rightarrow> ('r \<Rightarrow> string) \<Rightarrow> ('r \<Rightarrow> string) \<Rightarrow>
   principal_context option \<Rightarrow> (tenant_store \<Rightarrow> ('r, 'v, 'x) handler) \<Rightarrow> 'r list \<Rightarrow> 'x result \<times> 'r list" where
  "tenant_route is_uuid db_enabled bypass pg_uuid id_of tenant_of p h rows =
     (case tenantContextGuard is_uuid p of
        Inl e \<Rightarrow> (Inl e, rows)
      | Inr store \<Rightarrow> intercept db_enabled bypass pg_uuid id_of tenant_of (Some (ts_tenantId store)) (h store) rows)"

section \<open>Noninterference\<close>

text \<open>
  Two tables that look the same to a tenant: its own rows are the same, in the same order,
  and the other rows have the same primary keys.
\<close>

definition agree :: "('r \<Rightarrow> string) \<Rightarrow> ('r \<Rightarrow> string) \<Rightarrow> string \<Rightarrow> 'r list \<Rightarrow> 'r list \<Rightarrow> bool" where
  "agree id_of tenant_of t rows1 rows2 \<longleftrightarrow>
     filter (\<lambda>r. tenant_of r = t) rows1 = filter (\<lambda>r. tenant_of r = t) rows2 \<and>
     id_of ` set (filter (\<lambda>r. tenant_of r \<noteq> t) rows1) = id_of ` set (filter (\<lambda>r. tenant_of r \<noteq> t) rows2)"

definition others :: "('r \<Rightarrow> string) \<Rightarrow> string \<Rightarrow> 'r list \<Rightarrow> 'r list" where
  "others tenant_of t rows = filter (\<lambda>r. tenant_of r \<noteq> t) rows"

lemma own_others [simp]: "filter (\<lambda>r. tenant_of r = t) (others tenant_of t rows) = []"
  by (simp add: others_def filter_empty_conv)

lemma agree_others: "agree id_of tenant_of t rows1 rows2 \<Longrightarrow>
  id_of ` set (others tenant_of t rows1) = id_of ` set (others tenant_of t rows2)"
  by (simp add: agree_def others_def)

lemma rls_statement_scoped:
  assumes "pg_uuid s = Some t"
  shows "rls_statement False pg_uuid id_of tenant_of (Some s) fn rows =
    rbind (fn (filter (\<lambda>r. tenant_of r = t) rows)) (\<lambda>(v, rows').
      if \<not> list_all (\<lambda>r. tenant_of r = t) rows' then Inl rls_violation
      else if list_ex (\<lambda>r. id_of r \<in> id_of ` set (others tenant_of t rows)) rows'
      then Inl (unique_violation ''primary key'')
      else Inr (v, others tenant_of t rows @ rows'))"
proof -
  have "(\<lambda>r. Some t = Some (tenant_of r)) = (\<lambda>r. tenant_of r = t)"
    "(\<lambda>r. \<not> Some t = Some (tenant_of r)) = (\<lambda>r. tenant_of r \<noteq> t)" by auto
  then show ?thesis using assms unfolding others_def
    by (simp only: rls_statement_def current_tenant_def Let_def option.case rbind_simps if_False)
qed

lemma rls_statement_others:
  assumes "pg_uuid s = Some t"
    and "rls_statement False pg_uuid id_of tenant_of (Some s) fn rows = Inr (v, rows')"
  shows "others tenant_of t rows' = others tenant_of t rows"
  using assms(2)
  by (auto simp: rls_statement_scoped[where pg_uuid = pg_uuid and s = s, OF assms(1)] rbind_Inr_iff others_def list_all_iff split: if_splits)

lemma rls_statement_agree:
  assumes u: "pg_uuid s = Some t" and ag: "agree id_of tenant_of t rows1 rows2"
  shows "(case rls_statement False pg_uuid id_of tenant_of (Some s) fn rows1 of
      Inl e \<Rightarrow> rls_statement False pg_uuid id_of tenant_of (Some s) fn rows2 = Inl e
    | Inr (v, rows1') \<Rightarrow> \<exists>rows2'. rls_statement False pg_uuid id_of tenant_of (Some s) fn rows2 = Inr (v, rows2') \<and>
        agree id_of tenant_of t rows1' rows2')"
proof -
  have same: "filter (\<lambda>r. tenant_of r = t) rows1 = filter (\<lambda>r. tenant_of r = t) rows2" using ag by (simp add: agree_def)
  note ids = agree_others[OF ag]
  have ag': "agree id_of tenant_of t (others tenant_of t rows1 @ rows') (others tenant_of t rows2 @ rows')"
    if "list_all (\<lambda>r. tenant_of r = t) rows'" for rows'
  proof -
    have "filter (\<lambda>r. tenant_of r = t) (others tenant_of t xs @ rows') = rows'"
      "filter (\<lambda>r. tenant_of r \<noteq> t) (others tenant_of t xs @ rows') = others tenant_of t xs" for xs
      using that by (auto simp: others_def list_all_iff filter_empty_conv intro!: filter_True)
    then show ?thesis using ids by (simp add: agree_def)
  qed
  show ?thesis
    unfolding rls_statement_scoped[where pg_uuid = pg_uuid and s = s, OF u] same ids
    by (auto simp: rbind_def ag' split: sum.splits prod.splits)
qed

text \<open>
  Whatever a handler does under the policy of one tenant, it returns the same on tables
  that look the same to that tenant, keeps them so, and leaves the rows of the others alone.
\<close>

lemma handler_isolated:
  assumes "pg_uuid s = Some t" and "agree id_of tenant_of t rows1 rows2"
  shows "fst (run_handler h False pg_uuid id_of tenant_of (Some s) rows1) =
      fst (run_handler h False pg_uuid id_of tenant_of (Some s) rows2) \<and>
    agree id_of tenant_of t (snd (run_handler h False pg_uuid id_of tenant_of (Some s) rows1))
      (snd (run_handler h False pg_uuid id_of tenant_of (Some s) rows2)) \<and>
    others tenant_of t (snd (run_handler h False pg_uuid id_of tenant_of (Some s) rows1)) = others tenant_of t rows1"
  using assms(2)
proof (induction h arbitrary: rows1 rows2)
  case (Query fn k)
  note st = rls_statement_agree[where pg_uuid = pg_uuid and s = s and fn = fn, OF assms(1) Query.prems]
  show ?case
  proof (cases "rls_statement False pg_uuid id_of tenant_of (Some s) fn rows1")
    case (Inl e)
    then show ?thesis using st Query.prems by simp
  next
    case (Inr x)
    obtain v rows1' where x: "x = (v, rows1')" by (cases x)
    obtain rows2' where r2: "rls_statement False pg_uuid id_of tenant_of (Some s) fn rows2 = Inr (v, rows2')"
      "agree id_of tenant_of t rows1' rows2'" using st by (auto simp: Inr x)
    note o1 = rls_statement_others[where pg_uuid = pg_uuid and s = s, OF assms(1) Inr[unfolded x]]
    show ?thesis using Query.IH[OF rangeI r2(2), of v] r2(1) o1 by (simp add: Inr x)
  qed
qed simp_all

end
