(* ===== verification/OrgPath.thy ===== *)
theory OrgPath
  imports Kernel
begin

text \<open>
  Materialised organisation paths (apps/authz-admin/src/modules/org-unit/domain/
  value-objects/org-path.vo.ts): one to eight dot-separated segments in lower kebab case.
\<close>

definition MAX_DEPTH :: nat where "MAX_DEPTH = 8"

text \<open>The expression of one segment: runs of lower-case letters and digits joined by single hyphens.\<close>

definition is_kebab :: "string \<Rightarrow> bool" where
  "is_kebab s \<longleftrightarrow> list_all (\<lambda>p. p \<noteq> [] \<and> list_all is_lower_alnum p) (split_on (CHR ''-'') s)"

definition segments :: "string \<Rightarrow> string list" where
  "segments path = split_on (CHR ''.'') path"

definition depth :: "string \<Rightarrow> nat" where
  "depth path = length (segments path)"

definition leaf :: "string \<Rightarrow> string" where
  "leaf path = last (segments path)"

fun check_segments :: "string list \<Rightarrow> unit result" where
  "check_segments [] = Inr ()"
| "check_segments (s # ss) =
     (if \<not> is_kebab s
      then Inl (ValidationError (''path segment \"'' @ s @ ''\" must be lower-kebab-case'')
             (Some ''org_path_segment_invalid''))
      else check_segments ss)"

definition orgPath_fromString :: "string \<Rightarrow> string result" where
  "orgPath_fromString value =
     rbind (againstEmpty (Some value) ''path'') (\<lambda>_.
     if length (segments value) > MAX_DEPTH
     then Inl (ValidationError (''path depth must be <= '' @ nat_str MAX_DEPTH) (Some ''org_path_too_deep''))
     else rbind (check_segments (segments value)) (\<lambda>_. Inr value))"

definition orgPath_child :: "string \<Rightarrow> string \<Rightarrow> string result" where
  "orgPath_child path segment = orgPath_fromString (path @ CHR ''.'' # segment)"

definition isAncestorOf :: "string \<Rightarrow> string \<Rightarrow> bool" where
  "isAncestorOf path other \<longleftrightarrow> other = path \<or> starts_with other (path @ ''.'')"

text \<open>A well-formed path.\<close>

definition valid_path :: "string \<Rightarrow> bool" where
  "valid_path p \<longleftrightarrow> length (segments p) \<le> 8 \<and> list_all is_kebab (segments p)"

lemma segments_ne [simp]: "segments p \<noteq> []"
  by (simp add: segments_def)

lemma segments_inj: "segments p = segments q \<longleftrightarrow> p = q"
  by (auto simp: segments_def dest: split_on_inj)

lemma segments_append: "segments (p @ CHR ''.'' # q) = segments p @ segments q"
  by (simp add: segments_def split_on_append_sep)

lemma segments_single: "CHR ''.'' \<notin> set s \<Longrightarrow> segments s = [s]"
  by (simp add: segments_def split_on_no_sep)

lemma kebab_chars: "is_kebab s \<Longrightarrow> c \<in> set s \<Longrightarrow> is_lower_alnum c \<or> c = CHR ''-''"
  using split_on_chars[of c s "CHR ''-''"] by (force simp: is_kebab_def list_all_iff)

lemma kebab_no_dot: "is_kebab s \<Longrightarrow> CHR ''.'' \<notin> set s"
  using kebab_chars[of s "CHR ''.''"] by (auto simp: char_class)

lemma kebab_ne: "is_kebab s \<Longrightarrow> s \<noteq> []"
  by (auto simp: is_kebab_def)

lemma kebab_no_ws: "is_kebab s \<Longrightarrow> c \<in> set s \<Longrightarrow> \<not> is_ws c"
  using kebab_chars[of s c] by (auto simp: char_class is_ws_def Let_def)

lemma check_segments_ok [simp]: "check_segments ss = Inr u \<longleftrightarrow> list_all is_kebab ss"
  by (induction ss) auto

lemma valid_path_not_blank: "list_all is_kebab (segments p) \<Longrightarrow> js_trim p \<noteq> []"
proof
  assume k: "list_all is_kebab (segments p)" and "js_trim p = []"
  then have ws: "\<forall>c \<in> set p. is_ws c" by (simp add: js_trim_Nil_iff)
  then have "CHR ''.'' \<notin> set p" by (auto simp: is_ws_def)
  then have "is_kebab p" using k by (simp add: segments_single)
  then show False using ws kebab_ne kebab_no_ws by (metis list.set_intros(1) neq_Nil_conv)
qed

lemma orgPath_fromString_ok [simp]: "orgPath_fromString p = Inr q \<longleftrightarrow> q = p \<and> valid_path p"
  using valid_path_not_blank[of p]
  by (auto simp: orgPath_fromString_def rbind_Inr_iff valid_path_def MAX_DEPTH_def)

lemma orgPath_child_ok [simp]:
  "orgPath_child p s = Inr q \<longleftrightarrow> q = p @ CHR ''.'' # s \<and> valid_path (p @ CHR ''.'' # s)"
  by (simp add: orgPath_child_def)

lemma leaf_kebab: "valid_path p \<Longrightarrow> is_kebab (leaf p)"
  by (simp add: valid_path_def leaf_def list_all_iff)

text \<open>The textual tests on paths are the prefix order on their segments.\<close>

lemma segments_strict_prefix:
  "starts_with q (p @ ''.'') \<longleftrightarrow> (\<exists>r. r \<noteq> [] \<and> segments q = segments p @ r)"
  unfolding segments_def by (rule split_strict_prefix)

lemma isAncestorOf_prefix: "isAncestorOf p q \<longleftrightarrow> prefix (segments p) (segments q)"
  unfolding isAncestorOf_def segments_def by (rule split_prefix)

end
