(* ===== verification/OrgUnit.thy ===== *)
theory OrgUnit
  imports OrgPath OptimisticLock Keyset
begin

text \<open>
  The organisation-unit component of authz-admin (apps/authz-admin/src/modules/org-unit):
  the aggregate, the repository, the four use cases and the request validation of the
  controller.  The state is the list of the rows the current tenant sees under row-level
  security; a use case that throws leaves it unchanged, because the request transaction is
  rolled back.  Text is ordered byte by byte (the C collation).
\<close>

record org_unit =
  ou_id :: string
  ou_tenantId :: string
  ou_parentId :: "string option"
  ou_path :: string
  ou_name :: string
  ou_version :: int
  ou_createdAt :: int
  ou_updatedAt :: int

datatype org_event = OrgUnitMovedEvent string string string "string option"

section \<open>Errors and identifiers\<close>

definition OrgUnitNotFoundError :: "string \<Rightarrow> exn" where
  "OrgUnitNotFoundError i = NotFoundError (''OrgUnit '' @ i @ '' not found'') (Some ''org_unit_not_found'')"

definition OrgUnitPathTakenError :: "string \<Rightarrow> exn" where
  "OrgUnitPathTakenError p =
     ConflictError (''OrgUnit path \"'' @ p @ ''\" is already taken'') (Some ''org_unit_path_taken'')"

definition OrgUnitDepthExceededError :: "string \<Rightarrow> exn" where
  "OrgUnitDepthExceededError m = ConflictError m (Some ''org_unit_depth_exceeded'')"

definition OrgUnitCycleError :: exn where
  "OrgUnitCycleError =
     ConflictError ''cannot move an org-unit under itself or a descendant'' (Some ''org_unit_cycle'')"

definition orgUnitId_fromString :: "(string \<Rightarrow> bool) \<Rightarrow> string \<Rightarrow> string result" where
  "orgUnitId_fromString is_uuid v =
     (if \<not> is_uuid v then Inl (ValidationError ''Invalid org-unit id'' (Some ''org_unit_id_invalid''))
      else Inr v)"

section \<open>The aggregate\<close>

definition orgUnit_createRoot ::
  "string \<Rightarrow> string \<Rightarrow> string \<Rightarrow> string \<Rightarrow> int \<Rightarrow> org_unit result" where
  "orgUnit_createRoot freshId tenantId name segment now =
     rbind (againstEmpty (Some name) ''name'') (\<lambda>_.
     rbind (guard_invariant (length name \<le> 200) ''name too long'' ''name_too_long'') (\<lambda>_.
     rbind (orgPath_fromString segment) (\<lambda>path.
     Inr \<lparr>ou_id = freshId, ou_tenantId = tenantId, ou_parentId = None, ou_path = path,
          ou_name = js_trim name, ou_version = 1, ou_createdAt = now, ou_updatedAt = now\<rparr>)))"

definition orgUnit_createChild ::
  "string \<Rightarrow> string \<Rightarrow> string \<Rightarrow> string \<Rightarrow> string \<Rightarrow> string \<Rightarrow> int \<Rightarrow> org_unit result" where
  "orgUnit_createChild freshId tenantId name segment parentId parentPath now =
     rbind (againstEmpty (Some name) ''name'') (\<lambda>_.
     rbind (guard_invariant (length name \<le> 200) ''name too long'' ''name_too_long'') (\<lambda>_.
     rbind (orgPath_child parentPath segment) (\<lambda>path.
     Inr \<lparr>ou_id = freshId, ou_tenantId = tenantId, ou_parentId = Some parentId, ou_path = path,
          ou_name = js_trim name, ou_version = 1, ou_createdAt = now, ou_updatedAt = now\<rparr>)))"

definition orgUnit_fromSnapshot :: "org_unit \<Rightarrow> org_unit result" where
  "orgUnit_fromSnapshot s = rbind (orgPath_fromString (ou_path s)) (\<lambda>path. Inr (s\<lparr>ou_path := path\<rparr>))"

definition orgUnit_touch :: "int \<Rightarrow> org_unit \<Rightarrow> org_unit" where
  "orgUnit_touch now u = u\<lparr>ou_updatedAt := now, ou_version := ou_version u + 1\<rparr>"

definition orgUnit_moveTo ::
  "string option \<Rightarrow> string option \<Rightarrow> int \<Rightarrow> org_unit \<Rightarrow> (org_unit \<times> org_event) result" where
  "orgUnit_moveTo newParentId newParentPath now u =
     (let segment = leaf (ou_path u) in
      rbind (case newParentPath of
               None \<Rightarrow> orgPath_fromString segment
             | Some p \<Rightarrow> orgPath_child p segment) (\<lambda>newPath.
      if depth newPath > MAX_DEPTH
      then Inl (OrgUnitDepthExceededError (''move would exceed max depth '' @ nat_str MAX_DEPTH))
      else Inr (orgUnit_touch now (u\<lparr>ou_parentId := newParentId, ou_path := newPath\<rparr>),
                OrgUnitMovedEvent (ou_id u) (ou_path u) newPath newParentId)))"

definition orgUnit_rebasePath :: "string \<Rightarrow> string \<Rightarrow> int \<Rightarrow> org_unit \<Rightarrow> org_unit result" where
  "orgUnit_rebasePath oldAncestorPath newAncestorPath now u =
     (let suffix = drop (length oldAncestorPath) (ou_path u) in
      rbind (orgPath_fromString (newAncestorPath @ suffix)) (\<lambda>rebased.
      if depth rebased > MAX_DEPTH
      then Inl (OrgUnitDepthExceededError
             (''subtree rewrite would exceed max depth '' @ nat_str MAX_DEPTH))
      else Inr (orgUnit_touch now (u\<lparr>ou_path := rebased\<rparr>))))"

section \<open>The repository\<close>

type_synonym org_table = "org_unit list"

definition set_ou_version :: "int \<Rightarrow> org_unit \<Rightarrow> org_unit" where
  "set_ou_version v u = u\<lparr>ou_version := v\<rparr>"

text \<open>One row is written; the unique index on tenant and path rejects a path of another row.\<close>

definition ou_write :: "org_unit \<Rightarrow> org_table \<Rightarrow> org_table result" where
  "ou_write u rows =
     (if list_ex (\<lambda>x. ou_path x = ou_path u \<and> ou_id x \<noteq> ou_id u) rows
      then Inl (unique_violation ''uq_org_units_tenant_path'')
      else Inr (save_row ou_id u rows))"

definition ou_save :: "org_unit \<Rightarrow> org_table \<Rightarrow> org_table result" where
  "ou_save u rows =
     rbind (guardOptimisticLock ou_id ou_version set_ou_version (ou_id u) (ou_version u) rows) (ou_write u)"

fun ou_guardAll :: "org_unit list \<Rightarrow> org_table \<Rightarrow> org_table result" where
  "ou_guardAll [] rows = Inr rows"
| "ou_guardAll (u # us) rows =
     rbind (guardOptimisticLock ou_id ou_version set_ou_version (ou_id u) (ou_version u) rows)
       (ou_guardAll us)"

fun ou_writeAll :: "org_unit list \<Rightarrow> org_table \<Rightarrow> org_table result" where
  "ou_writeAll [] rows = Inr rows"
| "ou_writeAll (u # us) rows = rbind (ou_write u rows) (ou_writeAll us)"

definition ou_saveMany :: "org_unit list \<Rightarrow> org_table \<Rightarrow> org_table result" where
  "ou_saveMany us rows = rbind (ou_guardAll us rows) (ou_writeAll us)"

definition ou_toDomain :: "org_unit option \<Rightarrow> org_unit option result" where
  "ou_toDomain row =
     (case row of None \<Rightarrow> Inr None
      | Some r \<Rightarrow> rbind (orgUnit_fromSnapshot r) (\<lambda>u. Inr (Some u)))"

definition ou_findById :: "string \<Rightarrow> org_table \<Rightarrow> org_unit option result" where
  "ou_findById i rows = ou_toDomain (find (\<lambda>u. ou_id u = i) rows)"

definition ou_findByPath :: "string \<Rightarrow> org_table \<Rightarrow> org_unit option result" where
  "ou_findByPath p rows = ou_toDomain (find (\<lambda>u. ou_path u = p) rows)"

definition ou_findDescendants :: "string \<Rightarrow> org_table \<Rightarrow> org_unit list result" where
  "ou_findDescendants path rows =
     rmap orgUnit_fromSnapshot
       (sort_key ou_path [u \<leftarrow> rows. starts_with (ou_path u) (path @ ''.'')])"

definition ou_cursor :: "org_unit \<Rightarrow> string" where
  "ou_cursor u = Cursor_encode (ou_path u @ ''|'' @ ou_id u)"

definition ou_subtree :: "string \<Rightarrow> org_table \<Rightarrow> org_unit list" where
  "ou_subtree root rows =
     sort_key ou_path (sort_key ou_id [u \<leftarrow> rows. ou_path u = root \<or> starts_with (ou_path u) (root @ ''.'')])"

text \<open>A path column takes any text; an id column takes what Postgres reads as a uuid.\<close>

definition ou_listSubtree ::
  "(string \<Rightarrow> string option) \<Rightarrow> string \<Rightarrow> page_query \<Rightarrow> org_table \<Rightarrow> org_unit cursor_page result" where
  "ou_listSubtree pg_id root q rows =
     list_page ou_cursor (read_row_cursor Some pg_id) (row_greater ou_path ou_id) orgUnit_fromSnapshot q
       (ou_subtree root rows)"

section \<open>The use cases\<close>

record create_org_command =
  co_segment :: string
  co_name :: string
  co_parentId :: "string option"

record move_org_command =
  mo_orgUnitId :: string
  mo_newParentId :: "string option"
  mo_expectedVersion :: "int option"

definition createOrgUnit_execute ::
  "(string \<Rightarrow> bool) \<Rightarrow> string \<Rightarrow> string \<Rightarrow> int \<Rightarrow> create_org_command \<Rightarrow> org_table \<Rightarrow>
   (org_unit \<times> org_table) result" where
  "createOrgUnit_execute is_uuid freshId tenantId now c rows =
     rbind
       (case co_parentId c of
          Some p \<Rightarrow>
            rbind (orgUnitId_fromString is_uuid p) (\<lambda>pid.
            rbind (ou_findById pid rows) (\<lambda>parent.
            case parent of
              None \<Rightarrow> Inl (OrgUnitNotFoundError p)
            | Some parent \<Rightarrow>
                orgUnit_createChild freshId tenantId (co_name c) (co_segment c) (ou_id parent)
                  (ou_path parent) now))
        | None \<Rightarrow> orgUnit_createRoot freshId tenantId (co_name c) (co_segment c) now) (\<lambda>orgUnit.
     rbind (ou_findByPath (ou_path orgUnit) rows) (\<lambda>existing.
     if existing \<noteq> None then Inl (OrgUnitPathTakenError (ou_path orgUnit))
     else rbind (ou_save orgUnit rows) (\<lambda>rows'. Inr (orgUnit, rows'))))"

definition getOrgUnit_execute :: "(string \<Rightarrow> bool) \<Rightarrow> string \<Rightarrow> org_table \<Rightarrow> org_unit result" where
  "getOrgUnit_execute is_uuid orgUnitId rows =
     rbind (orgUnitId_fromString is_uuid orgUnitId) (\<lambda>i.
     rbind (ou_findById i rows) (\<lambda>u.
     case u of None \<Rightarrow> Inl (OrgUnitNotFoundError orgUnitId) | Some u \<Rightarrow> Inr u))"

definition listSubtree_execute ::
  "(string \<Rightarrow> string option) \<Rightarrow> string \<Rightarrow> int option \<Rightarrow> string option \<Rightarrow> org_table \<Rightarrow>
   org_unit cursor_page result" where
  "listSubtree_execute pg_id rootPath limit cursor rows =
     rbind (orgPath_fromString rootPath) (\<lambda>root.
     ou_listSubtree pg_id root (pageQueryFrom limit cursor) rows)"

definition moveOrgUnit_execute ::
  "(string \<Rightarrow> bool) \<Rightarrow> int \<Rightarrow> move_org_command \<Rightarrow> org_table \<Rightarrow>
   (org_unit \<times> org_table \<times> org_event list) result" where
  "moveOrgUnit_execute is_uuid now c rows =
     rbind (orgUnitId_fromString is_uuid (mo_orgUnitId c)) (\<lambda>nodeId.
     rbind (ou_findById nodeId rows) (\<lambda>found.
     case found of
       None \<Rightarrow> Inl (OrgUnitNotFoundError (mo_orgUnitId c))
     | Some node \<Rightarrow>
     rbind (ensure (\<not> (mo_expectedVersion c \<noteq> None \<and> mo_expectedVersion c \<noteq> Some (ou_version node)))
              (ConflictError ''OrgUnit was modified by another request'' (Some ''version_mismatch''))) (\<lambda>_.
     rbind
       (case mo_newParentId c of
          None \<Rightarrow> Inr None
        | Some np \<Rightarrow>
            rbind (orgUnitId_fromString is_uuid np) (\<lambda>npId.
            rbind (ou_findById npId rows) (\<lambda>newParent.
            case newParent of
              None \<Rightarrow> Inl (OrgUnitNotFoundError np)
            | Some parent \<Rightarrow>
                if isAncestorOf (ou_path node) (ou_path parent) then Inl OrgUnitCycleError
                else Inr (Some parent)))) (\<lambda>newParent.
     let oldPath = ou_path node in
     rbind (ou_findDescendants oldPath rows) (\<lambda>descendants.
     rbind (orgUnit_moveTo (mo_newParentId c) (map_option ou_path newParent) now node) (\<lambda>(moved, event).
     rbind (ou_findByPath (ou_path moved) rows) (\<lambda>clash.
     rbind (ensure (\<not> (case clash of None \<Rightarrow> False | Some x \<Rightarrow> ou_id x \<noteq> ou_id moved))
              (OrgUnitPathTakenError (ou_path moved))) (\<lambda>_.
     rbind (rmap (orgUnit_rebasePath oldPath (ou_path moved) now) descendants) (\<lambda>rebased.
     rbind (ou_saveMany (moved # rebased) rows) (\<lambda>rows'.
     Inr (moved, rows', [event])))))))))))"

section \<open>The controller\<close>

text \<open>
  Transport validation of the create request (CreateOrgUnitRequest) and the version of an
  If-Match header; \<^term>\<open>to_number\<close> is the conversion of a text to an integral number
  (None when it is not one).
\<close>

definition createOrgUnitRequest_valid :: "(string \<Rightarrow> bool) \<Rightarrow> create_org_command \<Rightarrow> bool" where
  "createOrgUnitRequest_valid is_uuid b \<longleftrightarrow>
     1 \<le> length (co_segment b) \<and> length (co_segment b) \<le> 63 \<and> is_kebab (co_segment b) \<and>
     1 \<le> length (co_name b) \<and> length (co_name b) \<le> 200 \<and>
     (case co_parentId b of None \<Rightarrow> True | Some p \<Rightarrow> is_uuid p)"

definition parseEtag :: "(string \<Rightarrow> int option) \<Rightarrow> string option \<Rightarrow> int option" where
  "parseEtag to_number ifMatch =
     (if \<not> truthy ifMatch then None
      else to_number (js_trim [c \<leftarrow> or_default ifMatch []. c \<noteq> CHR 0x22]))"

end
