(* ===== verification/HttpApi.thy ===== *)
theory HttpApi
  imports TenantDb OrgUnit
begin

text \<open>
  What the controllers of the services share: the transport validation of a request by the
  global pipe of main.ts (whitelist, no unknown property, no implicit conversion) and the
  page query every listing takes.  The decorators of the request classes are written out as
  conditions on the parsed JSON; their messages are an argument.
\<close>

section \<open>Refused requests\<close>

definition bad_request :: "string list \<Rightarrow> exn" where
  "bad_request messages = HttpExn 400 (BodyObject (Some (MsgList messages))) ''Bad Request Exception''"

section \<open>Conditions on the members of a body\<close>

definition dto_keys :: "string list \<Rightarrow> (string \<times> json) list \<Rightarrow> bool" where
  "dto_keys allowed ms \<longleftrightarrow> list_all (\<lambda>m. fst m \<in> set allowed) ms"

definition is_text :: "nat \<Rightarrow> nat \<Rightarrow> json \<Rightarrow> bool" where
  "is_text lo hi v = (case v of JStr s \<Rightarrow> lo \<le> length s \<and> length s \<le> hi | _ \<Rightarrow> False)"

definition is_text_where :: "(string \<Rightarrow> bool) \<Rightarrow> json \<Rightarrow> bool" where
  "is_text_where p v = (case v of JStr s \<Rightarrow> p s | _ \<Rightarrow> False)"

definition dto_field :: "(json \<Rightarrow> bool) \<Rightarrow> string \<Rightarrow> json \<Rightarrow> bool" where
  "dto_field p k body = (case jget k body of None \<Rightarrow> False | Some v \<Rightarrow> p v)"

text \<open>An optional member may be absent or null; otherwise its other conditions hold.\<close>

definition dto_optional :: "(json \<Rightarrow> bool) \<Rightarrow> string \<Rightarrow> json \<Rightarrow> bool" where
  "dto_optional p k body =
     (case jget k body of None \<Rightarrow> True | Some v \<Rightarrow> v = JNull \<or> p v)"

section \<open>The page query\<close>

text \<open>
  The limit is a text the transformer reads as a number, which must be whole and within the
  bounds of a page; the cursor is any text.
\<close>

definition page_limit :: "(string \<Rightarrow> int option) \<Rightarrow> string list \<Rightarrow> string option \<Rightarrow> int option result" where
  "page_limit to_number messages limit =
     (case limit of
        None \<Rightarrow> Inr None
      | Some s \<Rightarrow>
          (case to_number s of
             None \<Rightarrow> Inl (bad_request messages)
           | Some n \<Rightarrow> if 1 \<le> n \<and> n \<le> MAX_PAGE_LIMIT then Inr (Some n) else Inl (bad_request messages)))"

end
