(* ===== verification/AuditIngest.thy ===== *)
theory AuditIngest
  imports AuditSafety AuthzGuard HttpApi
begin

text \<open>
  The HTTP surface of the audit service (apps/audit/src/modules/audit-event/presentation,
  apps/audit/src/app.module.ts) and the sink through which the enforcement points reach it
  (packages/authz/src/audit/http-audit.sink.ts).  The ingest takes a decision record without
  an identity token; the reads are bound to the tenant of the verified token.
\<close>

section \<open>What the service depends on\<close>

record audit_deps =
  au_sha :: "string \<Rightarrow> string"
  au_hmac :: "string \<Rightarrow> string \<Rightarrow> string"
  au_parse :: "string \<Rightarrow> json option"
  au_is_uuid :: "string \<Rightarrow> bool"
  au_is_iso8601 :: "string \<Rightarrow> bool"
  au_parse_date :: "string \<Rightarrow> int option"
  au_to_number :: "string \<Rightarrow> int option"
  au_pg_uuid :: "string \<Rightarrow> string option"
  au_pg_bigint :: "string \<Rightarrow> int option"
  au_messages :: "string list"
  au_options :: authz_options

section \<open>The sink\<close>

definition effect_str :: "pdp_effect \<Rightarrow> string" where
  "effect_str e = (case e of ALLOW \<Rightarrow> ''ALLOW'' | DENY \<Rightarrow> ''DENY'')"

definition toIngestBody :: "decision_audit_record \<Rightarrow> (string \<times> json) list" where
  "toIngestBody r =
     [(''tenantId'', JStr (dar_tenantId r)), (''actor'', JStr (dar_actorId r)),
      (''action'', JStr (dar_action r)), (''decision'', JStr (effect_str (dar_effect r))),
      (''resourceKind'', JStr (dar_resourceKind r)), (''resourceId'', JStr (dar_resourceId r)),
      (''decisionId'', JStr (dar_decisionId r)), (''traceId'', JStr (dar_traceId r)),
      (''at'', JStr (dar_decidedAt r))] @
     (case dar_policy r of None \<Rightarrow> [] | Some p \<Rightarrow> [(''policy'', JStr p)]) @
     (case dar_reason r of None \<Rightarrow> [] | Some p \<Rightarrow> [(''reason'', JStr p)])"

section \<open>Requests and responses\<close>

text \<open>The routes, with the members of a body the framework has parsed.\<close>

datatype audit_request =
    PostEvent "(string \<times> json) list"
  | GetEvents "string option" "string option" "string option"
  | GetVerify

record audit_view =
  av_id :: string
  av_seq :: int
  av_tenantId :: string
  av_actor :: string
  av_action :: string
  av_decision :: string
  av_resourceKind :: string
  av_resourceId :: string
  av_reason :: "string option"
  av_policy :: "string option"
  av_decisionId :: "string option"
  av_traceId :: "string option"
  av_occurredAt :: string
  av_recordedAt :: string
  av_prevHash :: string
  av_recordHash :: string

definition toAuditEventView :: "audit_event \<Rightarrow> audit_view" where
  "toAuditEventView e =
     \<lparr>av_id = ae_id e, av_seq = ae_seq e, av_tenantId = ae_tenantId e, av_actor = ae_actor e,
      av_action = ae_action e, av_decision = ae_decision e, av_resourceKind = ae_resourceKind e,
      av_resourceId = ae_resourceId e, av_reason = ae_reason e, av_policy = ae_policy e,
      av_decisionId = ae_decisionId e, av_traceId = ae_traceId e,
      av_occurredAt = toISOString (ae_occurredAt e), av_recordedAt = toISOString (ae_recordedAt e),
      av_prevHash = ae_prevHash e, av_recordHash = ae_recordHash e\<rparr>"

definition toAuditEventPageView :: "audit_event cursor_page \<Rightarrow> audit_view cursor_page" where
  "toAuditEventPageView p =
     \<lparr>cp_items = map toAuditEventView (cp_items p), cp_nextCursor = cp_nextCursor p, cp_hasMore = cp_hasMore p\<rparr>"

datatype audit_response =
    Recorded audit_view
  | Listed "audit_view cursor_page"
  | Verified chain_view

section \<open>The controller\<close>

definition recordAuditEventRequest_valid :: "audit_deps \<Rightarrow> (string \<times> json) list \<Rightarrow> bool" where
  "recordAuditEventRequest_valid d ms \<longleftrightarrow>
     dto_keys [''id'', ''tenantId'', ''actor'', ''action'', ''decision'', ''resourceKind'', ''resourceId'',
       ''reason'', ''policy'', ''decisionId'', ''traceId'', ''at''] ms \<and>
     dto_optional (is_text_where (au_is_uuid d)) ''id'' (JObj ms) \<and>
     dto_field (is_text_where (au_is_uuid d)) ''tenantId'' (JObj ms) \<and>
     dto_field (is_text 1 255) ''actor'' (JObj ms) \<and>
     dto_field (is_text 1 255) ''action'' (JObj ms) \<and>
     dto_field (is_text_where (\<lambda>s. s \<in> set valid_decisions)) ''decision'' (JObj ms) \<and>
     dto_field (is_text 1 255) ''resourceKind'' (JObj ms) \<and>
     dto_field (is_text 1 255) ''resourceId'' (JObj ms) \<and>
     dto_optional (is_text 0 1024) ''reason'' (JObj ms) \<and>
     dto_optional (is_text 0 512) ''policy'' (JObj ms) \<and>
     dto_optional (is_text 0 255) ''decisionId'' (JObj ms) \<and>
     dto_optional (is_text 0 255) ''traceId'' (JObj ms) \<and>
     dto_optional (is_text_where (au_is_iso8601 d)) ''at'' (JObj ms)"

definition record_command_of :: "(string \<times> json) list \<Rightarrow> record_command" where
  "record_command_of ms =
     (let text = (\<lambda>k. jget_string k (JObj ms)) in
      \<lparr>rc_id = text ''id'', rc_tenantId = or_default (text ''tenantId'') [],
       rc_actor = or_default (text ''actor'') [], rc_action = or_default (text ''action'') [],
       rc_decision = or_default (text ''decision'') [],
       rc_resourceKind = or_default (text ''resourceKind'') [],
       rc_resourceId = or_default (text ''resourceId'') [], rc_reason = text ''reason'',
       rc_policy = text ''policy'', rc_decisionId = text ''decisionId'', rc_traceId = text ''traceId'',
       rc_occurredAt = text ''at''\<rparr>)"

definition record_route ::
  "audit_deps \<Rightarrow> string \<Rightarrow> int \<Rightarrow> (nat \<Rightarrow> audit_db \<Rightarrow> audit_db) \<Rightarrow> (nat \<Rightarrow> db_error option) \<Rightarrow>
   (string \<times> json) list \<Rightarrow> audit_db \<Rightarrow> audit_response result \<times> audit_db" where
  "record_route d freshId now env aborts ms db =
     (if \<not> recordAuditEventRequest_valid d ms then (Inl (bad_request (au_messages d)), db)
      else
        (case recordAuditEvent_execute (au_sha d) (au_is_uuid d) (au_pg_uuid d) (au_parse_date d) freshId now
                env aborts (record_command_of ms) db of
           (Inl e, db') \<Rightarrow> (Inl e, db')
         | (Inr saved, db') \<Rightarrow> (Inr (Recorded (toAuditEventView saved)), db')))"

text \<open>The tenant a read is scoped to; the apostrophe of the message is U+2019.\<close>

definition other_tenant_message :: string where
  "other_tenant_message =
     ''Cannot read another tenant'' @ [CHR 0xE2, CHR 0x80, CHR 0x99] @ ''s decision log''"

definition resolveReadTenant :: "principal_context option \<Rightarrow> string option \<Rightarrow> string option result" where
  "resolveReadTenant p requested =
     (case p of
        None \<Rightarrow> Inl (unauthorized ''No authenticated principal context on the request'')
      | Some pc \<Rightarrow>
          if pc_platformAdmin pc then Inr requested
          else if requested \<noteq> None \<and> requested \<noteq> Some (pc_tenantId pc)
          then Inl (forbidden other_tenant_message)
          else Inr (Some (pc_tenantId pc)))"

definition listAuditEventsQuery :: "audit_deps \<Rightarrow> string option \<Rightarrow> string option \<Rightarrow> int option result" where
  "listAuditEventsQuery d tenantId limit =
     (case tenantId of
        Some t \<Rightarrow> if au_is_uuid d t then page_limit (au_to_number d) (au_messages d) limit
                  else Inl (bad_request (au_messages d))
      | None \<Rightarrow> page_limit (au_to_number d) (au_messages d) limit)"

definition list_route ::
  "audit_deps \<Rightarrow> principal_context option \<Rightarrow> string option \<Rightarrow> string option \<Rightarrow> string option \<Rightarrow> audit_db \<Rightarrow>
   audit_response result" where
  "list_route d p tenantId limit cursor db =
     rbind (listAuditEventsQuery d tenantId limit) (\<lambda>n.
     rbind (resolveReadTenant p tenantId) (\<lambda>tenant.
     rbind (listAuditEvents_execute (au_pg_uuid d) (au_pg_bigint d) tenant n cursor db) (\<lambda>page.
     Inr (Listed (toAuditEventPageView page)))))"

definition verify_route :: "audit_deps \<Rightarrow> audit_db \<Rightarrow> audit_response result" where
  "verify_route d db = Inr (Verified (verifyChain_execute (au_sha d) db))"

text \<open>
  The service: the identity middleware runs before every route but the ingest (and the
  health probes, which are not modelled).
\<close>

definition audit_identity ::
  "audit_deps \<Rightarrow> int \<Rightarrow> request_headers \<Rightarrow> audit_request \<Rightarrow> principal_context option result" where
  "audit_identity d now headers request =
     (case request of
        PostEvent _ \<Rightarrow> Inr None
      | _ \<Rightarrow> rbind (middleware_use (au_hmac d) (au_parse d) (au_options d) now headers) (\<lambda>pc. Inr (Some pc)))"

definition audit_service ::
  "audit_deps \<Rightarrow> string \<Rightarrow> int \<Rightarrow> (nat \<Rightarrow> audit_db \<Rightarrow> audit_db) \<Rightarrow> (nat \<Rightarrow> db_error option) \<Rightarrow>
   request_headers \<Rightarrow> audit_request \<Rightarrow> audit_db \<Rightarrow> audit_response result \<times> audit_db" where
  "audit_service d freshId now env aborts headers request db =
     (case audit_identity d now headers request of
        Inl e \<Rightarrow> (Inl e, db)
      | Inr p \<Rightarrow>
          (case request of
             PostEvent ms \<Rightarrow> record_route d freshId now env aborts ms db
           | GetEvents tenantId limit cursor \<Rightarrow> (list_route d p tenantId limit cursor db, db)
           | GetVerify \<Rightarrow> (verify_route d db, db)))"

section \<open>The sink and the ingest agree\<close>

text \<open>The canonical mapping of a decision record, which the service documents.\<close>

definition commandFromDecisionRecord :: "decision_audit_record \<Rightarrow> record_command" where
  "commandFromDecisionRecord r =
     \<lparr>rc_id = None, rc_tenantId = dar_tenantId r, rc_actor = dar_actorId r, rc_action = dar_action r,
      rc_decision = effect_str (dar_effect r), rc_resourceKind = dar_resourceKind r,
      rc_resourceId = dar_resourceId r, rc_reason = dar_reason r, rc_policy = dar_policy r,
      rc_decisionId = Some (dar_decisionId r), rc_traceId = Some (dar_traceId r),
      rc_occurredAt = Some (dar_decidedAt r)\<rparr>"

definition ingest_fits :: "audit_deps \<Rightarrow> decision_audit_record \<Rightarrow> bool" where
  "ingest_fits d r \<longleftrightarrow>
     list_all (\<lambda>s. js_trim s \<noteq> [] \<and> length s \<le> 255)
       [dar_tenantId r, dar_actorId r, dar_action r, dar_resourceKind r, dar_resourceId r] \<and>
     length (or_default (dar_reason r) []) \<le> 1024 \<and> length (or_default (dar_policy r) []) \<le> 512 \<and>
     length (dar_decisionId r) \<le> 255 \<and> length (dar_traceId r) \<le> 255 \<and>
     au_is_uuid d (dar_tenantId r) \<and> au_pg_uuid d (dar_tenantId r) = Some (dar_tenantId r)"

lemma ingest_members:
  "jget ''id'' (JObj (toIngestBody r)) = None"
  "jget ''tenantId'' (JObj (toIngestBody r)) = Some (JStr (dar_tenantId r))"
  "jget ''actor'' (JObj (toIngestBody r)) = Some (JStr (dar_actorId r))"
  "jget ''action'' (JObj (toIngestBody r)) = Some (JStr (dar_action r))"
  "jget ''decision'' (JObj (toIngestBody r)) = Some (JStr (effect_str (dar_effect r)))"
  "jget ''resourceKind'' (JObj (toIngestBody r)) = Some (JStr (dar_resourceKind r))"
  "jget ''resourceId'' (JObj (toIngestBody r)) = Some (JStr (dar_resourceId r))"
  "jget ''decisionId'' (JObj (toIngestBody r)) = Some (JStr (dar_decisionId r))"
  "jget ''traceId'' (JObj (toIngestBody r)) = Some (JStr (dar_traceId r))"
  "jget ''at'' (JObj (toIngestBody r)) = Some (JStr (dar_decidedAt r))"
  "jget ''policy'' (JObj (toIngestBody r)) = map_option JStr (dar_policy r)"
  "jget ''reason'' (JObj (toIngestBody r)) = map_option JStr (dar_reason r)"
  by (cases "dar_policy r"; cases "dar_reason r"; simp add: toIngestBody_def)+

lemma sink_command: "record_command_of (toIngestBody r) = commandFromDecisionRecord r"
  by (cases "dar_policy r"; cases "dar_reason r")
    (simp_all add: record_command_of_def commandFromDecisionRecord_def jget_string_def ingest_members Let_def
      del: jget.simps)

lemma not_blank_ne: "js_trim s \<noteq> [] \<Longrightarrow> 1 \<le> length s"
  by (cases s) (simp_all add: js_trim_Nil_iff)

lemma effect_decision [simp]:
  "effect_str e \<in> set valid_decisions" "parseAuditDecision (effect_str e) = Inr (effect_str e)"
  by (cases e; simp add: effect_str_def valid_decisions_def parseAuditDecision_def to_upper_def to_upper_char_def
      lower_letters_def upper_letters_def oneOf_def Let_def)+

lemma sink_body_valid:
  assumes "ingest_fits d r" and "au_is_iso8601 d (dar_decidedAt r)"
  shows "recordAuditEventRequest_valid d (toIngestBody r)"
proof -
  have keys: "dto_keys [''id'', ''tenantId'', ''actor'', ''action'', ''decision'', ''resourceKind'', ''resourceId'',
       ''reason'', ''policy'', ''decisionId'', ''traceId'', ''at''] (toIngestBody r)"
    by (cases "dar_policy r"; cases "dar_reason r") (simp_all add: dto_keys_def toIngestBody_def)
  show ?thesis
    using assms keys not_blank_ne unfolding recordAuditEventRequest_valid_def ingest_fits_def
    by (cases "dar_policy r"; cases "dar_reason r")
      (simp_all add: dto_optional_def dto_field_def is_text_def is_text_where_def ingest_members del: jget.simps)
qed

lemma toISOString_not_blank [simp]: "js_trim (toISOString t) \<noteq> []"
proof -
  have "CHR ''Z'' \<in> set (toISOString t)"
    by (cases "civil_from_days (t div 86400000)") (simp add: toISOString_def Let_def)
  moreover have "\<not> is_ws (CHR ''Z'')" by code_simp
  ultimately show ?thesis by (auto simp: js_trim_Nil_iff)
qed

text \<open>The records the guard hands to the sink.\<close>

lemma guard_record:
  assumes "AuditRecord r \<in> set (gr_trace (canActivate cerbos pip load u now t options (Some pc)))"
  shows "dar_tenantId r = pc_tenantId pc \<and> dar_actorId r = pc_actorId pc \<and> dar_decidedAt r = toISOString now"
proof -
  have decide: "dar_tenantId r = pc_tenantId pc \<and> dar_actorId r = pc_actorId pc \<and> dar_decidedAt r = toISOString now"
    if "AuditRecord r \<in> set (gr_trace (guard_decide cerbos u now t' o' pc res eff [PipResolve a b c e]))"
    for t' o' res eff a b c e
    using that by (auto simp: guard_decide_trace emitAudit_def split: sum.splits)
  show ?thesis
    using assms by (auto simp: canActivate_def guard_stop_def Let_def dest: decide split: option.splits sum.splits)
qed

text \<open>The event a decision record becomes, before it is linked to the chain.\<close>

definition decision_event :: "string \<Rightarrow> int \<Rightarrow> int \<Rightarrow> decision_audit_record \<Rightarrow> audit_event" where
  "decision_event eventId decidedAt now r =
     \<lparr>ae_id = eventId, ae_tenantId = dar_tenantId r, ae_actor = dar_actorId r, ae_action = dar_action r,
      ae_decision = effect_str (dar_effect r), ae_resourceKind = dar_resourceKind r,
      ae_resourceId = dar_resourceId r, ae_reason = normalizeOptional (dar_reason r),
      ae_policy = normalizeOptional (dar_policy r), ae_decisionId = normalizeOptional (Some (dar_decisionId r)),
      ae_traceId = normalizeOptional (Some (dar_traceId r)), ae_occurredAt = decidedAt, ae_recordedAt = now,
      ae_seq = -1, ae_prevHash = [], ae_recordHash = []\<rparr>"

lemma linked_ignores_links [simp]:
  "linked sha (e\<lparr>ae_prevHash := x, ae_recordHash := y\<rparr>) db = linked sha e db"
  by (simp add: linked_def recomputeHash_def toCanonical_def)

lemma head_hash_not_blank:
  assumes "audit_inv sha db" and "\<And>s. js_trim (sha s) \<noteq> []"
  shows "js_trim (head_hash db) \<noteq> []"
proof (cases "adb_rows db = []")
  case True
  have "js_trim GENESIS_HASH \<noteq> []" by code_simp
  then show ?thesis using True by (simp add: head_hash_def readHead_def)
next
  case False
  then obtain rs r where rs: "adb_rows db = rs @ [r]" by (meson rev_exhaust)
  then have "ae_recordHash r = recomputeHash sha r (chain_end GENESIS_HASH rs)"
    using assms(1) by (simp add: audit_inv_def)
  then show ?thesis using assms(2) by (simp add: head_hash_chain_end rs recomputeHash_def computeRecordHash_def)
qed

lemma decision_event_ids [simp]:
  "ae_id (decision_event i t now r) = i" "ae_tenantId (decision_event i t now r) = dar_tenantId r"
  by (simp_all add: decision_event_def)

text \<open>An append with nobody else at work: the first attempt succeeds.\<close>

lemma append_alone:
  assumes "pg (ae_id e) = Some (ae_id e)" and "pg (ae_tenantId e) = Some (ae_tenantId e)"
    and "ae_id e \<notin> set (map ae_id (adb_rows db))"
    and "ae_recordHash (linked sha e db) \<notin> set (map ae_recordHash (adb_rows db))"
  shows "audit_append sha pg (\<lambda>_ db. db) (\<lambda>_. None) e db =
    (Inr (linked sha e db), db\<lparr>adb_rows := adb_rows db @ [linked sha e db], adb_nextSeq := adb_nextSeq db + 1\<rparr>)"
  using assms
  by (simp add: audit_append_def MAX_APPEND_RETRIES_def eval_nat_numeral append_tx_def pg_insert_def Let_def linked_def)

lemma decision_recorded:
  assumes fits: "ingest_fits d r" and at: "dar_decidedAt r = toISOString t" "au_parse_date d (toISOString t) = Some t"
    and new: "au_is_uuid d eventId" "au_pg_uuid d eventId = Some eventId" "eventId \<notin> set (map ae_id (adb_rows db))"
    and head: "js_trim (head_hash db) \<noteq> []"
    and hash: "ae_recordHash (linked (au_sha d) (decision_event eventId t now r) db) \<notin> set (map ae_recordHash (adb_rows db))"
  shows "recordAuditEvent_execute (au_sha d) (au_is_uuid d) (au_pg_uuid d) (au_parse_date d) eventId now
      (\<lambda>_ db. db) (\<lambda>_. None) (commandFromDecisionRecord r) db =
    (Inr (linked (au_sha d) (decision_event eventId t now r) db),
     db\<lparr>adb_rows := adb_rows db @ [linked (au_sha d) (decision_event eventId t now r) db],
        adb_nextSeq := adb_nextSeq db + 1\<rparr>)"
proof -
  let ?e = "decision_event eventId t now r"
  let ?h = "head_hash db"
  let ?c = "commandFromDecisionRecord r"
  have fields: "js_trim (dar_tenantId r) \<noteq> []" "js_trim (dar_actorId r) \<noteq> []" "js_trim (dar_action r) \<noteq> []"
    "js_trim (dar_resourceKind r) \<noteq> []" "js_trim (dar_resourceId r) \<noteq> []"
    "au_is_uuid d (dar_tenantId r)" "au_pg_uuid d (dar_tenantId r) = Some (dar_tenantId r)"
    using fits by (simp_all add: ingest_fits_def)
  obtain x where built: "auditEvent_record (au_sha d) (au_is_uuid d) eventId
      \<lparr>rp_id = rc_id ?c, rp_tenantId = rc_tenantId ?c, rp_actor = rc_actor ?c, rp_action = rc_action ?c,
       rp_decision = effect_str (dar_effect r), rp_resourceKind = rc_resourceKind ?c, rp_resourceId = rc_resourceId ?c,
       rp_reason = rc_reason ?c, rp_policy = rc_policy ?c, rp_decisionId = rc_decisionId ?c,
       rp_traceId = rc_traceId ?c, rp_occurredAt = t, rp_recordedAt = now, rp_prevHash = ?h\<rparr> =
     Inr (?e\<lparr>ae_prevHash := ?h, ae_recordHash := x\<rparr>)"
    using fields new head
    by (simp add: auditEvent_record_def commandFromDecisionRecord_def againstEmpty_pass guard_invariant_def Let_def
        decision_event_def)
  have append: "audit_append (au_sha d) (au_pg_uuid d) (\<lambda>_ db. db) (\<lambda>_. None) (?e\<lparr>ae_prevHash := ?h, ae_recordHash := x\<rparr>) db =
    (Inr (linked (au_sha d) ?e db), db\<lparr>adb_rows := adb_rows db @ [linked (au_sha d) ?e db],
        adb_nextSeq := adb_nextSeq db + 1\<rparr>)"
    using new fields(7) hash append_alone[of "au_pg_uuid d" "?e\<lparr>ae_prevHash := ?h, ae_recordHash := x\<rparr>" db "au_sha d"]
    by simp
  have date: "parseOccurredAt (au_parse_date d) now (rc_occurredAt ?c) = Inr t"
    using at by (simp add: parseOccurredAt_def commandFromDecisionRecord_def)
  have cmd: "rc_id ?c = None" "rc_decision ?c = effect_str (dar_effect r)" by (simp_all add: commandFromDecisionRecord_def)
  show ?thesis
    using built append by (simp add: recordAuditEvent_execute_def Let_def date cmd)
qed

section \<open>Properties\<close>


lemma list_page_items:
  "list_page key read after Inr q ordered = Inr page \<Longrightarrow> set (cp_items page) \<subseteq> set ordered"
proof -
  assume "list_page key read after Inr q ordered = Inr page"
  then obtain p items where p: "keyset_page key read after q ordered = Inr p" "rmap Inr (cp_items p) = (Inr items :: _ result)"
    "p\<lparr>cp_items := items\<rparr> = page" unfolding list_page_def rbind_Inr_iff sum.inject by blast
  have "rmap Inr (cp_items p) = (Inr (cp_items p) :: _ result)" by (rule rmap_same) simp
  then have "items = cp_items p" using p(2) by simp
  moreover have "set (cp_items p) \<subseteq> set ordered"
    using p(1) by (auto simp: keyset_page_def rbind_Inr_iff dest!: in_set_takeD split: option.splits)
  ultimately show ?thesis by (simp flip: p(3))
qed

lemma listing_request:
  "audit_service d eventId now env aborts headers (GetEvents tenant limit cursor) db =
   (rbind (middleware_use (au_hmac d) (au_parse d) (au_options d) now headers) (\<lambda>pc.
      list_route d (Some pc) tenant limit cursor db), db)"
  unfolding audit_service_def audit_identity_def audit_request.case
  by (cases "middleware_use (au_hmac d) (au_parse d) (au_options d) now headers") simp_all

lemma listing_answered:
  "list_route d p tenant limit cursor db = Inr response \<Longrightarrow>
   \<exists>n read page. listAuditEventsQuery d tenant limit = Inr n \<and> resolveReadTenant p tenant = Inr read \<and>
    listAuditEvents_execute (au_pg_uuid d) (au_pg_bigint d) read n cursor db = Inr page \<and>
    Listed (toAuditEventPageView page) = response"
  unfolding list_route_def rbind_Inr_iff sum.inject by blast


section \<open>Samples\<close>

definition sample_deps :: "decision_audit_record \<Rightarrow> audit_deps" where
  "sample_deps r =
     \<lparr>au_sha = (\<lambda>s. CHR ''h'' # s), au_hmac = (\<lambda>k m. k),
      au_parse = (\<lambda>s. if s = json_stringify (JObj (toIngestBody r)) then Some (JObj (toIngestBody r)) else sample_parse s),
      au_is_uuid = (\<lambda>_. True), au_is_iso8601 = (\<lambda>_. True), au_parse_date = (\<lambda>_. Some 0),
      au_to_number = (\<lambda>_. Some 1), au_pg_uuid = Some, au_pg_bigint = (\<lambda>_. Some 1), au_messages = [],
      au_options = newAuthzOptions (Some ''key'') None None\<rparr>"

definition sample_record :: decision_audit_record where
  "sample_record =
     emitAudit 0 ''dec_1'' [] sample_pc
       (cq_resource (guard_request (sample_options [''delete'']) sample_pc (sample_resource ''t1'') sample_eff))
       (action_result (projr (sample_cerbos (guard_request (sample_options [''delete'']) sample_pc (sample_resource ''t1'') sample_eff))) ''delete'')"

lemma sample_record_emitted:
  "AuditRecord sample_record \<in> set (gr_trace (canActivate sample_cerbos (\<lambda>_ _ _ _. Inr sample_eff)
     (\<lambda>_. Inr (Some (sample_resource ''t1''))) ''1'' 0 None (Some (sample_options [''delete''])) (Some sample_pc)))"
proof -
  have "enforceTenantGuardrail sample_pc (sample_resource ''t1'') = Inr ()"
    by (simp add: sample_pc_def sample_resource_def)
  note past = canActivate_past_guardrail[where load = "\<lambda>_. Inr (Some (sample_resource ''t1''))"
      and pc = sample_pc and resource = "sample_resource ''t1''" and cerbos = sample_cerbos
      and pip = "\<lambda>_ _ _ _. Inr sample_eff" and u = "''1''" and now = 0 and t = None
      and options = "sample_options [''delete'']", OF this refl]
  show ?thesis unfolding past
    by (simp add: guard_decide_trace sample_record_def sample_cerbos_def sample_options_def)
qed


definition tenant_log :: audit_db where
  "tenant_log = \<lparr>adb_rows = [(sample_event ''a'')\<lparr>ae_tenantId := ''t1'', ae_seq := 1\<rparr>,
     (sample_event ''b'')\<lparr>ae_seq := 2\<rparr>], adb_nextSeq = 3\<rparr>"


text \<open>A token with an empty tenant reads the events of every tenant.\<close>

lemma empty_tenant_reads_every_tenant:
  assumes "pc_tenantId pc = []" and "\<not> pc_platformAdmin pc"
  shows "list_route d (Some pc) None limit cursor db =
    list_route d (Some (pc\<lparr>pc_platformAdmin := True\<rparr>)) None limit cursor db"
  using assms by (simp add: list_route_def resolveReadTenant_def listAuditEvents_execute_def)

end
