(* ===== verification/OrgTree.thy ===== *)
theory OrgTree
  imports OrgUnit
begin

text \<open>
  The organisation tree is kept a tree: the invariant of the org-unit table, its
  preservation by create and move, and what a move does to every path.
\<close>

interpretation org_table: versioned_table ou_id ou_version set_ou_version
  by unfold_locales (simp_all add: set_ou_version_def)

section \<open>The invariant\<close>

text \<open>
  Ids and paths are unique, every path is well formed, a root's path is a single segment,
  and every other path is its parent's path and one more segment.
\<close>

definition org_tree :: "org_table \<Rightarrow> bool" where
  "org_tree rows \<longleftrightarrow>
     distinct (map ou_id rows) \<and> distinct (map ou_path rows) \<and>
     (\<forall>u \<in> set rows. valid_path (ou_path u) \<and>
        (case ou_parentId u of
           None \<Rightarrow> depth (ou_path u) = 1
         | Some p \<Rightarrow> \<exists>q \<in> set rows. ou_id q = p \<and>
                       segments (ou_path u) = segments (ou_path q) @ [leaf (ou_path u)]))"

lemma org_tree_distinct:
  "org_tree rows \<Longrightarrow> distinct (map ou_id rows)" "org_tree rows \<Longrightarrow> distinct (map ou_path rows)"
  by (simp_all add: org_tree_def)

lemma same_path: "org_tree rows \<Longrightarrow> u \<in> set rows \<Longrightarrow> v \<in> set rows \<Longrightarrow> ou_path u = ou_path v \<Longrightarrow> u = v"
  by (auto simp: org_tree_def distinct_map dest: inj_onD)

lemma same_id: "distinct (map ou_id rows) \<Longrightarrow> u \<in> set rows \<Longrightarrow> v \<in> set rows \<Longrightarrow> ou_id u = ou_id v \<Longrightarrow> u = v"
  by (auto simp: distinct_map dest: inj_onD)

lemma not_in_ids: "ou_id u \<notin> ou_id ` set xs \<Longrightarrow> x \<in> set xs \<Longrightarrow> ou_id x \<noteq> ou_id u"
  by (metis imageI)

lemma find_id:
  "distinct (map ou_id rows) \<Longrightarrow> find (\<lambda>u. ou_id u = i) rows = Some u \<longleftrightarrow> u \<in> set rows \<and> ou_id u = i"
  by (induction rows) auto

lemma fromSnapshot_ok [simp]: "orgUnit_fromSnapshot u = Inr v \<longleftrightarrow> v = u \<and> valid_path (ou_path u)"
  by (auto simp: orgUnit_fromSnapshot_def rbind_Inr_iff)

lemma toDomain_ok:
  "ou_toDomain r = Inr x \<longleftrightarrow> r = x \<and> (\<forall>u. x = Some u \<longrightarrow> valid_path (ou_path u))"
  by (auto simp: ou_toDomain_def rbind_Inr_iff split: option.splits)

lemma findById_ok: "ou_findById i rows = Inr (Some u) \<Longrightarrow> u \<in> set rows \<and> ou_id u = i \<and> valid_path (ou_path u)"
  by (auto simp: ou_findById_def toDomain_ok dest: find_SomeD)

lemma findByPath_none: "ou_findByPath p rows = Inr None \<Longrightarrow> u \<in> set rows \<Longrightarrow> ou_path u \<noteq> p"
  by (auto simp: ou_findByPath_def toDomain_ok find_None_iff)

lemma findByPath_some:
  "org_tree rows \<Longrightarrow> ou_findByPath p rows = Inr (Some x) \<Longrightarrow> u \<in> set rows \<Longrightarrow> ou_path u = p \<Longrightarrow> u = x"
  by (auto simp: ou_findByPath_def toDomain_ok dest!: find_SomeD intro: same_path)

text \<open>Every ancestor path of a unit is the path of a unit.\<close>

lemma org_tree_closed:
  assumes "org_tree rows" and "u \<in> set rows" and "prefix xs (segments (ou_path u))" and "xs \<noteq> []"
  shows "\<exists>v \<in> set rows. segments (ou_path v) = xs"
  using assms(2,3)
proof (induction "length (segments (ou_path u))" arbitrary: u rule: less_induct)
  case less
  show ?case
  proof (cases "xs = segments (ou_path u)")
    case True
    then show ?thesis using less.prems by blast
  next
    case False
    then obtain y ys where ext: "segments (ou_path u) = xs @ y # ys"
      using less.prems(2) by (metis append_Nil2 neq_Nil_conv prefixE)
    have len: "length (segments (ou_path u)) \<noteq> 1" using ext assms(4) by (cases xs) auto
    obtain p q where q: "ou_parentId u = Some p" "q \<in> set rows" "ou_id q = p"
      "segments (ou_path u) = segments (ou_path q) @ [leaf (ou_path u)]"
      using assms(1) less.prems(1) len by (force simp: org_tree_def depth_def split: option.splits)
    have "prefix xs (segments (ou_path q))"
      using less.prems(2) q(4) False by (metis prefix_snoc)
    moreover have "length (segments (ou_path q)) < length (segments (ou_path u))" using q(4) by simp
    ultimately show ?thesis using less.hyps q(2) by blast
  qed
qed

section \<open>Creating a unit\<close>

lemma ou_write_ok:
  assumes "ou_write u rows = Inr rows'"
  shows "rows' = save_row ou_id u rows" and "\<forall>x \<in> set rows. ou_path x = ou_path u \<longrightarrow> ou_id x = ou_id u"
  using assms by (auto simp: ou_write_def list_ex_iff split: if_splits)

lemma org_tree_add:
  assumes tree: "org_tree rows" and fresh: "ou_id u \<notin> set (map ou_id rows)"
    and path: "ou_path u \<notin> set (map ou_path rows)" "valid_path (ou_path u)"
    and parent: "case ou_parentId u of None \<Rightarrow> depth (ou_path u) = 1
       | Some p \<Rightarrow> \<exists>q \<in> set rows. ou_id q = p \<and>
           segments (ou_path u) = segments (ou_path q) @ [leaf (ou_path u)]"
  shows "org_tree (rows @ [u])"
  unfolding org_tree_def
proof (intro conjI ballI)
  show "distinct (map ou_id (rows @ [u]))" using tree fresh by (simp add: org_tree_def)
  show "distinct (map ou_path (rows @ [u]))" using tree path by (simp add: org_tree_def)
  fix v assume v: "v \<in> set (rows @ [u])"
  show "valid_path (ou_path v)" using v tree path by (auto simp: org_tree_def)
  have "case ou_parentId v of None \<Rightarrow> depth (ou_path v) = 1
       | Some p \<Rightarrow> \<exists>q \<in> set rows. ou_id q = p \<and>
           segments (ou_path v) = segments (ou_path q) @ [leaf (ou_path v)]"
    using v parent tree by (auto simp: org_tree_def)
  then show "case ou_parentId v of None \<Rightarrow> depth (ou_path v) = 1
       | Some p \<Rightarrow> \<exists>q \<in> set (rows @ [u]). ou_id q = p \<and>
           segments (ou_path v) = segments (ou_path q) @ [leaf (ou_path v)]"
    by (auto split: option.splits)
qed

lemma create_links:
  assumes "orgUnit_createChild i t n seg p pp now = Inr u" and "is_kebab seg"
  shows "segments (ou_path u) = segments pp @ [leaf (ou_path u)] \<and> ou_parentId u = Some p \<and>
         valid_path (ou_path u) \<and> ou_id u = i \<and> ou_version u = 1"
  using assms
  by (auto simp: orgUnit_createChild_def segments_append leaf_def segments_single kebab_no_dot
      elim!: rbind_InrE)

lemma create_root:
  assumes "orgUnit_createRoot i t n seg now = Inr u" and "is_kebab seg"
  shows "depth (ou_path u) = 1 \<and> ou_parentId u = None \<and> valid_path (ou_path u) \<and> ou_id u = i \<and>
         ou_version u = 1"
  using assms
  by (auto simp: orgUnit_createRoot_def depth_def segments_single kebab_no_dot elim!: rbind_InrE)

lemma create_keeps_tree:
  assumes tree: "org_tree rows" and fresh: "i \<notin> set (map ou_id rows)"
    and req: "is_kebab (co_segment c)"
    and run: "createOrgUnit_execute is_uuid i t now c rows = Inr (u, rows')"
  shows "org_tree rows' \<and> rows' = rows @ [u]"
proof -
  have built: "ou_id u = i \<and> ou_version u = 1 \<and> valid_path (ou_path u) \<and>
      (case ou_parentId u of None \<Rightarrow> depth (ou_path u) = 1
       | Some p \<Rightarrow> \<exists>q \<in> set rows. ou_id q = p \<and>
           segments (ou_path u) = segments (ou_path q) @ [leaf (ou_path u)])"
    and free: "ou_findByPath (ou_path u) rows = Inr None"
    and saved: "ou_save u rows = Inr rows'"
    using run req unfolding createOrgUnit_execute_def
    by (auto elim!: rbind_InrE split: option.splits if_splits
        dest!: create_links create_root findById_ok) blast
  have "ou_id u \<notin> ou_id ` set rows" using fresh built by simp
  then have new: "\<not> list_ex (\<lambda>x. ou_id x = ou_id u) rows"
    by (auto simp: list_ex_iff dest: not_in_ids)
  have rows': "rows' = rows @ [u]"
    using saved new built
    by (auto simp: ou_save_def guardOptimisticLock_def save_row_def dest!: ou_write_ok(1))
  have "ou_path u \<notin> set (map ou_path rows)" using findByPath_none[OF free] by (metis imageE set_map)
  then show ?thesis using org_tree_add[OF tree] fresh built rows' by simp
qed


section \<open>Writing several rows\<close>

text \<open>The rows with the units of a list in the place of the rows with their ids.\<close>

definition replace_rows :: "org_unit list \<Rightarrow> org_table \<Rightarrow> org_table" where
  "replace_rows us rows = map (\<lambda>r. or_default (find (\<lambda>u. ou_id u = ou_id r) us) r) rows"

lemma replace_rows_ids [simp]: "map ou_id (replace_rows us rows) = map ou_id rows"
proof -
  have "ou_id (or_default (find (\<lambda>u. ou_id u = ou_id r) us) r) = ou_id r" for r
    by (cases "find (\<lambda>u. ou_id u = ou_id r) us") (auto dest: find_SomeD)
  then show ?thesis by (simp add: replace_rows_def)
qed

lemma guard_keeps_others:
  "guardOptimisticLock ou_id ou_version set_ou_version i v rows = Inr rows1 \<Longrightarrow>
   list_all2 (\<lambda>r r1. ou_id r1 = ou_id r \<and> ou_path r1 = ou_path r \<and> (ou_id r \<noteq> i \<longrightarrow> r1 = r)) rows rows1"
  by (auto simp: guardOptimisticLock_def Let_def set_ou_version_def list_all2_conv_all_nth
      split: if_splits)

lemma guardAll_keeps_others:
  "ou_guardAll us rows = Inr rows1 \<Longrightarrow>
   list_all2 (\<lambda>r r1. ou_id r1 = ou_id r \<and> ou_path r1 = ou_path r \<and>
     (ou_id r \<notin> ou_id ` set us \<longrightarrow> r1 = r)) rows rows1"
proof (induction us arbitrary: rows)
  case Nil
  then show ?case by (simp add: list_all2_refl)
next
  case (Cons u us)
  then obtain mid where mid: "guardOptimisticLock ou_id ou_version set_ou_version (ou_id u) (ou_version u) rows = Inr mid"
    "ou_guardAll us mid = Inr rows1" by (auto elim: rbind_InrE)
  show ?case
    using guard_keeps_others[OF mid(1)] Cons.IH[OF mid(2)]
    by (auto simp: list_all2_conv_all_nth)
qed

lemma replace_same:
  assumes "list_all2 (\<lambda>r r1. ou_id r1 = ou_id r \<and> ou_path r1 = ou_path r \<and>
     (ou_id r \<notin> ou_id ` set us \<longrightarrow> r1 = r)) rows rows1"
  shows "replace_rows us rows1 = replace_rows us rows"
proof -
  have key: "or_default (find (\<lambda>u. ou_id u = ou_id r) us) r1 = or_default (find (\<lambda>u. ou_id u = ou_id r) us) r"
    if "ou_id r \<notin> ou_id ` set us \<longrightarrow> r1 = r" for r r1
  proof (cases "find (\<lambda>u. ou_id u = ou_id r) us = None")
    case True
    then have "ou_id r \<notin> ou_id ` set us" by (force simp: find_None_iff)
    then show ?thesis using that by simp
  qed auto
  show ?thesis
    using assms unfolding replace_rows_def
    by (induction rows rows1 rule: list_all2_induct) (auto intro!: key)
qed

lemma save_row_replace:
  assumes "ou_id u \<in> ou_id ` set rows" and "ou_id u \<notin> ou_id ` set us"
  shows "replace_rows us (save_row ou_id u rows) = replace_rows (u # us) rows"
proof -
  have "find (\<lambda>x. ou_id x = ou_id u) us = None"
    using assms(2) by (auto simp: find_None_iff dest: not_in_ids)
  then show ?thesis using assms(1)
    by (auto simp: replace_rows_def save_row_def list_ex_iff image_iff)
qed

lemma writeAll_replaces:
  assumes "ou_writeAll us rows = Inr rows'" and "distinct (map ou_id us)"
    and "ou_id ` set us \<subseteq> ou_id ` set rows" and "distinct (map ou_path rows)"
    and "distinct (map ou_id rows)"
  shows "rows' = replace_rows us rows \<and> distinct (map ou_path rows')"
  using assms
proof (induction us arbitrary: rows)
  case Nil
  then show ?case by (simp add: replace_rows_def)
next
  case (Cons u us)
  then obtain mid where mid: "ou_write u rows = Inr mid" "ou_writeAll us mid = Inr rows'"
    by (auto elim: rbind_InrE)
  have m: "mid = save_row ou_id u rows" and uniq: "\<forall>x \<in> set rows. ou_path x = ou_path u \<longrightarrow> ou_id x = ou_id u"
    using ou_write_ok[OF mid(1)] by blast+
  have "ou_id u \<in> ou_id ` set rows" using Cons.prems(3) by simp
  then have ids: "map ou_id mid = map ou_id rows" and
      mid_map: "mid = map (\<lambda>x. if ou_id x = ou_id u then u else x) rows"
    using org_table.save_ids[of u rows] by (auto simp: m save_row_def list_ex_iff image_iff)
  have "inj_on ou_path (set mid)"
  proof (rule inj_onI)
    fix x y assume xy: "x \<in> set mid" "y \<in> set mid" "ou_path x = ou_path y"
    show "x = y" using xy uniq Cons.prems(4) by (auto simp: mid_map distinct_map dest: inj_onD)
  qed
  moreover have "distinct mid" using ids Cons.prems(5) by (metis distinct_map)
  ultimately have "distinct (map ou_path mid)" by (simp add: distinct_map)
  moreover have "ou_id ` set mid = ou_id ` set rows" using arg_cong[OF ids, of set] by simp
  then have "ou_id ` set us \<subseteq> ou_id ` set mid" using Cons.prems(3) by simp
  moreover have "distinct (map ou_id us)" "distinct (map ou_id mid)"
    using Cons.prems(2,5) ids by simp_all
  ultimately have result: "rows' = replace_rows us mid \<and> distinct (map ou_path rows')"
    by (intro Cons.IH[OF mid(2)])
  have eq: "replace_rows us mid = replace_rows (u # us) rows"
    unfolding m by (rule save_row_replace) (use Cons.prems(2,3) in auto)
  show ?case using result unfolding eq .
qed

lemma saveMany_replaces:
  assumes "ou_saveMany us rows = Inr rows'" and "distinct (map ou_id us)"
    and "ou_id ` set us \<subseteq> ou_id ` set rows" and "distinct (map ou_path rows)"
    and "distinct (map ou_id rows)"
  shows "rows' = replace_rows us rows \<and> distinct (map ou_path rows')"
proof -
  obtain mid where mid: "ou_guardAll us rows = Inr mid" "ou_writeAll us mid = Inr rows'"
    using assms(1) by (auto simp: ou_saveMany_def elim: rbind_InrE)
  note same = guardAll_keeps_others[OF mid(1)]
  have cols: "map ou_id mid = map ou_id rows" "map ou_path mid = map ou_path rows"
    using same by (auto simp: list_all2_conv_all_nth intro!: nth_equalityI)
  have "ou_id ` set mid = ou_id ` set rows" using arg_cong[OF cols(1), of set] by simp
  then have "ou_id ` set us \<subseteq> ou_id ` set mid" using assms(3) by simp
  moreover have "distinct (map ou_path mid)" "distinct (map ou_id mid)" using cols assms(4,5) by simp_all
  ultimately have result: "rows' = replace_rows us mid \<and> distinct (map ou_path rows')"
    by (intro writeAll_replaces[OF mid(2) assms(2)])
  show ?thesis using result unfolding replace_same[OF same] .
qed


section \<open>Moving a unit\<close>

text \<open>What a move does to each row: the node, the rows below it, and all others.\<close>

definition moved_row ::
  "org_unit \<Rightarrow> string \<Rightarrow> string option \<Rightarrow> int \<Rightarrow> org_unit \<Rightarrow> org_unit" where
  "moved_row node newPath newParentId now r =
     (if r = node then orgUnit_touch now (r\<lparr>ou_parentId := newParentId, ou_path := newPath\<rparr>)
      else if starts_with (ou_path r) (ou_path node @ ''.'')
      then orgUnit_touch now (r\<lparr>ou_path := newPath @ drop (length (ou_path node)) (ou_path r)\<rparr>)
      else r)"

lemma moved_row_fields [simp]:
  "ou_id (moved_row node p np now r) = ou_id r"
  "ou_tenantId (moved_row node p np now r) = ou_tenantId r"
  by (simp_all add: moved_row_def orgUnit_touch_def)

lemma moveTo_ok:
  "orgUnit_moveTo np pp now u = Inr (u', e) \<Longrightarrow>
   u' = orgUnit_touch now (u\<lparr>ou_parentId := np, ou_path := ou_path u'\<rparr>) \<and> valid_path (ou_path u') \<and>
   (case pp of None \<Rightarrow> ou_path u' = leaf (ou_path u)
    | Some p \<Rightarrow> ou_path u' = p @ CHR ''.'' # leaf (ou_path u)) \<and>
   e = OrgUnitMovedEvent (ou_id u) (ou_path u) (ou_path u') np"
  by (auto simp: orgUnit_moveTo_def orgUnit_touch_def elim!: rbind_InrE split: option.splits if_splits)

lemma rebasePath_ok:
  "orgUnit_rebasePath q p now u = Inr u' \<longleftrightarrow>
   valid_path (p @ drop (length q) (ou_path u)) \<and>
   u' = orgUnit_touch now (u\<lparr>ou_path := p @ drop (length q) (ou_path u)\<rparr>)"
  by (auto simp: orgUnit_rebasePath_def rbind_Inr_iff depth_def MAX_DEPTH_def valid_path_def)

lemma findDescendants_ok:
  "ou_findDescendants q rows = Inr ds \<Longrightarrow>
   set ds = {u \<in> set rows. starts_with (ou_path u) (q @ ''.'')} \<and>
   (distinct (map ou_id rows) \<longrightarrow> distinct (map ou_id ds))"
proof -
  assume a: "ou_findDescendants q rows = Inr ds"
  have "list_all2 (=) xs ys \<longleftrightarrow> xs = ys" for xs ys :: "org_unit list" by (simp add: list.rel_eq)
  moreover have "list_all2 (\<lambda>x y. orgUnit_fromSnapshot x = Inr y)
      (sort_key ou_path [u \<leftarrow> rows. starts_with (ou_path u) (q @ ''.'')]) ds"
    using a by (simp add: ou_findDescendants_def rmap_Inr_iff)
  then have "list_all2 (=) (sort_key ou_path [u \<leftarrow> rows. starts_with (ou_path u) (q @ ''.'')]) ds"
    by (rule list_all2_mono) simp
  ultimately have ds: "ds = sort_key ou_path [u \<leftarrow> rows. starts_with (ou_path u) (q @ ''.'')]" by simp
  have "distinct (map ou_id ds)" if "distinct (map ou_id rows)"
  proof -
    have "distinct [u \<leftarrow> rows. starts_with (ou_path u) (q @ ''.'')]"
      using that by (simp add: distinct_map)
    moreover have "inj_on ou_id {u \<in> set rows. starts_with (ou_path u) (q @ ''.'')}"
      using that by (auto simp: distinct_map intro: inj_on_subset)
    ultimately show ?thesis by (simp add: ds distinct_map)
  qed
  then show ?thesis by (simp add: ds)
qed

lemma replace_moved:
  assumes tree: "org_tree rows" and node: "node \<in> set rows"
    and ds: "set ds = {u \<in> set rows. starts_with (ou_path u) (ou_path node @ ''.'')}"
    and moved: "m = orgUnit_touch now (node\<lparr>ou_parentId := np, ou_path := p\<rparr>)"
    and reb: "list_all2 (\<lambda>d r. r = orgUnit_touch now (d\<lparr>ou_path := p @ drop (length (ou_path node)) (ou_path d)\<rparr>)) ds rs"
  shows "replace_rows (m # rs) rows = map (moved_row node p np now) rows"
proof -
  let ?f = "\<lambda>d. orgUnit_touch now (d\<lparr>ou_path := p @ drop (length (ou_path node)) (ou_path d)\<rparr>)"
  have rs: "rs = map ?f ds" using reb by (induction ds rs rule: list_all2_induct) auto
  have idf: "ou_id (?f d) = ou_id d" for d by (simp add: orgUnit_touch_def)
  have find_rs: "find (\<lambda>u. ou_id u = i) (map ?f xs) = map_option ?f (find (\<lambda>u. ou_id u = i) xs)" for i xs
    by (induction xs) (auto simp: idf)
  have row: "or_default (find (\<lambda>u. ou_id u = ou_id r) (m # rs)) r = moved_row node p np now r"
    if r: "r \<in> set rows" for r
  proof (cases "r = node")
    case True
    then show ?thesis by (simp add: moved moved_row_def orgUnit_touch_def)
  next
    case False
    then have "ou_id m \<noteq> ou_id r"
      using same_id[OF org_tree_distinct(1)[OF tree] r node] by (auto simp: moved orgUnit_touch_def)
    moreover have "find (\<lambda>u. ou_id u = ou_id r) ds =
        (if starts_with (ou_path r) (ou_path node @ ''.'') then Some r else None)"
    proof -
      have "\<forall>u \<in> set ds. ou_id u = ou_id r \<longrightarrow> u = r"
        using same_id[OF org_tree_distinct(1)[OF tree]] r ds by auto
      moreover have "find (\<lambda>u. ou_id u = ou_id r) xs = (if r \<in> set xs then Some r else None)"
        if "\<forall>u \<in> set xs. ou_id u = ou_id r \<longrightarrow> u = r" for xs
        using that by (induction xs) auto
      ultimately show ?thesis using r ds by auto
    qed
    ultimately show ?thesis using False by (simp add: rs find_rs moved_row_def)
  qed
  show ?thesis unfolding replace_rows_def by (rule map_cong) (use row in auto)
qed

text \<open>A successful move, taken apart.\<close>

lemma move_shape:
  assumes tree: "org_tree rows"
    and run: "moveOrgUnit_execute is_uuid now c rows = Inr (m, rows', evs)"
  obtains node where "node \<in> set rows" "ou_id node = mo_orgUnitId c"
    "m = moved_row node (ou_path m) (mo_newParentId c) now node"
    "rows' = map (moved_row node (ou_path m) (mo_newParentId c) now) rows"
    "distinct (map ou_path rows')"
    "case mo_newParentId c of None \<Rightarrow> ou_path m = leaf (ou_path node)
     | Some i \<Rightarrow> \<exists>p \<in> set rows. ou_id p = i \<and> \<not> isAncestorOf (ou_path node) (ou_path p) \<and>
         ou_path m = ou_path p @ CHR ''.'' # leaf (ou_path node)"
    "\<forall>r \<in> set rows'. valid_path (ou_path r)"
    "evs = [OrgUnitMovedEvent (ou_id node) (ou_path node) (ou_path m) (mo_newParentId c)]"
    "mo_expectedVersion c = None \<or> mo_expectedVersion c = Some (ou_version node)"
proof -
  obtain node parent ds e rs clash where
    id: "orgUnitId_fromString is_uuid (mo_orgUnitId c) = Inr (mo_orgUnitId c)"
    and found: "ou_findById (mo_orgUnitId c) rows = Inr (Some node)"
    and ver: "mo_expectedVersion c = None \<or> mo_expectedVersion c = Some (ou_version node)"
    and parent: "(case mo_newParentId c of
          None \<Rightarrow> Inr None
        | Some np \<Rightarrow>
            rbind (orgUnitId_fromString is_uuid np) (\<lambda>npId.
            rbind (ou_findById npId rows) (\<lambda>newParent.
            case newParent of
              None \<Rightarrow> Inl (OrgUnitNotFoundError np)
            | Some parent \<Rightarrow>
                if isAncestorOf (ou_path node) (ou_path parent) then Inl OrgUnitCycleError
                else Inr (Some parent)))) = Inr parent"
    and ds: "ou_findDescendants (ou_path node) rows = Inr ds"
    and mv: "orgUnit_moveTo (mo_newParentId c) (map_option ou_path parent) now node = Inr (m, e)"
    and reb: "rmap (orgUnit_rebasePath (ou_path node) (ou_path m) now) ds = Inr rs"
    and save: "ou_saveMany (m # rs) rows = Inr rows'" and evs: "evs = [e]"
    using run unfolding moveOrgUnit_execute_def Let_def
    by (elim rbind_InrE) (auto simp: orgUnitId_fromString_def elim!: rbind_InrE
        split: option.splits if_splits prod.splits)
  have node: "node \<in> set rows" "ou_id node = mo_orgUnitId c" using findById_ok[OF found] by auto
  note dsk = findDescendants_ok[OF ds]
  note mvk = moveTo_ok[OF mv]
  have rebk: "list_all2 (\<lambda>d r. valid_path (ou_path r) \<and>
      r = orgUnit_touch now (d\<lparr>ou_path := ou_path m @ drop (length (ou_path node)) (ou_path d)\<rparr>)) ds rs"
    using reb unfolding rmap_Inr_iff rebasePath_ok
    by (rule list_all2_mono) (auto simp: orgUnit_touch_def)
  have repl: "replace_rows (m # rs) rows = map (moved_row node (ou_path m) (mo_newParentId c) now) rows"
    by (rule replace_moved[OF tree node(1) conjunct1[OF dsk]])
      (use mvk rebk in \<open>auto elim: list_all2_mono\<close>)
  have ids: "map ou_id rs = map ou_id ds"
    using rebk by (induction ds rs rule: list_all2_induct) (auto simp: orgUnit_touch_def)
  have idm: "ou_id m = ou_id node" using mvk by (metis moved_row_fields(1) moved_row_def)
  have notin: "ou_id node \<notin> ou_id ` set ds"
  proof
    assume "ou_id node \<in> ou_id ` set ds"
    then have "node \<in> set ds" using dsk node(1) same_id[OF org_tree_distinct(1)[OF tree]] by auto
    then show False using dsk by (simp add: segments_strict_prefix)
  qed
  have "rows' = replace_rows (m # rs) rows \<and> distinct (map ou_path rows')"
  proof (rule saveMany_replaces[OF save])
    have "ou_id ` set rs = ou_id ` set ds" using arg_cong[OF ids, of set] by simp
    then show "distinct (map ou_id (m # rs))" "ou_id ` set (m # rs) \<subseteq> ou_id ` set rows"
      using ids idm notin dsk node(1) org_tree_distinct(1)[OF tree] by auto
  qed (use org_tree_distinct[OF tree] in auto)
  then have rows': "rows' = map (moved_row node (ou_path m) (mo_newParentId c) now) rows"
    "distinct (map ou_path rows')" using repl by auto
  have m: "m = moved_row node (ou_path m) (mo_newParentId c) now node"
    using mvk by (simp add: moved_row_def)
  have vm: "valid_path (ou_path m)"
    and ev: "e = OrgUnitMovedEvent (ou_id node) (ou_path node) (ou_path m) (mo_newParentId c)"
    and pathm: "case map_option ou_path parent of None \<Rightarrow> ou_path m = leaf (ou_path node)
       | Some p \<Rightarrow> ou_path m = p @ CHR ''.'' # leaf (ou_path node)"
    using mvk by blast+
  have valid: "valid_path (ou_path (moved_row node (ou_path m) (mo_newParentId c) now r))" if r: "r \<in> set rows" for r
  proof (cases "r \<noteq> node \<and> starts_with (ou_path r) (ou_path node @ ''.'')")
    case True
    then have "r \<in> set ds" using dsk r by simp
    then obtain r' where "valid_path (ou_path r')"
      "r' = orgUnit_touch now (r\<lparr>ou_path := ou_path m @ drop (length (ou_path node)) (ou_path r)\<rparr>)"
      using list_all2_in[OF rebk] by blast
    then show ?thesis using True by (auto simp: moved_row_def orgUnit_touch_def)
  next
    case False
    then show ?thesis using vm tree r by (auto simp: moved_row_def orgUnit_touch_def org_tree_def)
  qed
  have par: "case mo_newParentId c of None \<Rightarrow> ou_path m = leaf (ou_path node)
     | Some i \<Rightarrow> \<exists>p \<in> set rows. ou_id p = i \<and> \<not> isAncestorOf (ou_path node) (ou_path p) \<and>
         ou_path m = ou_path p @ CHR ''.'' # leaf (ou_path node)"
  proof (cases "mo_newParentId c")
    case None
    then show ?thesis using parent pathm by simp
  next
    case (Some i)
    then obtain p where "p \<in> set rows" "ou_id p = i" "\<not> isAncestorOf (ou_path node) (ou_path p)" "parent = Some p"
      using parent by (auto simp: orgUnitId_fromString_def elim!: rbind_InrE dest!: findById_ok
          split: option.splits if_splits)
    then show ?thesis using Some pathm by auto
  qed
  show thesis
    by (rule that[OF node m rows' par]) (use valid rows'(1) ev evs ver in auto)
qed


text \<open>In segments: the part of the path below the moved node is kept.\<close>

lemma moved_row_segments:
  assumes "starts_with (ou_path r) (ou_path node @ ''.'')"
  shows "\<exists>t. t \<noteq> [] \<and> segments (ou_path r) = segments (ou_path node) @ t \<and>
     segments (ou_path (moved_row node p np now r)) = segments p @ t \<and> r \<noteq> node \<and>
     ou_parentId (moved_row node p np now r) = ou_parentId r"
proof -
  obtain s where s: "ou_path r = ou_path node @ CHR ''.'' # s"
    using assms by (auto simp: starts_with_def prefix_def)
  have ne: "r \<noteq> node" using s by (metis append_self_conv list.distinct(1))
  then have "ou_path (moved_row node p np now r) = p @ CHR ''.'' # s"
    using assms s by (simp add: moved_row_def orgUnit_touch_def)
  then show ?thesis using s ne segments_append
    by (intro exI[of _ "segments s"]) (simp add: moved_row_def orgUnit_touch_def)
qed

lemma moved_row_other:
  "r \<noteq> node \<Longrightarrow> \<not> starts_with (ou_path r) (ou_path node @ ''.'') \<Longrightarrow> moved_row node p np now r = r"
  by (simp add: moved_row_def)

lemma moved_row_self:
  "ou_path (moved_row node p np now node) = p" "ou_parentId (moved_row node p np now node) = np"
  by (simp_all add: moved_row_def orgUnit_touch_def)

lemma move_keeps_parents:
  fixes now :: int
  assumes tree: "org_tree rows" and node: "node \<in> set rows" and r: "r \<in> set rows"
    and par: "case np of None \<Rightarrow> p = leaf (ou_path node)
     | Some i \<Rightarrow> \<exists>q \<in> set rows. ou_id q = i \<and> \<not> isAncestorOf (ou_path node) (ou_path q) \<and>
         p = ou_path q @ CHR ''.'' # leaf (ou_path node)"
  defines "f \<equiv> moved_row node p np now"
  shows "case ou_parentId (f r) of
      None \<Rightarrow> depth (ou_path (f r)) = 1
    | Some i \<Rightarrow> \<exists>q \<in> set rows. ou_id (f q) = i \<and>
        segments (ou_path (f r)) = segments (ou_path (f q)) @ [leaf (ou_path (f r))]"
proof -
  have leafseg: "segments (leaf (ou_path node)) = [leaf (ou_path node)]"
    using tree node by (auto simp: org_tree_def intro!: segments_single kebab_no_dot leaf_kebab)
  consider (self) "r = node" | (below) "starts_with (ou_path r) (ou_path node @ ''.'')" "r \<noteq> node"
    | (other) "r \<noteq> node" "\<not> starts_with (ou_path r) (ou_path node @ ''.'')" by blast
  then show ?thesis
  proof cases
    case self
    show ?thesis
    proof (cases np)
      case None
      then show ?thesis using self par leafseg by (simp add: f_def moved_row_self depth_def)
    next
      case (Some i)
      then obtain q where q: "q \<in> set rows" "ou_id q = i" "\<not> isAncestorOf (ou_path node) (ou_path q)"
        "p = ou_path q @ CHR ''.'' # leaf (ou_path node)" using par by auto
      have "f q = q" unfolding f_def
        by (rule moved_row_other) (use q(3) in \<open>auto simp: isAncestorOf_def\<close>)
      then show ?thesis using self Some q leafseg
        by (auto simp: f_def moved_row_self segments_append leaf_def intro!: bexI[of _ q])
    qed
  next
    case below
    from moved_row_segments[OF below(1), of p np now] obtain t where t: "t \<noteq> []"
      "segments (ou_path r) = segments (ou_path node) @ t" "segments (ou_path (f r)) = segments p @ t"
      "ou_parentId (f r) = ou_parentId r" by (auto simp: f_def)
    have "depth (ou_path r) \<noteq> 1" using t(1,2) by (cases "segments (ou_path node)") (auto simp: depth_def)
    then obtain q where q: "ou_parentId r = Some (ou_id q)" "q \<in> set rows"
      "segments (ou_path r) = segments (ou_path q) @ [leaf (ou_path r)]"
      using tree r by (force simp: org_tree_def split: option.splits)
    have "segments (ou_path q) = segments (ou_path node) @ butlast t"
      using q(3) t(1,2) by (metis butlast_append butlast_snoc)
    then have "segments (ou_path (f q)) = segments p @ butlast t"
    proof (cases "butlast t = []")
      case True
      then have "q = node" using \<open>segments (ou_path q) = _\<close> same_path[OF tree q(2) node]
        by (simp add: segments_inj)
      then show ?thesis using True by (simp add: f_def moved_row_self)
    next
      case False
      then have "starts_with (ou_path q) (ou_path node @ ''.'')"
        using \<open>segments (ou_path q) = _\<close> by (auto simp: segments_strict_prefix)
      from moved_row_segments[OF this, of p np now] show ?thesis
        using \<open>segments (ou_path q) = _\<close> by (auto simp: f_def)
    qed
    moreover have "segments p @ t = (segments p @ butlast t) @ [last t]" using t(1) by simp
    ultimately show ?thesis using q t
      by (auto simp: leaf_def f_def intro!: bexI[of _ q])
  next
    case other
    have fr: "f r = r" unfolding f_def by (rule moved_row_other[OF other])
    show ?thesis
    proof (cases "ou_parentId r")
      case None
      then show ?thesis using tree r fr by (auto simp: org_tree_def)
    next
      case (Some i)
      then obtain q where q: "ou_id q = i" "q \<in> set rows"
        "segments (ou_path r) = segments (ou_path q) @ [leaf (ou_path r)]"
        using tree r by (force simp: org_tree_def)
      have "f q = q" unfolding f_def
      proof (rule moved_row_other)
        show "q \<noteq> node" using q(3) other(2) by (auto simp: segments_strict_prefix)
        show "\<not> starts_with (ou_path q) (ou_path node @ ''.'')"
          using q(3) other(2) by (auto simp: segments_strict_prefix)
      qed
      then show ?thesis using Some q fr by (auto intro!: bexI[of _ q])
    qed
  qed
qed

lemma move_keeps_tree:
  assumes tree: "org_tree rows"
    and run: "moveOrgUnit_execute is_uuid now c rows = Inr (m, rows', evs)"
  shows "org_tree rows'"
proof -
  obtain node where n: "node \<in> set rows"
    "rows' = map (moved_row node (ou_path m) (mo_newParentId c) now) rows"
    "distinct (map ou_path rows')"
    "case mo_newParentId c of None \<Rightarrow> ou_path m = leaf (ou_path node)
     | Some i \<Rightarrow> \<exists>p \<in> set rows. ou_id p = i \<and> \<not> isAncestorOf (ou_path node) (ou_path p) \<and>
         ou_path m = ou_path p @ CHR ''.'' # leaf (ou_path node)"
    "\<forall>r \<in> set rows'. valid_path (ou_path r)"
    by (rule move_shape[OF assms]) blast
  have "map ou_id rows' = map ou_id rows" by (simp add: n(2))
  then have ids: "distinct (map ou_id rows')" using tree by (simp add: org_tree_def)
  have parents: "case ou_parentId u of None \<Rightarrow> depth (ou_path u) = 1
         | Some p \<Rightarrow> \<exists>q \<in> set rows'. ou_id q = p \<and>
             segments (ou_path u) = segments (ou_path q) @ [leaf (ou_path u)]"
    if u: "u \<in> set rows'" for u
  proof -
    obtain r where r: "r \<in> set rows" "u = moved_row node (ou_path m) (mo_newParentId c) now r"
      using u n(2) by auto
    show ?thesis
      using move_keeps_parents[OF tree n(1) r(1) n(4), of now]
      unfolding r(2) n(2) by (auto split: option.splits)
  qed
  show ?thesis unfolding org_tree_def using ids n(3,5) parents by blast
qed


section \<open>Properties\<close>

definition sample_unit :: "string \<Rightarrow> string option \<Rightarrow> string \<Rightarrow> org_unit" where
  "sample_unit i parent path =
     \<lparr>ou_id = i, ou_tenantId = ''t'', ou_parentId = parent, ou_path = path, ou_name = ''n'',
      ou_version = 1, ou_createdAt = 0, ou_updatedAt = 0\<rparr>"

definition sample_org :: org_table where
  "sample_org =
     [sample_unit ''1'' None ''acme'', sample_unit ''2'' (Some ''1'') ''acme.fin'',
      sample_unit ''3'' (Some ''2'') ''acme.fin.eu'', sample_unit ''4'' (Some ''1'') ''acme.eng'']"

definition sample_move :: move_org_command where
  "sample_move = \<lparr>mo_orgUnitId = ''2'', mo_newParentId = Some ''4'', mo_expectedVersion = Some 1\<rparr>"

lemma sample_org_tree: "org_tree sample_org"
  by code_simp

lemma sample_move_runs:
  "case moveOrgUnit_execute (\<lambda>_. True) 7 sample_move sample_org of
     Inl _ \<Rightarrow> False
   | Inr (m, rows', evs) \<Rightarrow>
       map ou_path rows' = [''acme'', ''acme.eng.fin'', ''acme.eng.fin.eu'', ''acme.eng''] \<and>
       map ou_version rows' = [1, 2, 2, 1]"
  by code_simp


lemma sample_move_result:
  obtains m rows' evs where
    "moveOrgUnit_execute (\<lambda>_. True) 7 sample_move sample_org = Inr (m, rows', evs)"
    "map ou_path rows' = [''acme'', ''acme.eng.fin'', ''acme.eng.fin.eu'', ''acme.eng'']"
  using sample_move_runs
  by (cases "moveOrgUnit_execute (\<lambda>_. True) 7 sample_move sample_org") auto

text \<open>
  Creating a unit keeps the organisation a tree: after a successful create request
  (whose segment the controller has validated) every path is still unique, at most eight
  levels deep and exactly its parent's path with one more segment; and the new row is the
  only change.
\<close>

theorem create_keeps_org_tree:
  assumes "org_tree rows" and "freshId \<notin> set (map ou_id rows)"
    and "createOrgUnitRequest_valid is_uuid c"
    and "createOrgUnit_execute is_uuid freshId tenantId now c rows = Inr (u, rows')"
  shows "org_tree rows' \<and> rows' = rows @ [u]"
  by (rule create_keeps_tree[OF assms(1,2) _ assms(4)])
    (use assms(3) in \<open>simp add: createOrgUnitRequest_valid_def\<close>)

lemma create_keeps_org_tree_witness:
  "org_tree (case createOrgUnit_execute (\<lambda>_. True) ''5'' ''t'' 9
      \<lparr>co_segment = ''it-ops'', co_name = ''IT'', co_parentId = Some ''4''\<rparr> sample_org of
      Inl _ \<Rightarrow> [] | Inr (u, rows') \<Rightarrow> rows')"
proof -
  let ?c = "\<lparr>co_segment = ''it-ops'', co_name = ''IT'', co_parentId = Some ''4''\<rparr>"
  have "is_ok (createOrgUnit_execute (\<lambda>_. True) ''5'' ''t'' 9 ?c sample_org)" by code_simp
  then obtain u rows' where r: "createOrgUnit_execute (\<lambda>_. True) ''5'' ''t'' 9 ?c sample_org = Inr (u, rows')"
    by (cases "createOrgUnit_execute (\<lambda>_. True) ''5'' ''t'' 9 ?c sample_org") auto
  have "''5'' \<notin> set (map ou_id sample_org)" by code_simp
  moreover have "createOrgUnitRequest_valid (\<lambda>_. True) ?c" by code_simp
  ultimately have "org_tree rows'" using create_keeps_org_tree[OF sample_org_tree _ _ r] by blast
  then show ?thesis by (simp add: r)
qed

text \<open>
  C6. Moving a unit keeps the organisation a tree: a successful move, of any unit to any
  new parent or to the root, rewrites the subtree so that every path is again unique, at
  most eight levels deep and its parent's path with one more segment.
\<close>

theorem move_keeps_org_tree:
  assumes "org_tree rows"
    and "moveOrgUnit_execute is_uuid now c rows = Inr (m, rows', evs)"
  shows "org_tree rows'"
  by (rule move_keeps_tree[OF assms])

lemma move_keeps_org_tree_witness:
  "org_tree (case moveOrgUnit_execute (\<lambda>_. True) 7 sample_move sample_org of
     Inl _ \<Rightarrow> [] | Inr (m, rows', evs) \<Rightarrow> rows')"
proof -
  obtain m rows' evs where r: "moveOrgUnit_execute (\<lambda>_. True) 7 sample_move sample_org = Inr (m, rows', evs)"
    by (rule sample_move_result)
  show ?thesis using move_keeps_org_tree[OF sample_org_tree r] by (simp add: r)
qed

text \<open>
  C7. A move changes exactly the subtree of the moved unit: its own path becomes the new
  parent's path (or nothing) and its leaf, every unit below it keeps what its path had
  below the moved unit, the versions of these rows go up by one, every other row is
  untouched, and one event with the old and the new path is published.
\<close>

theorem move_rewrites_subtree:
  assumes "org_tree rows"
    and "moveOrgUnit_execute is_uuid now c rows = Inr (m, rows', evs)"
  shows "\<exists>node \<in> set rows. ou_id node = mo_orgUnitId c \<and>
     (case mo_newParentId c of None \<Rightarrow> ou_path m = leaf (ou_path node)
      | Some i \<Rightarrow> \<exists>p \<in> set rows. ou_id p = i \<and> \<not> isAncestorOf (ou_path node) (ou_path p) \<and>
          ou_path m = ou_path p @ CHR ''.'' # leaf (ou_path node)) \<and>
     rows' = map (\<lambda>r.
       if r = node then r\<lparr>ou_parentId := mo_newParentId c, ou_path := ou_path m, ou_updatedAt := now,
                          ou_version := ou_version r + 1\<rparr>
       else if starts_with (ou_path r) (ou_path node @ ''.'')
       then r\<lparr>ou_path := ou_path m @ drop (length (ou_path node)) (ou_path r), ou_updatedAt := now,
              ou_version := ou_version r + 1\<rparr>
       else r) rows \<and>
     evs = [OrgUnitMovedEvent (ou_id node) (ou_path node) (ou_path m) (mo_newParentId c)]"
proof -
  have row: "moved_row node p np now r =
     (if r = node then r\<lparr>ou_parentId := np, ou_path := p, ou_updatedAt := now, ou_version := ou_version r + 1\<rparr>
      else if starts_with (ou_path r) (ou_path node @ ''.'')
      then r\<lparr>ou_path := p @ drop (length (ou_path node)) (ou_path r), ou_updatedAt := now,
             ou_version := ou_version r + 1\<rparr>
      else r)" for node p np r
    by (simp add: moved_row_def orgUnit_touch_def)
  show ?thesis
    by (rule move_shape[OF assms], unfold row) blast
qed

lemma move_rewrites_subtree_witness:
  "\<exists>node \<in> set sample_org. ou_id node = ''2'' \<and>
     [OrgUnitMovedEvent ''2'' ''acme.fin'' ''acme.eng.fin'' (Some ''4'')] =
     [OrgUnitMovedEvent (ou_id node) (ou_path node) ''acme.eng.fin'' (Some ''4'')]"
proof -
  obtain m rows' evs where r: "moveOrgUnit_execute (\<lambda>_. True) 7 sample_move sample_org = Inr (m, rows', evs)"
    by (rule sample_move_result)
  from move_rewrites_subtree[OF sample_org_tree r] show ?thesis
    by (auto simp: sample_move_def sample_org_def sample_unit_def)
qed

text \<open>
  The documented 409 org\_unit\_depth\_exceeded of a move never happens: the depth
  test of moveTo and rebasePath comes after the path has been parsed, and parsing already
  rejects a path of more than eight segments, with the 400 org\_path\_too\_deep.
\<close>

theorem move_depth_check_unreachable:
  "orgUnit_moveTo np pp now u \<noteq> Inl (OrgUnitDepthExceededError msg) \<and>
   orgUnit_rebasePath q p now u \<noteq> Inl (OrgUnitDepthExceededError msg) \<and>
   (depth (p @ CHR ''.'' # s) > 8 \<longrightarrow>
    orgPath_child p s = Inl (ValidationError ''path depth must be <= 8'' (Some ''org_path_too_deep'')))"
proof (intro conjI impI)
  have parse: "orgPath_fromString x \<noteq> Inl (OrgUnitDepthExceededError msg)" for x
  proof -
    have "check_segments ss \<noteq> Inl (OrgUnitDepthExceededError msg)" for ss
      by (induction ss) (auto simp: error_ctor_defs OrgUnitDepthExceededError_def)
    then show ?thesis
      by (auto simp: orgPath_fromString_def rbind_Inl_iff againstEmpty_def Let_def error_ctor_defs
          OrgUnitDepthExceededError_def split: if_splits)
  qed
  have shallow: "valid_path x \<Longrightarrow> \<not> depth x > MAX_DEPTH" for x
    by (simp add: valid_path_def depth_def MAX_DEPTH_def)
  show "orgUnit_moveTo np pp now u \<noteq> Inl (OrgUnitDepthExceededError msg)"
    using parse shallow
    by (auto simp: orgUnit_moveTo_def Let_def rbind_Inl_iff orgPath_child_def split: option.splits if_splits)
  show "orgUnit_rebasePath q p now u \<noteq> Inl (OrgUnitDepthExceededError msg)"
    using parse shallow
    by (auto simp: orgUnit_rebasePath_def Let_def rbind_Inl_iff split: if_splits)
  assume deep: "depth (p @ CHR ''.'' # s) > 8"
  have "js_trim (p @ CHR ''.'' # s) \<noteq> []" by (auto simp: js_trim_Nil_iff is_ws_def)
  then show "orgPath_child p s = Inl (ValidationError ''path depth must be <= 8'' (Some ''org_path_too_deep''))"
    using deep
    by (simp add: orgPath_child_def orgPath_fromString_def againstEmpty_def MAX_DEPTH_def depth_def
        Let_def nat_str.simps digit_char_def)
qed

lemma move_depth_check_unreachable_witness:
  "orgPath_child ''a.b.c.d.e.f.g.h'' ''i'' =
     Inl (ValidationError ''path depth must be <= 8'' (Some ''org_path_too_deep''))"
proof -
  have "depth (''a.b.c.d.e.f.g.h'' @ CHR ''.'' # ''i'') > 8" by code_simp
  then show ?thesis using move_depth_check_unreachable by blast
qed

end
