(* ===== verification/PolicyCompile.thy ===== *)
theory PolicyCompile
  imports IdentityToken
begin

text \<open>
  From a published policy to Cerbos documents: the shared compiler
  (packages/authz/src/policy/compile-policy.ts) on the contract types
  (packages/contracts/src/policy), the validation of the authored JSON and the set of
  files of one policy version (apps/authz-admin/src/modules/policy/infrastructure/
  publishing/cerbos-policy-mapper.ts), and the publisher's directory
  (fs-cerbos-policy.publisher.ts).  A condition is any JSON value, because the mapper passes
  it on unchecked; what JavaScript throws on a value of another shape is a Crash.
\<close>

section \<open>Conditions\<close>

datatype cerbos_match = MAll "cerbos_match list" | MAny "cerbos_match list" | MExpr json

definition PolicyCompileError :: "string \<Rightarrow> exn" where
  "PolicyCompileError m = newDomainError CPolicyCompile m (Some ''policy_compile_failed'') None"

text \<open>Reading a property: null throws, and only objects have named members here.\<close>

definition jprop :: "string \<Rightarrow> json \<Rightarrow> json option result" where
  "jprop k v =
     (case v of
        JNull \<Rightarrow> Inl (Crash ''TypeError: Cannot read properties of null'')
      | _ \<Rightarrow> Inr (jget k v))"

text \<open>The in operator: only objects and arrays may stand on its right.\<close>

definition jin :: "string \<Rightarrow> json \<Rightarrow> bool result" where
  "jin k v =
     (case v of
        JObj _ \<Rightarrow> Inr (jget k v \<noteq> None)
      | JArr _ \<Rightarrow> Inr False
      | _ \<Rightarrow> Inl (Crash ''TypeError: Cannot use in operator to search in a primitive''))"

definition jarray :: "json \<Rightarrow> json list result" where
  "jarray v = (case v of JArr vs \<Rightarrow> Inr vs | _ \<Rightarrow> Inl (Crash ''TypeError: map is not a function''))"

lemma jget_size: "jget k v = Some w \<Longrightarrow> size w < size v"
proof (cases v)
  case (JObj ms)
  assume "jget k v = Some w"
  then have "(k, w) \<in> set ms" using JObj by (auto dest: map_of_SomeD)
  then show ?thesis using JObj by (induction ms arbitrary: v) (auto simp: less_Suc_eq_le)
qed auto

lemma jprop_jget: "jprop k v = Inr r \<Longrightarrow> r = jget k v"
  by (cases v) (auto simp: jprop_def)

lemma jprop_size: "jprop k v = Inr (Some w) \<Longrightarrow> size w < size v"
  by (rule jget_size) (drule jprop_jget, simp)

lemma jarray_size: "jarray v = Inr vs \<Longrightarrow> w \<in> set vs \<Longrightarrow> size w < size v"
  by (cases v) (auto simp: jarray_def less_Suc_eq_le intro: size_list_estimation')

lemma rmap_cong [fundef_cong]:
  assumes "xs = ys" and "\<And>x. x \<in> set ys \<Longrightarrow> f x = g x"
  shows "rmap f xs = rmap g ys"
  using assms by (induction ys arbitrary: xs) (auto intro!: rbind_cong)

function (sequential) compileCondition :: "json \<Rightarrow> cerbos_match result"
  and compileOperand :: "json \<Rightarrow> cerbos_match result" where
  "compileCondition c =
     rbind (jprop ''all'' c) (\<lambda>al.
     case al of
       Some v \<Rightarrow> rbind (jarray v) (\<lambda>vs. rbind (rmap compileOperand vs) (\<lambda>ms. Inr (MAll ms)))
     | None \<Rightarrow>
     rbind (jprop ''any'' c) (\<lambda>an.
     case an of
       Some v \<Rightarrow> rbind (jarray v) (\<lambda>vs. rbind (rmap compileOperand vs) (\<lambda>ms. Inr (MAny ms)))
     | None \<Rightarrow>
     rbind (jprop ''expr'' c) (\<lambda>ex.
     case ex of
       Some v \<Rightarrow> Inr (MExpr v)
     | None \<Rightarrow> Inr (MExpr (JStr ''true'')))))"
| "compileOperand operand =
     rbind (jin ''all'' operand) (\<lambda>isAll.
     if isAll then compileCondition operand
     else rbind (jin ''any'' operand) (\<lambda>isAny.
     if isAny then compileCondition operand
     else (case jget ''expr'' operand of
             Some (JStr s) \<Rightarrow> Inr (MExpr (JStr s))
           | _ \<Rightarrow> compileCondition operand)))"
  by pat_completeness auto
termination
  by (relation "measures [(\<lambda>x. case x of Inl c \<Rightarrow> size c | Inr c \<Rightarrow> size c),
                          (\<lambda>x. case x of Inl c \<Rightarrow> 0 | Inr c \<Rightarrow> 1)]")
    (auto dest!: jprop_size jarray_size)

declare compileCondition.simps [simp del] compileOperand.simps [simp del]

section \<open>Rules and documents\<close>

datatype rule_effect = RuleAllow | RuleDeny

record policy_rule =
  pl_actions :: "string list"
  pl_effect :: rule_effect
  pl_roles :: "string list"
  pl_condition :: "json option"
  pl_name :: "string option"

record policy_rule_body =
  pb_resource :: string
  pb_rules :: "policy_rule list"

record cerbos_rule =
  cb_actions :: "string list"
  cb_effect :: rule_effect
  cb_roles :: "string list"
  cb_condition :: "cerbos_match option"
  cb_name :: string

record cerbos_document =
  cd_storeIdentifier :: string
  cd_policyId :: string
  cd_version :: int
  cd_scopeAnnotation :: string
  cd_resource :: string
  cd_resourceVersion :: "string option"
  cd_scope :: "string option"
  cd_importDerivedRoles :: "string list"
  cd_rules :: "cerbos_rule list"

definition compileRule :: "policy_rule \<Rightarrow> nat \<Rightarrow> cerbos_rule result" where
  "compileRule rule index =
     (let base = \<lparr>cb_actions = pl_actions rule, cb_effect = pl_effect rule, cb_roles = pl_roles rule,
                  cb_condition = None,
                  cb_name = or_default (pl_name rule) (''rule_'' @ nat_str index)\<rparr>
      in case pl_condition rule of
           None \<Rightarrow> Inr base
         | Some c \<Rightarrow> rbind (compileCondition c) (\<lambda>m. Inr (base\<lparr>cb_condition := Some m\<rparr>)))"

definition compilePolicyToCerbos ::
  "policy_rule_body \<Rightarrow> string \<Rightarrow> string \<Rightarrow> int \<Rightarrow> cerbos_document result" where
  "compilePolicyToCerbos body scope policyId version =
     rbind (rmap (\<lambda>(i, r). compileRule r i) (enumerate 0 (pb_rules body))) (\<lambda>rules.
     Inr \<lparr>cd_storeIdentifier = pb_resource body @ ''.'' @ scope @ ''.v'' @ int_str version,
          cd_policyId = policyId, cd_version = version, cd_scopeAnnotation = scope,
          cd_resource = pb_resource body, cd_resourceVersion = None,
          cd_scope = (if scope \<noteq> [] then Some scope else None),
          cd_importDerivedRoles = [], cd_rules = rules\<rparr>)"

section \<open>The mapper\<close>

definition TENANT_ISOLATION_GUARDRAIL :: policy_rule where
  "TENANT_ISOLATION_GUARDRAIL =
     \<lparr>pl_actions = [''*''], pl_effect = RuleDeny, pl_roles = [''*''],
      pl_condition = Some (JObj [(''expr'',
        JStr ''request.resource.attr.tenantId != request.principal.attr.tenantId'')]),
      pl_name = Some ''tenant_isolation_guardrail''\<rparr>"

definition string_array :: "json option \<Rightarrow> string list option" where
  "string_array v =
     (case v of
        Some (JArr vs) \<Rightarrow>
          (if list_all (\<lambda>x. case x of JStr _ \<Rightarrow> True | _ \<Rightarrow> False) vs
           then Some (map (\<lambda>x. case x of JStr s \<Rightarrow> s | _ \<Rightarrow> []) vs) else None)
      | _ \<Rightarrow> None)"

definition parseRule :: "json \<Rightarrow> nat \<Rightarrow> policy_rule result" where
  "parseRule v index =
     (let at = ''policy rule['' @ nat_str index @ '']'' in
      if (case v of JObj _ \<Rightarrow> False | JArr _ \<Rightarrow> False | _ \<Rightarrow> True)
      then Inl (PolicyCompileError (at @ '' must be an object''))
      else if string_array (jget ''actions'' v) \<in> {None, Some []}
      then Inl (PolicyCompileError (at @ '' needs a non-empty \"actions\" array''))
      else if jget ''effect'' v \<notin> {Some (JStr ''ALLOW''), Some (JStr ''DENY'')}
      then Inl (PolicyCompileError (at @ '' effect must be \"ALLOW\" or \"DENY\"''))
      else if string_array (jget ''roles'' v) \<in> {None, Some []}
      then Inl (PolicyCompileError (at @ '' needs a non-empty \"roles\" array''))
      else Inr \<lparr>pl_actions = or_default (string_array (jget ''actions'' v)) [],
                pl_effect = (if jget ''effect'' v = Some (JStr ''ALLOW'') then RuleAllow else RuleDeny),
                pl_roles = or_default (string_array (jget ''roles'' v)) [],
                pl_condition = jget ''condition'' v,
                pl_name = jget_string ''name'' v\<rparr>)"

definition parseRuleBody :: "json \<Rightarrow> policy_rule_body result" where
  "parseRuleBody rule =
     (case jget_string ''resource'' rule of
        None \<Rightarrow> Inl (PolicyCompileError ''policy rule body is missing a non-empty \"resource\"'')
      | Some resource \<Rightarrow>
          if length (js_trim resource) = 0
          then Inl (PolicyCompileError ''policy rule body is missing a non-empty \"resource\"'')
          else (case jget ''rules'' rule of
                  Some (JArr rs) \<Rightarrow>
                    rbind (rmap (\<lambda>(i, r). parseRule r i) (enumerate 0 rs)) (\<lambda>rules.
                    Inr \<lparr>pb_resource = resource, pb_rules = rules\<rparr>)
                | _ \<Rightarrow> Inl (PolicyCompileError ''policy rule body \"rules\" must be an array'')))"

definition fileNameFor :: "string \<Rightarrow> string \<Rightarrow> string" where
  "fileNameFor resource scope =
     (let scopePart = (if length scope > 0 then scope else ''base'')
      in resource @ ''.'' @ scopePart @ ''.yaml'')"

type_synonym cerbos_file = "string \<times> cerbos_document"

definition withCerbosDefaults :: "cerbos_document \<Rightarrow> string \<Rightarrow> cerbos_file" where
  "withCerbosDefaults doc scope =
     (fileNameFor (cd_resource doc) scope,
      doc\<lparr>cd_resourceVersion := Some ''default'', cd_importDerivedRoles := [''platform_defaults'']\<rparr>)"

definition ancestorScopes :: "string \<Rightarrow> string list" where
  "ancestorScopes scope =
     (if length scope = 0 then []
      else (let labels = split_on (CHR ''.'') scope
            in map (\<lambda>cut. join_with ''.'' (take cut labels)) (rev [1..<length labels])))"

definition mapPolicyToCerbosFiles ::
  "json \<Rightarrow> string \<Rightarrow> string \<Rightarrow> int \<Rightarrow> cerbos_file list result" where
  "mapPolicyToCerbosFiles rule scope policyId version =
     rbind (parseRuleBody rule) (\<lambda>body.
     let guardedBody = body\<lparr>pb_rules := TENANT_ISOLATION_GUARDRAIL # pb_rules body\<rparr> in
     rbind (compilePolicyToCerbos guardedBody scope policyId version) (\<lambda>leaf.
     rbind (rmap (\<lambda>ancestor.
        rbind (compilePolicyToCerbos \<lparr>pb_resource = pb_resource body, pb_rules = []\<rparr> ancestor policyId version)
          (\<lambda>stub. Inr (withCerbosDefaults stub ancestor))) (ancestorScopes scope)) (\<lambda>stubs.
     Inr (withCerbosDefaults leaf scope # stubs))))"

section \<open>The policy directory\<close>

type_synonym policy_dir = "string \<Rightarrow> cerbos_document option"

text \<open>Each file is written beside its target and renamed onto it, one file after the other.\<close>

definition writeFileAtomic :: "policy_dir \<Rightarrow> cerbos_file \<Rightarrow> policy_dir" where
  "writeFileAtomic dir f = dir(fst f \<mapsto> snd f)"

definition fsPublish :: "json \<Rightarrow> string \<Rightarrow> string \<Rightarrow> int \<Rightarrow> policy_dir \<Rightarrow> policy_dir result" where
  "fsPublish rule scope policyId version dir =
     rbind (mapPolicyToCerbosFiles rule scope policyId version) (\<lambda>files.
     Inr (foldl writeFileAtomic dir files))"

definition noopPublish :: "policy_dir \<Rightarrow> policy_dir result" where
  "noopPublish dir = Inr dir"

end
