(* ===== verification/PolicySafety.thy ===== *)
theory PolicySafety
  imports PolicyCompile
begin

text \<open>
  What compiling and publishing a policy guarantees: the meaning of well-formed
  conditions is kept, the tenant guardrail wins in every published document, the scope
  chain of a published policy is complete; and two ways in which the code falls short of
  its documentation.  The meaning of a document is the one the sources state: all is
  conjunction, any is disjunction, and within one policy a matching DENY overrides.  The
  truth of a CEL expression is the argument \<^term>\<open>cel\<close>.
\<close>

section \<open>The meaning of conditions and documents\<close>

text \<open>The contract type of a condition: exactly one of all, any and expr, or none of them.\<close>

datatype policy_condition =
  PAll "policy_condition list" | PAny "policy_condition list" | PExpr string | PEmpty

fun condition_json :: "policy_condition \<Rightarrow> json" where
  "condition_json (PAll cs) = JObj [(''all'', JArr (map condition_json cs))]"
| "condition_json (PAny cs) = JObj [(''any'', JArr (map condition_json cs))]"
| "condition_json (PExpr e) = JObj [(''expr'', JStr e)]"
| "condition_json PEmpty = JObj []"

fun condition_holds :: "(string \<Rightarrow> bool) \<Rightarrow> policy_condition \<Rightarrow> bool" where
  "condition_holds cel (PAll cs) = list_all (condition_holds cel) cs"
| "condition_holds cel (PAny cs) = list_ex (condition_holds cel) cs"
| "condition_holds cel (PExpr e) = cel e"
| "condition_holds cel PEmpty = cel ''true''"

fun match_holds :: "(string \<Rightarrow> bool) \<Rightarrow> cerbos_match \<Rightarrow> bool" where
  "match_holds cel (MAll ms) = list_all (match_holds cel) ms"
| "match_holds cel (MAny ms) = list_ex (match_holds cel) ms"
| "match_holds cel (MExpr v) = (case v of JStr s \<Rightarrow> cel s | _ \<Rightarrow> False)"

definition rule_applies :: "(string \<Rightarrow> bool) \<Rightarrow> string list \<Rightarrow> string \<Rightarrow> cerbos_rule \<Rightarrow> bool" where
  "rule_applies cel roles action r \<longleftrightarrow>
     (action \<in> set (cb_actions r) \<or> ''*'' \<in> set (cb_actions r)) \<and>
     (''*'' \<in> set (cb_roles r) \<or> list_ex (\<lambda>x. x \<in> set (cb_roles r)) roles) \<and>
     (case cb_condition r of None \<Rightarrow> True | Some m \<Rightarrow> match_holds cel m)"

definition document_effect ::
  "(string \<Rightarrow> bool) \<Rightarrow> string list \<Rightarrow> string \<Rightarrow> cerbos_document \<Rightarrow> rule_effect option" where
  "document_effect cel roles action doc =
     (if list_ex (\<lambda>r. cb_effect r = RuleDeny \<and> rule_applies cel roles action r) (cd_rules doc) then Some RuleDeny
      else if list_ex (\<lambda>r. cb_effect r = RuleAllow \<and> rule_applies cel roles action r) (cd_rules doc) then Some RuleAllow
      else None)"

lemma compileOperand_condition:
  "compileOperand (condition_json c) = compileCondition (condition_json c)"
  by (cases c) (simp_all add: compileOperand.simps jin_def compileCondition.simps jprop_def)

lemma compile_operands:
  assumes "\<And>c. c \<in> set cs \<Longrightarrow>
      \<exists>m. compileCondition (condition_json c) = Inr m \<and> match_holds cel m = condition_holds cel c"
  shows "\<exists>ms. rmap compileOperand (map condition_json cs) = Inr ms \<and>
      map (match_holds cel) ms = map (condition_holds cel) cs"
  using assms
proof (induction cs)
  case (Cons c cs)
  obtain m where m: "compileCondition (condition_json c) = Inr m" "match_holds cel m = condition_holds cel c"
    using Cons.prems by auto
  obtain ms where "rmap compileOperand (map condition_json cs) = Inr ms"
    "map (match_holds cel) ms = map (condition_holds cel) cs" using Cons by auto
  then show ?case using m by (intro exI[of _ "m # ms"]) (simp add: compileOperand_condition)
qed simp

lemma compile_condition_correct:
  "\<exists>m. compileCondition (condition_json c) = Inr m \<and> match_holds cel m = condition_holds cel c"
proof (induction c)
  case (PAll cs)
  obtain ms where "rmap compileOperand (map condition_json cs) = Inr ms"
    "map (match_holds cel) ms = map (condition_holds cel) cs" using compile_operands PAll by blast
  then show ?case
    by (intro exI[of _ "MAll ms"])
      (simp add: compileCondition.simps jprop_def jarray_def list_all_length, metis length_map nth_map)
next
  case (PAny cs)
  obtain ms where "rmap compileOperand (map condition_json cs) = Inr ms"
    "map (match_holds cel) ms = map (condition_holds cel) cs" using compile_operands PAny by blast
  then show ?case
    by (intro exI[of _ "MAny ms"])
      (simp add: compileCondition.simps jprop_def jarray_def list_ex_length, metis length_map nth_map)
qed (auto simp: compileCondition.simps jprop_def)


section \<open>The files of a policy\<close>

definition tenant_mismatch_expr :: string where
  "tenant_mismatch_expr = ''request.resource.attr.tenantId != request.principal.attr.tenantId''"

lemma compile_guardrail:
  "compileRule TENANT_ISOLATION_GUARDRAIL i =
   Inr \<lparr>cb_actions = [''*''], cb_effect = RuleDeny, cb_roles = [''*''],
        cb_condition = Some (MExpr (JStr tenant_mismatch_expr)), cb_name = ''tenant_isolation_guardrail''\<rparr>"
  by (simp add: compileRule_def TENANT_ISOLATION_GUARDRAIL_def compileCondition.simps jprop_def
      tenant_mismatch_expr_def)

lemma compilePolicy_ok:
  "compilePolicyToCerbos body scope pid v = Inr d \<Longrightarrow>
   cd_resource d = pb_resource body \<and>
   rmap (\<lambda>(i, r). compileRule r i) (enumerate 0 (pb_rules body)) = Inr (cd_rules d)"
  by (auto simp: compilePolicyToCerbos_def elim!: rbind_InrE)

lemma stub_file:
  "rbind (compilePolicyToCerbos \<lparr>pb_resource = res, pb_rules = []\<rparr> a pid v)
     (\<lambda>stub. Inr (withCerbosDefaults stub a)) = Inr f \<Longrightarrow>
   fst f = fileNameFor res a \<and> cd_rules (snd f) = []"
  by (auto simp: withCerbosDefaults_def compilePolicyToCerbos_def elim!: rbind_InrE)

lemma stub_files:
  "list_all2 (\<lambda>a f. fst f = fileNameFor res a \<and> cd_rules (snd f) = []) xs stubs \<Longrightarrow>
   map fst stubs = map (fileNameFor res) xs \<and> (\<forall>f \<in> set stubs. cd_rules (snd f) = [])"
  by (induction xs stubs rule: list_all2_induct) auto

text \<open>The leaf first, the ancestors after it, each with its own name and no rules.\<close>

lemma mapPolicy_shape:
  assumes "mapPolicyToCerbosFiles rule scope pid v = Inr files"
  obtains body leaf stubs where "parseRuleBody rule = Inr body"
    "files = (fileNameFor (pb_resource body) scope, leaf) # stubs"
    "\<exists>rs. cd_rules leaf = \<lparr>cb_actions = [''*''], cb_effect = RuleDeny, cb_roles = [''*''],
        cb_condition = Some (MExpr (JStr tenant_mismatch_expr)), cb_name = ''tenant_isolation_guardrail''\<rparr> # rs"
    "map fst stubs = map (fileNameFor (pb_resource body)) (ancestorScopes scope)"
    "\<forall>f \<in> set stubs. cd_rules (snd f) = []"
proof -
  obtain body leaf stubs where
    b: "parseRuleBody rule = Inr body" and
    l: "compilePolicyToCerbos (body\<lparr>pb_rules := TENANT_ISOLATION_GUARDRAIL # pb_rules body\<rparr>) scope pid v = Inr leaf" and
    s: "rmap (\<lambda>ancestor.
        rbind (compilePolicyToCerbos \<lparr>pb_resource = pb_resource body, pb_rules = []\<rparr> ancestor pid v)
          (\<lambda>stub. Inr (withCerbosDefaults stub ancestor))) (ancestorScopes scope) = Inr stubs" and
    f: "files = withCerbosDefaults leaf scope # stubs"
    using assms by (auto simp: mapPolicyToCerbosFiles_def Let_def elim!: rbind_InrE)
  have "list_all2 (\<lambda>a f. fst f = fileNameFor (pb_resource body) a \<and> cd_rules (snd f) = []) (ancestorScopes scope) stubs"
    using s unfolding rmap_Inr_iff by (rule list_all2_mono) (rule stub_file)
  then have stubs: "map fst stubs = map (fileNameFor (pb_resource body)) (ancestorScopes scope)"
    "\<forall>f \<in> set stubs. cd_rules (snd f) = []" by (auto dest: stub_files)
  have "cd_resource leaf = pb_resource body" using compilePolicy_ok[OF l] by simp
  moreover have "\<exists>rs. cd_rules leaf = \<lparr>cb_actions = [''*''], cb_effect = RuleDeny, cb_roles = [''*''],
        cb_condition = Some (MExpr (JStr tenant_mismatch_expr)), cb_name = ''tenant_isolation_guardrail''\<rparr> # rs"
    using compilePolicy_ok[OF l] by (auto simp: compile_guardrail dest!: sym[of "_ # _"] elim!: rbind_InrE)
  ultimately show thesis
    by (intro that[OF b, of "snd (withCerbosDefaults leaf scope)" stubs])
      (use f stubs in \<open>auto simp: withCerbosDefaults_def\<close>)
qed

lemma foldl_write:
  "foldl writeFileAtomic dir files n =
   (case map_of (rev files) n of None \<Rightarrow> dir n | Some d \<Rightarrow> Some d)"
  by (induction files arbitrary: dir rule: rev_induct) (auto simp: writeFileAtomic_def split: option.splits)

lemma fileNameFor_inj: "fileNameFor r s = fileNameFor r t \<Longrightarrow> s \<noteq> [] \<Longrightarrow> t \<noteq> [] \<Longrightarrow> s = t"
  by (simp add: fileNameFor_def)

lemma ancestors_proper: "a \<in> set (ancestorScopes scope) \<Longrightarrow> a \<noteq> [] \<longrightarrow> length (split_on (CHR ''.'') a) < length (split_on (CHR ''.'') scope)"
proof
  assume "a \<in> set (ancestorScopes scope)" "a \<noteq> []"
  then obtain k where k: "1 \<le> k" "k < length (split_on (CHR ''.'') scope)"
    "a = join_with ''.'' (take k (split_on (CHR ''.'') scope))"
    by (auto simp: ancestorScopes_def Let_def split: if_splits)
  have "split_on (CHR ''.'') a = take k (split_on (CHR ''.'') scope)"
    unfolding k(3) by (rule split_join) (use k split_on_pieces in \<open>auto dest!: in_set_takeD\<close>)
  then show "length (split_on (CHR ''.'') a) < length (split_on (CHR ''.'') scope)" using k by simp
qed

section \<open>Properties\<close>

definition sample_rule :: "string \<Rightarrow> json \<Rightarrow> json" where
  "sample_rule resource cond =
     JObj [(''resource'', JStr resource),
           (''rules'', JArr [JObj [(''actions'', JArr [JStr ''approve'']), (''effect'', JStr ''ALLOW''),
                                   (''roles'', JArr [JStr ''manager'']), (''condition'', cond)]])]"

text \<open>
  C8. Compiling keeps the meaning: every condition of the contract type, however deeply
  its all and any combinators nest, compiles without an error to a Cerbos match that holds
  for exactly the same truth values of its CEL expressions.
\<close>

theorem compiled_condition_same_meaning:
  "\<exists>m. compileCondition (condition_json c) = Inr m \<and> match_holds cel m = condition_holds cel c"
  by (rule compile_condition_correct)

text \<open>
  C9. No published policy can allow across tenants: in the document of the published
  scope a request whose resource and principal differ in tenantId is denied for every role
  and action, whatever rules and conditions the tenant has authored.
\<close>

theorem guardrail_denies_cross_tenant:
  assumes "mapPolicyToCerbosFiles rule scope pid v = Inr files"
    and "cel tenant_mismatch_expr"
  shows "document_effect cel roles action (snd (hd files)) = Some RuleDeny"
proof (rule mapPolicy_shape[OF assms(1)])
  fix body leaf stubs
  assume f: "files = (fileNameFor (pb_resource body) scope, leaf) # stubs"
    and "\<exists>rs. cd_rules leaf = \<lparr>cb_actions = [''*''], cb_effect = RuleDeny, cb_roles = [''*''],
        cb_condition = Some (MExpr (JStr tenant_mismatch_expr)), cb_name = ''tenant_isolation_guardrail''\<rparr> # rs"
  then show ?thesis using assms(2) by (auto simp: document_effect_def rule_applies_def)
qed

lemma sample_rule_maps:
  "is_ok (mapPolicyToCerbosFiles (sample_rule ''doc'' (JObj [(''expr'', JStr ''a < 1'')])) ''acme.fin'' ''p'' 1)"
  by code_simp

lemma guardrail_denies_cross_tenant_witness:
  "case mapPolicyToCerbosFiles (sample_rule ''doc'' (JObj [(''expr'', JStr ''a < 1'')])) ''acme.fin'' ''p'' 1 of
     Inl _ \<Rightarrow> False
   | Inr files \<Rightarrow> document_effect (\<lambda>_. True) [''manager''] ''approve'' (snd (hd files)) = Some RuleDeny"
  using sample_rule_maps guardrail_denies_cross_tenant[where cel = "\<lambda>_. True"]
  by (auto simp: is_ok_def split: sum.splits)

text \<open>
  The scope chain of a published policy is complete: the files written are, from the
  most specific to the least, those of the scope and of each of its ancestors, so that
  Cerbos never meets a scoped policy with a missing ancestor.
\<close>

theorem published_scope_chain_complete:
  assumes "mapPolicyToCerbosFiles rule scope pid v = Inr files" and "scope \<noteq> []"
  shows "\<exists>resource. jget_string ''resource'' rule = Some resource \<and>
     map fst files = map (\<lambda>k. fileNameFor resource (join_with ''.'' (take k (split_on (CHR ''.'') scope))))
                       (rev [1..<Suc (length (split_on (CHR ''.'') scope))])"
proof (rule mapPolicy_shape[OF assms(1)])
  fix body leaf stubs
  assume b: "parseRuleBody rule = Inr body"
    and f: "files = (fileNameFor (pb_resource body) scope, leaf) # stubs"
    and s: "map fst stubs = map (fileNameFor (pb_resource body)) (ancestorScopes scope)"
  have "jget_string ''resource'' rule = Some (pb_resource body)"
    using b by (auto simp: parseRuleBody_def elim!: rbind_InrE split: option.splits if_splits json.splits)
  moreover have "1 \<le> length (split_on (CHR ''.'') scope)" by (simp add: split_on_length)
  ultimately show ?thesis
    using f s assms(2) by (simp add: ancestorScopes_def Let_def comp_def)
qed

lemma published_scope_chain_complete_witness:
  "case mapPolicyToCerbosFiles (sample_rule ''doc'' (JObj [(''expr'', JStr ''a < 1'')])) ''acme.fin'' ''p'' 1 of
     Inl _ \<Rightarrow> False
   | Inr files \<Rightarrow> (\<exists>resource. map fst files = map (\<lambda>k. fileNameFor resource
         (join_with ''.'' (take k (split_on (CHR ''.'') ''acme.fin''))))
         (rev [1..<Suc (length (split_on (CHR ''.'') ''acme.fin''))]))"
proof (cases "mapPolicyToCerbosFiles (sample_rule ''doc'' (JObj [(''expr'', JStr ''a < 1'')])) ''acme.fin'' ''p'' 1")
  case (Inr files)
  show ?thesis unfolding Inr using published_scope_chain_complete[OF Inr] by auto
qed (use sample_rule_maps in \<open>simp add: is_ok_def\<close>)

text \<open>
  Publishing a child scope erases the published policy of its ancestors: the stubs
  are written for every ancestor, not only for missing ones, so after a policy of the same
  resource is published below a scope, the document of that scope has no rules left,
  neither the authored ones nor the guardrail.
\<close>

theorem publishing_child_erases_parent:
  assumes "fsPublish ruleC scopeC pidC vC dir = Inr dir'"
    and "jget_string ''resource'' ruleC = Some resource"
    and "scopeP \<in> set (ancestorScopes scopeC)" and "scopeP \<noteq> []"
  shows "\<exists>doc. dir' (fileNameFor resource scopeP) = Some doc \<and> cd_rules doc = []"
proof -
  obtain files where files: "mapPolicyToCerbosFiles ruleC scopeC pidC vC = Inr files"
    "dir' = foldl writeFileAtomic dir files"
    using assms(1) by (auto simp: fsPublish_def elim!: rbind_InrE)
  show ?thesis
  proof (rule mapPolicy_shape[OF files(1)])
    fix body leaf stubs
    assume b: "parseRuleBody ruleC = Inr body"
      and f: "files = (fileNameFor (pb_resource body) scopeC, leaf) # stubs"
      and s: "map fst stubs = map (fileNameFor (pb_resource body)) (ancestorScopes scopeC)"
      and e: "\<forall>f \<in> set stubs. cd_rules (snd f) = []"
    have res: "pb_resource body = resource"
      using b assms(2) by (auto simp: parseRuleBody_def elim!: rbind_InrE split: if_splits option.splits json.splits)
    have "fileNameFor resource scopeP \<in> set (map fst stubs)" using s assms(3) res by simp
    then have "\<exists>doc. map_of (rev stubs) (fileNameFor resource scopeP) = Some doc"
      by (metis domD dom_map_of_conv_image_fst image_set set_rev)
    then obtain doc where doc: "map_of (rev stubs) (fileNameFor resource scopeP) = Some doc" by blast
    then have "(fileNameFor resource scopeP, doc) \<in> set stubs" using map_of_SomeD by fastforce
    then have "cd_rules doc = []" using e by force
    moreover have "dir' (fileNameFor resource scopeP) = Some doc"
      using doc by (simp add: files(2) foldl_write f map_add_Some_iff)
    ultimately show ?thesis by blast
  qed
qed

definition published_parent :: policy_dir where
  "published_parent =
     (case fsPublish (sample_rule ''doc'' (JObj [(''expr'', JStr ''a < 1'')])) ''acme'' ''p'' 1 Map.empty of
        Inr dir \<Rightarrow> dir | Inl _ \<Rightarrow> Map.empty)"

lemma publishing_child_erases_parent_witness:
  "(\<exists>doc. published_parent ''doc.acme.yaml'' = Some doc \<and> length (cd_rules doc) = 2) \<and>
   (\<exists>dir' doc. fsPublish (sample_rule ''doc'' (JObj [])) ''acme.fin'' ''q'' 1 published_parent = Inr dir' \<and>
      dir' ''doc.acme.yaml'' = Some doc \<and> cd_rules doc = [])"
proof -
  have "map_option (\<lambda>d. length (cd_rules d)) (published_parent ''doc.acme.yaml'') = Some 2" by code_simp
  then have a: "\<exists>doc. published_parent ''doc.acme.yaml'' = Some doc \<and> length (cd_rules doc) = 2" by auto
  have ok: "is_ok (fsPublish (sample_rule ''doc'' (JObj [])) ''acme.fin'' ''q'' 1 published_parent)"
    by code_simp
  then obtain dir' where d: "fsPublish (sample_rule ''doc'' (JObj [])) ''acme.fin'' ''q'' 1 published_parent = Inr dir'"
    by (auto simp: is_ok_def split: sum.splits)
  have "\<exists>doc. dir' (fileNameFor ''doc'' ''acme'') = Some doc \<and> cd_rules doc = []"
    by (rule publishing_child_erases_parent[OF d]) (code_simp, code_simp, simp)
  then show ?thesis using a d by (simp add: fileNameFor_def)
qed

text \<open>
  Compiling is silent on shapes outside the contract: a condition that is not null and
  has none of the members all, any and expr (a bare CEL string, a misspelt key, an empty
  object) passes the validation and compiles to the match true, so the rule applies to
  every request of its roles and actions, an ALLOW unconditionally.
\<close>

theorem malformed_condition_always_holds:
  assumes "parseRule v i = Inr rule" and "jget ''condition'' v = Some c" and "c \<noteq> JNull"
    and "jget ''all'' c = None" and "jget ''any'' c = None" and "jget ''expr'' c = None"
    and "cel ''true''" and "role \<in> set (pl_roles rule)" and "action \<in> set (pl_actions rule)"
  shows "\<exists>r. compileRule rule i = Inr r \<and> cb_condition r = Some (MExpr (JStr ''true'')) \<and>
     cb_effect r = pl_effect rule \<and> rule_applies cel [role] action r"
proof -
  have "pl_condition rule = Some c"
    using assms(1,2) by (auto simp: parseRule_def Let_def split: if_splits)
  moreover have "compileCondition c = Inr (MExpr (JStr ''true''))"
    using assms(3-6) by (cases c) (simp_all add: compileCondition.simps jprop_def)
  ultimately show ?thesis
    using assms(7-9) by (simp add: compileRule_def rule_applies_def)
qed

lemma malformed_condition_always_holds_witness:
  "case parseRule (JObj [(''actions'', JArr [JStr ''approve'']), (''effect'', JStr ''ALLOW''),
        (''roles'', JArr [JStr ''manager'']), (''condition'', JStr ''1 > 2'')]) 0 of
     Inl _ \<Rightarrow> False
   | Inr rule \<Rightarrow> \<exists>r. compileRule rule 0 = Inr r \<and> cb_effect r = RuleAllow \<and>
       rule_applies (\<lambda>e. e = ''true'') [''manager''] ''approve'' r"
proof -
  let ?v = "JObj [(''actions'', JArr [JStr ''approve'']), (''effect'', JStr ''ALLOW''),
        (''roles'', JArr [JStr ''manager'']), (''condition'', JStr ''1 > 2'')]"
  let ?r = "\<lparr>pl_actions = [''approve''], pl_effect = RuleAllow, pl_roles = [''manager''],
              pl_condition = Some (JStr ''1 > 2''), pl_name = None\<rparr>"
  have p: "parseRule ?v 0 = Inr ?r" by code_simp
  show ?thesis
    using malformed_condition_always_holds[OF p, where c = "JStr ''1 > 2''" and cel = "\<lambda>e. e = ''true''"
        and role = "''manager''" and action = "''approve''"] by (auto simp: p)
qed

end
