(* ===== verification/NewestFirst.thy ===== *)
theory NewestFirst
  imports Keyset
begin

text \<open>
  The listings of policies, roles, role assignments, tenants, permissions and expenses: the
  newest row first, rows of one instant by descending id, with the cursor
  created_at|id.  \<^term>\<open>pg_timestamp\<close> and \<^term>\<open>pg_id\<close> are how Postgres reads the text of a
  timestamp and of an id in the comparison (None is the error of an invalid literal).
\<close>

definition newest_first :: "('r \<Rightarrow> int) \<Rightarrow> ('r \<Rightarrow> string) \<Rightarrow> 'r list \<Rightarrow> 'r list" where
  "newest_first created id_of rows = rev (sort_key created (sort_key id_of rows))"

definition newest_cursor :: "('r \<Rightarrow> int) \<Rightarrow> ('r \<Rightarrow> string) \<Rightarrow> 'r \<Rightarrow> string" where
  "newest_cursor created id_of r = Cursor_encode (toISOString (created r) @ ''|'' @ id_of r)"

definition newest_page ::
  "(string \<Rightarrow> int option) \<Rightarrow> (string \<Rightarrow> string option) \<Rightarrow> ('r \<Rightarrow> int) \<Rightarrow> ('r \<Rightarrow> string) \<Rightarrow> ('r \<Rightarrow> 'r result) \<Rightarrow>
   page_query \<Rightarrow> 'r list \<Rightarrow> 'r cursor_page result" where
  "newest_page pg_timestamp pg_id created id_of toDomain q rows =
     list_page (newest_cursor created id_of) (read_row_cursor pg_timestamp pg_id) (row_less created id_of)
       toDomain q (newest_first created id_of rows)"

text \<open>The tables on which a cursor reads back as the row it was made from.\<close>

definition newest_listable ::
  "(string \<Rightarrow> int option) \<Rightarrow> (string \<Rightarrow> string option) \<Rightarrow> ('r \<Rightarrow> int) \<Rightarrow> ('r \<Rightarrow> string) \<Rightarrow> 'r list \<Rightarrow> bool" where
  "newest_listable pg_timestamp pg_id created id_of rows \<longleftrightarrow> distinct (map id_of rows) \<and>
     list_all (\<lambda>r. CHR ''|'' \<notin> set (id_of r) \<and> pg_id (id_of r) = Some (id_of r) \<and>
       pg_timestamp (toISOString (created r)) = Some (created r)) rows"

lemma set_newest_first [simp]: "set (newest_first created id_of rows) = set rows"
  by (simp add: newest_first_def)

lemma length_newest_first [simp]: "length (newest_first created id_of rows) = length rows"
  by (simp add: newest_first_def)

lemma newest_first_sorted:
  assumes "distinct (map id_of rows)"
  shows "sorted_wrt (\<lambda>b a. created a < created b \<or> created a = created b \<and> id_of a < id_of b)
    (newest_first created id_of rows)"
  unfolding newest_first_def sorted_wrt_rev using assms by (rule sort_two_keys_strict)

lemma row_less_key:
  "row_less created id_of (created x, Some (id_of x)) =
   (\<lambda>b a. created a < created b \<or> created a = created b \<and> id_of a < id_of b) x"
  by (simp add: row_less_def[abs_def])

interpretation newest_listing:
  keyset "newest_listable pg_timestamp pg_id created id_of" "newest_first created id_of"
    "newest_cursor created id_of" "read_row_cursor pg_timestamp pg_id" "row_less created id_of"
  for pg_timestamp pg_id created id_of
proof
  show "newest_cursor created id_of r \<noteq> []" for r
    unfolding newest_cursor_def by (rule cursor_ne) simp
next
  fix rows xs x ys
  assume good: "newest_listable pg_timestamp pg_id created id_of rows"
    and o: "newest_first created id_of rows = xs @ x # ys"
  have "x \<in> set rows" using set_newest_first[of created id_of rows] unfolding o by auto
  then have "read_row_cursor pg_timestamp pg_id (newest_cursor created id_of x) = Inr (created x, Some (id_of x))"
    using good unfolding newest_cursor_def
    by (intro read_row_cursor_encode) (auto simp: newest_listable_def list_all_iff toISOString_no_bar)
  moreover have "filter (row_less created id_of (created x, Some (id_of x))) (newest_first created id_of rows) = ys"
    unfolding o row_less_key
  proof (rule cut_at)
    show "sorted_wrt (\<lambda>b a. created a < created b \<or> created a = created b \<and> id_of a < id_of b) (xs @ x # ys)"
      using newest_first_sorted[of id_of rows created] good by (simp add: newest_listable_def o)
  qed auto
  ultimately show "\<exists>k. read_row_cursor pg_timestamp pg_id (newest_cursor created id_of x) = Inr k \<and>
      filter (row_less created id_of k) (newest_first created id_of rows) = ys"
    by blast
qed

lemma newest_walk:
  assumes "newest_listable pg_timestamp pg_id created id_of rows" and "\<And>r. r \<in> set rows \<Longrightarrow> toDomain r = Inr r"
  shows "walk_pages (\<lambda>c. newest_page pg_timestamp pg_id created id_of toDomain (pageQueryFrom limit c) rows)
      (Suc (length rows)) None = Inr (newest_first created id_of rows)"
  unfolding newest_page_def by (rule newest_listing.walk_complete[OF assms(1)]) (simp_all add: assms(2))

end
