(* ===== verification/PolicyStore.thy ===== *)
theory PolicyStore
  imports PolicySafety OptimisticLock NewestFirst
begin

text \<open>
  The life of a policy in authz-admin (apps/authz-admin/src/modules/policy): the aggregate,
  its scope, the repository and the use cases publish, activate, rollback and get.  The
  state holds the rows the tenant sees under row-level security, the directory the PDP
  watches and the events dispatched.  A use case that throws leaves the rows unchanged (its
  request transaction is rolled back) and the files too, because the compiler throws before
  the first file is written.  The publisher is an argument, as it is a port of the code.
\<close>

datatype policy_status = Staged | Active

record policy =
  po_id :: string
  po_tenantId :: "string option"
  po_scope :: string
  po_rule :: json
  po_status :: policy_status
  po_version :: int
  po_effectiveDate :: int
  po_createdAt :: int
  po_updatedAt :: int

datatype policy_event = PolicyPublishedEvent string string int

section \<open>Errors, identifiers and scopes\<close>

definition PolicyNotFoundError :: "string \<Rightarrow> exn" where
  "PolicyNotFoundError i = NotFoundError (''Policy '' @ i @ '' not found'') (Some ''policy_not_found'')"

definition PolicyStatusError :: "string \<Rightarrow> string \<Rightarrow> exn" where
  "PolicyStatusError m reason = ConflictError m (Some reason)"

definition PolicyVersionNotFoundError :: "string \<Rightarrow> int \<Rightarrow> exn" where
  "PolicyVersionNotFoundError scope v =
     ConflictError (''Policy version '' @ int_str v @ '' not found for scope \"'' @ scope @ ''\"'')
       (Some ''policy_version_not_found'')"

definition policyId_fromString :: "(string \<Rightarrow> bool) \<Rightarrow> string \<Rightarrow> string result" where
  "policyId_fromString is_uuid v =
     (if \<not> is_uuid v then Inl (ValidationError ''Invalid policy id'' (Some ''policy_id_invalid''))
      else Inr v)"

definition MAX_SCOPE_DEPTH :: nat where "MAX_SCOPE_DEPTH = 8"

definition is_scope :: "string \<Rightarrow> bool" where
  "is_scope s \<longleftrightarrow> list_all (\<lambda>p. p \<noteq> [] \<and> list_all is_lower_alnum p) (split_on (CHR ''.'') s)"

definition policyScope_fromString :: "string \<Rightarrow> string result" where
  "policyScope_fromString v =
     rbind (againstEmpty (Some v) ''scope'') (\<lambda>_.
     rbind (guard_invariant (is_scope v)
              ''scope must be a dot-separated path of lowercase alphanumeric segments'' ''scope_format'') (\<lambda>_.
     rbind (guard_invariant (length (split_on (CHR ''.'') v) \<le> MAX_SCOPE_DEPTH)
              (''scope depth must not exceed '' @ nat_str MAX_SCOPE_DEPTH) ''scope_too_deep'') (\<lambda>_.
     Inr v)))"

section \<open>The aggregate\<close>

definition policy_publish ::
  "string \<Rightarrow> string \<Rightarrow> json \<Rightarrow> int \<Rightarrow> int \<Rightarrow> int \<Rightarrow> (policy \<times> policy_event list) result" where
  "policy_publish freshId scope rule version effectiveDate now =
     rbind (guard_invariant (version \<ge> 1) ''version must be >= 1'' ''version_invalid'') (\<lambda>_.
     Inr (\<lparr>po_id = freshId, po_tenantId = None, po_scope = scope, po_rule = rule, po_status = Staged,
           po_version = version, po_effectiveDate = effectiveDate, po_createdAt = now, po_updatedAt = now\<rparr>,
          addDomainEvent (PolicyPublishedEvent freshId scope version) []))"

definition policy_fromSnapshot :: "policy \<Rightarrow> policy result" where
  "policy_fromSnapshot s = rbind (policyScope_fromString (po_scope s)) (\<lambda>scope. Inr (s\<lparr>po_scope := scope\<rparr>))"

definition stampTenant :: "string \<Rightarrow> policy \<Rightarrow> policy result" where
  "stampTenant tenantId p =
     rbind (againstEmpty (Some tenantId) ''tenantId'') (\<lambda>_.
     if po_tenantId p \<noteq> None \<and> po_tenantId p \<noteq> Some tenantId
     then Inl (PolicyStatusError ''Policy is already owned by a different tenant'' ''policy_tenant_mismatch'')
     else Inr (p\<lparr>po_tenantId := Some tenantId\<rparr>))"

definition policy_activate :: "int \<Rightarrow> policy \<Rightarrow> policy result" where
  "policy_activate now p =
     (if po_status p = Active
      then Inl (PolicyStatusError ''Policy version is already active'' ''policy_already_active'')
      else Inr (p\<lparr>po_status := Active, po_updatedAt := now\<rparr>))"

section \<open>The repository\<close>

type_synonym policy_table = "policy list"

text \<open>One row is written; the unique index on tenant, scope and version rejects a second row.\<close>

definition policy_write :: "policy \<Rightarrow> policy_table \<Rightarrow> policy_table result" where
  "policy_write p rows =
     (if list_ex (\<lambda>x. po_scope x = po_scope p \<and> po_version x = po_version p \<and> po_id x \<noteq> po_id p) rows
      then Inl (unique_violation ''uq_policies_scope_version'')
      else Inr (save_row po_id p rows))"

definition policy_save :: "string \<Rightarrow> policy \<Rightarrow> policy_table \<Rightarrow> (policy \<times> policy_table) result" where
  "policy_save tenantId policy rows =
     rbind (stampTenant tenantId policy) (\<lambda>p.
     if po_status p = Active
     then (let matches = (\<lambda>r. po_id r = po_id p \<and> po_status r = Staged);
               affected = length (filter matches rows)
           in if affected = 1
              then Inr (p, map (\<lambda>r. if matches r then r\<lparr>po_status := Active, po_updatedAt := po_updatedAt p\<rparr>
                                    else r) rows)
              else if list_ex (\<lambda>r. po_id r = po_id p) rows
              then Inl (ConflictError ''Policy was modified by another request'' (Some ''version_mismatch''))
              else rbind (policy_write p rows) (\<lambda>rows'. Inr (p, rows')))
     else rbind (policy_write p rows) (\<lambda>rows'. Inr (p, rows')))"

definition policy_toDomain :: "policy option \<Rightarrow> policy option result" where
  "policy_toDomain row =
     (case row of None \<Rightarrow> Inr None
      | Some r \<Rightarrow> rbind (policy_fromSnapshot r) (\<lambda>p. Inr (Some p)))"

definition policy_findById :: "string \<Rightarrow> policy_table \<Rightarrow> policy option result" where
  "policy_findById i rows = policy_toDomain (find (\<lambda>p. po_id p = i) rows)"

definition findLatestForScope :: "string \<Rightarrow> policy_table \<Rightarrow> policy option result" where
  "findLatestForScope scope rows =
     policy_toDomain
       (case sort_key (\<lambda>p. - po_version p) [p \<leftarrow> rows. po_scope p = scope] of [] \<Rightarrow> None | p # _ \<Rightarrow> Some p)"

definition findByScopeAndVersion :: "string \<Rightarrow> int \<Rightarrow> policy_table \<Rightarrow> policy option result" where
  "findByScopeAndVersion scope v rows =
     policy_toDomain (find (\<lambda>p. po_scope p = scope \<and> po_version p = v) rows)"

definition policy_list ::
  "(string \<Rightarrow> int option) \<Rightarrow> (string \<Rightarrow> string option) \<Rightarrow> page_query \<Rightarrow> policy_table \<Rightarrow>
   policy cursor_page result" where
  "policy_list pg_timestamp pg_id q rows =
     newest_page pg_timestamp pg_id po_createdAt po_id policy_fromSnapshot q rows"

section \<open>The use cases\<close>

record policy_state =
  ps_rows :: policy_table
  ps_dir :: policy_dir
  ps_events :: "policy_event list"

type_synonym publisher = "policy \<Rightarrow> policy_dir \<Rightarrow> policy_dir result"

definition fs_publisher :: publisher where
  "fs_publisher p dir = fsPublish (po_rule p) (po_scope p) (po_id p) (po_version p) dir"

definition noop_publisher :: publisher where
  "noop_publisher p dir = noopPublish dir"

definition next_version :: "policy option \<Rightarrow> int" where
  "next_version latest = (case latest of Some l \<Rightarrow> po_version l + 1 | None \<Rightarrow> 1)"

definition publishPolicy_execute ::
  "publisher \<Rightarrow> string \<Rightarrow> string \<Rightarrow> int \<Rightarrow> string \<Rightarrow> json \<Rightarrow> int \<Rightarrow> policy_state \<Rightarrow>
   (policy \<times> policy_state) result" where
  "publishPolicy_execute publisher tenantId freshId now scope rule effectiveDate st =
     rbind (policyScope_fromString scope) (\<lambda>scope.
     rbind (findLatestForScope scope (ps_rows st)) (\<lambda>latest.
     let nextVersion = next_version latest in
     rbind (policy_publish freshId scope rule nextVersion effectiveDate now) (\<lambda>(policy, events).
     rbind (policy_save tenantId policy (ps_rows st)) (\<lambda>(policy, rows').
     rbind (publisher policy (ps_dir st)) (\<lambda>dir'.
     Inr (policy, \<lparr>ps_rows = rows', ps_dir = dir', ps_events = ps_events st @ events\<rparr>))))))"

definition activatePolicy_execute ::
  "publisher \<Rightarrow> (string \<Rightarrow> bool) \<Rightarrow> string \<Rightarrow> int \<Rightarrow> string \<Rightarrow> int option \<Rightarrow> policy_state \<Rightarrow>
   (policy \<times> policy_state) result" where
  "activatePolicy_execute publisher is_uuid tenantId now policyId expectedVersion st =
     rbind (policyId_fromString is_uuid policyId) (\<lambda>i.
     rbind (policy_findById i (ps_rows st)) (\<lambda>found.
     case found of
       None \<Rightarrow> Inl (PolicyNotFoundError policyId)
     | Some policy \<Rightarrow>
     rbind (ensure (\<not> (expectedVersion \<noteq> None \<and> expectedVersion \<noteq> Some (po_version policy)))
              (ConflictError ''Policy was modified by another request'' (Some ''version_mismatch''))) (\<lambda>_.
     rbind (policy_activate now policy) (\<lambda>policy.
     rbind (policy_save tenantId policy (ps_rows st)) (\<lambda>(policy, rows').
     rbind (publisher policy (ps_dir st)) (\<lambda>dir'.
     Inr (policy, st\<lparr>ps_rows := rows', ps_dir := dir'\<rparr>)))))))"

definition rollbackPolicy_execute ::
  "publisher \<Rightarrow> (string \<Rightarrow> bool) \<Rightarrow> string \<Rightarrow> string \<Rightarrow> int \<Rightarrow> string \<Rightarrow> int \<Rightarrow> policy_state \<Rightarrow>
   (policy \<times> policy_state) result" where
  "rollbackPolicy_execute publisher is_uuid tenantId freshId now policyId toVersion st =
     rbind (policyId_fromString is_uuid policyId) (\<lambda>i.
     rbind (policy_findById i (ps_rows st)) (\<lambda>found.
     case found of
       None \<Rightarrow> Inl (PolicyNotFoundError policyId)
     | Some current \<Rightarrow>
     let scope = po_scope current in
     rbind (findByScopeAndVersion scope toVersion (ps_rows st)) (\<lambda>target.
     case target of
       None \<Rightarrow> Inl (PolicyVersionNotFoundError scope toVersion)
     | Some target \<Rightarrow>
     rbind (findLatestForScope scope (ps_rows st)) (\<lambda>latest.
     let nextVersion = next_version latest in
     rbind (policy_publish freshId scope (po_rule target) nextVersion now now) (\<lambda>(republished, events).
     rbind (policy_save tenantId republished (ps_rows st)) (\<lambda>(republished, rows').
     rbind (publisher republished (ps_dir st)) (\<lambda>dir'.
     Inr (republished, \<lparr>ps_rows = rows', ps_dir = dir', ps_events = ps_events st @ events\<rparr>))))))))"

definition getPolicy_execute :: "(string \<Rightarrow> bool) \<Rightarrow> string \<Rightarrow> policy_state \<Rightarrow> policy result" where
  "getPolicy_execute is_uuid policyId st =
     rbind (policyId_fromString is_uuid policyId) (\<lambda>i.
     rbind (policy_findById i (ps_rows st)) (\<lambda>found.
     case found of None \<Rightarrow> Inl (PolicyNotFoundError policyId) | Some p \<Rightarrow> Inr p))"

definition listPolicies_execute ::
  "(string \<Rightarrow> int option) \<Rightarrow> (string \<Rightarrow> string option) \<Rightarrow> int option \<Rightarrow> string option \<Rightarrow> policy_state \<Rightarrow>
   policy cursor_page result" where
  "listPolicies_execute pg_timestamp pg_id limit cursor st =
     policy_list pg_timestamp pg_id (pageQueryFrom limit cursor) (ps_rows st)"

end
