(* ===== verification/PolicyLife.thy ===== *)
theory PolicyLife
  imports PolicyStore
begin

text \<open>
  The life of the policies of a tenant as a step relation over the use cases, its reachable
  states and what they guarantee: versions of a scope are numbered without gaps or
  repetitions, history is immutable, a staged version is already what the PDP enforces, and
  of two concurrent activations one is refused.
\<close>

section \<open>The publisher port\<close>

text \<open>
  What the port promises: publishing is idempotent, and what it writes does not depend on
  the status, the timestamps or the owner of the policy.
\<close>

locale policy_publisher =
  fixes publish :: publisher
  assumes publish_again: "publish p dir = Inr dir' \<Longrightarrow> publish p dir' = Inr dir'"
    and publish_status: "publish (p\<lparr>po_status := s, po_updatedAt := u\<rparr>) dir = publish p dir"
begin

lemma republish_active:
  "publish p dir = Inr dir' \<Longrightarrow> publish (p\<lparr>po_status := s, po_updatedAt := u\<rparr>) dir' = Inr dir'"
  by (simp add: publish_status publish_again)

end

lemma foldl_write_again: "foldl writeFileAtomic (foldl writeFileAtomic dir files) files = foldl writeFileAtomic dir files"
  by (rule ext) (simp add: foldl_write split: option.splits)

interpretation fs_port: policy_publisher fs_publisher
  by unfold_locales (auto simp: fs_publisher_def fsPublish_def foldl_write_again elim!: rbind_InrE)

interpretation noop_port: policy_publisher noop_publisher
  by unfold_locales (simp_all add: noop_publisher_def noopPublish_def)

section \<open>Well-formed tables\<close>

definition versions :: "string \<Rightarrow> policy_table \<Rightarrow> int list" where
  "versions s rows = map po_version [p \<leftarrow> rows. po_scope p = s]"

definition policies_ok :: "string \<Rightarrow> policy_table \<Rightarrow> bool" where
  "policies_ok t rows \<longleftrightarrow>
     distinct (map po_id rows) \<and>
     (\<forall>p \<in> set rows. po_tenantId p = Some t \<and> policyScope_fromString (po_scope p) = Inr (po_scope p)) \<and>
     (\<forall>s. set (versions s rows) = {1..int (length (versions s rows))})"

lemma scope_value: "policyScope_fromString v = Inr s \<Longrightarrow> s = v"
  by (auto simp: policyScope_fromString_def elim!: rbind_InrE)

lemma toDomain_value: "policy_toDomain r = Inr q \<Longrightarrow> q = r"
  by (auto simp: policy_toDomain_def policy_fromSnapshot_def dest: scope_value elim!: rbind_InrE split: option.splits)

lemma findById_row: "policy_findById i rows = Inr (Some p) \<Longrightarrow> p \<in> set rows \<and> po_id p = i"
  unfolding policy_findById_def by (drule toDomain_value, drule sym, drule find_SomeD, simp)

lemma findVersion_row:
  "findByScopeAndVersion s v rows = Inr (Some p) \<Longrightarrow> p \<in> set rows \<and> po_scope p = s \<and> po_version p = v"
  unfolding findByScopeAndVersion_def by (drule toDomain_value, drule sym, drule find_SomeD, simp)

lemma latest_version:
  assumes "policies_ok t rows" and "findLatestForScope s rows = Inr latest"
  shows "next_version latest = int (length (versions s rows)) + 1"
proof -
  let ?ps = "[p \<leftarrow> rows. po_scope p = s]"
  let ?k = "sort_key (\<lambda>p. - po_version p) ?ps"
  have l: "latest = (case ?k of [] \<Rightarrow> None | p # _ \<Rightarrow> Some p)"
    using assms(2) toDomain_value unfolding findLatestForScope_def by blast
  have len: "length ?k = length (versions s rows)" by (simp add: versions_def)
  show ?thesis
  proof (cases ?k)
    case Nil
    then show ?thesis using l len by (simp add: next_version_def)
  next
    case (Cons p ps)
    have all: "\<forall>q \<in> set ?ps. po_version q \<le> po_version p"
      using sorted_sort_key[of "\<lambda>p. - po_version p" ?ps] set_sort[of "\<lambda>p. - po_version p" ?ps]
      unfolding Cons by auto
    have p: "p \<in> set ?ps" using Cons set_sort[of "\<lambda>p. - po_version p" ?ps] by auto
    have vs: "set (versions s rows) = {1..int (length (versions s rows))}"
      using assms(1) by (simp add: policies_ok_def)
    have "0 < length ?k" unfolding Cons by simp
    then have pos: "0 < length (versions s rows)" unfolding len .
    have "po_version p \<in> set (versions s rows)" using p by (auto simp: versions_def)
    then have "po_version p \<le> int (length (versions s rows))" unfolding vs by simp
    moreover have "1 \<le> int (length (versions s rows))" using pos by linarith
    then have "int (length (versions s rows)) \<in> set (versions s rows)"
      unfolding vs by (simp only: atLeastAtMost_iff order_refl simp_thms)
    then have "int (length (versions s rows)) \<le> po_version p" using all by (auto simp: versions_def)
    ultimately show ?thesis using l Cons by (simp add: next_version_def)
  qed
qed

text \<open>Publishing and rolling back append one row, the next version of its scope.\<close>

lemma insert_version:
  assumes ok: "policies_ok t rows" and s: "policyScope_fromString s = Inr s"
    and l: "findLatestForScope s rows = Inr latest"
    and p: "policy_publish freshId s rule (next_version latest) e now = Inr (p, ev)"
    and f: "freshId \<notin> po_id ` set rows" and sv: "policy_save t p rows = Inr (p', rows')"
  shows "p' = p\<lparr>po_tenantId := Some t\<rparr> \<and> rows' = rows @ [p'] \<and> policies_ok t rows'"
proof -
  have new: "po_id p = freshId" "po_scope p = s" "po_status p = Staged"
    "po_version p = int (length (versions s rows)) + 1"
    using p latest_version[OF ok l] by (auto simp: policy_publish_def elim!: rbind_InrE)
  have p': "p' = p\<lparr>po_tenantId := Some t\<rparr>" and w: "policy_write p' rows = Inr rows'"
    using sv new(3) by (auto simp: policy_save_def stampTenant_def elim!: rbind_InrE split: if_splits)
  have "\<not> list_ex (\<lambda>x. po_id x = po_id p') rows"
    using f new(1) unfolding p' list_ex_iff by (metis image_eqI policy.select_convs(1) policy.surjective policy.update_convs(2))
  then have rows': "rows' = rows @ [p']"
    using w by (simp add: policy_write_def save_row_def split: if_splits)
  have v: "versions x rows' = versions x rows @ (if x = s then [int (length (versions s rows)) + 1] else [])" for x
    using rows' p' new by (simp add: versions_def)
  have vs: "set (versions x rows) = {1..int (length (versions x rows))}" for x
    using ok by (simp add: policies_ok_def)
  have "set (versions x rows') = {1..int (length (versions x rows'))}" for x
    by (auto simp: v vs)
  then show ?thesis using ok rows' p' new f s by (auto simp: policies_ok_def)
qed

definition same_version :: "policy \<Rightarrow> policy \<Rightarrow> bool" where
  "same_version p q \<longleftrightarrow>
     q = p\<lparr>po_status := po_status q, po_updatedAt := po_updatedAt q\<rparr> \<and> (po_status p = Active \<longrightarrow> q = p)"

lemma same_version_refl [simp]: "same_version p p"
  by (simp add: same_version_def)

text \<open>Activating changes the status and the timestamp of the one row, which was staged.\<close>

lemma activate_row:
  assumes ok: "policies_ok t rows" and p: "p \<in> set rows" and a: "policy_activate now p = Inr p1"
    and sv: "policy_save t p1 rows = Inr (p2, rows')"
  shows "p2 = p1 \<and> po_status p = Staged \<and> p1 = p\<lparr>po_status := Active, po_updatedAt := now\<rparr> \<and>
     rows' = map (\<lambda>r. if r = p then p1 else r) rows"
proof -
  have p1: "po_status p = Staged" "p1 = p\<lparr>po_status := Active, po_updatedAt := now\<rparr>"
    using a by (auto simp: policy_activate_def split: if_splits) (cases "po_status p"; simp)
  have uniq: "r = p" if "r \<in> set rows" "po_id r = po_id p" for r
    using ok p that by (metis distinct_map inj_onD policies_ok_def)
  have t: "po_tenantId p = Some t" using ok p by (simp add: policies_ok_def)
  have "p \<in> {r \<in> set rows. po_id r = po_id p \<and> po_status r = Staged}" using p p1 by simp
  moreover have "rows' = map (\<lambda>r. if po_id r = po_id p \<and> po_status r = Staged
      then r\<lparr>po_status := Active, po_updatedAt := now\<rparr> else r) rows" "p2 = p1"
    using sv p1 p t by (auto simp: policy_save_def stampTenant_def Let_def list_ex_iff elim!: rbind_InrE split: if_splits)
  moreover have "map (\<lambda>r. if po_id r = po_id p \<and> po_status r = Staged
      then r\<lparr>po_status := Active, po_updatedAt := now\<rparr> else r) rows = map (\<lambda>r. if r = p then p1 else r) rows"
    using uniq p1 by (intro map_cong) auto
  ultimately show ?thesis using p1 by simp
qed

lemma activate_ok:
  assumes ok: "policies_ok t rows" and p: "p \<in> set rows"
    and p1: "p1 = p\<lparr>po_status := Active, po_updatedAt := now\<rparr>"
  shows "policies_ok t (map (\<lambda>r. if r = p then p1 else r) rows)"
proof -
  let ?rows = "map (\<lambda>r. if r = p then p1 else r) rows"
  have "map po_id ?rows = map po_id rows" using p1 by simp
  then have "distinct (map po_id ?rows)" using ok by (metis policies_ok_def)
  moreover have "versions s ?rows = versions s rows" for s
    using p1 by (induction rows) (auto simp: versions_def)
  then have "set (versions s ?rows) = {1..int (length (versions s ?rows))}" for s
    using ok by (simp add: policies_ok_def)
  moreover have "po_tenantId q = Some t \<and> policyScope_fromString (po_scope q) = Inr (po_scope q)"
    if "q \<in> set ?rows" for q
    using that ok p p1 by (auto simp: policies_ok_def split: if_splits)
  ultimately show ?thesis by (simp only: policies_ok_def) blast
qed

section \<open>Steps and reachable states\<close>

inductive policy_step :: "publisher \<Rightarrow> (string \<Rightarrow> bool) \<Rightarrow> string \<Rightarrow> policy_state \<Rightarrow> policy_state \<Rightarrow> bool"
  for publisher :: publisher and is_uuid :: "string \<Rightarrow> bool" and t :: string where
  publish: "publishPolicy_execute publisher t freshId now scope rule e st = Inr (p, st') \<Longrightarrow>
     freshId \<notin> po_id ` set (ps_rows st) \<Longrightarrow> policy_step publisher is_uuid t st st'"
| activate: "activatePolicy_execute publisher is_uuid t now pid expected st = Inr (p, st') \<Longrightarrow>
     policy_step publisher is_uuid t st st'"
| rollback: "rollbackPolicy_execute publisher is_uuid t freshId now pid toVersion st = Inr (p, st') \<Longrightarrow>
     freshId \<notin> po_id ` set (ps_rows st) \<Longrightarrow> policy_step publisher is_uuid t st st'"

inductive policy_reachable :: "publisher \<Rightarrow> (string \<Rightarrow> bool) \<Rightarrow> string \<Rightarrow> policy_state \<Rightarrow> bool"
  for publisher :: publisher and is_uuid :: "string \<Rightarrow> bool" and t :: string where
  init: "ps_rows st = [] \<Longrightarrow> policy_reachable publisher is_uuid t st"
| step: "policy_reachable publisher is_uuid t st \<Longrightarrow> policy_step publisher is_uuid t st st' \<Longrightarrow>
     policy_reachable publisher is_uuid t st'"

lemma publish_row:
  assumes "policies_ok t (ps_rows st)"
    and "publishPolicy_execute publisher t freshId now scope rule e st = Inr (p, st')"
    and "freshId \<notin> po_id ` set (ps_rows st)"
  shows "ps_rows st' = ps_rows st @ [p] \<and> policies_ok t (ps_rows st') \<and> po_rule p = rule \<and>
     po_scope p = scope \<and> po_status p = Staged \<and> po_id p = freshId \<and>
     publisher p (ps_dir st) = Inr (ps_dir st')"
proof -
  obtain latest q ev where
    s: "policyScope_fromString scope = Inr scope" and
    l: "findLatestForScope scope (ps_rows st) = Inr latest" and
    q: "policy_publish freshId scope rule (next_version latest) e now = Inr (q, ev)" and
    sv: "policy_save t q (ps_rows st) = Inr (p, ps_rows st')" and
    d: "publisher p (ps_dir st) = Inr (ps_dir st')"
    using assms(2) scope_value
    by (force simp: publishPolicy_execute_def Let_def elim!: rbind_InrE)
  show ?thesis
    using insert_version[OF assms(1) s l q assms(3) sv] d q
    by (auto simp: policy_publish_def elim!: rbind_InrE)
qed

lemma rollback_row:
  assumes ok: "policies_ok t (ps_rows st)"
    and "rollbackPolicy_execute publisher is_uuid t freshId now pid v st = Inr (p, st')"
    and "freshId \<notin> po_id ` set (ps_rows st)"
  shows "ps_rows st' = ps_rows st @ [p] \<and> policies_ok t (ps_rows st') \<and> po_status p = Staged \<and>
     (\<exists>target \<in> set (ps_rows st). po_version target = v \<and> po_scope target = po_scope p \<and>
        po_rule target = po_rule p) \<and> publisher p (ps_dir st) = Inr (ps_dir st')"
proof -
  obtain current target latest q ev where
    c: "policy_findById pid (ps_rows st) = Inr (Some current)" and
    tg: "findByScopeAndVersion (po_scope current) v (ps_rows st) = Inr (Some target)" and
    l: "findLatestForScope (po_scope current) (ps_rows st) = Inr latest" and
    q: "policy_publish freshId (po_scope current) (po_rule target) (next_version latest) now now = Inr (q, ev)" and
    sv: "policy_save t q (ps_rows st) = Inr (p, ps_rows st')" and
    d: "publisher p (ps_dir st) = Inr (ps_dir st')"
    using assms(2)
    by (force simp: rollbackPolicy_execute_def policyId_fromString_def Let_def
        elim!: rbind_InrE split: option.splits if_splits)
  have s: "policyScope_fromString (po_scope current) = Inr (po_scope current)"
    using ok findById_row[OF c] by (simp add: policies_ok_def)
  show ?thesis
    using insert_version[OF ok s l q assms(3) sv] d q findVersion_row[OF tg]
    by (auto simp: policy_publish_def elim!: rbind_InrE)
qed

lemma activate_step_row:
  assumes ok: "policies_ok t (ps_rows st)"
    and "activatePolicy_execute publisher is_uuid t now pid expected st = Inr (p', st')"
  obtains p where "p \<in> set (ps_rows st)" and "po_id p = pid" and "po_status p = Staged"
    and "p' = p\<lparr>po_status := Active, po_updatedAt := now\<rparr>"
    and "ps_rows st' = map (\<lambda>r. if r = p then p' else r) (ps_rows st)"
    and "publisher p' (ps_dir st) = Inr (ps_dir st')"
proof -
  obtain p p1 where
    c: "policy_findById pid (ps_rows st) = Inr (Some p)" and
    a: "policy_activate now p = Inr p1" and
    sv: "policy_save t p1 (ps_rows st) = Inr (p', ps_rows st')" and
    d: "publisher p' (ps_dir st) = Inr (ps_dir st')"
    using assms(2)
    by (force simp: activatePolicy_execute_def policyId_fromString_def
        elim!: rbind_InrE split: option.splits if_splits)
  have row: "p \<in> set (ps_rows st)" "po_id p = pid" using findById_row[OF c] by auto
  show thesis
    using activate_row[OF ok row(1) a sv] row d by (intro that[of p]) auto
qed

text \<open>One step keeps the table well formed and every row that was there.\<close>

lemma step_keeps:
  assumes "policy_step publisher is_uuid t st st'" and ok: "policies_ok t (ps_rows st)"
  shows "policies_ok t (ps_rows st') \<and>
     (\<forall>p \<in> set (ps_rows st). \<exists>q \<in> set (ps_rows st'). same_version p q)"
  using assms(1)
proof cases
  case (publish freshId now scope rule e p)
  show ?thesis using publish_row[OF ok publish] same_version_refl by (metis UnI1 set_append)
next
  case (rollback freshId now pid v p)
  show ?thesis using rollback_row[OF ok rollback] same_version_refl by (metis UnI1 set_append)
next
  case (activate now pid expected p')
  show ?thesis
  proof (rule activate_step_row[OF ok activate])
    fix p assume p: "p \<in> set (ps_rows st)" "po_status p = Staged"
      "p' = p\<lparr>po_status := Active, po_updatedAt := now\<rparr>"
      and r: "ps_rows st' = map (\<lambda>r. if r = p then p' else r) (ps_rows st)"
    have "same_version p p'" using p by (simp add: same_version_def)
    then have "\<forall>x \<in> set (ps_rows st). \<exists>q \<in> set (ps_rows st'). same_version x q"
      unfolding r using p(1) by (auto intro: same_version_refl)
    then show ?thesis using activate_ok[OF ok p(1,3)] by (simp add: r)
  qed
qed

lemma reachable_ok: "policy_reachable publisher is_uuid t st \<Longrightarrow> policies_ok t (ps_rows st)"
proof (induction rule: policy_reachable.induct)
  case (init st)
  then show ?case by (simp add: policies_ok_def versions_def)
next
  case (step st st')
  then show ?case using step_keeps by blast
qed

section \<open>Properties\<close>

definition sample_policy :: json where
  "sample_policy = sample_rule ''doc'' (JObj [(''expr'', JStr ''a < 1'')])"

definition empty_state :: policy_state where
  "empty_state = \<lparr>ps_rows = [], ps_dir = Map.empty, ps_events = []\<rparr>"

definition sample_state :: policy_state where
  "sample_state =
     (case publishPolicy_execute noop_publisher ''t1'' ''p1'' 5 ''acme'' sample_policy 7 empty_state of
        Inr (_, st) \<Rightarrow> st | Inl _ \<Rightarrow> empty_state)"

lemma sample_published:
  "\<exists>p. publishPolicy_execute noop_publisher ''t1'' ''p1'' 5 ''acme'' sample_policy 7 empty_state = Inr (p, sample_state)"
proof -
  have "is_ok (publishPolicy_execute noop_publisher ''t1'' ''p1'' 5 ''acme'' sample_policy 7 empty_state)"
    unfolding sample_policy_def sample_rule_def by code_simp
  then show ?thesis by (auto simp: sample_state_def is_ok_def split: sum.splits)
qed

text \<open>
  C10. Whatever sequence of publications, activations and rollbacks a tenant performs, with
  whatever publisher, the versions of a scope are 1, 2, 3, ... without a gap or a
  repetition, ids are unique and every row belongs to the tenant.
\<close>

theorem policy_versions_gapless:
  assumes "policy_reachable publisher is_uuid t st"
  shows "set (versions s (ps_rows st)) = {1..int (length (versions s (ps_rows st)))} \<and>
     distinct (versions s (ps_rows st)) \<and> distinct (map po_id (ps_rows st)) \<and>
     list_all (\<lambda>p. po_tenantId p = Some t) (ps_rows st)"
proof -
  let ?vs = "versions s (ps_rows st)"
  have ok: "policies_ok t (ps_rows st)" using reachable_ok[OF assms] .
  then have vs: "set ?vs = {1..int (length ?vs)}" by (simp add: policies_ok_def)
  have "card (set ?vs) = length ?vs" unfolding vs by simp
  then have "distinct ?vs" by (rule card_distinct)
  then show ?thesis using ok vs by (simp add: policies_ok_def list_all_iff)
qed

lemma sample_reachable: "policy_reachable noop_publisher (\<lambda>_. True) ''t1'' sample_state"
proof -
  obtain p where "publishPolicy_execute noop_publisher ''t1'' ''p1'' 5 ''acme'' sample_policy 7 empty_state = Inr (p, sample_state)"
    using sample_published by blast
  from policy_step.publish[OF this] have "policy_step noop_publisher (\<lambda>_. True) ''t1'' empty_state sample_state"
    by (simp add: empty_state_def)
  then show ?thesis by (rule policy_reachable.step[rotated]) (rule policy_reachable.init, simp add: empty_state_def)
qed

lemma policy_versions_gapless_witness:
  "set (versions ''acme'' (ps_rows sample_state)) = {1..1} \<and> length (ps_rows sample_state) = 1"
proof -
  have "length (versions ''acme'' (ps_rows sample_state)) = 1" "length (ps_rows sample_state) = 1"
    by code_simp+
  then show ?thesis using policy_versions_gapless[OF sample_reachable, of "''acme''"] by simp
qed

text \<open>
  History is immutable: a step of any kind keeps every row that was there, with its
  id, scope, rule, version and dates; only a staged row may become active, with a new
  update time, and a row that is active stays exactly as it is (so activating a version
  never retires the one that was active before).
\<close>

theorem policy_history_immutable:
  assumes "policy_reachable publisher is_uuid t st" and "policy_step publisher is_uuid t st st'"
    and "p \<in> set (ps_rows st)"
  shows "\<exists>q \<in> set (ps_rows st'). q = p\<lparr>po_status := po_status q, po_updatedAt := po_updatedAt q\<rparr> \<and>
     (po_status p = Active \<longrightarrow> q = p)"
  using step_keeps[OF assms(2) reachable_ok[OF assms(1)]] assms(3) by (auto simp: same_version_def)

definition sample_active :: policy_state where
  "sample_active =
     (case activatePolicy_execute noop_publisher (\<lambda>_. True) ''t1'' 9 ''p1'' (Some 1) sample_state of
        Inr (_, st) \<Rightarrow> st | Inl _ \<Rightarrow> empty_state)"

lemma sample_activated:
  "\<exists>p. activatePolicy_execute noop_publisher (\<lambda>_. True) ''t1'' 9 ''p1'' (Some 1) sample_state = Inr (p, sample_active)"
proof -
  have "is_ok (activatePolicy_execute noop_publisher (\<lambda>_. True) ''t1'' 9 ''p1'' (Some 1) sample_state)"
    by code_simp
  then show ?thesis by (auto simp: sample_active_def is_ok_def split: sum.splits)
qed

lemma policy_history_immutable_witness:
  "\<exists>p \<in> set (ps_rows sample_state). \<exists>q \<in> set (ps_rows sample_active).
     q = p\<lparr>po_status := po_status q, po_updatedAt := po_updatedAt q\<rparr>"
proof -
  have "ps_rows sample_state \<noteq> []" by code_simp
  then obtain p where p: "p \<in> set (ps_rows sample_state)" by (cases "ps_rows sample_state") auto
  obtain q where "activatePolicy_execute noop_publisher (\<lambda>_. True) ''t1'' 9 ''p1'' (Some 1) sample_state = Inr (q, sample_active)"
    using sample_activated by blast
  then have "policy_step noop_publisher (\<lambda>_. True) ''t1'' sample_state sample_active"
    by (rule policy_step.activate)
  from policy_history_immutable[OF sample_reachable this p] p show ?thesis by blast
qed

text \<open>
  A staged version is already enforced: publishing writes the compiled version into
  the directory of the PDP although the row is only staged, and the later activation leaves
  the directory exactly as it is.
\<close>

theorem staged_version_already_enforced:
  assumes "policy_reachable fs_publisher is_uuid t st"
    and "publishPolicy_execute fs_publisher t freshId now scope rule e st = Inr (p, st1)"
    and "freshId \<notin> po_id ` set (ps_rows st)"
    and "activatePolicy_execute fs_publisher is_uuid t later freshId expected st1 = Inr (q, st2)"
  shows "po_status p = Staged \<and> mapPolicyToCerbosFiles rule scope freshId (po_version p) \<noteq> Inr [] \<and>
     fsPublish rule scope freshId (po_version p) (ps_dir st) = Inr (ps_dir st1) \<and>
     ps_dir st2 = ps_dir st1"
proof (rule activate_step_row[OF _ assms(4)])
  note pr = publish_row[OF reachable_ok[OF assms(1)] assms(2,3)]
  show ok1: "policies_ok t (ps_rows st1)" using pr by blast
  fix p' assume p': "p' \<in> set (ps_rows st1)" "po_id p' = freshId"
    "q = p'\<lparr>po_status := Active, po_updatedAt := later\<rparr>"
    and d: "fs_publisher q (ps_dir st1) = Inr (ps_dir st2)"
  have "p \<in> set (ps_rows st1)" "po_id p = freshId" using pr by auto
  then have "p' = p" using p' ok1 by (metis distinct_map inj_onD policies_ok_def)
  moreover have "fs_publisher p (ps_dir st) = Inr (ps_dir st1)" using pr by blast
  ultimately have "ps_dir st2 = ps_dir st1" using fs_port.republish_active d p'(3) by fastforce
  moreover have "fsPublish rule scope freshId (po_version p) (ps_dir st) = Inr (ps_dir st1)"
    using pr by (auto simp: fs_publisher_def)
  moreover have "mapPolicyToCerbosFiles rule scope freshId (po_version p) \<noteq> Inr []"
    using mapPolicy_shape[of rule scope freshId "po_version p" "[]"] by blast
  ultimately show ?thesis using pr by blast
qed

definition fs_published :: "(policy \<times> policy_state) result" where
  "fs_published = publishPolicy_execute fs_publisher ''t1'' ''p1'' 5 ''acme'' sample_policy 7 empty_state"

lemma staged_version_already_enforced_witness:
  "\<exists>p st1 q st2. fs_published = Inr (p, st1) \<and> po_status p = Staged \<and>
     activatePolicy_execute fs_publisher (\<lambda>_. True) ''t1'' 9 ''p1'' None st1 = Inr (q, st2) \<and> ps_dir st2 = ps_dir st1"
proof -
  have ok: "is_ok (rbind fs_published (\<lambda>(p, st1). activatePolicy_execute fs_publisher (\<lambda>_. True) ''t1'' 9 ''p1'' None st1))"
    unfolding fs_published_def sample_policy_def sample_rule_def by code_simp
  obtain p st1 where f: "fs_published = Inr (p, st1)"
    using ok by (metis is_ok_simps(1) obj_sumE rbind_simps(1) surj_pair)
  obtain q st2 where a: "activatePolicy_execute fs_publisher (\<lambda>_. True) ''t1'' 9 ''p1'' None st1 = Inr (q, st2)"
    using ok unfolding f by (auto simp: is_ok_def split: sum.splits)
  have "policy_reachable fs_publisher (\<lambda>_. True) ''t1'' empty_state"
    by (rule policy_reachable.init) (simp add: empty_state_def)
  note e = staged_version_already_enforced[OF this f[unfolded fs_published_def] _ a]
  show ?thesis using e f a by (auto simp: empty_state_def)
qed

text \<open>
  Of two concurrent activations of a version, both of which have read the row while it
  was staged, the one that saves second is refused with a version mismatch.
\<close>

theorem concurrent_activation_refused:
  assumes "policy_reachable publisher is_uuid t st" and "p \<in> set (ps_rows st)"
    and "policy_activate now1 p = Inr a" and "policy_activate now2 p = Inr b"
    and "policy_save t a (ps_rows st) = Inr (a', rows1)"
  shows "policy_save t b rows1 =
     Inl (ConflictError ''Policy was modified by another request'' (Some ''version_mismatch''))"
proof -
  have ok: "policies_ok t (ps_rows st)" using reachable_ok[OF assms(1)] .
  note row = activate_row[OF ok assms(2,3,5)]
  have b: "b = p\<lparr>po_status := Active, po_updatedAt := now2\<rparr>"
    using assms(4) by (auto simp: policy_activate_def split: if_splits)
  have t: "po_tenantId p = Some t" using ok assms(2) by (simp add: policies_ok_def)
  have "js_trim t \<noteq> []"
    using assms(5) by (auto simp: policy_save_def stampTenant_def elim!: rbind_InrE)
  then have stamp: "stampTenant t b = Inr b"
    unfolding stampTenant_def b using t by (simp add: againstEmpty_pass)
  have ids: "po_id r = po_id p \<longleftrightarrow> r = a" if "r \<in> set rows1" for r
    using that row ok assms(2) by (auto simp: policies_ok_def dest: distinct_map[THEN iffD1] inj_onD)
  have a: "a \<in> set rows1" "po_status a = Active" "po_id a = po_id p" using row assms(2) by auto
  have none: "[r \<leftarrow> rows1. po_id r = po_id b \<and> po_status r = Staged] = []"
    using ids a(2) b by (auto simp: filter_empty_conv)
  have "list_ex (\<lambda>r. po_id r = po_id b) rows1" using a b by (auto simp: list_ex_iff)
  moreover have "po_status b = Active" using b by simp
  ultimately show ?thesis by (simp add: policy_save_def stamp none Let_def)
qed

lemma concurrent_activation_refused_witness:
  "\<exists>p a b a' rows1. p \<in> set (ps_rows sample_state) \<and> policy_activate 8 p = Inr a \<and>
     policy_activate 9 p = Inr b \<and> policy_save ''t1'' a (ps_rows sample_state) = Inr (a', rows1) \<and>
     \<not> is_ok (policy_save ''t1'' b rows1)"
proof -
  let ?p = "hd (ps_rows sample_state)"
  have ne: "ps_rows sample_state \<noteq> []" by code_simp
  have ok: "is_ok (rbind (policy_activate 8 ?p) (\<lambda>a. policy_save ''t1'' a (ps_rows sample_state)))"
    "is_ok (policy_activate 9 ?p)" by code_simp+
  obtain a b where a: "policy_activate 8 ?p = Inr a" and b: "policy_activate 9 ?p = Inr b"
    using ok by (auto simp: is_ok_def split: sum.splits) (cases "policy_activate 8 ?p"; auto)
  obtain a' rows1 where s: "policy_save ''t1'' a (ps_rows sample_state) = Inr (a', rows1)"
    using ok(1) a by (auto simp: is_ok_def split: sum.splits)
  have "?p \<in> set (ps_rows sample_state)" using ne by simp
  then show ?thesis
    using concurrent_activation_refused[OF sample_reachable _ a b s] a b s
    by (intro exI[of _ ?p] exI[of _ a] exI[of _ b] exI[of _ a'] exI[of _ rows1]) simp
qed

end
