(* ===== verification/Listings.thy ===== *)
theory Listings
  imports OrgTree PolicyLife AuditSafety
begin

text \<open>
  The listings of organisation units, of policies and of audit events under the keyset
  contract, and what a client that follows the cursors of each of them reads.
\<close>

section \<open>Organisation units\<close>

definition org_listable :: "(string \<Rightarrow> string option) \<Rightarrow> org_table \<Rightarrow> bool" where
  "org_listable pg_id rows \<longleftrightarrow> org_tree rows \<and>
     list_all (\<lambda>u. CHR ''|'' \<notin> set (ou_id u) \<and> pg_id (ou_id u) = Some (ou_id u)) rows"

lemma path_no_bar: "valid_path p \<Longrightarrow> CHR ''|'' \<notin> set p"
proof
  assume v: "valid_path p" and "CHR ''|'' \<in> set p"
  then obtain s where "s \<in> set (segments p)" "CHR ''|'' \<in> set s"
    using split_on_chars[of "CHR ''|''" p "CHR ''.''"] by (auto simp: segments_def)
  then show False using v kebab_chars[of s "CHR ''|''"] by (auto simp: valid_path_def list_all_iff char_class)
qed

lemma ou_subtree_set: "set (ou_subtree root rows) = {u \<in> set rows. isAncestorOf root (ou_path u)}"
  by (auto simp: ou_subtree_def isAncestorOf_def)

lemma ou_subtree_sorted:
  assumes "org_tree rows"
  shows "sorted_wrt (\<lambda>a b. ou_path a < ou_path b \<or> ou_path a = ou_path b \<and> ou_id a < ou_id b) (ou_subtree root rows)"
  unfolding ou_subtree_def using org_tree_distinct(1)[OF assms]
  by (intro sort_two_keys_strict) (simp add: distinct_map_filter)

lemma row_greater_key:
  "row_greater ou_path ou_id (ou_path x, Some (ou_id x)) =
   (\<lambda>a b. ou_path a < ou_path b \<or> ou_path a = ou_path b \<and> ou_id a < ou_id b) x"
  by (simp add: row_greater_def[abs_def])

interpretation org_listing:
  keyset "org_listable pg_id" "ou_subtree root" ou_cursor "read_row_cursor Some pg_id" "row_greater ou_path ou_id"
  for pg_id root
proof
  show "ou_cursor r \<noteq> []" for r unfolding ou_cursor_def by (rule cursor_ne) simp
next
  fix rows xs x ys
  assume good: "org_listable pg_id rows" and o: "ou_subtree root rows = xs @ x # ys"
  have "x \<in> set rows" using ou_subtree_set[of root rows] unfolding o by auto
  then have x: "valid_path (ou_path x)" "CHR ''|'' \<notin> set (ou_id x)" "pg_id (ou_id x) = Some (ou_id x)"
    using good by (auto simp: org_listable_def org_tree_def list_all_iff)
  then have "read_row_cursor Some pg_id (ou_cursor x) = Inr (ou_path x, Some (ou_id x))"
    unfolding ou_cursor_def by (intro read_row_cursor_encode) (simp_all add: path_no_bar)
  moreover have "filter (row_greater ou_path ou_id (ou_path x, Some (ou_id x))) (ou_subtree root rows) = ys"
    unfolding o row_greater_key
  proof (rule cut_at)
    show "sorted_wrt (\<lambda>a b. ou_path a < ou_path b \<or> ou_path a = ou_path b \<and> ou_id a < ou_id b) (xs @ x # ys)"
      using good ou_subtree_sorted[of rows root] by (simp add: org_listable_def o)
  qed auto
  ultimately show "\<exists>k. read_row_cursor Some pg_id (ou_cursor x) = Inr k \<and>
      filter (row_greater ou_path ou_id k) (ou_subtree root rows) = ys"
    by blast
qed

lemma org_walk:
  assumes good: "org_listable pg_id rows" and root: "valid_path root"
  shows "walk_pages (\<lambda>c. listSubtree_execute pg_id root limit c rows) (Suc (length rows)) None = Inr (ou_subtree root rows)"
proof -
  have "orgPath_fromString root = Inr root" using root by simp
  then have l: "listSubtree_execute pg_id root limit c rows =
      list_page ou_cursor (read_row_cursor Some pg_id) (row_greater ou_path ou_id) orgUnit_fromSnapshot
        (pageQueryFrom limit c) (ou_subtree root rows)" for c
    by (simp only: listSubtree_execute_def ou_listSubtree_def rbind_simps)
  show ?thesis unfolding l
  proof (rule org_listing.walk_complete[OF good])
    show "orgUnit_fromSnapshot u = Inr u" if "u \<in> set (ou_subtree root rows)" for u
      using that good ou_subtree_set[of root rows]
      by (auto simp: orgUnit_fromSnapshot_def org_listable_def org_tree_def rbind_Inr_iff)
    show "length (ou_subtree root rows) \<le> length rows" by (simp add: ou_subtree_def length_filter_le)
  qed
qed

text \<open>
  C11. A client that follows the cursors of the subtree listing reads every unit of the
  subtree exactly once, in the order of the paths, whatever page size it asks for; the
  listing stops after at most one page more than there are rows.
\<close>

theorem subtree_listing_complete:
  assumes "org_tree rows" and "valid_path root"
    and "\<And>u. u \<in> set rows \<Longrightarrow> CHR ''|'' \<notin> set (ou_id u) \<and> pg_id (ou_id u) = Some (ou_id u)"
  shows "\<exists>xs. walk_pages (\<lambda>c. listSubtree_execute pg_id root limit c rows) (Suc (length rows)) None = Inr xs \<and>
     distinct xs \<and> set xs = {u \<in> set rows. isAncestorOf root (ou_path u)} \<and> sorted (map ou_path xs)"
proof -
  have good: "org_listable pg_id rows" using assms(1,3) by (simp add: org_listable_def list_all_iff)
  have "distinct rows" using org_tree_distinct(1)[OF assms(1)] by (simp add: distinct_map)
  then have "distinct (ou_subtree root rows)" by (simp add: ou_subtree_def)
  moreover have "sorted (map ou_path (ou_subtree root rows))" by (simp add: ou_subtree_def)
  ultimately show ?thesis using org_walk[OF good assms(2)] ou_subtree_set by auto
qed

lemma subtree_listing_complete_witness:
  "\<exists>xs. walk_pages (\<lambda>c. listSubtree_execute Some ''acme.fin'' (Some 1) c sample_org) (Suc 4) None = Inr xs \<and>
     distinct xs \<and> set xs = {u \<in> set sample_org. isAncestorOf ''acme.fin'' (ou_path u)} \<and> sorted (map ou_path xs)"
proof -
  have "length sample_org = 4" "valid_path ''acme.fin''"
    "list_all (\<lambda>u. CHR ''|'' \<notin> set (ou_id u)) sample_org" by code_simp+
  then show ?thesis
    using subtree_listing_complete[OF sample_org_tree, of "''acme.fin''" Some "Some 1"] by (simp add: list_all_iff)
qed

section \<open>Policies\<close>

text \<open>Every policy of a reachable state is listed once, the newest first.\<close>

lemma policy_walk:
  assumes "policies_ok t (ps_rows st)" and "newest_listable pg_timestamp pg_id po_createdAt po_id (ps_rows st)"
  shows "walk_pages (\<lambda>c. listPolicies_execute pg_timestamp pg_id limit c st) (Suc (length (ps_rows st))) None =
    Inr (newest_first po_createdAt po_id (ps_rows st))"
  unfolding listPolicies_execute_def policy_list_def using assms(1)
  by (intro newest_walk[OF assms(2)]) (auto simp: policy_fromSnapshot_def policies_ok_def)

section \<open>Audit events\<close>

text \<open>The cursor is the sequence number in decimal, which Postgres reads as a bigint.\<close>

definition audit_listable :: "(string \<Rightarrow> int option) \<Rightarrow> audit_event list \<Rightarrow> bool" where
  "audit_listable pg_bigint rows \<longleftrightarrow> sorted_wrt (<) (map ae_seq rows) \<and>
     list_all (\<lambda>r. pg_bigint (int_str (ae_seq r)) = Some (ae_seq r)) rows"

interpretation audit_listing:
  keyset "audit_listable pg_bigint" "audit_visible tenant" audit_cursor "read_seq pg_bigint" "\<lambda>n r. ae_seq r < n"
  for pg_bigint tenant
proof
  show "audit_cursor r \<noteq> []" for r unfolding audit_cursor_def by (rule cursor_ne[OF int_str_ne])
next
  fix rows xs x ys
  assume good: "audit_listable pg_bigint rows" and o: "audit_visible tenant rows = xs @ x # ys"
  have "x \<in> set (audit_visible tenant rows)" unfolding o by simp
  then have "read_seq pg_bigint (audit_cursor x) = Inr (ae_seq x)"
    using good by (auto simp: audit_visible_def audit_listable_def list_all_iff read_seq_def audit_cursor_def
        cursor_roundtrip split: if_splits option.splits)
  moreover have "sorted_wrt (\<lambda>a b. ae_seq b < ae_seq a) (rev rows)"
    using good by (simp add: audit_listable_def sorted_wrt_rev sorted_wrt_map)
  then have "sorted_wrt (\<lambda>a b. ae_seq b < ae_seq a) (audit_visible tenant rows)"
    by (simp add: audit_visible_def sorted_wrt_filter split: option.splits)
  then have "filter (\<lambda>r. ae_seq r < ae_seq x) (audit_visible tenant rows) = ys"
    unfolding o by (rule cut_at) auto
  ultimately show "\<exists>k. read_seq pg_bigint (audit_cursor x) = Inr k \<and>
      filter (\<lambda>r. ae_seq r < k) (audit_visible tenant rows) = ys"
    by blast
qed

text \<open>
  A client that follows the cursors of the audit listing reads, newest first, every
  record of the tenant it asks for (every record when it names none) exactly once and no
  record of another tenant, whatever page size it asks for.
\<close>

theorem audit_listing_complete:
  assumes "audit_inv sha db"
    and "\<And>r. r \<in> set (adb_rows db) \<Longrightarrow> pg_bigint (int_str (ae_seq r)) = Some (ae_seq r)"
    and "audit_tenant pg_uuid tenant = Inr t"
  shows "walk_pages (\<lambda>c. listAuditEvents_execute pg_uuid pg_bigint tenant limit c db) (Suc (length (adb_rows db))) None =
     Inr (rev [r \<leftarrow> adb_rows db. t \<noteq> None \<longrightarrow> t = Some (ae_tenantId r)])"
proof -
  have good: "audit_listable pg_bigint (adb_rows db)"
    using assms by (simp add: audit_listable_def audit_inv_def list_all_iff)
  have t: "audit_tenant pg_uuid (if truthy tenant then tenant else None) = Inr t"
    using assms(3) by (cases "truthy tenant") (simp_all add: audit_tenant_def)
  let ?rows = "audit_visible t (adb_rows db)"
  have "length ?rows \<le> length (adb_rows db)"
    using length_filter_le[of _ "rev (adb_rows db)"] by (simp add: audit_visible_def split: option.splits)
  from audit_listing.walk_complete[OF good _ this, of Inr limit]
  have "walk_pages (\<lambda>c. listAuditEvents_execute pg_uuid pg_bigint tenant limit c db) (Suc (length (adb_rows db))) None =
      Inr ?rows"
    by (simp add: listAuditEvents_execute_def audit_list_def t)
  also have "?rows = rev [r \<leftarrow> adb_rows db. t \<noteq> None \<longrightarrow> t = Some (ae_tenantId r)]"
    by (cases t) (auto simp: audit_visible_def rev_filter intro!: filter_cong)
  finally show ?thesis .
qed

definition digits_value :: "string \<Rightarrow> int option" where
  "digits_value s = Some (foldl (\<lambda>n c. 10 * n + (of_char c - 48)) 0 s)"

lemma sample_db_inv: "audit_inv (\<lambda>s. CHR ''h'' # s) (sample_db [''a''])"
proof -
  have "req_ok Some ((\<lambda>_. []), (\<lambda>_. None), sample_event ''a'')"
    by (simp add: req_ok_def uuid_stable_def)
  from typeorm_repo.append_inv[OF empty_audit_inv this] show ?thesis by (simp add: sample_db_def)
qed

lemma audit_listing_complete_witness:
  "walk_pages (\<lambda>c. listAuditEvents_execute Some digits_value (Some ''t'') (Some 1) c (sample_db [''a''])) 2 None =
     Inr (rev [r \<leftarrow> adb_rows (sample_db [''a'']). Some ''t'' \<noteq> None \<longrightarrow> Some ''t'' = Some (ae_tenantId r)]) \<and>
   length (adb_rows (sample_db [''a''])) = 1"
proof -
  have one: "digits_value (int_str 1) = Some 1" by code_simp
  have "walk_pages (\<lambda>c. listAuditEvents_execute Some digits_value (Some ''t'') (Some 1) c (sample_db [''a'']))
      (Suc (length (adb_rows (sample_db [''a''])))) None =
     Inr (rev [r \<leftarrow> adb_rows (sample_db [''a'']). Some ''t'' \<noteq> None \<longrightarrow> Some ''t'' = Some (ae_tenantId r)])"
    by (rule audit_listing_complete[OF sample_db_inv])
      (simp_all add: sample_db_one linked_def one audit_tenant_def)
  then show ?thesis by (simp add: sample_db_one eval_nat_numeral)
qed

end
