(* ===== verification/Routes.thy ===== *)
theory Routes
  imports IdentityToken
begin

text \<open>
  The pure parts of the gateway's proxy: the route table (apps/gateway/src/modules/proxy/
  domain/route-table.ts) and the header policy of a forwarded request (domain/
  forwarded-headers.ts), with their equivalence to a decision on path segments and the
  independence of the identity headers from what the client sent.
\<close>

section \<open>The route table\<close>

datatype upstream_name = UpIdentity | UpAuthzAdmin | UpExpense | UpAudit

record route_target =
  rt_upstream :: upstream_name
  rt_requiresAuth :: bool

definition AUTHZ_ADMIN_V1_COLLECTIONS :: "string list" where
  "AUTHZ_ADMIN_V1_COLLECTIONS =
     [''tenants'', ''org-units'', ''roles'', ''permissions'', ''role-assignments'', ''policies'']"

definition segmentMatch :: "string \<Rightarrow> string \<Rightarrow> bool" where
  "segmentMatch path p \<longleftrightarrow> path = p \<or> starts_with path (p @ ''/'')"

definition normalizePath :: "string \<Rightarrow> string" where
  "normalizePath path =
     (let withLeading = (if starts_with path ''/'' then path else CHR ''/'' # path)
      in if length withLeading > 1 \<and> ends_with withLeading ''/'' then butlast withLeading
         else withLeading)"

definition resolveRoute :: "string \<Rightarrow> route_target option" where
  "resolveRoute path =
     (let normalized = normalizePath path in
      if segmentMatch normalized ''/auth'' \<or> segmentMatch normalized ''/v1/auth''
      then Some \<lparr>rt_upstream = UpIdentity, rt_requiresAuth = False\<rparr>
      else if segmentMatch normalized ''/admin''
      then Some \<lparr>rt_upstream = UpAuthzAdmin, rt_requiresAuth = True\<rparr>
      else if segmentMatch normalized ''/v1/expenses''
      then Some \<lparr>rt_upstream = UpExpense, rt_requiresAuth = True\<rparr>
      else if segmentMatch normalized ''/v1/audit''
      then Some \<lparr>rt_upstream = UpAudit, rt_requiresAuth = True\<rparr>
      else if list_ex (\<lambda>c. segmentMatch normalized (''/v1/'' @ c)) AUTHZ_ADMIN_V1_COLLECTIONS
      then Some \<lparr>rt_upstream = UpAuthzAdmin, rt_requiresAuth = True\<rparr>
      else None)"

text \<open>The table as a decision on the first path segments.\<close>

definition route_of_segments :: "string list \<Rightarrow> route_target option" where
  "route_of_segments segs =
     (case segs of
        _ # area # rest \<Rightarrow>
          if area = ''auth'' then Some \<lparr>rt_upstream = UpIdentity, rt_requiresAuth = False\<rparr>
          else if area = ''admin'' then Some \<lparr>rt_upstream = UpAuthzAdmin, rt_requiresAuth = True\<rparr>
          else if area = ''v1'' then
            (case rest of
               [] \<Rightarrow> None
             | collection # _ \<Rightarrow>
                 if collection = ''auth'' then Some \<lparr>rt_upstream = UpIdentity, rt_requiresAuth = False\<rparr>
                 else if collection = ''expenses'' then Some \<lparr>rt_upstream = UpExpense, rt_requiresAuth = True\<rparr>
                 else if collection = ''audit'' then Some \<lparr>rt_upstream = UpAudit, rt_requiresAuth = True\<rparr>
                 else if collection \<in> set AUTHZ_ADMIN_V1_COLLECTIONS
                 then Some \<lparr>rt_upstream = UpAuthzAdmin, rt_requiresAuth = True\<rparr>
                 else None)
          else None
      | _ \<Rightarrow> None)"

lemma segmentMatch_segments: "segmentMatch path p \<longleftrightarrow> prefix (split_on (CHR ''/'') p) (split_on (CHR ''/'') path)"
  unfolding segmentMatch_def by (rule split_prefix)

lemma normalizePath_slash: "\<exists>r. normalizePath path = CHR ''/'' # r"
proof -
  have "\<exists>r. (if starts_with path ''/'' then path else CHR ''/'' # path) = CHR ''/'' # r"
    by (auto simp: starts_with_def prefix_def)
  then show ?thesis by (auto simp: normalizePath_def Let_def)
qed

lemma normalizePath_split: "\<exists>a rest. split_on (CHR ''/'') (normalizePath path) = [] # a # rest"
proof -
  obtain r where "normalizePath path = CHR ''/'' # r" using normalizePath_slash by blast
  then show ?thesis by (cases "split_on (CHR ''/'') r") auto
qed

lemma segmentMatch_area:
  "split_on (CHR ''/'') p = [] # a # rest \<Longrightarrow> CHR ''/'' \<notin> set x \<Longrightarrow> segmentMatch p (CHR ''/'' # x) \<longleftrightarrow> x = a"
  by (simp add: segmentMatch_segments split_on_no_sep)

lemma segmentMatch_collection:
  "split_on (CHR ''/'') p = [] # a # rest \<Longrightarrow> CHR ''/'' \<notin> set x \<Longrightarrow>
   segmentMatch p (''/v1/'' @ x) \<longleftrightarrow> a = ''v1'' \<and> (\<exists>r. rest = x # r)"
  by (cases rest) (auto simp: segmentMatch_segments split_on_no_sep)

text \<open>
  The route table decides on whole path segments: the textual matching of prefixes is
  the same function as a look at the first one or two segments of the normalised path, so
  no path that merely begins with the letters of a route (/v1/expensesX, /authX) is routed,
  only the identity service is reachable without authentication, and nothing outside the
  listed collections is routed at all.
\<close>

theorem route_table_is_segmentwise:
  "resolveRoute path = route_of_segments (split_on (CHR ''/'') (normalizePath path))"
proof -
  obtain a rest where s: "split_on (CHR ''/'') (normalizePath path) = [] # a # rest"
    using normalizePath_split by blast
  have area: "segmentMatch (normalizePath path) ''/auth'' \<longleftrightarrow> a = ''auth''"
    "segmentMatch (normalizePath path) ''/admin'' \<longleftrightarrow> a = ''admin''"
    using segmentMatch_area[OF s, of "''auth''"] segmentMatch_area[OF s, of "''admin''"] by auto
  have coll: "segmentMatch (normalizePath path) ''/v1/auth'' \<longleftrightarrow> a = ''v1'' \<and> (\<exists>r. rest = ''auth'' # r)"
    "segmentMatch (normalizePath path) ''/v1/expenses'' \<longleftrightarrow> a = ''v1'' \<and> (\<exists>r. rest = ''expenses'' # r)"
    "segmentMatch (normalizePath path) ''/v1/audit'' \<longleftrightarrow> a = ''v1'' \<and> (\<exists>r. rest = ''audit'' # r)"
    using segmentMatch_collection[OF s, of "''auth''"] segmentMatch_collection[OF s, of "''expenses''"]
      segmentMatch_collection[OF s, of "''audit''"] by auto
  have admin: "list_ex (\<lambda>c. segmentMatch (normalizePath path) (''/v1/'' @ c)) AUTHZ_ADMIN_V1_COLLECTIONS \<longleftrightarrow>
      a = ''v1'' \<and> (\<exists>c r. rest = c # r \<and> c \<in> set AUTHZ_ADMIN_V1_COLLECTIONS)"
  proof -
    have "segmentMatch (normalizePath path) (''/v1/'' @ c) \<longleftrightarrow> a = ''v1'' \<and> (\<exists>r. rest = c # r)"
      if "c \<in> set AUTHZ_ADMIN_V1_COLLECTIONS" for c
      using that by (intro segmentMatch_collection[OF s]) (auto simp: AUTHZ_ADMIN_V1_COLLECTIONS_def)
    then show ?thesis unfolding list_ex_iff by blast
  qed
  show ?thesis
    unfolding resolveRoute_def Let_def area coll admin s
    by (cases rest) (auto simp: route_of_segments_def)
qed

text \<open>
  A dot segment is a segment like any other here, and the table does not look at the
  method: a path whose target the upstream client normalises to another endpoint passes.
\<close>

lemma dot_segments_are_routed:
  "resolveRoute ''/v1/roles/../principals/7'' = Some \<lparr>rt_upstream = UpAuthzAdmin, rt_requiresAuth = True\<rparr> \<and>
   resolveRoute ''/v1/principals/7'' = None"
  by code_simp

section \<open>Forwarded headers\<close>

definition TENANT_CONTEXT_HEADER :: string where "TENANT_CONTEXT_HEADER = ''x-tenant-id''"
definition ACTOR_CONTEXT_HEADER :: string where "ACTOR_CONTEXT_HEADER = ''x-actor-id''"
definition PLATFORM_ADMIN_HEADER :: string where "PLATFORM_ADMIN_HEADER = ''x-platform-admin''"

definition CLIENT_SPOOFABLE_HEADERS :: "string list" where
  "CLIENT_SPOOFABLE_HEADERS =
     [TOKEN_HEADER, SIGNATURE_HEADER, TENANT_CONTEXT_HEADER, ACTOR_CONTEXT_HEADER, PLATFORM_ADMIN_HEADER]"

definition HOP_BY_HOP_HEADERS :: "string list" where
  "HOP_BY_HOP_HEADERS =
     [''connection'', ''keep-alive'', ''proxy-authenticate'', ''proxy-authorization'', ''te'', ''trailer'',
      ''transfer-encoding'', ''upgrade'', ''host'', ''content-length'']"

text \<open>
  The client's headers are the entries of an object, in its order; a value may be absent.
  The result is the object that is built, as a map.
\<close>

type_synonym client_headers = "(string \<times> header_value option) list"
type_synonym header_map = "string \<Rightarrow> string option"

definition header_text :: "header_value \<Rightarrow> string" where
  "header_text v = (case v of HOne s \<Rightarrow> s | HMany ss \<Rightarrow> join_with '', '' ss)"

definition dropped_header :: "string \<Rightarrow> bool" where
  "dropped_header key \<longleftrightarrow> key \<in> set (HOP_BY_HOP_HEADERS @ CLIENT_SPOOFABLE_HEADERS)"

definition forward_header :: "header_map \<Rightarrow> string \<times> header_value option \<Rightarrow> header_map" where
  "forward_header out entry =
     (case entry of (rawKey, rawValue) \<Rightarrow>
        let key = to_lower rawKey in
        (case rawValue of
           None \<Rightarrow> out
         | Some v \<Rightarrow> if dropped_header key then out else out(key \<mapsto> header_text v)))"

definition buildForwardedHeaders ::
  "client_headers \<Rightarrow> gateway_identity option \<Rightarrow> minted_token option \<Rightarrow> header_map" where
  "buildForwardedHeaders clientHeaders identity injected =
     (let out = foldl forward_header Map.empty clientHeaders in
      (case (identity, injected) of
         (Some i, Some t) \<Rightarrow>
           (let out = out(TOKEN_HEADER \<mapsto> mt_headerValue t, SIGNATURE_HEADER \<mapsto> mt_signature t,
                          TENANT_CONTEXT_HEADER \<mapsto> gi_tid i, ACTOR_CONTEXT_HEADER \<mapsto> gi_actorId i)
            in if gi_platformAdmin i then out(PLATFORM_ADMIN_HEADER \<mapsto> ''true'') else out)
       | _ \<Rightarrow> out))"

lemma forward_headers_dropped:
  "dropped_header key \<Longrightarrow> foldl forward_header out hs key = out key"
  by (induction hs arbitrary: out) (auto simp: forward_header_def Let_def split: prod.splits option.splits)

text \<open>What the gateway itself says about the caller in a header.\<close>

definition derived_header :: "gateway_identity option \<Rightarrow> minted_token option \<Rightarrow> string \<Rightarrow> string option" where
  "derived_header identity injected name =
     (case (identity, injected) of
        (Some i, Some t) \<Rightarrow>
          if name = TOKEN_HEADER then Some (mt_headerValue t)
          else if name = SIGNATURE_HEADER then Some (mt_signature t)
          else if name = TENANT_CONTEXT_HEADER then Some (gi_tid i)
          else if name = ACTOR_CONTEXT_HEADER then Some (gi_actorId i)
          else if name = PLATFORM_ADMIN_HEADER \<and> gi_platformAdmin i then Some ''true''
          else None
      | _ \<Rightarrow> None)"

lemmas identity_header_defs =
  TOKEN_HEADER_def SIGNATURE_HEADER_def TENANT_CONTEXT_HEADER_def ACTOR_CONTEXT_HEADER_def
  PLATFORM_ADMIN_HEADER_def

lemma spoofable_header:
  assumes "name \<in> set CLIENT_SPOOFABLE_HEADERS"
  shows "buildForwardedHeaders client identity injected name = derived_header identity injected name"
proof -
  have "dropped_header name" using assms by (simp add: dropped_header_def)
  then have base: "foldl forward_header Map.empty client name = None"
    by (simp add: forward_headers_dropped)
  have "name \<in> {TOKEN_HEADER, SIGNATURE_HEADER, TENANT_CONTEXT_HEADER, ACTOR_CONTEXT_HEADER, PLATFORM_ADMIN_HEADER}"
    using assms by (simp add: CLIENT_SPOOFABLE_HEADERS_def)
  then show ?thesis
    using base unfolding buildForwardedHeaders_def derived_header_def Let_def
    by (auto simp: identity_header_defs split: option.splits)
qed

lemma hop_by_hop_header:
  assumes "name \<in> set HOP_BY_HOP_HEADERS"
  shows "buildForwardedHeaders client identity injected name = None"
proof -
  have "dropped_header name" using assms by (simp add: dropped_header_def)
  then have "foldl forward_header Map.empty client name = None" by (simp add: forward_headers_dropped)
  moreover have "name \<notin> {TOKEN_HEADER, SIGNATURE_HEADER, TENANT_CONTEXT_HEADER, ACTOR_CONTEXT_HEADER, PLATFORM_ADMIN_HEADER}"
    using assms by (auto simp: HOP_BY_HOP_HEADERS_def identity_header_defs)
  ultimately show ?thesis
    unfolding buildForwardedHeaders_def Let_def by (auto split: option.splits)
qed

text \<open>
  C12. A client cannot assert who it is: whatever headers it sends, in whatever case and
  however often, each of the five identity headers of the forwarded request has exactly
  the value the gateway derived from the verified identity, or is absent, and no
  hop-by-hop header is forwarded.
\<close>

theorem identity_headers_not_client_controlled:
  assumes "name \<in> set CLIENT_SPOOFABLE_HEADERS" and "hop \<in> set HOP_BY_HOP_HEADERS"
  shows "buildForwardedHeaders client identity injected name = derived_header identity injected name \<and>
     buildForwardedHeaders client identity injected hop = None"
  using spoofable_header[OF assms(1)] hop_by_hop_header[OF assms(2)] by blast

lemma identity_headers_not_client_controlled_witness:
  "buildForwardedHeaders [(''X-Tenant-Id'', Some (HOne ''evil'')), (''HOST'', Some (HOne ''h''))] None None
     TENANT_CONTEXT_HEADER = None \<and>
   buildForwardedHeaders [(''X-Tenant-Id'', Some (HOne ''evil'')), (''HOST'', Some (HOne ''h''))] None None ''host'' = None"
  using identity_headers_not_client_controlled[of TENANT_CONTEXT_HEADER "''host''"
      "[(''X-Tenant-Id'', Some (HOne ''evil'')), (''HOST'', Some (HOne ''h''))]" None None]
  by (simp add: CLIENT_SPOOFABLE_HEADERS_def HOP_BY_HOP_HEADERS_def derived_header_def)

end
