(* ===== verification/EdgeAuth.thy ===== *)
theory EdgeAuth
  imports Routes HttpErrors
begin

text \<open>
  Authentication at the edge (apps/gateway/src/modules/auth): the bearer token of the
  Authorization header, the verification of an RS256 token against the key set of the
  identity service with its cache, the identity derived from the claims, and the
  route-aware guard.  RSA verification, the import of a key, JSON.parse and the answer of
  the key-set endpoint are arguments; concurrent fetches, which the code merges into one,
  are the same fetch here.
\<close>

section \<open>The bearer token\<close>

definition isCompactJws :: "string \<Rightarrow> bool" where
  "isCompactJws token \<longleftrightarrow>
     (let parts = split_on (CHR ''.'') token in length parts = 3 \<and> list_all (\<lambda>p. length p > 0) parts)"

text \<open>
  The expression Bearer, white space, anything, on a trimmed header: the scheme in any
  case, one white-space character at least, and the rest, which is trimmed afterwards.
\<close>

definition bearer_match :: "string \<Rightarrow> string option" where
  "bearer_match h =
     (case drop 6 h of
        c # rest \<Rightarrow> if to_lower (take 6 h) = ''bearer'' \<and> is_ws c \<and> rest \<noteq> [] then Some rest else None
      | [] \<Rightarrow> None)"

definition fromAuthorizationHeader :: "string option \<Rightarrow> string result" where
  "fromAuthorizationHeader header =
     (case header of
        None \<Rightarrow> Inl (unauthenticated ''missing_authorization'')
      | Some h \<Rightarrow>
          if length (js_trim h) = 0 then Inl (unauthenticated ''missing_authorization'')
          else (case bearer_match (js_trim h) of
                  None \<Rightarrow> Inl (unauthenticated ''invalid_authorization_scheme'')
                | Some rest \<Rightarrow>
                    let token = js_trim rest in
                    if \<not> isCompactJws token then Inl (unauthenticated ''malformed_token'') else Inr token))"

section \<open>The key set and its cache\<close>

record remote_jwk =
  jk_kty :: "string option"
  jk_kid :: "string option"
  jk_n :: "string option"
  jk_e :: "string option"

record 'key jwks_cache =
  jc_keys :: "string \<Rightarrow> 'key option"
  jc_fetchedAtMs :: int

record verifier_config =
  vc_issuer :: string
  vc_audience :: string
  vc_skew :: int
  vc_cacheTtlSeconds :: int

definition add_key ::
  "(remote_jwk \<Rightarrow> 'key option) \<Rightarrow> (string \<Rightarrow> 'key option) \<Rightarrow> remote_jwk \<Rightarrow> (string \<Rightarrow> 'key option)" where
  "add_key import_key keys jwk =
     (case jk_kid jwk of
        None \<Rightarrow> keys
      | Some kid \<Rightarrow>
          if jk_kty jwk \<noteq> Some ''RSA'' \<or> \<not> truthy (jk_n jwk) \<or> \<not> truthy (jk_e jwk) then keys
          else (case import_key jwk of None \<Rightarrow> keys | Some key \<Rightarrow> keys(kid \<mapsto> key)))"

text \<open>\<^term>\<open>jwks\<close> is the key list the endpoint answers with, None when there is no usable answer.\<close>

definition doFetchKeys ::
  "(remote_jwk \<Rightarrow> 'key option) \<Rightarrow> remote_jwk list option \<Rightarrow> int \<Rightarrow> 'key jwks_cache option \<Rightarrow>
   (string \<Rightarrow> 'key option) result \<times> 'key jwks_cache option" where
  "doFetchKeys import_key jwks nowMs cache =
     (case jwks of
        None \<Rightarrow> (Inl (unauthenticated ''jwks_unavailable''), cache)
      | Some ks \<Rightarrow>
          (let keys = foldl (add_key import_key) Map.empty ks in
           if list_all (\<lambda>k. case jk_kid k of None \<Rightarrow> True | Some kid \<Rightarrow> keys kid = None) ks
           then (Inl (unauthenticated ''jwks_empty''), cache)
           else (Inr keys, Some \<lparr>jc_keys = keys, jc_fetchedAtMs = nowMs\<rparr>)))"

definition cachedKeys ::
  "verifier_config \<Rightarrow> int \<Rightarrow> 'key jwks_cache option \<Rightarrow> (string \<Rightarrow> 'key option) option" where
  "cachedKeys cfg nowMs cache =
     (case cache of
        None \<Rightarrow> None
      | Some c \<Rightarrow>
          (let ageMs = nowMs - jc_fetchedAtMs c in
           if ageMs > vc_cacheTtlSeconds cfg * 1000 then None else Some (jc_keys c)))"

definition resolveKey ::
  "(remote_jwk \<Rightarrow> 'key option) \<Rightarrow> verifier_config \<Rightarrow> remote_jwk list option \<Rightarrow> int \<Rightarrow> string \<Rightarrow>
   'key jwks_cache option \<Rightarrow> 'key result \<times> 'key jwks_cache option" where
  "resolveKey import_key cfg jwks nowMs kid cache =
     (case Option.bind (cachedKeys cfg nowMs cache) (\<lambda>keys. keys kid) of
        Some key \<Rightarrow> (Inr key, cache)
      | None \<Rightarrow>
          (case doFetchKeys import_key jwks nowMs cache of
             (Inl e, cache') \<Rightarrow> (Inl e, cache')
           | (Inr keys, cache') \<Rightarrow>
               (case keys kid of
                  None \<Rightarrow> (Inl (unauthenticated ''unknown_key''), cache')
                | Some key \<Rightarrow> (Inr key, cache'))))"

section \<open>The claims\<close>

record access_token_claims =
  at_sub :: string
  at_tid :: string
  at_sid :: string
  at_act :: "string option"
  at_platformAdmin :: "bool option"
  at_iss :: "string option"
  at_aud :: "string option"
  at_exp :: json
  at_iat :: "json option"
  at_nbf :: "json option"

text \<open>A number may be an integer or the infinity that a literal out of range stands for.\<close>

definition jget_number :: "string \<Rightarrow> json \<Rightarrow> json option" where
  "jget_number k v =
     (case jget k v of Some (JNum n) \<Rightarrow> Some (JNum n) | Some JInfinite \<Rightarrow> Some JInfinite | _ \<Rightarrow> None)"

definition expired :: "int \<Rightarrow> int \<Rightarrow> json \<Rightarrow> bool" where
  "expired nowSeconds skew e = (case e of JNum n \<Rightarrow> nowSeconds > n + skew | _ \<Rightarrow> False)"

definition not_yet_valid :: "int \<Rightarrow> int \<Rightarrow> json \<Rightarrow> bool" where
  "not_yet_valid nowSeconds skew e = (case e of JNum n \<Rightarrow> nowSeconds + skew < n | _ \<Rightarrow> True)"

definition audienceMatches :: "json option \<Rightarrow> string \<Rightarrow> bool" where
  "audienceMatches aud expected =
     (case aud of
        Some (JStr s) \<Rightarrow> s = expected
      | Some (JArr vs) \<Rightarrow> JStr expected \<in> set vs
      | _ \<Rightarrow> False)"

definition validateClaims :: "verifier_config \<Rightarrow> int \<Rightarrow> json \<Rightarrow> access_token_claims result" where
  "validateClaims cfg nowMs claims =
     (let nowSeconds = nowMs div 1000; skew = vc_skew cfg in
      rbind (ensure (\<not> (case jget_number ''exp'' claims of None \<Rightarrow> True | Some e \<Rightarrow> expired nowSeconds skew e))
               (unauthenticated ''token_expired'')) (\<lambda>_.
      rbind (ensure (\<not> (case jget_number ''nbf'' claims of None \<Rightarrow> False | Some n \<Rightarrow> not_yet_valid nowSeconds skew n))
               (unauthenticated ''token_not_yet_valid'')) (\<lambda>_.
      rbind (ensure (\<not> (length (vc_issuer cfg) > 0 \<and> jget ''iss'' claims \<noteq> Some (JStr (vc_issuer cfg))))
               (unauthenticated ''issuer_mismatch'')) (\<lambda>_.
      rbind (ensure (\<not> (length (vc_audience cfg) > 0 \<and> \<not> audienceMatches (jget ''aud'' claims) (vc_audience cfg)))
               (unauthenticated ''audience_mismatch'')) (\<lambda>_.
      (case (jget_string ''sub'' claims, jget_string ''tid'' claims, jget_string ''sid'' claims) of
         (Some sub, Some tid, Some sid) \<Rightarrow>
           Inr \<lparr>at_sub = sub, at_tid = tid, at_sid = sid, at_act = jget_string ''act'' claims,
                at_platformAdmin = (if jget ''platform_admin'' claims = Some (JBool True) then Some True else None),
                at_iss = jget_string ''iss'' claims, at_aud = jget_string ''aud'' claims,
                at_exp = or_default (jget_number ''exp'' claims) JNull,
                at_iat = jget_number ''iat'' claims, at_nbf = jget_number ''nbf'' claims\<rparr>
       | _ \<Rightarrow> Inl (unauthenticated ''missing_required_claim'')))))))"

definition decodeJson :: "(string \<Rightarrow> json option) \<Rightarrow> string \<Rightarrow> string \<Rightarrow> json result" where
  "decodeJson parse segment what =
     (case parse (base64url_decode segment) of
        Some (JObj ms) \<Rightarrow> Inr (JObj ms)
      | Some (JArr vs) \<Rightarrow> Inr (JArr vs)
      | _ \<Rightarrow> Inl (unauthenticated (''malformed_'' @ what)))"

definition jwks_verify ::
  "(string \<Rightarrow> json option) \<Rightarrow> ('key \<Rightarrow> string \<Rightarrow> string \<Rightarrow> bool) \<Rightarrow> (remote_jwk \<Rightarrow> 'key option) \<Rightarrow>
   verifier_config \<Rightarrow> remote_jwk list option \<Rightarrow> int \<Rightarrow> string \<Rightarrow> 'key jwks_cache option \<Rightarrow>
   access_token_claims result \<times> 'key jwks_cache option" where
  "jwks_verify parse rsa_verify import_key cfg jwks nowMs token cache =
     (case split_on (CHR ''.'') token of
        [headerB64, payloadB64, signatureB64] \<Rightarrow>
          (case decodeJson parse headerB64 ''header'' of
             Inl e \<Rightarrow> (Inl e, cache)
           | Inr header \<Rightarrow>
               if jget ''alg'' header \<noteq> Some (JStr ''RS256'')
               then (Inl (unauthenticated ''unsupported_alg''), cache)
               else if \<not> truthy (jget_string ''kid'' header)
               then (Inl (unauthenticated ''missing_kid''), cache)
               else
                 (case resolveKey import_key cfg jwks nowMs (or_default (jget_string ''kid'' header) []) cache of
                    (Inl e, cache') \<Rightarrow> (Inl e, cache')
                  | (Inr key, cache') \<Rightarrow>
                      (if \<not> rsa_verify key (headerB64 @ CHR ''.'' # payloadB64) (base64url_decode signatureB64)
                       then Inl (unauthenticated ''invalid_signature'')
                       else rbind (decodeJson parse payloadB64 ''payload'') (validateClaims cfg nowMs),
                       cache')))
      | _ \<Rightarrow> (Inl (Crash ''the token has three segments''), cache))"

section \<open>The use case and the guard\<close>

definition identity_of_claims :: "access_token_claims \<Rightarrow> gateway_identity" where
  "identity_of_claims claims =
     \<lparr>gi_sub = at_sub claims, gi_tid = at_tid claims, gi_sessionId = at_sid claims,
      gi_actorId = or_default (at_act claims) (at_sub claims),
      gi_platformAdmin = (at_platformAdmin claims = Some True)\<rparr>"

definition authenticate_execute ::
  "(string \<Rightarrow> 'key jwks_cache option \<Rightarrow> access_token_claims result \<times> 'key jwks_cache option) \<Rightarrow>
   string option \<Rightarrow> 'key jwks_cache option \<Rightarrow> gateway_identity result \<times> 'key jwks_cache option" where
  "authenticate_execute verify header cache =
     (case fromAuthorizationHeader header of
        Inl e \<Rightarrow> (Inl e, cache)
      | Inr token \<Rightarrow>
          (case verify token cache of
             (r, cache') \<Rightarrow> (rbind r (\<lambda>claims. Inr (identity_of_claims claims)), cache')))"

definition jwtGuard_canActivate ::
  "(string \<Rightarrow> 'key jwks_cache option \<Rightarrow> access_token_claims result \<times> 'key jwks_cache option) \<Rightarrow>
   string \<Rightarrow> string option \<Rightarrow> 'key jwks_cache option \<Rightarrow>
   gateway_identity option result \<times> 'key jwks_cache option" where
  "jwtGuard_canActivate verify path header cache =
     (case resolveRoute path of
        Some route \<Rightarrow>
          if rt_requiresAuth route
          then (case authenticate_execute verify header cache of
                  (r, cache') \<Rightarrow> (rbind r (\<lambda>i. Inr (Some i)), cache'))
          else (Inr None, cache)
      | None \<Rightarrow> (Inr None, cache))"

section \<open>What an accepted token means\<close>

text \<open>A call to the verifier: when it happens, what the endpoint would answer, the token.\<close>

type_synonym verify_call = "int \<times> remote_jwk list option \<times> string"

definition published :: "(remote_jwk \<Rightarrow> 'key option) \<Rightarrow> remote_jwk list \<Rightarrow> string \<Rightarrow> 'key option" where
  "published import_key ks = foldl (add_key import_key) Map.empty ks"

definition cache_after ::
  "(string \<Rightarrow> json option) \<Rightarrow> ('key \<Rightarrow> string \<Rightarrow> string \<Rightarrow> bool) \<Rightarrow> (remote_jwk \<Rightarrow> 'key option) \<Rightarrow>
   verifier_config \<Rightarrow> verify_call list \<Rightarrow> 'key jwks_cache option" where
  "cache_after parse rsa_verify import_key cfg calls =
     foldl (\<lambda>cache (nowMs, jwks, token). snd (jwks_verify parse rsa_verify import_key cfg jwks nowMs token cache))
       None calls"

text \<open>The cache is empty or the key set of one of the answers so far, stamped with its time.\<close>

definition cache_origin ::
  "(remote_jwk \<Rightarrow> 'key option) \<Rightarrow> (int \<times> remote_jwk list option) set \<Rightarrow> 'key jwks_cache option \<Rightarrow> bool" where
  "cache_origin import_key answers cache \<longleftrightarrow>
     (case cache of None \<Rightarrow> True
      | Some c \<Rightarrow> \<exists>ks. (jc_fetchedAtMs c, Some ks) \<in> answers \<and> jc_keys c = published import_key ks)"

lemma doFetchKeys_cases:
  "doFetchKeys import_key jwks nowMs cache = (r, cache') \<Longrightarrow>
   (\<exists>e. r = Inl (unauthenticated e) \<and> cache' = cache) \<or>
   (\<exists>ks. jwks = Some ks \<and> r = Inr (published import_key ks) \<and>
      cache' = Some \<lparr>jc_keys = published import_key ks, jc_fetchedAtMs = nowMs\<rparr>)"
  by (auto simp: doFetchKeys_def published_def Let_def split: option.splits if_splits)

lemma resolveKey_cases:
  assumes "resolveKey import_key cfg jwks nowMs kid cache = (r, cache')"
    and "cache_origin import_key answers cache" and "(nowMs, jwks) \<in> answers" and "0 \<le> vc_cacheTtlSeconds cfg"
  shows "cache_origin import_key answers cache' \<and>
    (case r of
       Inl e \<Rightarrow> \<exists>reason. e = unauthenticated reason
     | Inr key \<Rightarrow> \<exists>t ks. (t, Some ks) \<in> answers \<and> nowMs - t \<le> vc_cacheTtlSeconds cfg * 1000 \<and>
                    published import_key ks kid = Some key)"
proof (cases "Option.bind (cachedKeys cfg nowMs cache) (\<lambda>keys. keys kid)")
  case (Some key)
  then obtain c where "cache = Some c" "nowMs - jc_fetchedAtMs c \<le> vc_cacheTtlSeconds cfg * 1000"
    "jc_keys c kid = Some key"
    by (auto simp: cachedKeys_def Let_def split: option.splits if_splits bind_splits)
  moreover have "r = Inr key" "cache' = cache" using assms(1) Some by (simp_all add: resolveKey_def)
  ultimately show ?thesis using assms(2) by (fastforce simp: cache_origin_def)
next
  case None
  obtain fr fc where f: "doFetchKeys import_key jwks nowMs cache = (fr, fc)" by fastforce
  from doFetchKeys_cases[OF f] show ?thesis
  proof
    assume "\<exists>e. fr = Inl (unauthenticated e) \<and> fc = cache"
    then show ?thesis using assms(1,2) None f by (auto simp: resolveKey_def) blast+
  next
    assume "\<exists>ks. jwks = Some ks \<and> fr = Inr (published import_key ks) \<and>
      fc = Some \<lparr>jc_keys = published import_key ks, jc_fetchedAtMs = nowMs\<rparr>"
    then obtain ks where ks: "jwks = Some ks" "fr = Inr (published import_key ks)"
      "fc = Some \<lparr>jc_keys = published import_key ks, jc_fetchedAtMs = nowMs\<rparr>" by blast
    have c: "cache' = fc" and r: "r = (case published import_key ks kid of
        None \<Rightarrow> Inl (unauthenticated ''unknown_key'') | Some key \<Rightarrow> Inr key)"
      using assms(1) None f ks by (auto simp: resolveKey_def split: option.splits)
    have "cache_origin import_key answers fc" using ks assms(3) by (auto simp: cache_origin_def)
    moreover have "\<exists>t ks. (t, Some ks) \<in> answers \<and> nowMs - t \<le> vc_cacheTtlSeconds cfg * 1000 \<and>
        published import_key ks kid = Some key" if "r = Inr key" for key
      using that r ks assms(3,4) by (intro exI[of _ nowMs] exI[of _ ks]) (auto split: option.splits)
    moreover have "\<exists>reason. e = unauthenticated reason" if "r = Inl e" for e
      using that r by (auto split: option.splits)
    ultimately show ?thesis using c by (auto split: sum.split)
  qed
qed

lemma jwks_verify_cases:
  assumes "jwks_verify parse rsa_verify import_key cfg jwks nowMs token cache = (r, cache')"
    and "cache_origin import_key answers cache" and "(nowMs, jwks) \<in> answers" and "0 \<le> vc_cacheTtlSeconds cfg"
  shows "cache_origin import_key answers cache' \<and>
    (case r of
       Inl e \<Rightarrow> True
     | Inr claims \<Rightarrow> \<exists>h p s t ks kid key payload. split_on (CHR ''.'') token = [h, p, s] \<and>
         (t, Some ks) \<in> answers \<and> nowMs - t \<le> vc_cacheTtlSeconds cfg * 1000 \<and>
         published import_key ks kid = Some key \<and>
         rsa_verify key (h @ CHR ''.'' # p) (base64url_decode s) \<and>
         parse (base64url_decode p) = Some payload \<and> validateClaims cfg nowMs payload = Inr claims)"
proof (cases "\<exists>h p s. split_on (CHR ''.'') token = [h, p, s]")
  case False
  then show ?thesis using assms(1,2)
    by (auto simp: jwks_verify_def split: list.splits)
next
  case True
  then obtain h p s where seg: "split_on (CHR ''.'') token = [h, p, s]" by blast
  show ?thesis
  proof (cases "decodeJson parse h ''header''")
    case (Inl e)
    then show ?thesis using assms(1,2) by (auto simp: jwks_verify_def seg)
  next
    case (Inr header)
    let ?kid = "or_default (jget_string ''kid'' header) []"
    obtain kr kc where k: "resolveKey import_key cfg jwks nowMs ?kid cache = (kr, kc)" by fastforce
    note rk = resolveKey_cases[OF k assms(2-4)]
    show ?thesis
    proof (cases "jget ''alg'' header \<noteq> Some (JStr ''RS256'') \<or> \<not> truthy (jget_string ''kid'' header)")
      case True
      then show ?thesis using assms(1,2) Inr by (auto simp: jwks_verify_def seg split: if_splits)
    next
      case False
      show ?thesis
      proof (cases kr)
        case (Inl e)
        then show ?thesis using assms(1) Inr False k rk by (auto simp: jwks_verify_def seg)
      next
        case key: (Inr key)
        have r: "r = (if \<not> rsa_verify key (h @ CHR ''.'' # p) (base64url_decode s)
            then Inl (unauthenticated ''invalid_signature'')
            else rbind (decodeJson parse p ''payload'') (validateClaims cfg nowMs))" and c: "cache' = kc"
          using assms(1) Inr False k key by (auto simp: jwks_verify_def seg)
        show ?thesis
        proof (cases r)
          case (Inl e)
          then show ?thesis using rk c by simp
        next
          case ok: (Inr claims)
          have "rsa_verify key (h @ CHR ''.'' # p) (base64url_decode s)" using r ok by (auto split: if_splits)
          moreover obtain payload where "parse (base64url_decode p) = Some payload"
            "validateClaims cfg nowMs payload = Inr claims"
            using r ok by (auto simp: decodeJson_def elim!: rbind_InrE split: if_splits option.splits json.splits)
          ultimately show ?thesis using rk c key ok seg by fastforce
        qed
      qed
    qed
  qed
qed

lemma cache_after_origin:
  "0 \<le> vc_cacheTtlSeconds cfg \<Longrightarrow>
   cache_origin import_key {(t, j). \<exists>tok. (t, j, tok) \<in> set calls} (cache_after parse rsa_verify import_key cfg calls)"
proof (induction calls rule: rev_induct)
  case Nil
  then show ?case by (simp add: cache_after_def cache_origin_def)
next
  case (snoc call calls)
  obtain t j tok where call: "call = (t, j, tok)" by (cases call)
  let ?A = "{(t, j). \<exists>tok. (t, j, tok) \<in> set (calls @ [call])}"
  let ?c = "cache_after parse rsa_verify import_key cfg calls"
  have o: "cache_origin import_key ?A ?c"
    using snoc by (auto simp: cache_origin_def split: option.splits)
  have a: "(t, j) \<in> ?A" using call by auto
  obtain r c' where v: "jwks_verify parse rsa_verify import_key cfg j t tok ?c = (r, c')" by fastforce
  have "cache_after parse rsa_verify import_key cfg (calls @ [call]) = c'"
    using v by (simp add: cache_after_def call)
  then show ?case using jwks_verify_cases[OF v o a snoc.prems] by simp
qed

lemma validateClaims_ok:
  assumes "validateClaims cfg nowMs payload = Inr claims"
  shows "(\<exists>e. jget_number ''exp'' payload = Some e \<and> \<not> expired (nowMs div 1000) (vc_skew cfg) e) \<and>
    (vc_issuer cfg \<noteq> [] \<longrightarrow> jget ''iss'' payload = Some (JStr (vc_issuer cfg))) \<and>
    (vc_audience cfg \<noteq> [] \<longrightarrow> audienceMatches (jget ''aud'' payload) (vc_audience cfg)) \<and>
    jget_string ''sub'' payload = Some (at_sub claims) \<and> jget_string ''tid'' payload = Some (at_tid claims) \<and>
    jget_string ''sid'' payload = Some (at_sid claims) \<and> at_act claims = jget_string ''act'' payload \<and>
    (at_platformAdmin claims = Some True \<longleftrightarrow> jget ''platform_admin'' payload = Some (JBool True))"
  using assms unfolding validateClaims_def Let_def
  by (elim rbind_InrE) (auto split: option.splits if_splits)

section \<open>Properties\<close>

text \<open>What it means that an identity comes from a verified user token.\<close>

definition verified_identity ::
  "(string \<Rightarrow> json option) \<Rightarrow> ('key \<Rightarrow> string \<Rightarrow> string \<Rightarrow> bool) \<Rightarrow> (remote_jwk \<Rightarrow> 'key option) \<Rightarrow>
   verifier_config \<Rightarrow> int \<Rightarrow> verify_call list \<Rightarrow> string \<Rightarrow> gateway_identity \<Rightarrow> bool" where
  "verified_identity parse rsa_verify import_key cfg nowMs calls token i \<longleftrightarrow>
     (\<exists>h p s t ks tok kid key payload e.
        split_on (CHR ''.'') token = [h, p, s] \<and>
        (t, Some ks, tok) \<in> set calls \<and> nowMs - t \<le> vc_cacheTtlSeconds cfg * 1000 \<and>
        published import_key ks kid = Some key \<and>
        rsa_verify key (h @ CHR ''.'' # p) (base64url_decode s) \<and>
        parse (base64url_decode p) = Some payload \<and>
        jget_number ''exp'' payload = Some e \<and> \<not> expired (nowMs div 1000) (vc_skew cfg) e \<and>
        (vc_issuer cfg = [] \<or> jget ''iss'' payload = Some (JStr (vc_issuer cfg))) \<and>
        (vc_audience cfg = [] \<or> audienceMatches (jget ''aud'' payload) (vc_audience cfg)) \<and>
        jget_string ''sub'' payload = Some (gi_sub i) \<and> jget_string ''tid'' payload = Some (gi_tid i) \<and>
        jget_string ''sid'' payload = Some (gi_sessionId i) \<and>
        gi_actorId i = or_default (jget_string ''act'' payload) (gi_sub i) \<and>
        (gi_platformAdmin i \<longleftrightarrow> jget ''platform_admin'' payload = Some (JBool True)))"

lemma guard_identity:
  assumes "jwtGuard_canActivate (jwks_verify parse rsa_verify import_key cfg jwks nowMs) path header
      (cache_after parse rsa_verify import_key cfg calls) = (Inr (Some i), cache')"
    and "0 \<le> vc_cacheTtlSeconds cfg"
  shows "\<exists>token. fromAuthorizationHeader header = Inr token \<and>
     verified_identity parse rsa_verify import_key cfg nowMs (calls @ [(nowMs, jwks, token)]) token i"
proof -
  let ?c = "cache_after parse rsa_verify import_key cfg calls"
  let ?v = "jwks_verify parse rsa_verify import_key cfg jwks nowMs"
  obtain token claims where tok: "fromAuthorizationHeader header = Inr token"
    and v: "?v token ?c = (Inr claims, cache')" and i: "i = identity_of_claims claims"
    using assms(1)
    by (auto simp: jwtGuard_canActivate_def authenticate_execute_def
        split: option.splits if_splits sum.splits prod.splits elim!: rbind_InrE)
  let ?calls = "calls @ [(nowMs, jwks, token)]"
  let ?A = "{(t, j). \<exists>tok. (t, j, tok) \<in> set ?calls}"
  have co: "cache_origin import_key ?A ?c"
    using cache_after_origin[OF assms(2), of import_key calls parse rsa_verify]
    by (auto simp: cache_origin_def split: option.splits)
  have inA: "(nowMs, jwks) \<in> ?A" by auto
  note vcase = conjunct2[OF jwks_verify_cases[OF v co inA assms(2)], unfolded sum.case]
  obtain h p s t ks kid key payload where f:
    "split_on (CHR ''.'') token = [h, p, s]" "(t, Some ks) \<in> ?A"
    "nowMs - t \<le> vc_cacheTtlSeconds cfg * 1000" "published import_key ks kid = Some key"
    "rsa_verify key (h @ CHR ''.'' # p) (base64url_decode s)" "parse (base64url_decode p) = Some payload"
    and vc: "validateClaims cfg nowMs payload = Inr claims" using vcase by blast
  note vo = validateClaims_ok[OF vc]
  obtain tok' where t: "(t, Some ks, tok') \<in> set ?calls" using f(2) by blast
  obtain e where e: "jget_number ''exp'' payload = Some e" "\<not> expired (nowMs div 1000) (vc_skew cfg) e"
    using vo by blast
  have scope: "vc_issuer cfg = [] \<or> jget ''iss'' payload = Some (JStr (vc_issuer cfg))"
    "vc_audience cfg = [] \<or> audienceMatches (jget ''aud'' payload) (vc_audience cfg)" using vo by blast+
  have idc: "jget_string ''sub'' payload = Some (gi_sub i)" "jget_string ''tid'' payload = Some (gi_tid i)"
    "jget_string ''sid'' payload = Some (gi_sessionId i)"
    "gi_actorId i = or_default (jget_string ''act'' payload) (gi_sub i)"
    "gi_platformAdmin i \<longleftrightarrow> jget ''platform_admin'' payload = Some (JBool True)"
    using vo by (simp_all add: i identity_of_claims_def)
  have "verified_identity parse rsa_verify import_key cfg nowMs ?calls token i"
    unfolding verified_identity_def by (intro exI conjI) (rule f t e scope idc)+
  then show ?thesis using tok by blast
qed

text \<open>
  C13. Whenever the guard attaches an identity to a request, after any history of earlier
  verifications, the request carried a bearer token whose RS256 signature verifies under a
  key that the identity service published no longer ago than the cache lifetime (so a
  revoked key is refused after it), which is in time, for this issuer and audience, and
  the subject, tenant, session, actor and admin scope are the claims of that token.
\<close>

theorem edge_identity_is_verified:
  assumes "jwtGuard_canActivate (jwks_verify parse rsa_verify import_key cfg jwks nowMs) path header
      (cache_after parse rsa_verify import_key cfg calls) = (Inr (Some i), cache')"
    and "0 \<le> vc_cacheTtlSeconds cfg"
  shows "\<exists>token. fromAuthorizationHeader header = Inr token \<and>
     verified_identity parse rsa_verify import_key cfg nowMs (calls @ [(nowMs, jwks, token)]) token i"
  using assms by (rule guard_identity)

definition sample_token :: string where
  "sample_token = base64url_encode ''H'' @ ''.'' @ base64url_encode ''P'' @ ''.'' @ base64url_encode ''k''"

definition sample_claims_parse :: "string \<Rightarrow> json option" where
  "sample_claims_parse s =
     (if s = ''H'' then Some (JObj [(''alg'', JStr ''RS256''), (''kid'', JStr ''1'')])
      else if s = ''P'' then Some (JObj [(''sub'', JStr ''u''), (''tid'', JStr ''t''), (''sid'', JStr ''s''), (''exp'', JNum 100)])
      else None)"

definition sample_verifier :: verifier_config where
  "sample_verifier = \<lparr>vc_issuer = [], vc_audience = [], vc_skew = 60, vc_cacheTtlSeconds = 300\<rparr>"

definition sample_jwk :: remote_jwk where
  "sample_jwk = \<lparr>jk_kty = Some ''RSA'', jk_kid = Some ''1'', jk_n = Some ''k'', jk_e = Some ''e''\<rparr>"

lemma sample_guard:
  "fst (jwtGuard_canActivate
      (jwks_verify sample_claims_parse (\<lambda>k m s. k = s) jk_n sample_verifier (Some [sample_jwk]) 1000)
      ''/v1/roles'' (Some (''bearer  '' @ sample_token))
      (cache_after sample_claims_parse (\<lambda>k m s. k = s) jk_n sample_verifier [])) =
   Inr (Some \<lparr>gi_sub = ''u'', gi_tid = ''t'', gi_sessionId = ''s'', gi_actorId = ''u'', gi_platformAdmin = False\<rparr>)"
  by code_simp

lemma edge_identity_is_verified_witness:
  "\<exists>token. fromAuthorizationHeader (Some (''bearer  '' @ sample_token)) = Inr token \<and>
     verified_identity sample_claims_parse (\<lambda>k m s. k = s) jk_n sample_verifier 1000
       ([] @ [(1000, Some [sample_jwk], token)]) token
       \<lparr>gi_sub = ''u'', gi_tid = ''t'', gi_sessionId = ''s'', gi_actorId = ''u'', gi_platformAdmin = False\<rparr>"
  by (rule edge_identity_is_verified[OF prod_eqI[OF trans[OF sample_guard fst_conv[symmetric]] snd_conv[symmetric]]])
    (simp add: sample_verifier_def)

text \<open>The refusals of the verification: one class and message, a reason of its own.\<close>

definition auth_failure :: "exn \<Rightarrow> bool" where
  "auth_failure e \<longleftrightarrow> (\<exists>reason. reason \<noteq> [] \<and> e = unauthenticated reason)"

lemma auth_failureI [intro]: "reason \<noteq> [] \<Longrightarrow> auth_failure (unauthenticated reason)"
  by (auto simp: auth_failure_def)

lemma decodeJson_fails: "decodeJson parse seg w = Inl e \<Longrightarrow> auth_failure e"
  by (auto simp: decodeJson_def split: option.splits json.splits)

lemma validateClaims_fails: "validateClaims cfg nowMs payload = Inl e \<Longrightarrow> auth_failure e"
  by (auto simp: validateClaims_def Let_def rbind_Inl_iff split: option.splits)

lemma resolveKey_fails: "fst (resolveKey import_key cfg jwks nowMs kid cache) = Inl e \<Longrightarrow> auth_failure e"
  by (auto simp: resolveKey_def doFetchKeys_def Let_def split: option.splits if_splits)

lemma jwks_verify_fails:
  assumes "isCompactJws token"
    and "fst (jwks_verify parse rsa_verify import_key cfg jwks nowMs token cache) = Inl e"
  shows "auth_failure e"
proof -
  obtain h p s where seg: "split_on (CHR ''.'') token = [h, p, s]"
    using assms(1) by (auto simp: isCompactJws_def Let_def eval_nat_numeral length_Suc_conv)
  show ?thesis
    using assms(2) resolveKey_fails[of import_key cfg jwks nowMs _ cache]
    unfolding jwks_verify_def seg list.case
    by (auto simp: rbind_Inl_iff dest: decodeJson_fails validateClaims_fails split: sum.splits if_splits prod.splits)
       (metis fst_conv)+
qed

text \<open>
  Authentication fails closed and with one status, code and message, whatever is wrong
  with the request; but the reason, which is different for each check, is repeated in the
  envelope, so a probe can tell why it was refused.
\<close>

theorem auth_failures_uniform_but_for_reason:
  assumes "fst (authenticate_execute (jwks_verify parse rsa_verify import_key cfg jwks nowMs) header cache) = Inl e"
  shows "\<exists>reason. reason \<noteq> [] \<and> exn_reason e = Some reason \<and>
     toHttp_gateway e None =
       (401, \<lparr>eb_code = ''unauthenticated'', eb_message = ''Authentication required'', eb_reason = Some reason,
              eb_decisionId = None, eb_traceId = None\<rparr>)"
proof -
  have "auth_failure e"
  proof (cases "fromAuthorizationHeader header")
    case (Inl x)
    then have "e = x" using assms by (simp add: authenticate_execute_def)
    then show ?thesis using Inl
      by (auto simp: fromAuthorizationHeader_def Let_def split: option.splits if_splits)
  next
    case (Inr token)
    then have "isCompactJws token"
      by (auto simp: fromAuthorizationHeader_def Let_def split: option.splits if_splits)
    then show ?thesis
      using assms Inr jwks_verify_fails[of token parse rsa_verify import_key cfg jwks nowMs cache e]
      by (auto simp: authenticate_execute_def rbind_Inl_iff split: prod.splits)
  qed
  then show ?thesis
    by (auto simp: auth_failure_def toHttp_gateway_def to_http_def unauthenticated_def error_ctor_defs
        statusForDomainError_gateway_def if_truthy_def exn_reason_def)
qed

lemma auth_failures_uniform_but_for_reason_witness:
  "\<exists>reason. reason \<noteq> [] \<and> exn_reason (unauthenticated ''missing_authorization'') = Some reason \<and>
     toHttp_gateway (unauthenticated ''missing_authorization'') None =
       (401, \<lparr>eb_code = ''unauthenticated'', eb_message = ''Authentication required'', eb_reason = Some reason,
              eb_decisionId = None, eb_traceId = None\<rparr>)"
  by (rule auth_failures_uniform_but_for_reason[where header = None and parse = sample_claims_parse
        and rsa_verify = "\<lambda>k m s. False" and import_key = jk_n and cfg = sample_verifier and jwks = None
        and nowMs = 0 and cache = None])
    (simp add: authenticate_execute_def fromAuthorizationHeader_def)

end
