(* ===== verification/Gateway.thy ===== *)
theory Gateway
  imports EdgeAuth
begin

text \<open>
  The reverse proxy of the gateway (apps/gateway/src/modules/proxy): the upstream registry,
  the proxy use case, the fetch-backed upstream client and the catch-all controller behind
  its guard.  What the runtime's fetch answers is an argument.  The end-to-end property
  joins the guard, the proxy and the IdentityContextMiddleware of the service behind it.
\<close>

section \<open>Upstreams\<close>

definition UpstreamUnavailableError :: "string \<Rightarrow> string option \<Rightarrow> exn" where
  "UpstreamUnavailableError m r = newDomainError CUpstreamUnavailable m r None"

record gateway_config =
  gc_identityUrl :: string
  gc_authzAdminUrl :: string
  gc_expenseUrl :: string
  gc_auditUrl :: string
  gc_timeoutMs :: int

definition upstream_baseUrl :: "gateway_config \<Rightarrow> upstream_name \<Rightarrow> string" where
  "upstream_baseUrl cfg upstream =
     (case upstream of
        UpIdentity \<Rightarrow> gc_identityUrl cfg
      | UpAuthzAdmin \<Rightarrow> gc_authzAdminUrl cfg
      | UpExpense \<Rightarrow> gc_expenseUrl cfg
      | UpAudit \<Rightarrow> gc_auditUrl cfg)"

record upstream_request =
  ur_url :: string
  ur_method :: string
  ur_headers :: header_map
  ur_body :: "string option"
  ur_timeoutMs :: int

record upstream_response =
  us_status :: nat
  us_headers :: header_map
  us_body :: string

text \<open>
  What fetch does: it times out, fails to connect, or answers with a status and headers in
  iteration order, after which reading the body may still fail.
\<close>

datatype fetch_outcome =
    FetchTimeout | FetchFailed | Fetched nat "(string \<times> string) list" "string option"

definition response_header :: "header_map \<Rightarrow> string \<times> string \<Rightarrow> header_map" where
  "response_header headers entry =
     (case entry of (key, v) \<Rightarrow>
        let lower = to_lower key in
        if lower = ''content-length'' \<or> lower = ''transfer-encoding'' \<or> lower = ''connection'' then headers
        else headers(key \<mapsto> v))"

definition sent_body :: "upstream_request \<Rightarrow> string option" where
  "sent_body r =
     (let hasBody = truthy (ur_body r);
          bodyless = (ur_method r = ''GET'' \<or> ur_method r = ''HEAD'')
      in if hasBody \<and> \<not> bodyless then ur_body r else None)"

definition upstream_forward ::
  "(upstream_request \<Rightarrow> fetch_outcome) \<Rightarrow> upstream_request \<Rightarrow> upstream_response result" where
  "upstream_forward fetch request =
     (case fetch (request\<lparr>ur_body := sent_body request\<rparr>) of
        FetchTimeout \<Rightarrow> Inl (UpstreamUnavailableError ''Upstream service timed out'' (Some ''upstream_timeout''))
      | FetchFailed \<Rightarrow>
          Inl (UpstreamUnavailableError ''Upstream service unavailable'' (Some ''upstream_connection_failed''))
      | Fetched status headers body \<Rightarrow>
          (case body of
             None \<Rightarrow> Inl (Crash ''the response body could not be read'')
           | Some b \<Rightarrow>
               Inr \<lparr>us_status = status, us_headers = foldl response_header Map.empty headers, us_body = b\<rparr>))"

section \<open>The proxy use case\<close>

record proxy_command =
  px_path :: string
  px_queryString :: string
  px_method :: string
  px_headers :: client_headers
  px_body :: "string option"
  px_identity :: "gateway_identity option"

definition strip_slash :: "string \<Rightarrow> string" where
  "strip_slash base = (if ends_with base ''/'' then butlast base else base)"

text \<open>The request the use case hands to the client.\<close>

definition proxy_request ::
  "(string \<Rightarrow> string \<Rightarrow> string) \<Rightarrow> minter_config \<Rightarrow> gateway_config \<Rightarrow> int \<Rightarrow> proxy_command \<Rightarrow>
   upstream_request result" where
  "proxy_request hmac mcfg cfg nowMs c =
     (case resolveRoute (px_path c) of
        None \<Rightarrow> Inl (NotFoundError ''No route for the requested path'' (Some ''no_route''))
      | Some route \<Rightarrow>
          if rt_requiresAuth route \<and> px_identity c = None
          then Inl (UnauthenticatedError ''Authentication required'' (Some ''missing_identity''))
          else
            (let injected = map_option (\<lambda>i. mint hmac mcfg nowMs (identity_claims i)) (px_identity c);
                 headers = buildForwardedHeaders (px_headers c) (px_identity c) injected;
                 base = strip_slash (upstream_baseUrl cfg (rt_upstream route));
                 url = base @ px_path c @ (if px_queryString c \<noteq> [] then CHR ''?'' # px_queryString c else [])
             in Inr \<lparr>ur_url = url, ur_method = px_method c, ur_headers = headers, ur_body = px_body c,
                     ur_timeoutMs = gc_timeoutMs cfg\<rparr>))"

definition proxy_execute ::
  "(string \<Rightarrow> string \<Rightarrow> string) \<Rightarrow> minter_config \<Rightarrow> gateway_config \<Rightarrow> (upstream_request \<Rightarrow> fetch_outcome) \<Rightarrow>
   int \<Rightarrow> proxy_command \<Rightarrow> upstream_response result" where
  "proxy_execute hmac mcfg cfg fetch nowMs c =
     rbind (proxy_request hmac mcfg cfg nowMs c) (upstream_forward fetch)"

section \<open>The controller\<close>

record http_request =
  hr_path :: string
  hr_originalUrl :: string
  hr_method :: string
  hr_headers :: client_headers
  hr_rawBody :: "string option"

definition query_string :: "string \<Rightarrow> string" where
  "query_string originalUrl =
     (case dropWhile (\<lambda>c. c \<noteq> CHR ''?'') originalUrl of [] \<Rightarrow> [] | _ # q \<Rightarrow> q)"

text \<open>The Authorization header of the parsed request: node joins nothing here, the first one counts.\<close>

definition authorization_header :: "client_headers \<Rightarrow> string option" where
  "authorization_header hs =
     (case map_of hs ''authorization'' of Some (Some (HOne s)) \<Rightarrow> Some s | _ \<Rightarrow> None)"

definition proxy_command_of :: "http_request \<Rightarrow> gateway_identity option \<Rightarrow> proxy_command" where
  "proxy_command_of r identity =
     \<lparr>px_path = hr_path r, px_queryString = query_string (hr_originalUrl r), px_method = hr_method r,
      px_headers = hr_headers r, px_body = hr_rawBody r, px_identity = identity\<rparr>"

text \<open>The guard first, then the handler; the cache of the verifier is the state.\<close>

definition gateway_request ::
  "(string \<Rightarrow> 'key jwks_cache option \<Rightarrow> access_token_claims result \<times> 'key jwks_cache option) \<Rightarrow>
   (string \<Rightarrow> string \<Rightarrow> string) \<Rightarrow> minter_config \<Rightarrow> gateway_config \<Rightarrow> int \<Rightarrow> http_request \<Rightarrow>
   'key jwks_cache option \<Rightarrow> upstream_request result \<times> 'key jwks_cache option" where
  "gateway_request verify hmac mcfg cfg nowMs r cache =
     (case jwtGuard_canActivate verify (hr_path r) (authorization_header (hr_headers r)) cache of
        (Inl e, cache') \<Rightarrow> (Inl e, cache')
      | (Inr identity, cache') \<Rightarrow> (proxy_request hmac mcfg cfg nowMs (proxy_command_of r identity), cache'))"

definition gateway_handle ::
  "(string \<Rightarrow> 'key jwks_cache option \<Rightarrow> access_token_claims result \<times> 'key jwks_cache option) \<Rightarrow>
   (string \<Rightarrow> string \<Rightarrow> string) \<Rightarrow> minter_config \<Rightarrow> gateway_config \<Rightarrow> (upstream_request \<Rightarrow> fetch_outcome) \<Rightarrow>
   int \<Rightarrow> http_request \<Rightarrow> 'key jwks_cache option \<Rightarrow> upstream_response result \<times> 'key jwks_cache option" where
  "gateway_handle verify hmac mcfg cfg fetch nowMs r cache =
     (case gateway_request verify hmac mcfg cfg nowMs r cache of
        (Inl e, cache') \<Rightarrow> (Inl e, cache')
      | (Inr req, cache') \<Rightarrow> (upstream_forward fetch req, cache'))"

section \<open>From the client's token to the service's principal\<close>

text \<open>The headers as the service behind the gateway receives them.\<close>

definition received_headers :: "upstream_request \<Rightarrow> request_headers" where
  "received_headers req name = map_option HOne (ur_headers req name)"

lemma request_identity:
  assumes "proxy_request hmac mcfg cfg nowMs c = Inr req"
  shows "ur_headers req = buildForwardedHeaders (px_headers c) (px_identity c)
      (map_option (\<lambda>i. mint hmac mcfg nowMs (identity_claims i)) (px_identity c)) \<and>
    (\<exists>route. resolveRoute (px_path c) = Some route \<and> (rt_requiresAuth route \<longrightarrow> px_identity c \<noteq> None))"
  using assms by (auto simp: proxy_request_def Let_def split: option.splits if_splits)

lemma received_carries:
  assumes "ur_headers req = buildForwardedHeaders hs (Some i) (Some t)"
  shows "carries_token (received_headers req) t"
proof -
  have "TOKEN_HEADER \<in> set CLIENT_SPOOFABLE_HEADERS" "SIGNATURE_HEADER \<in> set CLIENT_SPOOFABLE_HEADERS"
    by (simp_all add: CLIENT_SPOOFABLE_HEADERS_def)
  from this[THEN spoofable_header] show ?thesis
    by (simp add: carries_token_def received_headers_def assms derived_header_def identity_header_defs)
qed

lemma gateway_request_cases:
  assumes "fst (gateway_request verify hmac mcfg cfg nowMs r cache) = Inr req"
    and "resolveRoute (hr_path r) = Some route" and "rt_requiresAuth route"
  obtains i cache' where
    "jwtGuard_canActivate verify (hr_path r) (authorization_header (hr_headers r)) cache = (Inr (Some i), cache')"
    "proxy_request hmac mcfg cfg nowMs (proxy_command_of r (Some i)) = Inr req"
proof -
  obtain g cache' where g: "jwtGuard_canActivate verify (hr_path r) (authorization_header (hr_headers r)) cache = (g, cache')"
    by fastforce
  obtain identity where gi: "g = Inr identity"
    and p: "proxy_request hmac mcfg cfg nowMs (proxy_command_of r identity) = Inr req"
    using assms(1) g by (auto simp: gateway_request_def split: sum.splits)
  have "identity \<noteq> None"
    using request_identity[OF p] assms(2,3) by (simp add: proxy_command_of_def)
  then show thesis using that g gi p by blast
qed

text \<open>
  C14. End to end: when the gateway forwards a request for an authenticated route, the
  request carried a bearer token verified against the identity service's keys, and the
  service behind the gateway, sharing secret and issuer, accepts the forwarded headers and
  acts for exactly the subject, tenant, actor, session and admin scope of that token, from
  the moment of forwarding until the lifetime of the internal token ends.
\<close>

theorem forwarded_request_acts_for_verified_user:
  assumes "fst (gateway_request (jwks_verify parse rsa_verify import_key vcfg jwks nowMs) hmac mcfg cfg nowMs r
      (cache_after parse rsa_verify import_key vcfg calls)) = Inr req"
    and "resolveRoute (hr_path r) = Some route" and "rt_requiresAuth route"
    and "0 \<le> vc_cacheTtlSeconds vcfg" and "mc_secret mcfg \<noteq> []"
    and "opts = \<lparr>ao_secret = mc_secret mcfg, ao_issuer = mc_issuer mcfg, ao_tolerance = tol\<rparr>"
    and "\<And>i. fst (jwtGuard_canActivate (jwks_verify parse rsa_verify import_key vcfg jwks nowMs) (hr_path r)
        (authorization_header (hr_headers r)) (cache_after parse rsa_verify import_key vcfg calls)) = Inr (Some i) \<Longrightarrow>
      parses_back parse' (mint_objects mcfg nowMs (identity_claims i))"
    and "later div 1000 \<le> nowMs div 1000 + mc_ttlSeconds mcfg + tol"
  shows "\<exists>token i. fromAuthorizationHeader (authorization_header (hr_headers r)) = Inr token \<and>
     verified_identity parse rsa_verify import_key vcfg nowMs (calls @ [(nowMs, jwks, token)]) token i \<and>
     middleware_use hmac parse' opts later (received_headers req) =
       Inr \<lparr>pc_principalId = gi_sub i, pc_tenantId = gi_tid i, pc_actorId = gi_actorId i,
            pc_sessionId = gi_sessionId i, pc_platformAdmin = gi_platformAdmin i\<rparr>"
proof (rule gateway_request_cases[OF assms(1-3)])
  fix i cache'
  assume g: "jwtGuard_canActivate (jwks_verify parse rsa_verify import_key vcfg jwks nowMs) (hr_path r)
      (authorization_header (hr_headers r)) (cache_after parse rsa_verify import_key vcfg calls) = (Inr (Some i), cache')"
    and p: "proxy_request hmac mcfg cfg nowMs (proxy_command_of r (Some i)) = Inr req"
  have "carries_token (received_headers req) (mint hmac mcfg nowMs (identity_claims i))"
    using request_identity[OF p] by (intro received_carries) (simp add: proxy_command_of_def)
  moreover have "parses_back parse' (mint_objects mcfg nowMs (identity_claims i))"
    using assms(7) g by simp
  ultimately have "middleware_use hmac parse' opts later (received_headers req) =
       Inr \<lparr>pc_principalId = gi_sub i, pc_tenantId = gi_tid i, pc_actorId = gi_actorId i,
            pc_sessionId = gi_sessionId i, pc_platformAdmin = gi_platformAdmin i\<rparr>"
    using minted_token_verifies[OF assms(6) _ _ assms(8)] assms(5,6)
    by (simp add: middleware_use_def minted_context)
  then show ?thesis using guard_identity[OF g assms(4)] by blast
qed

definition sample_http :: http_request where
  "sample_http =
     \<lparr>hr_path = ''/v1/roles'', hr_originalUrl = ''/v1/roles?limit=1'', hr_method = ''GET'',
      hr_headers = [(''authorization'', Some (HOne (''bearer  '' @ sample_token))),
                    (''X-Tenant-Id'', Some (HOne ''other''))], hr_rawBody = None\<rparr>"

definition sample_gateway :: gateway_config where
  "sample_gateway = \<lparr>gc_identityUrl = ''http://i'', gc_authzAdminUrl = ''http://a/'', gc_expenseUrl = ''http://e'',
      gc_auditUrl = ''http://u'', gc_timeoutMs = 5000\<rparr>"

definition sample_user :: gateway_identity where
  "sample_user = \<lparr>gi_sub = ''u'', gi_tid = ''t'', gi_sessionId = ''s'', gi_actorId = ''u'', gi_platformAdmin = False\<rparr>"

abbreviation sample_verify ::
  "string \<Rightarrow> string jwks_cache option \<Rightarrow> access_token_claims result \<times> string jwks_cache option" where
  "sample_verify \<equiv> jwks_verify sample_claims_parse (\<lambda>k m s. k = s) jk_n sample_verifier (Some [sample_jwk]) 1000"

definition sample_internal_parse :: "string \<Rightarrow> json option" where
  "sample_internal_parse s =
     find (\<lambda>j. json_stringify j = s) (mint_objects sample_minter 1000 (identity_claims sample_user))"

lemma sample_internal_parses_back:
  "parses_back sample_internal_parse (mint_objects sample_minter 1000 (identity_claims sample_user))"
  by (simp add: parses_back_def sample_internal_parse_def mint_objects_def sample_minter_def
      sample_user_def identity_claims_def json_member_def)

lemma sample_forwarded:
  "is_ok (fst (gateway_request sample_verify (\<lambda>k m. k) sample_minter sample_gateway 1000 sample_http
      (cache_after sample_claims_parse (\<lambda>k m s. k = s) jk_n sample_verifier [])))"
  by code_simp

lemma sample_authorization: "authorization_header (hr_headers sample_http) = Some (''bearer  '' @ sample_token)"
  by (simp add: authorization_header_def sample_http_def)

lemma sample_path: "hr_path sample_http = ''/v1/roles''"
  by (simp add: sample_http_def)

lemma forwarded_request_acts_for_verified_user_witness:
  "\<exists>req. fst (gateway_request sample_verify (\<lambda>k m. k) sample_minter sample_gateway 1000 sample_http
      (cache_after sample_claims_parse (\<lambda>k m s. k = s) jk_n sample_verifier [])) = Inr req \<and>
     is_ok (middleware_use (\<lambda>k m. k) sample_internal_parse (newAuthzOptions (Some ''key'') None None) 200000
       (received_headers req))"
proof -
  obtain req where req: "fst (gateway_request sample_verify (\<lambda>k m. k) sample_minter sample_gateway 1000 sample_http
      (cache_after sample_claims_parse (\<lambda>k m s. k = s) jk_n sample_verifier [])) = Inr req"
    using sample_forwarded by (auto simp: is_ok_def split: sum.splits)
  have route: "resolveRoute (hr_path sample_http) = Some \<lparr>rt_upstream = UpAuthzAdmin, rt_requiresAuth = True\<rparr>"
    by code_simp
  have user: "i = sample_user"
    if "fst (jwtGuard_canActivate sample_verify (hr_path sample_http) (authorization_header (hr_headers sample_http))
      (cache_after sample_claims_parse (\<lambda>k m s. k = s) jk_n sample_verifier [])) = Inr (Some i)" for i
    using that[unfolded sample_authorization sample_path sample_guard] by (simp add: sample_user_def)
  have "\<exists>token i. fromAuthorizationHeader (authorization_header (hr_headers sample_http)) = Inr token \<and>
     verified_identity sample_claims_parse (\<lambda>k m s. k = s) jk_n sample_verifier 1000
       ([] @ [(1000, Some [sample_jwk], token)]) token i \<and>
     middleware_use (\<lambda>k m. k) sample_internal_parse (newAuthzOptions (Some ''key'') None None) 200000 (received_headers req) =
       Inr \<lparr>pc_principalId = gi_sub i, pc_tenantId = gi_tid i, pc_actorId = gi_actorId i,
            pc_sessionId = gi_sessionId i, pc_platformAdmin = gi_platformAdmin i\<rparr>"
    by (rule forwarded_request_acts_for_verified_user[OF req route, where tol = 60])
      (use user sample_internal_parses_back in \<open>auto simp: sample_verifier_def sample_minter_def newAuthzOptions_def\<close>)
  then show ?thesis using req by auto
qed

end
