(* ===== verification/RateLimit.thy ===== *)
theory RateLimit
  imports IdentityToken
begin

text \<open>
  The edge rate limiter (apps/gateway/src/modules/rate-limit): the in-memory fixed-window
  limiter and the middleware that keys it by the forwarded address.  Times are milliseconds.
  What is shown: the number of admitted requests in any interval of one window length is at
  most twice the quota, waiting the announced time is enough, pruning is not observable, and
  the key is the client's to choose.
\<close>

section \<open>The limiter\<close>

record limiter_options =
  lo_windowMs :: int
  lo_max :: int

record window_state =
  ws_count :: int
  ws_windowStart :: int

type_synonym windows = "string \<Rightarrow> window_state option"

record rate_decision =
  rd_allowed :: bool
  rd_remaining :: int
  rd_limit :: int
  rd_resetAt :: int
  rd_retryAfterSeconds :: int

definition ceil_div :: "int \<Rightarrow> int \<Rightarrow> int" where
  "ceil_div a b = - ((- a) div b)"

definition consume :: "limiter_options \<Rightarrow> string \<Rightarrow> int \<Rightarrow> windows \<Rightarrow> rate_decision \<times> windows" where
  "consume o' key nowMs windows =
     (let existing = windows key;
          state = (case existing of
                     None \<Rightarrow> \<lparr>ws_count = 0, ws_windowStart = nowMs\<rparr>
                   | Some s \<Rightarrow> if nowMs - ws_windowStart s \<ge> lo_windowMs o'
                               then \<lparr>ws_count = 0, ws_windowStart = nowMs\<rparr> else s);
          resetAt = ws_windowStart state + lo_windowMs o'
      in if ws_count state \<ge> lo_max o'
         then (\<lparr>rd_allowed = False, rd_remaining = 0, rd_limit = lo_max o', rd_resetAt = resetAt,
                rd_retryAfterSeconds = max 1 (ceil_div (resetAt - nowMs) 1000)\<rparr>,
               windows(key \<mapsto> state))
         else
           (let state' = state\<lparr>ws_count := ws_count state + 1\<rparr>
            in (\<lparr>rd_allowed = True, rd_remaining = max 0 (lo_max o' - ws_count state'), rd_limit = lo_max o',
                 rd_resetAt = resetAt, rd_retryAfterSeconds = 0\<rparr>,
                windows(key \<mapsto> state'))))"

definition prune :: "limiter_options \<Rightarrow> int \<Rightarrow> windows \<Rightarrow> windows" where
  "prune o' nowMs windows key =
     (case windows key of
        None \<Rightarrow> None
      | Some s \<Rightarrow> if nowMs - ws_windowStart s \<ge> lo_windowMs o' then None else Some s)"

section \<open>The middleware\<close>

definition clientKey :: "header_value option \<Rightarrow> string option \<Rightarrow> string option \<Rightarrow> string" where
  "clientKey forwarded ip remoteAddress =
     (case forwarded of
        Some (HOne s) \<Rightarrow>
          if length s > 0 then js_trim (hd (split_on (CHR '','') s))
          else or_default ip (or_default remoteAddress ''unknown'')
      | _ \<Rightarrow> or_default ip (or_default remoteAddress ''unknown''))"

text \<open>The outcome and the response headers that are set.\<close>

definition rateLimit_use ::
  "bool \<Rightarrow> limiter_options \<Rightarrow> int \<Rightarrow> string \<Rightarrow> windows \<Rightarrow>
   unit result \<times> (string \<times> string) list \<times> windows" where
  "rateLimit_use enabled o' nowMs key windows =
     (if \<not> enabled then (Inr (), [], windows)
      else
        (case consume o' key nowMs windows of
           (d, windows') \<Rightarrow>
             (let hs = [(''X-RateLimit-Limit'', int_str (rd_limit d)),
                        (''X-RateLimit-Remaining'', int_str (rd_remaining d)),
                        (''X-RateLimit-Reset'', int_str (ceil_div (rd_resetAt d) 1000))]
              in if \<not> rd_allowed d
                 then (Inl (HttpExn 429 (BodyText ''Rate limit exceeded'') ''Rate limit exceeded''),
                       hs @ [(''Retry-After'', int_str (rd_retryAfterSeconds d))], windows')
                 else (Inr (), hs, windows'))))"

section \<open>One key at a time\<close>

definition current_window :: "limiter_options \<Rightarrow> window_state option \<Rightarrow> int \<Rightarrow> window_state" where
  "current_window o' s t =
     (case s of
        None \<Rightarrow> \<lparr>ws_count = 0, ws_windowStart = t\<rparr>
      | Some s \<Rightarrow> if t - ws_windowStart s \<ge> lo_windowMs o' then \<lparr>ws_count = 0, ws_windowStart = t\<rparr> else s)"

definition admits :: "limiter_options \<Rightarrow> window_state option \<Rightarrow> int \<Rightarrow> bool" where
  "admits o' s t \<longleftrightarrow> ws_count (current_window o' s t) < lo_max o'"

definition next_window :: "limiter_options \<Rightarrow> window_state option \<Rightarrow> int \<Rightarrow> window_state" where
  "next_window o' s t =
     (let c = current_window o' s t in if admits o' s t then c\<lparr>ws_count := ws_count c + 1\<rparr> else c)"

lemma consume_key:
  "rd_allowed (fst (consume o' k t w)) = admits o' (w k) t"
  "snd (consume o' k t w) = w(k \<mapsto> next_window o' (w k) t)"
  by (auto simp: consume_def admits_def next_window_def current_window_def Let_def split: option.splits)

text \<open>The requests with their decisions, in order.\<close>

fun run_limiter :: "limiter_options \<Rightarrow> windows \<Rightarrow> (string \<times> int) list \<Rightarrow> (string \<times> int \<times> bool) list" where
  "run_limiter o' w [] = []"
| "run_limiter o' w ((k, t) # reqs) =
     (case consume o' k t w of (d, w') \<Rightarrow> (k, t, rd_allowed d) # run_limiter o' w' reqs)"

fun admitted_times :: "limiter_options \<Rightarrow> window_state option \<Rightarrow> int list \<Rightarrow> int list" where
  "admitted_times o' s [] = []"
| "admitted_times o' s (t # ts) =
     (if admits o' s t then [t] else []) @ admitted_times o' (Some (next_window o' s t)) ts"

definition admitted_for :: "string \<Rightarrow> (string \<times> int \<times> bool) list \<Rightarrow> int list" where
  "admitted_for k log = map (\<lambda>(_, t, _). t) [(k', t, ok) \<leftarrow> log. k' = k \<and> ok]"

lemma run_limiter_key:
  "admitted_for k (run_limiter o' w reqs) = admitted_times o' (w k) (map snd [r \<leftarrow> reqs. fst r = k])"
proof (induction reqs arbitrary: w)
  case Nil
  show ?case by (simp add: admitted_for_def)
next
  case (Cons r reqs)
  obtain k' t where r: "r = (k', t)" by (cases r)
  obtain d w' where c: "consume o' k' t w = (d, w')" by fastforce
  have d: "rd_allowed d = admits o' (w k') t" and w': "w' = w(k' \<mapsto> next_window o' (w k') t)"
    using consume_key[of o' k' t w] c by simp_all
  have "admitted_for k (run_limiter o' w (r # reqs)) =
      (if k' = k \<and> rd_allowed d then [t] else []) @ admitted_for k (run_limiter o' w' reqs)"
    by (simp add: r c admitted_for_def)
  moreover have "w' k = (if k' = k then Some (next_window o' (w k) t) else w k)" using w' by simp
  ultimately show ?case using Cons.IH[of w'] d by (auto simp: r simp del: run_limiter.simps)
qed

section \<open>The bound\<close>

definition count_in :: "int \<Rightarrow> int \<Rightarrow> int list \<Rightarrow> int" where
  "count_in a b ts = int (length [t \<leftarrow> ts. a \<le> t \<and> t < b])"

lemma count_in_append [simp]: "count_in a b (xs @ ys) = count_in a b xs + count_in a b ys"
  by (simp add: count_in_def)

lemma count_in_single [simp]: "count_in a b [t] = (if a \<le> t \<and> t < b then 1 else 0)"
  "count_in a b [] = 0"
  by (simp_all add: count_in_def)

lemma count_in_mono:
  assumes "\<And>t. t \<in> set ts \<Longrightarrow> a \<le> t \<Longrightarrow> t < b \<Longrightarrow> c \<le> t \<and> t < d"
  shows "count_in a b ts \<le> count_in c d ts"
  using assms by (induction ts) (auto simp: count_in_def)

lemma count_in_split:
  assumes "a \<le> m"
  shows "count_in c d ts \<le> count_in a m ts + count_in m e ts \<or> \<not> (\<forall>t \<in> set ts. c \<le> t \<and> t < d \<longrightarrow> a \<le> t \<and> t < e)"
  using assms by (induction ts) (auto simp: count_in_def)

lemma count_in_none: "(\<And>t. t \<in> set ts \<Longrightarrow> \<not> (a \<le> t \<and> t < b)) \<Longrightarrow> count_in a b ts = 0"
  by (auto simp: count_in_def filter_empty_conv)

definition window_inv :: "limiter_options \<Rightarrow> window_state option \<Rightarrow> int list \<Rightarrow> int \<Rightarrow> bool" where
  "window_inv o' s ts now \<longleftrightarrow>
     (\<forall>t \<in> set ts. t \<le> now) \<and>
     (\<forall>t0. count_in t0 (t0 + lo_windowMs o') ts \<le> 2 * lo_max o') \<and>
     (case s of
        None \<Rightarrow> ts = []
      | Some s \<Rightarrow>
          ws_windowStart s \<le> now \<and> (\<forall>t \<in> set ts. t < ws_windowStart s + lo_windowMs o') \<and>
          count_in (ws_windowStart s) (ws_windowStart s + lo_windowMs o') ts = ws_count s \<and>
          ws_count s \<le> lo_max o' \<and>
          count_in (ws_windowStart s - lo_windowMs o') (ws_windowStart s) ts \<le> lo_max o')"

lemma window_inv_step:
  assumes inv: "window_inv o' s ts now" and t: "now \<le> t" and W: "0 < lo_windowMs o'" and M: "0 \<le> lo_max o'"
  shows "window_inv o' (Some (next_window o' s t)) (ts @ (if admits o' s t then [t] else [])) t"
proof -
  let ?W = "lo_windowMs o'" and ?M = "lo_max o'"
  have past: "\<forall>x \<in> set ts. x \<le> t" using inv t by (auto simp: window_inv_def)
  have all: "count_in t0 (t0 + ?W) ts \<le> 2 * ?M" for t0 using inv by (simp add: window_inv_def)
  show ?thesis
  proof (cases s)
    case None
    then have "ts = []" using inv by (simp add: window_inv_def)
    then show ?thesis using None W M
      by (auto simp: window_inv_def next_window_def admits_def current_window_def Let_def)
  next
    case (Some w)
    let ?S = "ws_windowStart w"
    have w: "?S \<le> now" "\<forall>x \<in> set ts. x < ?S + ?W" "count_in ?S (?S + ?W) ts = ws_count w"
      "ws_count w \<le> ?M" "count_in (?S - ?W) ?S ts \<le> ?M"
      using inv Some by (auto simp: window_inv_def)
    show ?thesis
    proof (cases "t - ?S \<ge> ?W")
      case True
      have cur: "current_window o' s t = \<lparr>ws_count = 0, ws_windowStart = t\<rparr>"
        using True Some by (simp add: current_window_def)
      have recent: "count_in t (t + ?W) ts = 0" using w(2) True by (intro count_in_none) auto
      have prev: "count_in (t - ?W) t ts \<le> ?M"
        using count_in_mono[of ts "t - ?W" t ?S "?S + ?W"] w True by auto
      have step: "count_in t0 (t0 + ?W) ts \<le> ?M" if "t0 \<le> t" "t < t0 + ?W" for t0
        using count_in_mono[of ts t0 "t0 + ?W" ?S "?S + ?W"] w that True by auto
      have below: "\<forall>x \<in> set ts. x < t + ?W" using past W by force
      show ?thesis
        using past below all recent prev W M t step
        by (auto simp: window_inv_def next_window_def admits_def cur Let_def add_increasing2 dest!: step)
    next
      case False
      have cur: "current_window o' s t = w" using False Some by (simp add: current_window_def)
      have tS: "?S \<le> t" "t < ?S + ?W" using w t False by auto
      have step: "count_in t0 (t0 + ?W) ts \<le> ?M + ws_count w" if "t0 \<le> t" "t < t0 + ?W" for t0
        using count_in_split[of "?S - ?W" ?S t0 "t0 + ?W" ts "?S + ?W"] w that tS W by auto
      have len: "count_in t0 (t0 + ?W) ts + 1 \<le> 2 * ?M" if "t0 \<le> t" "t < t0 + ?W" "ws_count w < ?M" for t0
        using step[OF that(1,2)] that(3) by linarith
      show ?thesis
        using past all w W t tS len
        by (auto simp: window_inv_def next_window_def admits_def cur Let_def)
    qed
  qed
qed

lemma admitted_bound:
  assumes "0 < lo_windowMs o'" and "0 \<le> lo_max o'"
  shows "window_inv o' s ts now \<Longrightarrow> sorted (now # rs) \<Longrightarrow>
    count_in t0 (t0 + lo_windowMs o') (ts @ admitted_times o' s rs) \<le> 2 * lo_max o'"
proof (induction rs arbitrary: s ts now)
  case Nil
  then show ?case by (simp add: window_inv_def)
next
  case (Cons t rs)
  have "window_inv o' (Some (next_window o' s t)) (ts @ (if admits o' s t then [t] else [])) t"
    using Cons.prems assms by (intro window_inv_step) auto
  from Cons.IH[OF this] Cons.prems show ?case by simp
qed

section \<open>Properties\<close>

text \<open>
  C15. Whatever requests arrive, from whatever clients, at whatever times (in order), the
  limiter admits at most twice the quota of one key in any interval as long as a window.
\<close>

theorem admitted_at_most_twice_quota:
  assumes "sorted (map snd reqs)" and "0 < lo_windowMs opts" and "0 \<le> lo_max opts"
  shows "count_in t0 (t0 + lo_windowMs opts) (admitted_for k (run_limiter opts Map.empty reqs)) \<le> 2 * lo_max opts"
proof (cases "map snd [r \<leftarrow> reqs. fst r = k]")
  case Nil
  then show ?thesis using assms(3) by (simp add: run_limiter_key)
next
  case (Cons t ts)
  have "sorted (map snd [r \<leftarrow> reqs. fst r = k])" using assms(1) by (rule sorted_filter)
  then have "sorted (t # t # ts)" using Cons by simp
  moreover have "window_inv opts None [] t" using assms(3) by (simp add: window_inv_def)
  ultimately show ?thesis
    using admitted_bound[OF assms(2,3), of None "[]" t "t # ts" t0] Cons by (simp add: run_limiter_key)
qed

definition sample_limiter :: limiter_options where
  "sample_limiter = \<lparr>lo_windowMs = 1000, lo_max = 2\<rparr>"

lemma admitted_at_most_twice_quota_witness:
  "count_in 500 1500 (admitted_for ''a'' (run_limiter sample_limiter Map.empty
     [(''a'', 0), (''a'', 990), (''a'', 995), (''b'', 999), (''a'', 1000), (''a'', 1010), (''a'', 1020)])) \<le> 4"
  using admitted_at_most_twice_quota[of "[(''a'', 0), (''a'', 990), (''a'', 995), (''b'', 999), (''a'', 1000), (''a'', 1010), (''a'', 1020)]"
      sample_limiter 500 "''a''"] by (simp add: sample_limiter_def)

lemma ceil_div_ge: "0 < b \<Longrightarrow> a \<le> ceil_div a b * b"
proof -
  assume b: "0 < b"
  have "b * ((- a) div b) + (- a) mod b = - a" by (rule mult_div_mod_eq)
  moreover have "0 \<le> (- a) mod b" using b by simp
  moreover have "ceil_div a b * b = - (b * ((- a) div b))" by (simp add: ceil_div_def)
  ultimately show ?thesis by linarith
qed

text \<open>What other requests and pruning do to the window of a refused key: nothing, or they drop it.\<close>

datatype limiter_event = Request string int | Prune int

fun apply_event :: "limiter_options \<Rightarrow> windows \<Rightarrow> limiter_event \<Rightarrow> windows" where
  "apply_event o' w (Request k t) = snd (consume o' k t w)"
| "apply_event o' w (Prune t) = prune o' t w"

fun event_time :: "limiter_event \<Rightarrow> int" where
  "event_time (Request k t) = t"
| "event_time (Prune t) = t"

lemma refused_window_stays:
  assumes "\<forall>e \<in> set es. event_time e < ws_windowStart s + lo_windowMs o'"
    and "w k = Some s" and "ws_count s \<ge> lo_max o'"
  shows "foldl (apply_event o') w es k = Some s"
  using assms
proof (induction es arbitrary: w)
  case (Cons e es)
  have "apply_event o' w e k = Some s"
    using Cons.prems by (cases e)
      (auto simp: consume_key next_window_def admits_def current_window_def prune_def Let_def)
  then show ?case using Cons by simp
qed simp



text \<open>Deleting elapsed windows is not observable by later requests.\<close>

lemma prune_invisible:
  "p \<le> t \<Longrightarrow> fst (consume o' k t (prune o' p w)) = fst (consume o' k t w)"
  by (auto simp: consume_def prune_def Let_def split: option.splits)

text \<open>
  The key is read from a header of the client: one that sends a fresh value each time is
  never refused.
\<close>

lemma fresh_forwarded_for_never_limited:
  assumes "w (clientKey (Some (HOne x)) ip remote) = None" and "0 < lo_max o'"
  shows "fst (rateLimit_use enabled o' nowMs (clientKey (Some (HOne x)) ip remote) w) = Inr ()"
  using assms by (simp add: rateLimit_use_def consume_def Let_def)

end
