(* ===== verification/Role.thy ===== *)
theory Role
  imports OptimisticLock NewestFirst
begin

text \<open>
  Roles and the permissions they grant (apps/authz-admin/src/modules/role): the permission
  key shared with the catalogue, the aggregate, the repository and the use cases.  The rows
  of role_permissions are owned by their role and are saved and loaded with it; they are
  the list of its keys.  The state is the list of the roles the tenant sees under row-level
  security; a use case that throws leaves it unchanged (its transaction is rolled back).
\<close>

record role =
  ro_id :: string
  ro_tenantId :: string
  ro_key :: string
  ro_scope :: string
  ro_description :: string
  ro_permissions :: "string list"
  ro_version :: int
  ro_createdAt :: int
  ro_updatedAt :: int

datatype role_event =
    RolePermissionAddedEvent string string
  | RolePermissionRemovedEvent string string

section \<open>Errors and value objects\<close>

definition RoleNotFoundError :: "string \<Rightarrow> exn" where
  "RoleNotFoundError i = NotFoundError (''Role '' @ i @ '' not found'') (Some ''role_not_found'')"

definition RoleKeyTakenError :: "string \<Rightarrow> exn" where
  "RoleKeyTakenError k =
     ConflictError (''Role key \"'' @ k @ ''\" is already taken for this tenant'') (Some ''role_key_taken'')"

definition RolePermissionError :: "string \<Rightarrow> string \<Rightarrow> exn" where
  "RolePermissionError m reason = ConflictError m (Some reason)"

definition roleId_fromString :: "(string \<Rightarrow> bool) \<Rightarrow> string \<Rightarrow> string result" where
  "roleId_fromString is_uuid v =
     (if \<not> is_uuid v then Inl (ValidationError ''Invalid role id'' (Some ''role_id_invalid'')) else Inr v)"

text \<open>A segment of a permission key: a star, or lower-case letters, digits and underscores.\<close>

definition is_key_segment :: "string \<Rightarrow> bool" where
  "is_key_segment p \<longleftrightarrow> p = ''*'' \<or> (p \<noteq> [] \<and> list_all (\<lambda>c. is_lower_alnum c \<or> c = CHR ''_'') p)"

definition is_permission_key :: "string \<Rightarrow> bool" where
  "is_permission_key v \<longleftrightarrow>
     length (split_on (CHR '':'') v) = 3 \<and> list_all is_key_segment (split_on (CHR '':'') v)"

definition permissionKey_fromString :: "string \<Rightarrow> string result" where
  "permissionKey_fromString v =
     rbind (againstEmpty (Some v) ''permission'') (\<lambda>_.
     if \<not> is_permission_key v
     then Inl (ValidationError
            ''Permission key must match service:resource:action (lower snake-case segments, \"*\" wildcard allowed)''
            (Some ''permission_key_format''))
     else Inr v)"

section \<open>The aggregate\<close>

record create_role_command =
  cr_tenantId :: string
  cr_key :: string
  cr_scope :: string
  cr_description :: "string option"
  cr_permissions :: "string list option"

definition role_create :: "string \<Rightarrow> create_role_command \<Rightarrow> int \<Rightarrow> role result" where
  "role_create freshId c now =
     rbind (againstEmpty (Some (cr_tenantId c)) ''tenantId'') (\<lambda>_.
     rbind (againstEmpty (Some (cr_key c)) ''key'') (\<lambda>_.
     rbind (againstEmpty (Some (cr_scope c)) ''scope'') (\<lambda>_.
     rbind (guard_invariant (is_runs (CHR ''_'') (cr_key c)) ''key must be snake_case'' ''key_format'') (\<lambda>_.
     rbind (guard_invariant (length (cr_key c) \<le> 100) ''key too long'' ''key_too_long'') (\<lambda>_.
     rbind (guard_invariant (is_runs (CHR ''.'') (cr_scope c)) ''scope must be a dotted org path'' ''scope_format'') (\<lambda>_.
     rbind (guard_invariant (length (or_default (cr_description c) []) \<le> 500)
              ''description too long'' ''description_too_long'') (\<lambda>_.
     rbind (rmap permissionKey_fromString (or_default (cr_permissions c) [])) (\<lambda>permissions.
     Inr \<lparr>ro_id = freshId, ro_tenantId = cr_tenantId c, ro_key = cr_key c, ro_scope = cr_scope c,
          ro_description = js_trim (or_default (cr_description c) []), ro_permissions = dedupe permissions,
          ro_version = 1, ro_createdAt = now, ro_updatedAt = now\<rparr>))))))))"

definition role_fromSnapshot :: "role \<Rightarrow> role result" where
  "role_fromSnapshot s =
     rbind (rmap permissionKey_fromString (ro_permissions s)) (\<lambda>ps. Inr (s\<lparr>ro_permissions := ps\<rparr>))"

definition role_touch :: "int \<Rightarrow> role \<Rightarrow> role" where
  "role_touch now r = r\<lparr>ro_updatedAt := now, ro_version := ro_version r + 1\<rparr>"

definition addPermission :: "string \<Rightarrow> int \<Rightarrow> role \<Rightarrow> (role \<times> role_event) result" where
  "addPermission permission now r =
     rbind (permissionKey_fromString permission) (\<lambda>key.
     if key \<in> set (ro_permissions r)
     then Inl (RolePermissionError
            (''Permission \"'' @ permission @ ''\" is already granted to this role'')
            ''role_permission_already_granted'')
     else Inr (role_touch now (r\<lparr>ro_permissions := ro_permissions r @ [key]\<rparr>),
               RolePermissionAddedEvent (ro_id r) key))"

definition removePermission :: "string \<Rightarrow> int \<Rightarrow> role \<Rightarrow> (role \<times> role_event) result" where
  "removePermission permission now r =
     rbind (permissionKey_fromString permission) (\<lambda>key.
     if key \<notin> set (ro_permissions r)
     then Inl (RolePermissionError
            (''Permission \"'' @ permission @ ''\" is not granted to this role'')
            ''role_permission_not_granted'')
     else Inr (role_touch now (r\<lparr>ro_permissions := remove1 key (ro_permissions r)\<rparr>),
               RolePermissionRemovedEvent (ro_id r) key))"

section \<open>The repository\<close>

type_synonym role_table = "role list"

definition set_ro_version :: "int \<Rightarrow> role \<Rightarrow> role" where
  "set_ro_version v r = r\<lparr>ro_version := v\<rparr>"

text \<open>One row is written, within its columns and the unique index on tenant and key.\<close>

definition role_write :: "role \<Rightarrow> role_table \<Rightarrow> role_table result" where
  "role_write r rows =
     (if length (ro_scope r) > 255 \<or> list_ex (\<lambda>p. length p > 255) (ro_permissions r) then Inl value_too_long
      else if list_ex (\<lambda>x. ro_key x = ro_key r \<and> ro_id x \<noteq> ro_id r) rows
      then Inl (unique_violation ''uq_roles_tenant_key'')
      else Inr (save_row ro_id r rows))"

definition role_save :: "role \<Rightarrow> role_table \<Rightarrow> role_table result" where
  "role_save r rows =
     rbind (guardOptimisticLock ro_id ro_version set_ro_version (ro_id r) (ro_version r) rows) (role_write r)"

definition role_toDomain :: "role option \<Rightarrow> role option result" where
  "role_toDomain row =
     (case row of None \<Rightarrow> Inr None
      | Some r \<Rightarrow> rbind (role_fromSnapshot r) (\<lambda>r. Inr (Some r)))"

definition role_findById :: "string \<Rightarrow> role_table \<Rightarrow> role option result" where
  "role_findById i rows = role_toDomain (find (\<lambda>r. ro_id r = i) rows)"

definition role_findByKey :: "string \<Rightarrow> role_table \<Rightarrow> role option result" where
  "role_findByKey k rows = role_toDomain (find (\<lambda>r. ro_key r = k) rows)"

definition role_list ::
  "(string \<Rightarrow> int option) \<Rightarrow> (string \<Rightarrow> string option) \<Rightarrow> page_query \<Rightarrow> role_table \<Rightarrow> role cursor_page result" where
  "role_list pg_timestamp pg_id q rows =
     newest_page pg_timestamp pg_id ro_createdAt ro_id role_fromSnapshot q rows"

section \<open>The use cases\<close>

definition createRole_execute ::
  "string \<Rightarrow> int \<Rightarrow> create_role_command \<Rightarrow> role_table \<Rightarrow> (role \<times> role_table) result" where
  "createRole_execute freshId now c rows =
     rbind (role_findByKey (cr_key c) rows) (\<lambda>existing.
     rbind (ensure (existing = None) (RoleKeyTakenError (cr_key c))) (\<lambda>_.
     rbind (role_create freshId c now) (\<lambda>r.
     rbind (role_save r rows) (\<lambda>rows'. Inr (r, rows')))))"

definition changeRole_execute ::
  "(role \<Rightarrow> (role \<times> role_event) result) \<Rightarrow> (string \<Rightarrow> bool) \<Rightarrow> string \<Rightarrow> int option \<Rightarrow> role_table \<Rightarrow>
   (role \<times> role_table \<times> role_event list) result" where
  "changeRole_execute change is_uuid roleId expected rows =
     rbind (roleId_fromString is_uuid roleId) (\<lambda>i.
     rbind (role_findById i rows) (\<lambda>found.
     case found of
       None \<Rightarrow> Inl (RoleNotFoundError roleId)
     | Some r \<Rightarrow>
         rbind (check_expected ''Role'' expected (ro_version r)) (\<lambda>_.
         rbind (change r) (\<lambda>(r, event).
         rbind (role_save r rows) (\<lambda>rows'. Inr (r, rows', [event]))))))"

definition addPermissionToRole_execute ::
  "(string \<Rightarrow> bool) \<Rightarrow> int \<Rightarrow> string \<Rightarrow> string \<Rightarrow> int option \<Rightarrow> role_table \<Rightarrow>
   (role \<times> role_table \<times> role_event list) result" where
  "addPermissionToRole_execute is_uuid now roleId permission expected rows =
     changeRole_execute (addPermission permission now) is_uuid roleId expected rows"

definition removePermissionFromRole_execute ::
  "(string \<Rightarrow> bool) \<Rightarrow> int \<Rightarrow> string \<Rightarrow> string \<Rightarrow> int option \<Rightarrow> role_table \<Rightarrow>
   (role \<times> role_table \<times> role_event list) result" where
  "removePermissionFromRole_execute is_uuid now roleId permission expected rows =
     changeRole_execute (removePermission permission now) is_uuid roleId expected rows"

definition getRole_execute :: "(string \<Rightarrow> bool) \<Rightarrow> string \<Rightarrow> role_table \<Rightarrow> role result" where
  "getRole_execute is_uuid roleId rows =
     rbind (roleId_fromString is_uuid roleId) (\<lambda>i.
     rbind (role_findById i rows) (\<lambda>found.
     case found of None \<Rightarrow> Inl (RoleNotFoundError roleId) | Some r \<Rightarrow> Inr r))"

definition listRoles_execute ::
  "(string \<Rightarrow> int option) \<Rightarrow> (string \<Rightarrow> string option) \<Rightarrow> int option \<Rightarrow> string option \<Rightarrow> role_table \<Rightarrow>
   role cursor_page result" where
  "listRoles_execute pg_timestamp pg_id limit cursor rows =
     role_list pg_timestamp pg_id (pageQueryFrom limit cursor) rows"

section \<open>The controller\<close>

text \<open>
  The transport validation of the requests that carry permission keys, whose expression is
  not the one of the value object: a run of letters and digits, then two segments of
  letters, digits and stars.
\<close>

definition request_permission_valid :: "string \<Rightarrow> bool" where
  "request_permission_valid v \<longleftrightarrow>
     (case split_on (CHR '':'') v of
        [a, b, c] \<Rightarrow> a \<noteq> [] \<and> b \<noteq> [] \<and> c \<noteq> [] \<and> list_all is_lower_alnum a \<and>
          list_all (\<lambda>x. is_lower_alnum x \<or> x = CHR ''*'') b \<and> list_all (\<lambda>x. is_lower_alnum x \<or> x = CHR ''*'') c
      | _ \<Rightarrow> False)"

definition createRoleRequest_valid :: "create_role_command \<Rightarrow> bool" where
  "createRoleRequest_valid b \<longleftrightarrow>
     1 \<le> length (cr_key b) \<and> length (cr_key b) \<le> 100 \<and> is_runs (CHR ''_'') (cr_key b) \<and>
     1 \<le> length (cr_scope b) \<and> length (cr_scope b) \<le> 255 \<and> is_runs (CHR ''.'') (cr_scope b) \<and>
     length (or_default (cr_description b) []) \<le> 500 \<and>
     distinct (or_default (cr_permissions b) []) \<and>
     list_all request_permission_valid (or_default (cr_permissions b) [])"

definition addPermissionRequest_valid :: "string \<Rightarrow> bool" where
  "addPermissionRequest_valid v \<longleftrightarrow> 1 \<le> length v \<and> length v \<le> 255 \<and> request_permission_valid v"

section \<open>Well-formed roles\<close>

definition role_ok :: "role \<Rightarrow> bool" where
  "role_ok r \<longleftrightarrow> is_runs (CHR ''_'') (ro_key r) \<and> length (ro_key r) \<le> 100 \<and> is_runs (CHR ''.'') (ro_scope r) \<and>
     length (ro_description r) \<le> 500 \<and> distinct (ro_permissions r) \<and>
     list_all is_permission_key (ro_permissions r) \<and> 1 \<le> ro_version r"

definition roles_ok :: "role_table \<Rightarrow> bool" where
  "roles_ok rows \<longleftrightarrow> distinct (map ro_id rows) \<and> distinct (map ro_key rows) \<and> list_all role_ok rows"

interpretation role_versions: versioned_table ro_id ro_version set_ro_version
  by unfold_locales (simp_all add: set_ro_version_def)

lemma permissionKey_ok [simp]: "permissionKey_fromString v = Inr k \<longleftrightarrow> k = v \<and> is_permission_key v"
proof -
  have "js_trim v \<noteq> []" if "is_permission_key v"
  proof
    assume "js_trim v = []"
    then have "CHR '':'' \<notin> set v" by (auto simp: js_trim_Nil_iff is_ws_def)
    then show False using that by (simp add: is_permission_key_def split_on_no_sep)
  qed
  then show ?thesis by (auto simp: permissionKey_fromString_def rbind_Inr_iff)
qed

lemma permissionKeys_ok: "rmap permissionKey_fromString ps = Inr qs \<longleftrightarrow> qs = ps \<and> list_all is_permission_key ps"
  by (induction ps arbitrary: qs) (auto simp: rbind_Inr_iff)

lemma role_fromSnapshot_ok [simp]:
  "role_fromSnapshot r = Inr s \<longleftrightarrow> s = r \<and> list_all is_permission_key (ro_permissions r)"
  by (auto simp: role_fromSnapshot_def rbind_Inr_iff permissionKeys_ok)

lemma role_findById_ok:
  "role_findById i rows = Inr (Some r) \<Longrightarrow> r \<in> set rows \<and> ro_id r = i"
  by (auto simp: role_findById_def role_toDomain_def rbind_Inr_iff split: option.splits dest: find_SomeD)

lemma js_trim_length: "length (js_trim s) \<le> length s"
  unfolding js_trim_def using length_dropWhile_le[of is_ws "rev (dropWhile is_ws s)"] length_dropWhile_le[of is_ws s]
  by simp

lemma role_create_ok: "role_create freshId c now = Inr r \<Longrightarrow> role_ok r \<and> ro_id r = freshId \<and> ro_version r = 1"
  using js_trim_length[of "or_default (cr_description c) []"]
  by (auto simp: role_create_def rbind_Inr_iff role_ok_def permissionKeys_ok list_all_iff)

lemma role_save_ok:
  assumes save: "role_save r rows = Inr rows'" and ok: "roles_ok rows" and r: "role_ok r"
  shows "roles_ok rows' \<and> r \<in> set rows'"
proof -
  obtain rows1 where g: "guardOptimisticLock ro_id ro_version set_ro_version (ro_id r) (ro_version r) rows = Inr rows1"
    and w: "role_write r rows1 = Inr rows'"
    using save by (auto simp: role_save_def elim: rbind_InrE)
  have rows': "rows' = save_row ro_id r rows1" and keys: "\<And>x. x \<in> set rows1 \<Longrightarrow> ro_id x \<noteq> ro_id r \<Longrightarrow> ro_key x \<noteq> ro_key r"
    using w by (auto simp: role_write_def list_ex_iff split: if_splits)
  have ids: "distinct (map ro_id rows')"
    unfolding rows' using role_versions.guard_save_ids[OF g] ok by (simp add: roles_ok_def)
  have "distinct (map ro_key (save_row ro_id r rows1))"
    using role_versions.guard_save_unique[OF g, of ro_key] ok keys by (simp add: set_ro_version_def roles_ok_def)
  moreover have "list_all role_ok rows'"
    using role_versions.guard_save_set[OF g] r ok unfolding rows' by (auto simp: list_all_iff roles_ok_def)
  ultimately show ?thesis using ids role_versions.save_row_in by (simp add: roles_ok_def rows')
qed

lemma addPermission_ok:
  assumes "addPermission p now r = Inr (r', e)" and "role_ok r"
  shows "role_ok r' \<and> ro_id r' = ro_id r \<and> ro_version r' = ro_version r + 1 \<and>
     ro_permissions r' = ro_permissions r @ [p] \<and> p \<notin> set (ro_permissions r) \<and> ro_key r' = ro_key r"
  using assms by (auto simp: addPermission_def rbind_Inr_iff role_touch_def role_ok_def split: if_splits)

lemma removePermission_ok:
  assumes "removePermission p now r = Inr (r', e)" and "role_ok r"
  shows "role_ok r' \<and> ro_id r' = ro_id r \<and> ro_version r' = ro_version r + 1 \<and>
     set (ro_permissions r') = set (ro_permissions r) - {p} \<and> p \<in> set (ro_permissions r) \<and> ro_key r' = ro_key r"
  using assms
  by (auto simp: removePermission_def rbind_Inr_iff role_touch_def role_ok_def list_all_iff set_remove1_eq
      split: if_splits dest: notin_set_remove1)

lemma changeRole_ok:
  assumes "changeRole_execute change is_uuid i expected rows = Inr (r', rows', es)"
  obtains r e where "r \<in> set rows" "ro_id r = i" "change r = Inr (r', e)" "role_save r' rows = Inr rows'" "es = [e]"
    "expected = None \<or> expected = Some (ro_version r)"
  using assms
  by (auto simp: changeRole_execute_def rbind_Inr_iff roleId_fromString_def split: option.splits if_splits
      dest!: role_findById_ok)

section \<open>Reachable tables\<close>

text \<open>
  What any sequence of the use cases makes of an empty table.  Ids are fresh v4 UUIDs.
\<close>

inductive role_step :: "(string \<Rightarrow> bool) \<Rightarrow> role_table \<Rightarrow> role_table \<Rightarrow> bool" for is_uuid where
  create: "createRole_execute freshId now c rows = Inr (r, rows') \<Longrightarrow> freshId \<notin> ro_id ` set rows \<Longrightarrow>
    role_step is_uuid rows rows'"
| grant: "addPermissionToRole_execute is_uuid now i p expected rows = Inr (r, rows', es) \<Longrightarrow>
    role_step is_uuid rows rows'"
| revoke: "removePermissionFromRole_execute is_uuid now i p expected rows = Inr (r, rows', es) \<Longrightarrow>
    role_step is_uuid rows rows'"

lemma role_step_ok:
  assumes "role_step is_uuid rows rows'" and ok: "roles_ok rows"
  shows "roles_ok rows'"
  using assms(1)
proof cases
  case (create freshId now c r)
  then obtain "role_create freshId c now = Inr r" "role_save r rows = Inr rows'"
    by (auto simp: createRole_execute_def elim!: rbind_InrE)
  then show ?thesis using role_save_ok[OF _ ok] role_create_ok by blast
next
  case (grant now i p expected r es)
  then show ?thesis using role_save_ok[OF _ ok] addPermission_ok ok
    unfolding addPermissionToRole_execute_def roles_ok_def list_all_iff by (elim changeRole_ok) blast
next
  case (revoke now i p expected r es)
  then show ?thesis using role_save_ok[OF _ ok] removePermission_ok ok
    unfolding removePermissionFromRole_execute_def roles_ok_def list_all_iff by (elim changeRole_ok) blast
qed

inductive role_reachable :: "(string \<Rightarrow> bool) \<Rightarrow> role_table \<Rightarrow> bool" for is_uuid where
  empty: "role_reachable is_uuid []"
| step: "role_reachable is_uuid rows \<Longrightarrow> role_step is_uuid rows rows' \<Longrightarrow> role_reachable is_uuid rows'"

lemma role_reachable_ok: "role_reachable is_uuid rows \<Longrightarrow> roles_ok rows"
proof (induction rule: role_reachable.induct)
  case empty
  show ?case by (simp add: roles_ok_def)
qed (rule role_step_ok)

end
