(* ===== verification/RoleAssignment.thy ===== *)
theory RoleAssignment
  imports Role
begin

text \<open>
  Role assignments (apps/authz-admin/src/modules/role-assignment): the binding of a user
  and a role to a scope, its revocation, the repository and the use cases.  The state is the
  list of the assignments the tenant sees; a use case that throws leaves it unchanged.
\<close>

datatype assignment_status = AssignmentActive | AssignmentRevoked

record role_assignment =
  ra_id :: string
  ra_tenantId :: string
  ra_userId :: string
  ra_roleId :: string
  ra_scope :: string
  ra_status :: assignment_status
  ra_validUntil :: "int option"
  ra_delegatedBy :: "string option"
  ra_version :: int
  ra_createdAt :: int
  ra_updatedAt :: int

text \<open>The event carries the assignment, its tenant, user and role.\<close>

datatype assignment_event = RoleAssignmentRevokedEvent string string string string

section \<open>Errors and value objects\<close>

definition RoleAssignmentNotFoundError :: "string \<Rightarrow> exn" where
  "RoleAssignmentNotFoundError i =
     NotFoundError (''Role assignment '' @ i @ '' not found'') (Some ''role_assignment_not_found'')"

definition RoleAssignmentAlreadyExistsError :: "string \<Rightarrow> string \<Rightarrow> string \<Rightarrow> exn" where
  "RoleAssignmentAlreadyExistsError userId roleId scope =
     ConflictError (''Role '' @ roleId @ '' is already assigned to user '' @ userId @ '' at scope '' @ scope)
       (Some ''role_assignment_exists'')"

definition RoleAssignmentStateError :: "string \<Rightarrow> string \<Rightarrow> exn" where
  "RoleAssignmentStateError m reason = ConflictError m (Some reason)"

definition roleAssignmentId_fromString :: "(string \<Rightarrow> bool) \<Rightarrow> string \<Rightarrow> string result" where
  "roleAssignmentId_fromString is_uuid v =
     (if \<not> is_uuid v
      then Inl (ValidationError ''Invalid role assignment id'' (Some ''role_assignment_id_invalid''))
      else Inr v)"

definition SCOPE_MAX_DEPTH :: nat where "SCOPE_MAX_DEPTH = 8"

text \<open>The checks of a scope path: snake-case labels joined by dots, at most eight of them.\<close>

definition check_scope_path :: "string \<Rightarrow> unit result" where
  "check_scope_path v =
     rbind (againstEmpty (Some v) ''scope'') (\<lambda>_.
     let labels = split_on (CHR ''.'') v in
     rbind (guard_invariant (length labels \<le> SCOPE_MAX_DEPTH) ''scope path too deep (max 8)'' ''scope_too_deep'') (\<lambda>_.
     guard_invariant (list_all (is_runs (CHR ''_'')) labels)
       ''scope path must be dot-delimited lowercase labels'' ''scope_format''))"

definition scopePath_fromString :: "string \<Rightarrow> string result" where
  "scopePath_fromString v = rbind (check_scope_path v) (\<lambda>_. Inr v)"

section \<open>The aggregate\<close>

definition ID_MAX_LENGTH :: nat where "ID_MAX_LENGTH = 255"

text \<open>
  The expiry of the command is a Date: Some None is a Date without a time (NaN), which is
  not later than anything.
\<close>

definition ra_create ::
  "string \<Rightarrow> string \<Rightarrow> string \<Rightarrow> string \<Rightarrow> string \<Rightarrow> int option option \<Rightarrow> string option \<Rightarrow> int \<Rightarrow>
   role_assignment result" where
  "ra_create freshId tenantId userId roleId scope validUntil delegatedBy now =
     rbind (againstEmpty (Some tenantId) ''tenantId'') (\<lambda>_.
     rbind (againstEmpty (Some userId) ''userId'') (\<lambda>_.
     rbind (againstEmpty (Some roleId) ''roleId'') (\<lambda>_.
     rbind (guard_invariant (length userId \<le> ID_MAX_LENGTH) ''userId too long'' ''user_id_too_long'') (\<lambda>_.
     rbind (guard_invariant (length roleId \<le> ID_MAX_LENGTH) ''roleId too long'' ''role_id_too_long'') (\<lambda>_.
     rbind (case validUntil of
              None \<Rightarrow> Inr ()
            | Some v \<Rightarrow>
                guard_invariant (case v of None \<Rightarrow> False | Some t \<Rightarrow> t > now)
                  ''validUntil must be in the future'' ''valid_until_in_past'') (\<lambda>_.
     rbind (case delegatedBy of None \<Rightarrow> Inr () | Some d \<Rightarrow> againstEmpty (Some d) ''delegatedBy'') (\<lambda>_.
     Inr \<lparr>ra_id = freshId, ra_tenantId = tenantId, ra_userId = userId, ra_roleId = roleId, ra_scope = scope,
          ra_status = AssignmentActive, ra_validUntil = or_default validUntil None, ra_delegatedBy = delegatedBy,
          ra_version = 1, ra_createdAt = now, ra_updatedAt = now\<rparr>)))))))"

definition ra_fromSnapshot :: "role_assignment \<Rightarrow> role_assignment result" where
  "ra_fromSnapshot s = rbind (scopePath_fromString (ra_scope s)) (\<lambda>scope. Inr (s\<lparr>ra_scope := scope\<rparr>))"

definition ra_touch :: "int \<Rightarrow> role_assignment \<Rightarrow> role_assignment" where
  "ra_touch now a = a\<lparr>ra_updatedAt := now, ra_version := ra_version a + 1\<rparr>"

definition ra_revoke :: "int \<Rightarrow> role_assignment \<Rightarrow> (role_assignment \<times> assignment_event) result" where
  "ra_revoke now a =
     (if ra_status a = AssignmentRevoked
      then Inl (RoleAssignmentStateError ''Role assignment is already revoked'' ''role_assignment_already_revoked'')
      else Inr (ra_touch now (a\<lparr>ra_status := AssignmentRevoked\<rparr>),
                RoleAssignmentRevokedEvent (ra_id a) (ra_tenantId a) (ra_userId a) (ra_roleId a)))"

section \<open>The repository\<close>

type_synonym assignment_table = "role_assignment list"

definition set_ra_version :: "int \<Rightarrow> role_assignment \<Rightarrow> role_assignment" where
  "set_ra_version v a = a\<lparr>ra_version := v\<rparr>"

text \<open>One row is written within its columns; no index makes the active triple unique.\<close>

definition ra_write :: "role_assignment \<Rightarrow> assignment_table \<Rightarrow> assignment_table result" where
  "ra_write a rows =
     (if length (ra_scope a) > 255 \<or> length (or_default (ra_delegatedBy a) []) > 255 then Inl value_too_long
      else Inr (save_row ra_id a rows))"

definition ra_save :: "role_assignment \<Rightarrow> assignment_table \<Rightarrow> assignment_table result" where
  "ra_save a rows =
     rbind (guardOptimisticLock ra_id ra_version set_ra_version (ra_id a) (ra_version a) rows) (ra_write a)"

definition ra_toDomain :: "role_assignment option \<Rightarrow> role_assignment option result" where
  "ra_toDomain row =
     (case row of None \<Rightarrow> Inr None
      | Some a \<Rightarrow> rbind (ra_fromSnapshot a) (\<lambda>a. Inr (Some a)))"

definition ra_findById :: "string \<Rightarrow> assignment_table \<Rightarrow> role_assignment option result" where
  "ra_findById i rows = ra_toDomain (find (\<lambda>a. ra_id a = i) rows)"

definition findActiveAssignment ::
  "string \<Rightarrow> string \<Rightarrow> string \<Rightarrow> assignment_table \<Rightarrow> role_assignment option result" where
  "findActiveAssignment userId roleId scope rows =
     ra_toDomain (find (\<lambda>a. ra_userId a = userId \<and> ra_roleId a = roleId \<and> ra_scope a = scope \<and>
       ra_status a = AssignmentActive) rows)"

definition ra_listForUser ::
  "(string \<Rightarrow> int option) \<Rightarrow> (string \<Rightarrow> string option) \<Rightarrow> string \<Rightarrow> page_query \<Rightarrow> assignment_table \<Rightarrow>
   role_assignment cursor_page result" where
  "ra_listForUser pg_timestamp pg_id userId q rows =
     newest_page pg_timestamp pg_id ra_createdAt ra_id ra_fromSnapshot q [a \<leftarrow> rows. ra_userId a = userId]"

section \<open>The use cases\<close>

record assign_role_command =
  as_tenantId :: string
  as_userId :: string
  as_roleId :: string
  as_scope :: string
  as_validUntil :: "string option"
  as_delegatedBy :: "string option"

text \<open>\<^term>\<open>date\<close> is the Date constructor on a text: the time, or None for an invalid date.\<close>

definition assignRole_execute ::
  "(string \<Rightarrow> int option) \<Rightarrow> string \<Rightarrow> int \<Rightarrow> assign_role_command \<Rightarrow> assignment_table \<Rightarrow>
   (role_assignment \<times> assignment_table) result" where
  "assignRole_execute date freshId now c rows =
     rbind (scopePath_fromString (as_scope c)) (\<lambda>scope.
     rbind (findActiveAssignment (as_userId c) (as_roleId c) scope rows) (\<lambda>existing.
     rbind (ensure (existing = None) (RoleAssignmentAlreadyExistsError (as_userId c) (as_roleId c) scope)) (\<lambda>_.
     rbind (ra_create freshId (as_tenantId c) (as_userId c) (as_roleId c) scope
              (if truthy (as_validUntil c) then Some (date (or_default (as_validUntil c) [])) else None)
              (as_delegatedBy c) now) (\<lambda>a.
     rbind (ra_save a rows) (\<lambda>rows'. Inr (a, rows'))))))"

definition revokeRole_execute ::
  "(string \<Rightarrow> bool) \<Rightarrow> int \<Rightarrow> string \<Rightarrow> int option \<Rightarrow> assignment_table \<Rightarrow>
   (role_assignment \<times> assignment_table \<times> assignment_event list) result" where
  "revokeRole_execute is_uuid now assignmentId expected rows =
     rbind (roleAssignmentId_fromString is_uuid assignmentId) (\<lambda>i.
     rbind (ra_findById i rows) (\<lambda>found.
     case found of
       None \<Rightarrow> Inl (RoleAssignmentNotFoundError assignmentId)
     | Some a \<Rightarrow>
         rbind (check_expected ''Role assignment'' expected (ra_version a)) (\<lambda>_.
         rbind (ra_revoke now a) (\<lambda>(a, event).
         rbind (ra_save a rows) (\<lambda>rows'. Inr (a, rows', [event]))))))"

definition listAssignmentsForUser_execute ::
  "(string \<Rightarrow> int option) \<Rightarrow> (string \<Rightarrow> string option) \<Rightarrow> string \<Rightarrow> int option \<Rightarrow> string option \<Rightarrow>
   assignment_table \<Rightarrow> role_assignment cursor_page result" where
  "listAssignmentsForUser_execute pg_timestamp pg_id userId limit cursor rows =
     ra_listForUser pg_timestamp pg_id userId (pageQueryFrom limit cursor) rows"

section \<open>The controller\<close>

text \<open>
  Transport validation of the assign request; the tenant and the delegating user are stamped
  from the context.  \<^term>\<open>is_iso8601\<close> is the validator of the expiry.
\<close>

definition assignRoleRequest_valid :: "(string \<Rightarrow> bool) \<Rightarrow> assign_role_command \<Rightarrow> bool" where
  "assignRoleRequest_valid is_iso8601 b \<longleftrightarrow>
     1 \<le> length (as_userId b) \<and> length (as_userId b) \<le> 255 \<and>
     1 \<le> length (as_roleId b) \<and> length (as_roleId b) \<le> 255 \<and>
     1 \<le> length (as_scope b) \<and> length (as_scope b) \<le> 255 \<and>
     list_all (is_runs (CHR ''_'')) (split_on (CHR ''.'') (as_scope b)) \<and>
     (case as_validUntil b of None \<Rightarrow> True | Some v \<Rightarrow> is_iso8601 v)"

section \<open>Lemmas\<close>

interpretation assignment_versions: versioned_table ra_id ra_version set_ra_version
  by unfold_locales (simp_all add: set_ra_version_def)

lemma runs_chars: "is_runs c s \<Longrightarrow> x \<in> set s \<Longrightarrow> is_lower_alnum x \<or> x = c"
  using split_on_chars[of x s c] by (force simp: is_runs_def list_all_iff)

lemma runs_ne: "is_runs c s \<Longrightarrow> s \<noteq> []"
  by (auto simp: is_runs_def)

lemma scope_path_not_blank: "list_all (is_runs (CHR ''_'')) (split_on (CHR ''.'') v) \<Longrightarrow> js_trim v \<noteq> []"
proof
  assume k: "list_all (is_runs (CHR ''_'')) (split_on (CHR ''.'') v)" and "js_trim v = []"
  then have ws: "\<forall>c \<in> set v. is_ws c" by (simp add: js_trim_Nil_iff)
  then have "CHR ''.'' \<notin> set v" by (auto simp: is_ws_def)
  then have r: "is_runs (CHR ''_'') v" using k by (simp add: split_on_no_sep)
  then obtain x where x: "x \<in> set v" using runs_ne by (cases v) auto
  then show False using runs_chars[OF r x] ws by (auto simp: is_ws_def Let_def char_class)
qed

definition valid_scope_path :: "string \<Rightarrow> bool" where
  "valid_scope_path v \<longleftrightarrow>
     length (split_on (CHR ''.'') v) \<le> 8 \<and> list_all (is_runs (CHR ''_'')) (split_on (CHR ''.'') v)"

lemma check_scope_path_ok [simp]: "check_scope_path v = Inr u \<longleftrightarrow> valid_scope_path v"
  using scope_path_not_blank[of v]
  by (auto simp: check_scope_path_def Let_def rbind_Inr_iff valid_scope_path_def SCOPE_MAX_DEPTH_def)

lemma scopePath_ok [simp]: "scopePath_fromString v = Inr w \<longleftrightarrow> w = v \<and> valid_scope_path v"
  by (auto simp: scopePath_fromString_def rbind_Inr_iff)

lemma ra_fromSnapshot_ok [simp]: "ra_fromSnapshot a = Inr b \<longleftrightarrow> b = a \<and> valid_scope_path (ra_scope a)"
  by (auto simp: ra_fromSnapshot_def rbind_Inr_iff)

lemma ra_findById_ok: "ra_findById i rows = Inr (Some a) \<Longrightarrow> a \<in> set rows \<and> ra_id a = i"
  by (auto simp: ra_findById_def ra_toDomain_def rbind_Inr_iff split: option.splits dest: find_SomeD)

lemma ra_save_ok:
  assumes "ra_save a rows = Inr rows'"
  obtains rows1 where "guardOptimisticLock ra_id ra_version set_ra_version (ra_id a) (ra_version a) rows = Inr rows1"
    and "rows' = save_row ra_id a rows1"
  using assms by (auto simp: ra_save_def ra_write_def elim!: rbind_InrE split: if_splits)

text \<open>A revocation replaces one active row by its revoked version and leaves the others alone.\<close>

lemma revokeRole_ok:
  assumes run: "revokeRole_execute is_uuid now i expected rows = Inr (a', rows', es)"
    and ids: "distinct (map ra_id rows)"
  obtains a where "a \<in> set rows" "ra_id a = i" "ra_status a = AssignmentActive"
    "a' = ra_touch now (a\<lparr>ra_status := AssignmentRevoked\<rparr>)" "set rows' = insert a' (set rows - {a})"
    "distinct (map ra_id rows')" "es = [RoleAssignmentRevokedEvent i (ra_tenantId a) (ra_userId a) (ra_roleId a)]"
proof -
  obtain a where a: "ra_findById i rows = Inr (Some a)" "ra_revoke now a = Inr (a', hd es)" "es = [hd es]"
      "ra_save a' rows = Inr rows'"
    using run by (auto simp: revokeRole_execute_def rbind_Inr_iff roleAssignmentId_fromString_def
        split: option.splits if_splits)
  have a_in: "a \<in> set rows" "ra_id a = i" using ra_findById_ok[OF a(1)] by simp_all
  have a': "ra_status a = AssignmentActive" "a' = ra_touch now (a\<lparr>ra_status := AssignmentRevoked\<rparr>)"
      "hd es = RoleAssignmentRevokedEvent i (ra_tenantId a) (ra_userId a) (ra_roleId a)"
    using a(2) a_in(2) by (auto simp: ra_revoke_def split: if_splits intro: assignment_status.exhaust)
  have i: "ra_id a' = i" using a' a_in by (simp add: ra_touch_def)
  obtain rows1 where g: "guardOptimisticLock ra_id ra_version set_ra_version (ra_id a') (ra_version a') rows = Inr rows1"
      and s: "rows' = save_row ra_id a' rows1" using a(4) by (rule ra_save_ok)
  have other: "x = a" if "x \<in> set rows" "ra_id x = i" for x
    using that a_in ids by (metis distinct_map inj_onD)
  have "set rows' = insert a' (set rows - {a})"
  proof (intro subset_antisym subsetI)
    fix x assume "x \<in> set rows'"
    then show "x \<in> insert a' (set rows - {a})"
      using assignment_versions.guard_save_set[OF g] i a_in(2) unfolding s by auto
  next
    fix x assume "x \<in> insert a' (set rows - {a})"
    then show "x \<in> set rows'"
      using assignment_versions.guard_save_keeps[OF g, of x] assignment_versions.save_row_in[of a' rows1] other i
      unfolding s by auto
  qed
  moreover have "distinct (map ra_id rows')" unfolding s by (rule assignment_versions.guard_save_ids[OF g ids])
  ultimately show thesis using that a_in a' a(3) by metis
qed

text \<open>An assignment adds one active row.\<close>

lemma assignRole_ok:
  assumes "assignRole_execute date freshId now c rows = Inr (a, rows')" and "freshId \<notin> ra_id ` set rows"
  shows "rows' = rows @ [a] \<and> ra_id a = freshId \<and> ra_status a = AssignmentActive \<and> ra_userId a = as_userId c \<and>
     ra_roleId a = as_roleId c \<and> ra_scope a = as_scope c \<and> ra_tenantId a = as_tenantId c \<and>
     valid_scope_path (as_scope c) \<and> (\<forall>t. ra_validUntil a = Some t \<longrightarrow> now < t)"
proof -
  obtain v where c: "ra_create freshId (as_tenantId c) (as_userId c) (as_roleId c) (as_scope c) v
      (as_delegatedBy c) now = Inr a" and s: "ra_save a rows = Inr rows'" and p: "valid_scope_path (as_scope c)"
    using assms(1) by (auto simp: assignRole_execute_def rbind_Inr_iff)
  have a: "ra_id a = freshId" "ra_version a = 1" "ra_status a = AssignmentActive" "ra_userId a = as_userId c"
      "ra_roleId a = as_roleId c" "ra_scope a = as_scope c" "ra_tenantId a = as_tenantId c"
      "\<forall>t. ra_validUntil a = Some t \<longrightarrow> now < t"
    using c by (auto simp: ra_create_def rbind_Inr_iff split: option.splits)
  have "rows' = save_row ra_id a rows"
    using s a(2) by (auto simp: ra_save_def guardOptimisticLock_def ra_write_def split: if_splits)
  moreover have "ra_id x \<noteq> ra_id a" if "x \<in> set rows" for x using assms(2) a(1) that by (metis imageI)
  then have "\<not> list_ex (\<lambda>x. ra_id x = ra_id a) rows" by (simp add: list_ex_iff)
  ultimately show ?thesis using a p by (simp add: save_row_def)
qed

end
