(* ===== verification/EffectiveRoles.thy ===== *)
theory EffectiveRoles
  imports RoleAssignment OrgPath
begin

text \<open>
  The policy information point of authz-admin (apps/authz-admin/src/modules/principal): the
  scope chain, the projection of the active grants (the join of role_assignments and roles),
  and the use case that orders the effective roles and derives the department.
\<close>

record role_grant =
  rg_roleKey :: string
  rg_scope :: string

section \<open>The scope chain\<close>

definition scopeChain_forScope :: "string \<Rightarrow> string list result" where
  "scopeChain_forScope scope =
     rbind (check_scope_path scope) (\<lambda>_.
     let labels = split_on (CHR ''.'') scope in
     Inr (map (\<lambda>cut. join_with ''.'' (take cut labels)) [1..<length labels + 1]))"

text \<open>indexOf: the first position, or null.\<close>

fun depthOf :: "string list \<Rightarrow> string \<Rightarrow> int option" where
  "depthOf [] scope = None"
| "depthOf (s # chain) scope =
     (if s = scope then Some 0 else map_option (\<lambda>d. d + 1) (depthOf chain scope))"

section \<open>The projection\<close>

text \<open>
  The rows of the join; in which order Postgres yields them is the argument \<^term>\<open>plan\<close>, a
  rearrangement of the list.
\<close>

definition findActiveGrants ::
  "(role_grant list \<Rightarrow> role_grant list) \<Rightarrow> int \<Rightarrow> string \<Rightarrow> string list \<Rightarrow> assignment_table \<Rightarrow> role_table \<Rightarrow>
   role_grant list" where
  "findActiveGrants plan now userId scopeChain assignments roles =
     (if scopeChain = [] then []
      else plan [\<lparr>rg_roleKey = ro_key r, rg_scope = ra_scope ra\<rparr>.
              ra \<leftarrow> assignments, r \<leftarrow> roles,
              ro_id r = ra_roleId ra \<and> ra_userId ra = userId \<and> ra_scope ra \<in> set scopeChain \<and>
              ra_status ra = AssignmentActive \<and>
              (case ra_validUntil ra of None \<Rightarrow> True | Some t \<Rightarrow> t > now)])"

section \<open>The use case\<close>

definition grant_depth :: "string list \<Rightarrow> role_grant \<Rightarrow> int" where
  "grant_depth chain g = or_default (depthOf chain (rg_scope g)) (-1)"

text \<open>A Map from role keys to depths, as the list of its entries in insertion order.\<close>

fun map_set :: "'k \<Rightarrow> 'v \<Rightarrow> ('k \<times> 'v) list \<Rightarrow> ('k \<times> 'v) list" where
  "map_set k v [] = [(k, v)]"
| "map_set k v ((k', v') # m) = (if k' = k then (k', v) # m else (k', v') # map_set k v m)"

fun best_depths :: "string list \<Rightarrow> (string \<times> int) list \<Rightarrow> role_grant list \<Rightarrow> (string \<times> int) list" where
  "best_depths chain best [] = best"
| "best_depths chain best (g # gs) =
     (let d = grant_depth chain g in
      best_depths chain
        (case map_of best (rg_roleKey g) of
           None \<Rightarrow> map_set (rg_roleKey g) d best
         | Some current \<Rightarrow> if d > current then map_set (rg_roleKey g) d best else best) gs)"

definition dedupeMostSpecificFirst :: "role_grant list \<Rightarrow> string list \<Rightarrow> string list" where
  "dedupeMostSpecificFirst grants chain = map fst (sort_key (\<lambda>e. - snd e) (best_depths chain [] grants))"

fun deepest_grant :: "string list \<Rightarrow> (string \<times> int) option \<Rightarrow> role_grant list \<Rightarrow> (string \<times> int) option" where
  "deepest_grant chain deepest [] = deepest"
| "deepest_grant chain deepest (g # gs) =
     (let d = grant_depth chain g in
      deepest_grant chain
        (case deepest of
           None \<Rightarrow> Some (rg_scope g, d)
         | Some (s, d') \<Rightarrow> if d > d' then Some (rg_scope g, d) else deepest) gs)"

definition deriveDepartment :: "role_grant list \<Rightarrow> string list \<Rightarrow> string option" where
  "deriveDepartment grants chain =
     (case deepest_grant chain None grants of
        None \<Rightarrow> None
      | Some (scope, _) \<Rightarrow> (case split_on (CHR ''.'') scope of _ # l # _ \<Rightarrow> Some l | _ \<Rightarrow> None))"

record principal_view =
  pv_id :: string
  pv_tenantId :: string
  pv_roles :: "string list"
  pv_department :: "string option"

definition resolvePrincipal_execute ::
  "(role_grant list \<Rightarrow> role_grant list) \<Rightarrow> string \<Rightarrow> int \<Rightarrow> string \<Rightarrow> string \<Rightarrow> assignment_table \<Rightarrow> role_table \<Rightarrow>
   principal_view result" where
  "resolvePrincipal_execute plan tenantId now userId scope assignments roles =
     rbind (scopeChain_forScope scope) (\<lambda>chain.
     let grants = findActiveGrants plan now userId chain assignments roles in
     Inr \<lparr>pv_id = userId, pv_tenantId = tenantId, pv_roles = dedupeMostSpecificFirst grants chain,
          pv_department = deriveDepartment grants chain\<rparr>)"

section \<open>The chain is the list of the ancestors\<close>

lemma join_take_segments:
  assumes "0 < n" and "n \<le> length (split_on c s)"
  shows "split_on c (join_with [c] (take n (split_on c s))) = take n (split_on c s)"
  using assms split_on_pieces[of _ c s] by (intro split_join) (auto dest!: in_set_takeD)

lemma scopeChain_ok:
  assumes "scopeChain_forScope scope = Inr chain"
  shows "valid_scope_path scope" and "length chain = length (segments scope)" and
    "\<And>i. i < length chain \<Longrightarrow> segments (chain ! i) = take (i + 1) (segments scope)"
proof -
  have chain: "chain = map (\<lambda>cut. join_with ''.'' (take cut (segments scope))) [1..<length (segments scope) + 1]"
    and "valid_scope_path scope"
    using assms by (auto simp: scopeChain_forScope_def Let_def rbind_Inr_iff segments_def simp del: upt_Suc)
  show "valid_scope_path scope" by fact
  show len: "length chain = length (segments scope)" by (simp add: chain del: upt_Suc)
  show "segments (chain ! i) = take (i + 1) (segments scope)" if "i < length chain" for i
  proof -
    have "chain ! i = join_with ''.'' (take (i + 1) (segments scope))" using that len by (simp add: chain nth_upt del: upt_Suc)
    moreover have "0 < i + 1" "i + 1 \<le> length (segments scope)" using that len by simp_all
    ultimately show ?thesis using join_take_segments[of "i + 1" "CHR ''.''" scope] by (simp add: segments_def)
  qed
qed

lemma scopeChain_set:
  assumes "scopeChain_forScope scope = Inr chain"
  shows "s \<in> set chain \<longleftrightarrow> isAncestorOf s scope"
proof
  assume "s \<in> set chain"
  then obtain i where "i < length chain" "s = chain ! i" by (auto simp: in_set_conv_nth)
  then show "isAncestorOf s scope"
    unfolding isAncestorOf_prefix by (simp add: scopeChain_ok(3)[OF assms] take_is_prefix)
next
  assume "isAncestorOf s scope"
  then have p: "prefix (segments s) (segments scope)" by (simp add: isAncestorOf_prefix)
  let ?i = "length (segments s) - 1"
  have "length (segments s) \<noteq> 0" by simp
  then have i: "?i + 1 = length (segments s)" by linarith
  moreover have "length (segments s) \<le> length (segments scope)" using p by (rule prefix_length_le)
  ultimately have lt: "?i < length chain" using scopeChain_ok(2)[OF assms] by linarith
  have "segments (chain ! ?i) = take (length (segments s)) (segments scope)"
    using scopeChain_ok(3)[OF assms lt] i by simp
  also have "\<dots> = segments s" using p by (auto simp: prefix_def)
  finally show "s \<in> set chain" using lt by (simp add: segments_inj) (metis nth_mem)
qed

text \<open>The depth of a scope of the chain is the number of its segments less one.\<close>

lemma depthOf_nth: "i < length chain \<Longrightarrow> distinct chain \<Longrightarrow> depthOf chain (chain ! i) = Some (int i)"
  by (induction chain arbitrary: i) (auto simp: nth_Cons split: nat.splits)

lemma scopeChain_distinct:
  assumes "scopeChain_forScope scope = Inr chain"
  shows "distinct chain"
proof (unfold distinct_conv_nth, intro allI impI)
  fix i j assume ij: "i < length chain" "j < length chain" "i \<noteq> j"
  have "length (segments (chain ! k)) = k + 1" if "k < length chain" for k
    using that scopeChain_ok(2)[OF assms] by (simp add: scopeChain_ok(3)[OF assms that])
  then show "chain ! i \<noteq> chain ! j" using ij by (metis add_right_cancel)
qed

lemma depthOf_chain:
  assumes c: "scopeChain_forScope scope = Inr chain" and s: "isAncestorOf s scope"
  shows "depthOf chain s = Some (int (depth s) - 1)"
proof -
  have "s \<in> set chain" using s scopeChain_set[OF c] by simp
  then obtain i where i: "i < length chain" "s = chain ! i" by (metis in_set_conv_nth)
  have "depth s = i + 1" using i scopeChain_ok(2,3)[OF c] by (simp add: depth_def)
  then show ?thesis using depthOf_nth[OF i(1) scopeChain_distinct[OF c]] i(2) by simp
qed

section \<open>The effective roles\<close>

lemma map_of_map_set: "map_of (map_set k v m) = (map_of m)(k \<mapsto> v)"
  by (induction k v m rule: map_set.induct) (auto simp: fun_eq_iff)

lemma keys_map_set: "set (map fst (map_set k v m)) = insert k (set (map fst m))"
  by (induction k v m rule: map_set.induct) auto

lemma distinct_map_set: "distinct (map fst m) \<Longrightarrow> distinct (map fst (map_set k v m))"
proof (induction k v m rule: map_set.induct)
  case (2 k v k' v' m)
  then show ?case using keys_map_set[of k v m] by auto
qed simp

text \<open>The depth under which a role is listed is the greatest depth of its grants.\<close>

definition is_best :: "string list \<Rightarrow> role_grant set \<Rightarrow> (string \<rightharpoonup> int) \<Rightarrow> bool" where
  "is_best chain G m \<longleftrightarrow> dom m = rg_roleKey ` G \<and>
     (\<forall>k d. m k = Some d \<longrightarrow> (\<exists>g \<in> G. rg_roleKey g = k \<and> grant_depth chain g = d) \<and>
        (\<forall>g \<in> G. rg_roleKey g = k \<longrightarrow> grant_depth chain g \<le> d))"

lemma is_best_insert:
  assumes b: "is_best chain G m" and d: "d = grant_depth chain g" and k: "k = rg_roleKey g"
  shows "m k = None \<Longrightarrow> is_best chain (insert g G) (m(k \<mapsto> d))"
    and "m k = Some d' \<Longrightarrow> d > d' \<Longrightarrow> is_best chain (insert g G) (m(k \<mapsto> d))"
    and "m k = Some d' \<Longrightarrow> \<not> d > d' \<Longrightarrow> is_best chain (insert g G) m"
proof -
  have dom: "dom m = rg_roleKey ` G" using b by (simp add: is_best_def)
  note b' = b[unfolded is_best_def, THEN conjunct2, rule_format]
  show "is_best chain (insert g G) (m(k \<mapsto> d))" if n: "m k = None"
  proof -
    have "rg_roleKey x \<noteq> k" if "x \<in> G" for x using that dom n by blast
    then show ?thesis using b' dom d k unfolding is_best_def by (auto split: if_splits)
  qed
  show "is_best chain (insert g G) (m(k \<mapsto> d))" if n: "m k = Some d'" and gt: "d > d'"
  proof -
    have "grant_depth chain x \<le> d" if "x \<in> G" "rg_roleKey x = k" for x
      using b'[OF n] gt that by force
    then show ?thesis using b' dom d k unfolding is_best_def by (auto split: if_splits)
  qed
  show "is_best chain (insert g G) m" if n: "m k = Some d'" and le: "\<not> d > d'"
  proof -
    have "k \<in> dom m" using n by blast
    then have "dom m = rg_roleKey ` insert g G" using dom k by auto
    moreover have "(\<exists>x \<in> insert g G. rg_roleKey x = k' \<and> grant_depth chain x = e) \<and>
        (\<forall>x \<in> insert g G. rg_roleKey x = k' \<longrightarrow> grant_depth chain x \<le> e)" if "m k' = Some e" for k' e
      using b'[OF that] n le that d k by auto
    ultimately show ?thesis unfolding is_best_def by blast
  qed
qed

lemma best_depths_spec:
  "is_best chain G (map_of best) \<Longrightarrow> distinct (map fst best) \<Longrightarrow>
   is_best chain (G \<union> set gs) (map_of (best_depths chain best gs)) \<and> distinct (map fst (best_depths chain best gs))"
proof (induction gs arbitrary: G best)
  case Nil
  then show ?case by simp
next
  case (Cons g gs)
  have u: "G \<union> set (g # gs) = insert g G \<union> set gs" by auto
  let ?best = "case map_of best (rg_roleKey g) of
      None \<Rightarrow> map_set (rg_roleKey g) (grant_depth chain g) best
    | Some current \<Rightarrow>
        if grant_depth chain g > current then map_set (rg_roleKey g) (grant_depth chain g) best else best"
  have "is_best chain (insert g G) (map_of ?best)"
  proof (cases "map_of best (rg_roleKey g)")
    case None
    then show ?thesis
      using is_best_insert(1)[OF Cons.prems(1) refl refl None] by (simp only: option.case map_of_map_set)
  next
    case (Some d)
    then show ?thesis
      using is_best_insert(2,3)[OF Cons.prems(1) refl refl Some]
      by (cases "grant_depth chain g > d") (simp_all only: option.case map_of_map_set if_True if_False simp_thms)
  qed
  moreover have "distinct (map fst ?best)"
    using Cons.prems(2) distinct_map_set by (auto split: option.splits)
  ultimately show ?case
    unfolding u best_depths.simps Let_def by (rule Cons.IH)
qed

lemma dedupe_spec:
  defines "best \<equiv> \<lambda>chain grants. map_of (best_depths chain [] grants)"
  shows "is_best chain (set grants) (best chain grants)"
    and "distinct (dedupeMostSpecificFirst grants chain)"
    and "set (dedupeMostSpecificFirst grants chain) = rg_roleKey ` set grants"
    and "sorted_wrt (\<lambda>k l. the (best chain grants k) \<ge> the (best chain grants l)) (dedupeMostSpecificFirst grants chain)"
proof -
  have e: "is_best chain {} (map_of [])" by (simp add: is_best_def)
  have b: "is_best chain (set grants) (best chain grants)" and d: "distinct (map fst (best_depths chain [] grants))"
    using best_depths_spec[OF e, of grants] by (simp_all add: best_def)
  show "is_best chain (set grants) (best chain grants)" by (rule b)
  have ms: "mset (map fst (sort_key (\<lambda>e. - snd e) (best_depths chain [] grants))) =
      mset (map fst (best_depths chain [] grants))" by simp
  show "distinct (dedupeMostSpecificFirst grants chain)"
    unfolding dedupeMostSpecificFirst_def using ms d by (metis mset_eq_imp_distinct_iff)
  have "set (map fst (best_depths chain [] grants)) = dom (best chain grants)"
    by (simp add: best_def dom_map_of_conv_image_fst)
  then show "set (dedupeMostSpecificFirst grants chain) = rg_roleKey ` set grants"
    using b by (simp add: dedupeMostSpecificFirst_def is_best_def)
  have v: "best chain grants (fst x) = Some (snd x)" if "x \<in> set (best_depths chain [] grants)" for x
    using that d by (simp add: best_def)
  have "sorted_wrt (\<lambda>x y. snd x \<ge> snd y) (sort_key (\<lambda>e. - snd e) (best_depths chain [] grants))"
    using sorted_sort_key[of "\<lambda>e. - snd e" "best_depths chain [] grants"] by (simp add: sorted_map)
  then show "sorted_wrt (\<lambda>k l. the (best chain grants k) \<ge> the (best chain grants l)) (dedupeMostSpecificFirst grants chain)"
    unfolding dedupeMostSpecificFirst_def sorted_wrt_map
    by (rule sorted_wrt_mono_rel[rotated]) (simp add: v)
qed

text \<open>
  The specification: who holds which role at a scope, and how specific the most specific
  grant of it is.
\<close>

definition granting :: "int \<Rightarrow> string \<Rightarrow> string \<Rightarrow> role_assignment \<Rightarrow> bool" where
  "granting now userId scope a \<longleftrightarrow> ra_userId a = userId \<and> ra_status a = AssignmentActive \<and>
     (case ra_validUntil a of None \<Rightarrow> True | Some t \<Rightarrow> now < t) \<and> isAncestorOf (ra_scope a) scope"

definition grants_of :: "int \<Rightarrow> string \<Rightarrow> string \<Rightarrow> assignment_table \<Rightarrow> role_table \<Rightarrow> role_grant set" where
  "grants_of now userId scope assignments roles =
     {\<lparr>rg_roleKey = ro_key r, rg_scope = ra_scope a\<rparr> | a r. a \<in> set assignments \<and> r \<in> set roles \<and>
        ro_id r = ra_roleId a \<and> granting now userId scope a}"

definition held_roles :: "int \<Rightarrow> string \<Rightarrow> string \<Rightarrow> assignment_table \<Rightarrow> role_table \<Rightarrow> string set" where
  "held_roles now userId scope assignments roles = rg_roleKey ` grants_of now userId scope assignments roles"

definition specificity :: "role_grant set \<Rightarrow> string \<Rightarrow> nat" where
  "specificity G k = Max {depth (rg_scope g) | g. g \<in> G \<and> rg_roleKey g = k}"

lemma findActiveGrants_set:
  assumes "scopeChain_forScope scope = Inr chain" and "\<And>xs. mset (plan xs) = mset xs"
  shows "set (findActiveGrants plan now userId chain assignments roles) = grants_of now userId scope assignments roles"
proof -
  have "chain \<noteq> []" using scopeChain_ok(2)[OF assms(1)] by auto
  moreover have "set (plan xs) = set xs" for xs using assms(2) by (metis set_mset_mset)
  ultimately show ?thesis
    using scopeChain_set[OF assms(1)]
    by (auto simp: findActiveGrants_def grants_of_def granting_def split: if_splits)
qed

lemma grants_finite: "finite (grants_of now userId scope assignments roles)"
proof -
  have "grants_of now userId scope assignments roles \<subseteq>
      (\<lambda>(a, r). \<lparr>rg_roleKey = ro_key r, rg_scope = ra_scope a\<rparr>) ` (set assignments \<times> set roles)"
    by (auto simp: grants_of_def)
  then show ?thesis by (rule finite_subset) simp
qed

lemma grant_depth_chain:
  assumes "scopeChain_forScope scope = Inr chain" and "g \<in> grants_of now userId scope assignments roles"
  shows "grant_depth chain g = int (depth (rg_scope g)) - 1"
  using assms(2) depthOf_chain[OF assms(1)] by (auto simp: grant_depth_def grants_of_def granting_def)

lemma best_is_specificity:
  assumes c: "scopeChain_forScope scope = Inr chain"
    and b: "is_best chain (grants_of now userId scope assignments roles) m"
    and k: "k \<in> held_roles now userId scope assignments roles"
  shows "the (m k) = int (specificity (grants_of now userId scope assignments roles) k) - 1"
proof -
  let ?G = "grants_of now userId scope assignments roles"
  let ?D = "{depth (rg_scope g) | g. g \<in> ?G \<and> rg_roleKey g = k}"
  obtain d where d: "m k = Some d" using b k unfolding is_best_def held_roles_def by blast
  obtain g where g: "g \<in> ?G" "rg_roleKey g = k" "grant_depth chain g = d"
    and le: "\<And>x. x \<in> ?G \<Longrightarrow> rg_roleKey x = k \<Longrightarrow> grant_depth chain x \<le> d"
    using b d unfolding is_best_def by blast
  have "Max ?D = depth (rg_scope g)"
  proof (rule Max_eqI)
    show "finite ?D" using grants_finite[of now userId scope assignments roles] by simp
    show "depth (rg_scope g) \<in> ?D" using g by blast
    fix y assume "y \<in> ?D"
    then obtain x where "x \<in> ?G" "rg_roleKey x = k" "y = depth (rg_scope x)" by blast
    then show "y \<le> depth (rg_scope g)"
      using le[of x] g(3) grant_depth_chain[OF c \<open>x \<in> ?G\<close>] grant_depth_chain[OF c g(1)] by simp
  qed
  then show ?thesis using d g grant_depth_chain[OF c g(1)] by (simp add: specificity_def)
qed

text \<open>The department is the second segment of the scope, when some grant is below the root.\<close>

lemma deepest_grant_spec:
  "(\<forall>s d. deepest = Some (s, d) \<longrightarrow> (\<exists>g \<in> G. rg_scope g = s \<and> grant_depth chain g = d) \<and>
      (\<forall>g \<in> G. grant_depth chain g \<le> d)) \<Longrightarrow> (deepest = None \<longleftrightarrow> G = {}) \<Longrightarrow>
   (\<forall>s d. deepest_grant chain deepest gs = Some (s, d) \<longrightarrow>
      (\<exists>g \<in> G \<union> set gs. rg_scope g = s \<and> grant_depth chain g = d) \<and>
      (\<forall>g \<in> G \<union> set gs. grant_depth chain g \<le> d)) \<and>
   (deepest_grant chain deepest gs = None \<longleftrightarrow> G \<union> set gs = {})"
proof (induction gs arbitrary: deepest G)
  case Nil
  then show ?case by simp
next
  case (Cons g gs)
  let ?d = "grant_depth chain g"
  let ?deepest = "case deepest of None \<Rightarrow> Some (rg_scope g, ?d)
     | Some (s, d') \<Rightarrow> if ?d > d' then Some (rg_scope g, ?d) else deepest"
  have u: "G \<union> set (g # gs) = insert g G \<union> set gs" by auto
  have 1: "\<forall>s d. ?deepest = Some (s, d) \<longrightarrow> (\<exists>x \<in> insert g G. rg_scope x = s \<and> grant_depth chain x = d) \<and>
      (\<forall>x \<in> insert g G. grant_depth chain x \<le> d)"
  proof (cases deepest)
    case None
    then show ?thesis using Cons.prems(2) by simp
  next
    case (Some sd)
    obtain s' d' where sd: "sd = (s', d')" by (cases sd)
    have x: "\<exists>x \<in> G. rg_scope x = s' \<and> grant_depth chain x = d'" "\<forall>x \<in> G. grant_depth chain x \<le> d'"
      using Cons.prems(1) Some sd by blast+
    show ?thesis
    proof (cases "?d > d'")
      case True
      then show ?thesis using Some sd x by auto
    next
      case False
      then show ?thesis using Some sd x by auto
    qed
  qed
  have 2: "?deepest = None \<longleftrightarrow> insert g G = {}" by (auto split: option.splits)
  show ?case unfolding u deepest_grant.simps Let_def by (rule Cons.IH[OF 1 2])
qed

lemma department_spec:
  assumes c: "scopeChain_forScope scope = Inr chain"
    and G: "set grants = grants_of now userId scope assignments roles"
  shows "deriveDepartment grants chain =
    (if \<exists>g \<in> set grants. 2 \<le> depth (rg_scope g) then Some (segments scope ! 1) else None)"
proof (cases "deepest_grant chain None grants")
  case None
  then have "set grants = {}" using deepest_grant_spec[of None "{}" chain grants] by simp
  then show ?thesis using None by (simp add: deriveDepartment_def)
next
  case (Some sd)
  obtain s d where sd: "sd = (s, d)" by (cases sd)
  obtain g where g: "g \<in> set grants" "rg_scope g = s" "grant_depth chain g = d"
    and le: "\<forall>x \<in> set grants. grant_depth chain x \<le> d"
    using deepest_grant_spec[of None "{}" chain grants] Some sd by auto
  have depths: "grant_depth chain x = int (depth (rg_scope x)) - 1" if "x \<in> set grants" for x
    using that grant_depth_chain[OF c] G by blast
  have max: "depth (rg_scope x) \<le> depth s" if "x \<in> set grants" for x
    using le depths[OF that] depths[OF g(1)] g that by fastforce
  then have ex: "(\<exists>x \<in> set grants. 2 \<le> depth (rg_scope x)) \<longleftrightarrow> 2 \<le> depth s"
    using g by (meson order_trans)
  have "isAncestorOf s scope" using g G by (auto simp: grants_of_def granting_def)
  then have p: "prefix (segments s) (segments scope)" by (simp add: isAncestorOf_prefix)
  have "deriveDepartment grants chain = (case segments s of _ # l # _ \<Rightarrow> Some l | _ \<Rightarrow> None)"
    by (simp add: deriveDepartment_def Some sd segments_def)
  also have "\<dots> = (if 2 \<le> depth s then Some (segments scope ! 1) else None)"
    using p by (auto simp: depth_def prefix_def split: list.splits)
  finally show ?thesis by (simp only: ex)
qed

lemma resolve_roles:
  assumes "resolvePrincipal_execute plan tenantId now userId scope assignments roles = Inr v"
    and "\<And>xs. mset (plan xs) = mset xs"
  shows "set (pv_roles v) = held_roles now userId scope assignments roles"
  using assms findActiveGrants_set[where plan = plan, OF _ assms(2)] dedupe_spec(3)
  by (auto simp: resolvePrincipal_execute_def Let_def rbind_Inr_iff held_roles_def)

text \<open>
  C17. The resolution of a principal refines the specification: the roles it returns are
  exactly the keys of the roles the user holds through an active, unexpired assignment at the
  scope or an ancestor of it, each once, ordered by the specificity of the most specific
  grant, in whatever order the database yields the grants; the department is the second
  segment of the scope when some grant is below the root.
\<close>

theorem effective_roles_exact:
  assumes "resolvePrincipal_execute plan tenantId now userId scope assignments roles = Inr v"
    and "\<And>xs. mset (plan xs) = mset xs"
  shows "set (pv_roles v) = held_roles now userId scope assignments roles \<and> distinct (pv_roles v) \<and>
     sorted_wrt (\<lambda>k l. specificity (grants_of now userId scope assignments roles) k \<ge>
        specificity (grants_of now userId scope assignments roles) l) (pv_roles v) \<and>
     pv_department v =
       (if \<exists>g \<in> grants_of now userId scope assignments roles. 2 \<le> depth (rg_scope g)
        then Some (segments scope ! 1) else None) \<and>
     pv_id v = userId \<and> pv_tenantId v = tenantId"
proof -
  let ?G = "grants_of now userId scope assignments roles"
  obtain chain where c: "scopeChain_forScope scope = Inr chain"
    and v: "v = \<lparr>pv_id = userId, pv_tenantId = tenantId,
       pv_roles = dedupeMostSpecificFirst (findActiveGrants plan now userId chain assignments roles) chain,
       pv_department = deriveDepartment (findActiveGrants plan now userId chain assignments roles) chain\<rparr>"
    using assms(1) by (auto simp: resolvePrincipal_execute_def Let_def rbind_Inr_iff)
  note G = findActiveGrants_set[OF c, where plan = plan, OF assms(2)]
  note spec = dedupe_spec[where chain = chain and
      grants = "findActiveGrants plan now userId chain assignments roles", unfolded G]
  have roles: "set (pv_roles v) = held_roles now userId scope assignments roles"
    using spec(3) by (simp add: v held_roles_def)
  have "sorted_wrt (\<lambda>k l. specificity ?G k \<ge> specificity ?G l) (pv_roles v)"
  proof (rule sorted_wrt_mono_rel)
    show "sorted_wrt (\<lambda>k l. the (map_of (best_depths chain [] (findActiveGrants plan now userId chain assignments roles)) k) \<ge>
        the (map_of (best_depths chain [] (findActiveGrants plan now userId chain assignments roles)) l)) (pv_roles v)"
      using spec(4) by (simp add: v)
  qed (use roles best_is_specificity[OF c spec(1)] in simp)
  then show ?thesis
    using roles spec(2) department_spec[OF c G] by (simp add: v G)
qed

end
