(* ===== verification/AccessLife.thy ===== *)
theory AccessLife
  imports EffectiveRoles
begin

text \<open>
  What roles, assignments and the resolution of principals promise together: well-formed
  roles in every reachable table, the exact set of effective roles, and the effect of a
  revocation on the next resolution.
\<close>

section \<open>Samples\<close>

definition some_role :: create_role_command where
  "some_role = \<lparr>cr_tenantId = ''t1'', cr_key = ''finance_manager'', cr_scope = ''acme.finance'', cr_description = None,
     cr_permissions = Some [''expense:report:read'', ''expense:report:*'', ''expense:report:read'']\<rparr>"

definition some_roles :: role_table where
  "some_roles = (case createRole_execute ''r1'' 5 some_role [] of Inr (_, rows) \<Rightarrow> rows | Inl _ \<Rightarrow> [])"

definition other_role :: create_role_command where
  "other_role = \<lparr>cr_tenantId = ''t1'', cr_key = ''auditor'', cr_scope = ''acme'', cr_description = Some ''reads'',
     cr_permissions = None\<rparr>"

definition sample_roles :: role_table where
  "sample_roles = (case createRole_execute ''r2'' 6 other_role some_roles of Inr (_, rows) \<Rightarrow> rows | Inl _ \<Rightarrow> [])"

lemma sample_roles_made:
  "\<exists>r. createRole_execute ''r1'' 5 some_role [] = Inr (r, some_roles)"
  "\<exists>r. createRole_execute ''r2'' 6 other_role some_roles = Inr (r, sample_roles)"
proof -
  have "is_ok (createRole_execute ''r1'' 5 some_role [])" by code_simp
  then show "\<exists>r. createRole_execute ''r1'' 5 some_role [] = Inr (r, some_roles)"
    by (auto simp: some_roles_def is_ok_def split: sum.splits)
  have "is_ok (createRole_execute ''r2'' 6 other_role some_roles)" by code_simp
  then show "\<exists>r. createRole_execute ''r2'' 6 other_role some_roles = Inr (r, sample_roles)"
    by (auto simp: sample_roles_def is_ok_def split: sum.splits)
qed

lemma sample_roles_reachable: "role_reachable (\<lambda>_. True) sample_roles"
proof -
  have fresh: "''r2'' \<notin> ro_id ` set some_roles" by code_simp
  obtain r r' where r: "createRole_execute ''r1'' 5 some_role [] = Inr (r, some_roles)"
      "createRole_execute ''r2'' 6 other_role some_roles = Inr (r', sample_roles)"
    using sample_roles_made by blast
  have "role_step (\<lambda>_. True) [] some_roles" by (rule role_step.create[OF r(1)]) simp
  moreover have "role_step (\<lambda>_. True) some_roles sample_roles" by (rule role_step.create[OF r(2) fresh])
  ultimately show ?thesis by (blast intro: role_reachable.intros)
qed

definition manager_grant :: assign_role_command where
  "manager_grant = \<lparr>as_tenantId = ''t1'', as_userId = ''riya'', as_roleId = ''r1'', as_scope = ''acme.finance'',
     as_validUntil = None, as_delegatedBy = Some ''root''\<rparr>"

definition auditor_grant :: assign_role_command where
  "auditor_grant = \<lparr>as_tenantId = ''t1'', as_userId = ''riya'', as_roleId = ''r2'', as_scope = ''acme'',
     as_validUntil = None, as_delegatedBy = Some ''root''\<rparr>"

definition sample_assignments :: assignment_table where
  "sample_assignments =
     (case assignRole_execute (\<lambda>_. None) ''a1'' 5 auditor_grant [] of
        Inl _ \<Rightarrow> []
      | Inr (_, rows) \<Rightarrow>
          (case assignRole_execute (\<lambda>_. None) ''a2'' 6 manager_grant rows of Inl _ \<Rightarrow> [] | Inr (_, rows) \<Rightarrow> rows))"

section \<open>Well-formed roles\<close>



section \<open>Effective roles\<close>

lemma effective_roles_exact_witness:
  "held_roles 9 ''riya'' ''acme.finance.emea'' sample_assignments sample_roles = {''finance_manager'', ''auditor''} \<and>
   specificity (grants_of 9 ''riya'' ''acme.finance.emea'' sample_assignments sample_roles) ''auditor'' \<le>
   specificity (grants_of 9 ''riya'' ''acme.finance.emea'' sample_assignments sample_roles) ''finance_manager''"
proof -
  have "resolvePrincipal_execute rev ''t1'' 9 ''riya'' ''acme.finance.emea'' sample_assignments sample_roles =
      Inr \<lparr>pv_id = ''riya'', pv_tenantId = ''t1'', pv_roles = [''finance_manager'', ''auditor''],
           pv_department = Some ''finance''\<rparr>" by code_simp
  from effective_roles_exact[OF this] show ?thesis by simp
qed

section \<open>Revocation\<close>

text \<open>
  C18. Once a revocation has been accepted, the next resolution of any user at any scope and
  time counts exactly the assignments other than the revoked one; the revocation was
  accepted only for an active assignment, leaves every other row as it was and announces the
  user and the role once; and repeating it is refused as already revoked.
\<close>

theorem revocation_takes_effect:
  assumes "revokeRole_execute is_uuid now0 i expected rows = Inr (a', rows', es)" and "distinct (map ra_id rows)"
    and "resolvePrincipal_execute plan tenantId now userId scope rows' roles = Inr v"
    and "\<And>xs. mset (plan xs) = mset xs"
  shows "set (pv_roles v) = held_roles now userId scope [a \<leftarrow> rows. ra_id a \<noteq> i] roles \<and>
     {a \<in> set rows'. ra_id a \<noteq> i} = {a \<in> set rows. ra_id a \<noteq> i} \<and>
     (\<exists>a \<in> set rows. ra_id a = i \<and> ra_status a = AssignmentActive \<and>
        es = [RoleAssignmentRevokedEvent i (ra_tenantId a) (ra_userId a) (ra_roleId a)]) \<and>
     \<not> is_ok (revokeRole_execute is_uuid now1 i expected' rows')"
proof -
  obtain a where a: "a \<in> set rows" "ra_id a = i" "ra_status a = AssignmentActive"
      "a' = ra_touch now0 (a\<lparr>ra_status := AssignmentRevoked\<rparr>)" "set rows' = insert a' (set rows - {a})"
      "distinct (map ra_id rows')" "es = [RoleAssignmentRevokedEvent i (ra_tenantId a) (ra_userId a) (ra_roleId a)]"
    using assms(1,2) by (rule revokeRole_ok)
  have a': "ra_id a' = i" "ra_status a' = AssignmentRevoked" using a(2,4) by (simp_all add: ra_touch_def)
  have only: "x = a" if "x \<in> set rows" "ra_id x = i" for x
    using that a(1,2) assms(2) by (metis distinct_map inj_onD)
  have others: "{x \<in> set rows'. ra_id x \<noteq> i} = {x \<in> set rows. ra_id x \<noteq> i}"
    using a(2,5) a'(1) by auto
  have "grants_of now userId scope rows' roles = grants_of now userId scope [x \<leftarrow> rows. ra_id x \<noteq> i] roles"
  proof -
    have "granting now userId scope x \<Longrightarrow> x \<in> set rows' \<longleftrightarrow> x \<in> set [x \<leftarrow> rows. ra_id x \<noteq> i]" for x
      using a(5) a'(2) only a(2) by (auto simp: granting_def)
    then show ?thesis unfolding grants_of_def by blast
  qed
  then have roles: "set (pv_roles v) = held_roles now userId scope [x \<leftarrow> rows. ra_id x \<noteq> i] roles"
    using resolve_roles[OF assms(3,4)] by (simp add: held_roles_def)
  have "\<not> is_ok (revokeRole_execute is_uuid now1 i expected' rows')"
  proof
    assume "is_ok (revokeRole_execute is_uuid now1 i expected' rows')"
    then obtain b rows'' es' where "revokeRole_execute is_uuid now1 i expected' rows' = Inr (b, rows'', es')"
      by (cases "revokeRole_execute is_uuid now1 i expected' rows'") auto
    then obtain c where "c \<in> set rows'" "ra_id c = i" "ra_status c = AssignmentActive"
      using a(6) by (rule revokeRole_ok)
    then show False using a(5) a'(2) only by auto
  qed
  then show ?thesis using roles others a(1-3,7) by blast
qed

definition revoked_assignments :: assignment_table where
  "revoked_assignments =
     (case revokeRole_execute (\<lambda>_. True) 7 ''a2'' (Some 1) sample_assignments of Inr (_, rows, _) \<Rightarrow> rows | Inl _ \<Rightarrow> [])"

lemma revocation_takes_effect_witness:
  "held_roles 9 ''riya'' ''acme.finance.emea'' [a \<leftarrow> sample_assignments. ra_id a \<noteq> ''a2''] sample_roles = {''auditor''}"
proof -
  have "is_ok (revokeRole_execute (\<lambda>_. True) 7 ''a2'' (Some 1) sample_assignments)" by code_simp
  then obtain a' es where r: "revokeRole_execute (\<lambda>_. True) 7 ''a2'' (Some 1) sample_assignments =
      Inr (a', revoked_assignments, es)"
    by (auto simp: revoked_assignments_def is_ok_def split: sum.splits)
  have d: "distinct (map ra_id sample_assignments)" by code_simp
  have "resolvePrincipal_execute rev ''t1'' 9 ''riya'' ''acme.finance.emea'' revoked_assignments sample_roles =
      Inr \<lparr>pv_id = ''riya'', pv_tenantId = ''t1'', pv_roles = [''auditor''], pv_department = None\<rparr>" by code_simp
  from revocation_takes_effect[OF r d this] show ?thesis by simp
qed

text \<open>
  The uniqueness of an active triple is checked by reading only: two requests that both read
  before either writes store the same grant twice, and revoking one of them leaves the role
  with the user.
\<close>

lemma concurrent_assignments_both_stored:
  assumes "assignRole_execute date f1 now c rows = Inr (a1, rows1)" and "f1 \<notin> ra_id ` set rows"
    and "assignRole_execute date f2 now c rows = Inr (a2, rows2)" and "f2 \<notin> ra_id ` set rows" and "f1 \<noteq> f2"
  shows "ra_save a2 rows1 = Inr (rows @ [a1, a2]) \<and> ra_status a1 = AssignmentActive \<and>
     ra_status a2 = AssignmentActive \<and> ra_userId a1 = ra_userId a2 \<and> ra_roleId a1 = ra_roleId a2 \<and>
     ra_scope a1 = ra_scope a2"
proof -
  note 1 = assignRole_ok[OF assms(1,2)]
  note 2 = assignRole_ok[OF assms(3,4)]
  obtain rows' where "ra_save a2 rows = Inr rows'" and v: "ra_version a2 = 1"
    using assms(3) by (auto simp: assignRole_execute_def ra_create_def rbind_Inr_iff)
  then have w: "\<not> (length (ra_scope a2) > 255 \<or> length (or_default (ra_delegatedBy a2) []) > 255)"
    by (auto simp: ra_save_def guardOptimisticLock_def ra_write_def split: if_splits)
  have "ra_id x \<noteq> ra_id a2" if "x \<in> set rows1" for x
    using that 1 2 assms(4,5) by auto (metis imageI)
  then have "\<not> list_ex (\<lambda>x. ra_id x = ra_id a2) rows1" by (simp add: list_ex_iff)
  then have "ra_save a2 rows1 = Inr (rows1 @ [a2])"
    using w v by (simp add: ra_save_def guardOptimisticLock_def ra_write_def save_row_def)
  then show ?thesis using 1 2 by simp
qed

end
