(* ===== verification/PipClient.thy ===== *)
theory PipClient
  imports Kernel
begin

text \<open>
  The read-through client of the policy information point (packages/authz/src/pip): the
  bounded cache with a time to live (ttl-lru-cache.ts) and the client with its single-flight
  table (http-pip.client.ts).  The client is asynchronous: a call that misses starts a
  fetch, which completes in a later step, and calls and completions interleave freely.  The
  value of a principal is of any type; the clock is the time of a step.
\<close>

section \<open>The cache\<close>

record 'v cache_entry =
  en_key :: string
  en_value :: 'v
  en_expiresAt :: int

text \<open>The entries in insertion order: the first one is the least recently used.\<close>

type_synonym 'v cache = "'v cache_entry list"

definition cache_find :: "string \<Rightarrow> 'v cache \<Rightarrow> 'v cache_entry option" where
  "cache_find k c = find (\<lambda>e. en_key e = k) c"

definition cache_delete :: "string \<Rightarrow> 'v cache \<Rightarrow> 'v cache" where
  "cache_delete k c = [e \<leftarrow> c. en_key e \<noteq> k]"

definition cache_get :: "int \<Rightarrow> string \<Rightarrow> 'v cache \<Rightarrow> 'v option \<times> 'v cache" where
  "cache_get now k c =
     (case cache_find k c of
        None \<Rightarrow> (None, c)
      | Some e \<Rightarrow>
          if en_expiresAt e \<le> now then (None, cache_delete k c)
          else (Some (en_value e), cache_delete k c @ [e]))"

definition cache_set :: "nat \<Rightarrow> int \<Rightarrow> int \<Rightarrow> string \<Rightarrow> 'v \<Rightarrow> 'v cache \<Rightarrow> 'v cache" where
  "cache_set maxEntries ttl now k v c =
     (let c = (if cache_find k c \<noteq> None then cache_delete k c
               else if length c \<ge> maxEntries
               then (case c of [] \<Rightarrow> [] | lru # _ \<Rightarrow> cache_delete (en_key lru) c)
               else c)
      in c @ [\<lparr>en_key = k, en_value = v, en_expiresAt = now + ttl\<rparr>])"

definition cache_clear :: "'v cache \<Rightarrow> 'v cache" where
  "cache_clear c = []"

section \<open>The client\<close>

record pip_options =
  pio_maxEntries :: nat
  pio_ttl :: int
  pio_timeout :: int

definition newPipOptions :: "nat option \<Rightarrow> int option \<Rightarrow> int option \<Rightarrow> pip_options" where
  "newPipOptions maxEntries ttl timeout =
     \<lparr>pio_maxEntries = or_default maxEntries 10000, pio_ttl = or_default ttl 5000,
      pio_timeout = or_default timeout 2000\<rparr>"

record pip_query =
  pk_userId :: string
  pk_tenantId :: string
  pk_scope :: string

definition cacheKey :: "pip_query \<Rightarrow> string" where
  "cacheKey q = pk_tenantId q @ ''::'' @ pk_userId q @ ''::'' @ pk_scope q"

text \<open>A fetch on its way: its number, the query, and when it was started.\<close>

record pip_fetch =
  pf_number :: nat
  pf_query :: pip_query
  pf_started :: int

record 'v pip_state =
  pp_cache :: "'v cache"
  pp_inFlight :: "string \<rightharpoonup> nat"
  pp_fetches :: "pip_fetch list"
  pp_next :: nat

datatype 'v pip_answer = PipHit 'v | PipJoin nat | PipFetch nat

definition start_fetch :: "int \<Rightarrow> bool \<Rightarrow> pip_query \<Rightarrow> 'v pip_state \<Rightarrow> 'v pip_answer \<times> 'v pip_state" where
  "start_fetch now forceFresh q st =
     (let n = pp_next st in
      (PipFetch n,
       st\<lparr>pp_fetches := pp_fetches st @ [\<lparr>pf_number = n, pf_query = q, pf_started = now\<rparr>],
          pp_inFlight := (if forceFresh then pp_inFlight st else (pp_inFlight st)(cacheKey q \<mapsto> n)),
          pp_next := n + 1\<rparr>))"

definition pip_resolve :: "int \<Rightarrow> bool \<Rightarrow> pip_query \<Rightarrow> 'v pip_state \<Rightarrow> 'v pip_answer \<times> 'v pip_state" where
  "pip_resolve now forceFresh q st =
     (if forceFresh then start_fetch now True q st
      else
        (case cache_get now (cacheKey q) (pp_cache st) of
           (Some v, c) \<Rightarrow> (PipHit v, st\<lparr>pp_cache := c\<rparr>)
         | (None, c) \<Rightarrow>
             (case pp_inFlight st (cacheKey q) of
                Some n \<Rightarrow> (PipJoin n, st\<lparr>pp_cache := c\<rparr>)
              | None \<Rightarrow> start_fetch now False q (st\<lparr>pp_cache := c\<rparr>))))"

datatype 'v pip_outcome = PipOk 'v | PipStatus nat | PipTimeout | PipNetworkError string

text \<open>The completion of a fetch: what its promise yields, and the cleaning up by the call that started it.\<close>

definition fetch_result :: "pip_options \<Rightarrow> pip_query \<Rightarrow> 'v pip_outcome \<Rightarrow> 'v result" where
  "fetch_result opts q out =
     (let who = pk_userId q @ ''@'' @ pk_tenantId q @ '' ('' @ pk_scope q @ '')'' in
      case out of
        PipOk v \<Rightarrow> Inr v
      | PipStatus n \<Rightarrow> Inl (Crash (''PIP resolve failed: '' @ nat_str n @ '' for '' @ who))
      | PipTimeout \<Rightarrow>
          Inl (Crash (''PIP resolve timed out after '' @ int_str (pio_timeout opts) @ ''ms for '' @ who))
      | PipNetworkError m \<Rightarrow> Inl (Crash m))"

definition pip_complete ::
  "pip_options \<Rightarrow> int \<Rightarrow> pip_fetch \<Rightarrow> 'v pip_outcome \<Rightarrow> 'v pip_state \<Rightarrow> 'v result \<times> 'v pip_state" where
  "pip_complete opts now f out st =
     (let r = fetch_result opts (pf_query f) out;
          k = cacheKey (pf_query f);
          c = (case r of
                 Inl _ \<Rightarrow> pp_cache st
               | Inr v \<Rightarrow> cache_set (pio_maxEntries opts) (pio_ttl opts) now k v (pp_cache st))
      in (r, st\<lparr>pp_cache := c, pp_inFlight := (pp_inFlight st)(k := None),
                pp_fetches := [g \<leftarrow> pp_fetches st. pf_number g \<noteq> pf_number f]\<rparr>))"

definition pip_invalidate :: "pip_query \<Rightarrow> 'v pip_state \<Rightarrow> 'v pip_state" where
  "pip_invalidate q st = st\<lparr>pp_cache := cache_delete (cacheKey q) (pp_cache st)\<rparr>"

section \<open>The cache refines a finite map with expiry\<close>

definition cache_lookup :: "int \<Rightarrow> 'v cache \<Rightarrow> string \<rightharpoonup> 'v" where
  "cache_lookup now c k =
     (case cache_find k c of None \<Rightarrow> None | Some e \<Rightarrow> if en_expiresAt e \<le> now then None else Some (en_value e))"

definition cache_ok :: "nat \<Rightarrow> 'v cache \<Rightarrow> bool" where
  "cache_ok maxEntries c \<longleftrightarrow> distinct (map en_key c) \<and> length c \<le> max maxEntries 1"

lemma cache_find_delete: "cache_find k (cache_delete k' c) = (if k = k' then None else cache_find k c)"
  unfolding cache_find_def cache_delete_def by (induction c) auto

lemma cache_find_append:
  "cache_find k (c @ d) = (case cache_find k c of Some e \<Rightarrow> Some e | None \<Rightarrow> cache_find k d)"
  unfolding cache_find_def by (induction c) auto

lemma cache_find_single: "cache_find k [e] = (if en_key e = k then Some e else None)"
  by (simp add: cache_find_def)

lemma cache_find_key: "cache_find k c = Some e \<Longrightarrow> en_key e = k \<and> e \<in> set c"
  unfolding cache_find_def by (drule find_SomeD) simp

lemma set_cache_delete: "set (cache_delete k c) = {e \<in> set c. en_key e \<noteq> k}"
  by (auto simp: cache_delete_def)

lemma length_cache_delete:
  assumes "e \<in> set c" and "en_key e = k"
  shows "length (cache_delete k c) < length c"
  unfolding cache_delete_def using assms by (intro length_filter_less) auto

lemma cache_delete_distinct: "distinct (map en_key c) \<Longrightarrow> distinct (map en_key (cache_delete k c))"
  by (simp add: cache_delete_def distinct_map_filter)

lemma cache_delete_ok: "cache_ok n c \<Longrightarrow> cache_ok n (cache_delete k c)"
  using cache_delete_distinct[of c k] length_filter_le[of "\<lambda>e. en_key e \<noteq> k" c]
  unfolding cache_ok_def cache_delete_def by (meson order_trans)

lemma cache_get_lookup:
  "fst (cache_get now k c) = cache_lookup now c k"
  "cache_lookup now (snd (cache_get now k c)) = cache_lookup now c"
  by (auto simp: cache_get_def cache_lookup_def fun_eq_iff cache_find_delete cache_find_append cache_find_single
      split: option.splits dest: cache_find_key)

lemma cache_get_set: "set (snd (cache_get now k c)) \<subseteq> set c"
  by (auto simp: cache_get_def set_cache_delete split: option.splits dest: cache_find_key)

lemma cache_get_ok: "cache_ok n c \<Longrightarrow> cache_ok n (snd (cache_get now k c))"
proof (cases "cache_find k c")
  case None
  assume "cache_ok n c"
  then show ?thesis using None by (simp add: cache_get_def)
next
  case (Some e)
  assume ok: "cache_ok n c"
  note e = cache_find_key[OF Some]
  have "cache_ok n (cache_delete k c @ [e])"
    using cache_delete_distinct[of c k] length_cache_delete[of e c k] e ok
    by (auto simp: cache_ok_def set_cache_delete)
  then show ?thesis using Some cache_delete_ok[OF ok] by (simp add: cache_get_def)
qed

lemma cache_set_ok: "cache_ok n c \<Longrightarrow> cache_ok n (cache_set n ttl now k v c)"
proof -
  assume ok: "cache_ok n c"
  let ?e = "\<lparr>en_key = k, en_value = v, en_expiresAt = now + ttl\<rparr>"
  consider (has) e where "cache_find k c = Some e" | (full) "cache_find k c = None" "length c \<ge> n"
    | (room) "cache_find k c = None" "length c < n" by fastforce
  then show ?thesis
  proof cases
    case has
    then show ?thesis
      using cache_delete_distinct[of c k] length_cache_delete[of e c k] cache_find_key[OF has] ok
      by (auto simp: cache_set_def cache_ok_def set_cache_delete)
  next
    case full
    have k: "k \<notin> en_key ` set c" using full(1) by (auto simp: cache_find_def find_None_iff)
    show ?thesis
    proof (cases c)
      case Nil
      then show ?thesis using full by (simp add: cache_set_def cache_ok_def)
    next
      case (Cons l ls)
      then have "length (cache_delete (en_key l) c) < length c" by (intro length_cache_delete[of l]) simp_all
      then show ?thesis
        using full k Cons ok cache_delete_distinct[of c "en_key l"] set_cache_delete[of "en_key l" c]
        by (auto simp: cache_set_def cache_ok_def)
    qed
  next
    case room
    have "k \<notin> en_key ` set c" using room(1) by (auto simp: cache_find_def find_None_iff)
    then show ?thesis using room ok by (simp add: cache_set_def cache_ok_def)
  qed
qed

lemma cache_set_set: "set (cache_set n ttl now k v c) \<subseteq> insert \<lparr>en_key = k, en_value = v, en_expiresAt = now + ttl\<rparr> (set c)"
  by (auto simp: cache_set_def Let_def set_cache_delete split: list.splits if_splits)

text \<open>
  Setting a key makes it readable until it expires and forgets at most one other key, the
  least recently used one of a full cache.
\<close>

lemma cache_set_lookup:
  "0 < ttl \<Longrightarrow> cache_lookup now (cache_set n ttl now k v c) k = Some v"
  "k' \<noteq> k \<Longrightarrow> (\<And>l ls. c = l # ls \<Longrightarrow> cache_find k c = None \<Longrightarrow> length c \<ge> n \<Longrightarrow> en_key l \<noteq> k') \<Longrightarrow>
   cache_lookup now (cache_set n ttl now k v c) k' = cache_lookup now c k'"
proof -
  have none: "cache_find k (cache_delete l c) = None" if "cache_find k c = None" for l
    using that by (simp add: cache_find_delete)
  show "0 < ttl \<Longrightarrow> cache_lookup now (cache_set n ttl now k v c) k = Some v"
    by (auto simp: cache_lookup_def cache_set_def Let_def cache_find_append cache_find_delete cache_find_single
        split: option.splits list.splits)
  show "cache_lookup now (cache_set n ttl now k v c) k' = cache_lookup now c k'"
    if "k' \<noteq> k" and "\<And>l ls. c = l # ls \<Longrightarrow> cache_find k c = None \<Longrightarrow> length c \<ge> n \<Longrightarrow> en_key l \<noteq> k'"
    using that
    by (auto simp: cache_lookup_def cache_set_def Let_def cache_find_append cache_find_delete cache_find_single
        split: option.splits list.splits)
qed

section \<open>The key of a query\<close>

text \<open>A tenant is a UUID and a scope a dotted path, so neither contains a colon.\<close>

definition clean_query :: "pip_query \<Rightarrow> bool" where
  "clean_query q \<longleftrightarrow> CHR '':'' \<notin> set (pk_tenantId q) \<and> CHR '':'' \<notin> set (pk_scope q)"

lemma cacheKey_inj:
  assumes "clean_query a" and "clean_query b" and "cacheKey a = cacheKey b"
  shows "a = b"
proof -
  let ?c = "CHR '':''"
  have pieces: "split_on ?c (cacheKey q) = pk_tenantId q # [] # split_on ?c (pk_userId q) @ [[], pk_scope q]"
    if "clean_query q" for q
  proof -
    have "cacheKey q = pk_tenantId q @ ?c # ([] @ ?c # (pk_userId q @ ?c # ([] @ ?c # pk_scope q)))"
      by (simp add: cacheKey_def)
    then show ?thesis
      using that by (simp only: split_on_append_sep) (simp add: clean_query_def split_on_no_sep)
  qed
  have "pk_tenantId a = pk_tenantId b" "split_on ?c (pk_userId a) = split_on ?c (pk_userId b)" "pk_scope a = pk_scope b"
    using pieces[OF assms(1)] pieces[OF assms(2)] assms(3) by simp_all
  then show ?thesis by (auto dest: split_on_inj)
qed

section \<open>Runs\<close>

text \<open>
  What the calls of the guard and the answers of the PAP can make of the client by a time.
  The PAP computes its answer at some moment between the start and the end of a fetch
  (\<^term>\<open>pap s q\<close> is the effective principal of the query at time \<^term>\<open>s\<close>), and a fetch that
  takes longer than the timeout fails.
\<close>

inductive pip_run :: "pip_options \<Rightarrow> (int \<Rightarrow> pip_query \<Rightarrow> 'v) \<Rightarrow> 'v pip_state \<Rightarrow> int \<Rightarrow> bool"
  for opts pap where
  boot: "pip_run opts pap \<lparr>pp_cache = [], pp_inFlight = Map.empty, pp_fetches = [], pp_next = 0\<rparr> now"
| resolve: "pip_run opts pap st now \<Longrightarrow> now \<le> now' \<Longrightarrow> clean_query q \<Longrightarrow>
    pip_run opts pap (snd (pip_resolve now' forceFresh q st)) now'"
| answer: "pip_run opts pap st now \<Longrightarrow> now \<le> now' \<Longrightarrow> f \<in> set (pp_fetches st) \<Longrightarrow>
    now' \<le> pf_started f + pio_timeout opts \<Longrightarrow> pf_started f \<le> s \<Longrightarrow> s \<le> now' \<Longrightarrow>
    pip_run opts pap (snd (pip_complete opts now' f (PipOk (pap s (pf_query f))) st)) now'"
| fail: "pip_run opts pap st now \<Longrightarrow> now \<le> now' \<Longrightarrow> f \<in> set (pp_fetches st) \<Longrightarrow> (\<And>v. out \<noteq> PipOk v) \<Longrightarrow>
    pip_run opts pap (snd (pip_complete opts now' f out st)) now'"
| invalidate: "pip_run opts pap st now \<Longrightarrow> pip_run opts pap (pip_invalidate q st) now"

text \<open>Every entry is an answer of the PAP from within the timeout before it was stored.\<close>

definition entry_fresh :: "pip_options \<Rightarrow> (int \<Rightarrow> pip_query \<Rightarrow> 'v) \<Rightarrow> int \<Rightarrow> 'v cache_entry \<Rightarrow> bool" where
  "entry_fresh opts pap now e \<longleftrightarrow> (\<exists>q s. clean_query q \<and> en_key e = cacheKey q \<and> en_value e = pap s q \<and>
     en_expiresAt e - pio_ttl opts - pio_timeout opts \<le> s \<and> s \<le> en_expiresAt e - pio_ttl opts \<and>
     en_expiresAt e - pio_ttl opts \<le> now)"

definition pip_ok :: "pip_options \<Rightarrow> (int \<Rightarrow> pip_query \<Rightarrow> 'v) \<Rightarrow> 'v pip_state \<Rightarrow> int \<Rightarrow> bool" where
  "pip_ok opts pap st now \<longleftrightarrow> cache_ok (pio_maxEntries opts) (pp_cache st) \<and>
     (\<forall>e \<in> set (pp_cache st). entry_fresh opts pap now e) \<and>
     (\<forall>f \<in> set (pp_fetches st). clean_query (pf_query f) \<and> pf_started f \<le> now)"

lemma entry_fresh_mono: "entry_fresh opts pap now e \<Longrightarrow> now \<le> now' \<Longrightarrow> entry_fresh opts pap now' e"
  unfolding entry_fresh_def by (meson order_trans)

lemma pip_ok_mono: "pip_ok opts pap st now \<Longrightarrow> now \<le> now' \<Longrightarrow> pip_ok opts pap st now'"
  unfolding pip_ok_def by (meson entry_fresh_mono order_trans)

lemma start_fetch_ok:
  "pip_ok opts pap st now \<Longrightarrow> clean_query q \<Longrightarrow> pip_ok opts pap (snd (start_fetch now force q st)) now"
  by (auto simp: pip_ok_def start_fetch_def Let_def)

lemma pip_cache_ok:
  assumes "pip_ok opts pap st now" and "cache_ok (pio_maxEntries opts) c" and "set c \<subseteq> set (pp_cache st)"
  shows "pip_ok opts pap (st\<lparr>pp_cache := c\<rparr>) now"
  using assms by (auto simp: pip_ok_def)

lemma pip_resolve_ok:
  assumes ok: "pip_ok opts pap st now" and q: "clean_query q"
  shows "pip_ok opts pap (snd (pip_resolve now force q st)) now"
proof (cases force)
  case True
  then show ?thesis using start_fetch_ok[OF ok q] by (simp add: pip_resolve_def)
next
  case False
  obtain v c where c: "cache_get now (cacheKey q) (pp_cache st) = (v, c)" by fastforce
  have "cache_ok (pio_maxEntries opts) c" "set c \<subseteq> set (pp_cache st)"
    using cache_get_ok[of "pio_maxEntries opts" "pp_cache st" now "cacheKey q"]
      cache_get_set[of now "cacheKey q" "pp_cache st"] ok c by (simp_all add: pip_ok_def)
  note ok' = pip_cache_ok[OF ok this]
  show ?thesis
    using False c ok' start_fetch_ok[OF ok' q]
    by (cases v; cases "pp_inFlight st (cacheKey q)") (simp_all add: pip_resolve_def)
qed

lemma pip_complete_ok:
  assumes ok: "pip_ok opts pap st now" and f: "f \<in> set (pp_fetches st)"
    and out: "\<And>v. out = PipOk v \<Longrightarrow>
      \<exists>s. v = pap s (pf_query f) \<and> pf_started f \<le> s \<and> s \<le> now \<and> now \<le> pf_started f + pio_timeout opts"
  shows "pip_ok opts pap (snd (pip_complete opts now f out st)) now"
proof (cases "\<exists>v. out = PipOk v")
  case True
  then obtain v s where v: "out = PipOk v" "v = pap s (pf_query f)" "pf_started f \<le> s" "s \<le> now"
      "now \<le> pf_started f + pio_timeout opts"
    using out by blast
  let ?e = "\<lparr>en_key = cacheKey (pf_query f), en_value = v, en_expiresAt = now + pio_ttl opts\<rparr>"
  have "clean_query (pf_query f)" using ok f by (simp add: pip_ok_def)
  then have "entry_fresh opts pap now ?e" using v
    unfolding entry_fresh_def by (intro exI[of _ "pf_query f"] exI[of _ s]) simp
  then have "\<forall>e \<in> set (cache_set (pio_maxEntries opts) (pio_ttl opts) now (cacheKey (pf_query f)) v (pp_cache st)).
      entry_fresh opts pap now e"
    using cache_set_set[of "pio_maxEntries opts" "pio_ttl opts" now "cacheKey (pf_query f)" v "pp_cache st"] ok
    by (auto simp: pip_ok_def)
  then show ?thesis
    using ok v(1) cache_set_ok[of "pio_maxEntries opts" "pp_cache st"]
    by (auto simp: pip_ok_def pip_complete_def fetch_result_def Let_def)
next
  case False
  then have "\<exists>e. fetch_result opts (pf_query f) out = Inl e" by (cases out) (auto simp: fetch_result_def Let_def)
  then show ?thesis using ok by (auto simp: pip_ok_def pip_complete_def Let_def)
qed

lemma pip_run_ok: "pip_run opts pap st now \<Longrightarrow> pip_ok opts pap st now"
proof (induction rule: pip_run.induct)
  case (boot now)
  show ?case by (simp add: pip_ok_def cache_ok_def)
next
  case (resolve st now now' q forceFresh)
  then show ?case using pip_resolve_ok[OF pip_ok_mono] by blast
next
  case (answer st now now' f s)
  then show ?case by (intro pip_complete_ok[OF pip_ok_mono]) auto
next
  case (fail st now now' f out)
  then show ?case by (intro pip_complete_ok[OF pip_ok_mono]) auto
next
  case (invalidate st now q)
  then show ?case
    unfolding pip_invalidate_def
    by (intro pip_cache_ok) (auto simp: pip_ok_def set_cache_delete intro: cache_delete_ok)
qed

text \<open>
  C20. However calls, answers, failures and invalidations interleave, a principal served from
  the cache is what the PAP computed for that very user, tenant and scope less than the time
  to live plus the timeout ago; a call that forces freshness is never served from the cache
  nor joins an older fetch; and the cache never outgrows its bound.
\<close>

theorem pip_staleness_bounded:
  assumes "pip_run opts pap st now" and "now \<le> now'" and "clean_query q"
  shows "(\<forall>v. fst (pip_resolve now' forceFresh q st) = PipHit v \<longrightarrow>
       \<not> forceFresh \<and> (\<exists>s. v = pap s q \<and> now' - pio_ttl opts - pio_timeout opts < s \<and> s \<le> now')) \<and>
     (forceFresh \<longrightarrow> fst (pip_resolve now' forceFresh q st) = PipFetch (pp_next st)) \<and>
     length (pp_cache st) \<le> max (pio_maxEntries opts) 1"
proof -
  have ok: "pip_ok opts pap st now'" using pip_ok_mono[OF pip_run_ok[OF assms(1)] assms(2)] .
  have "\<not> forceFresh \<and> (\<exists>s. v = pap s q \<and> now' - pio_ttl opts - pio_timeout opts < s \<and> s \<le> now')"
    if "fst (pip_resolve now' forceFresh q st) = PipHit v" for v
  proof -
    have "\<not> forceFresh" and "cache_lookup now' (pp_cache st) (cacheKey q) = Some v"
      using that cache_get_lookup(1)[of now' "cacheKey q" "pp_cache st"]
      by (auto simp: pip_resolve_def start_fetch_def Let_def split: if_splits prod.splits option.splits)
    then obtain e where e: "e \<in> set (pp_cache st)" "en_key e = cacheKey q" "en_value e = v" "now' < en_expiresAt e"
      by (auto simp: cache_lookup_def split: option.splits if_splits dest!: cache_find_key)
    then have "entry_fresh opts pap now' e" using ok by (simp add: pip_ok_def)
    then obtain q' s where q': "clean_query q'" "cacheKey q = cacheKey q'" "v = pap s q'"
        "en_expiresAt e - pio_ttl opts - pio_timeout opts \<le> s" "s \<le> en_expiresAt e - pio_ttl opts"
        "en_expiresAt e - pio_ttl opts \<le> now'"
      using e by (auto simp: entry_fresh_def)
    have "q' = q" using cacheKey_inj[OF assms(3) q'(1,2)] by simp
    then show ?thesis using \<open>\<not> forceFresh\<close> q' e(4) by (intro conjI exI[of _ s]) auto
  qed
  then show ?thesis
    using ok by (auto simp: pip_resolve_def start_fetch_def Let_def pip_ok_def cache_ok_def)
qed

definition sample_query :: pip_query where
  "sample_query = \<lparr>pk_userId = ''riya'', pk_tenantId = ''t1'', pk_scope = ''acme''\<rparr>"

definition warm_state :: "string pip_state" where
  "warm_state =
     (let opts = newPipOptions None None None;
          st = snd (pip_resolve 10 False sample_query
                  \<lparr>pp_cache = [], pp_inFlight = Map.empty, pp_fetches = [], pp_next = 0\<rparr>)
      in snd (pip_complete opts 14 (hd (pp_fetches st)) (PipOk ''role'') st))"

lemma pip_staleness_bounded_witness:
  "fst (pip_resolve 20 False sample_query warm_state) = PipHit ''role'' \<and>
   fst (pip_resolve 5014 False sample_query warm_state) = PipFetch 1 \<and>
   (\<exists>s. ''role'' = (\<lambda>(s::int) (q::pip_query). ''role'') s sample_query \<and> 20 - 5000 - 2000 < s \<and> s \<le> 20)"
proof -
  let ?opts = "newPipOptions None None None" and ?pap = "\<lambda>(s::int) (q::pip_query). ''role''"
  let ?boot = "\<lparr>pp_cache = [], pp_inFlight = Map.empty, pp_fetches = [], pp_next = 0\<rparr> :: string pip_state"
  let ?st = "snd (pip_resolve 10 False sample_query ?boot)"
  have q: "clean_query sample_query" by code_simp
  have o': "pio_ttl ?opts = 5000" "pio_timeout ?opts = 2000" by (simp_all add: newPipOptions_def)
  have f: "pp_fetches ?st = [\<lparr>pf_number = 0, pf_query = sample_query, pf_started = 10\<rparr>]"
    by (simp add: pip_resolve_def cache_get_def cache_find_def start_fetch_def)
  have "pip_run ?opts ?pap ?st 10" by (rule pip_run.resolve[OF pip_run.boot[of _ _ 10] _ q]) simp
  from pip_run.answer[OF this, of 14 "hd (pp_fetches ?st)" 12]
  have run: "pip_run ?opts ?pap warm_state 14" using o' by (simp add: f warm_state_def Let_def)
  have hit: "fst (pip_resolve 20 False sample_query warm_state) = PipHit ''role''"
      "fst (pip_resolve 5014 False sample_query warm_state) = PipFetch 1" by code_simp+
  with pip_staleness_bounded[OF run, of 20 sample_query False] q o' show ?thesis by simp
qed

text \<open>
  What invalidation cannot do: a fetch that was on its way when its key was invalidated
  stores the answer computed before, and the next call is served with it.
\<close>

lemma invalidation_misses_fetch_in_flight:
  assumes "0 < pio_ttl opts" and "f \<in> set (pp_fetches st)" and "cacheKey (pf_query f) = cacheKey q"
  shows "fst (pip_resolve now False q (snd (pip_complete opts now f (PipOk v) (pip_invalidate q st)))) = PipHit v"
proof -
  let ?c = "cache_set (pio_maxEntries opts) (pio_ttl opts) now (cacheKey q) v (cache_delete (cacheKey q) (pp_cache st))"
  have "fst (cache_get now (cacheKey q) ?c) = Some v"
    unfolding cache_get_lookup(1) by (rule cache_set_lookup(1)[OF assms(1)])
  then obtain c where "cache_get now (cacheKey q) ?c = (Some v, c)" by (metis prod.collapse)
  then show ?thesis
    by (simp add: pip_resolve_def pip_complete_def fetch_result_def pip_invalidate_def assms(3) Let_def)
qed

end
