(* ===== verification/IdentityProvider.thy ===== *)
theory IdentityProvider
  imports EdgeAuth
begin

text \<open>
  The identity service (apps/identity/src/modules/identity): e-mail addresses and password
  hashes, the seeded user store, the signer of RS256 access tokens and its key set, the
  store of refresh tokens, and the password and refresh grants.  scrypt, the RSA signature,
  the public key and the random secrets are arguments.  The refresh-token store is memory of
  the process, so a grant that throws keeps what it changed before.
\<close>

section \<open>Value objects\<close>

text \<open>One at-sign between non-empty parts without white space, and a dot inside the second part.\<close>

definition is_email :: "string \<Rightarrow> bool" where
  "is_email s \<longleftrightarrow> list_all (\<lambda>c. \<not> is_ws c) s \<and>
     (case split_on (CHR ''@'') s of
        [a, b] \<Rightarrow> a \<noteq> [] \<and> CHR ''.'' \<in> set (butlast (tl b))
      | _ \<Rightarrow> False)"

definition email_fromString :: "string \<Rightarrow> string result" where
  "email_fromString value =
     (let normalized = to_lower (js_trim value) in
      if \<not> is_email normalized then Inl (ValidationError ''Invalid email'' (Some ''email_invalid''))
      else Inr normalized)"

definition passwordHash_fromEncoded :: "string \<Rightarrow> string result" where
  "passwordHash_fromEncoded value =
     (if length (js_trim value) = 0
      then Inl (ValidationError ''Password hash must not be empty'' (Some ''password_hash_empty''))
      else Inr value)"

definition userId_fromString :: "(string \<Rightarrow> bool) \<Rightarrow> string \<Rightarrow> string result" where
  "userId_fromString is_uuid v =
     (if \<not> is_uuid v then Inl (ValidationError ''Invalid user id'' (Some ''user_id_invalid'')) else Inr v)"

definition InvalidCredentialsError :: exn where
  "InvalidCredentialsError = UnauthenticatedError ''Invalid email or password'' (Some ''invalid_credentials'')"

definition InvalidRefreshTokenError :: "string \<Rightarrow> exn" where
  "InvalidRefreshTokenError reason = UnauthenticatedError ''Invalid or expired refresh token'' (Some reason)"

section \<open>Password hashes\<close>

definition hex_encode :: "string \<Rightarrow> string" where
  "hex_encode s = concat (map (\<lambda>c. [hex_digit (of_char c div 16), hex_digit (of_char c mod 16)]) s)"

definition hex_nibble :: "char \<Rightarrow> nat option" where
  "hex_nibble c =
     (let n = (of_char c :: nat) in
      if 48 \<le> n \<and> n \<le> 57 then Some (n - 48)
      else if 97 \<le> n \<and> n \<le> 102 then Some (n - 87)
      else if 65 \<le> n \<and> n \<le> 70 then Some (n - 55) else None)"

text \<open>Buffer.from(text, 'hex') ends at the first pair that is not hexadecimal.\<close>

fun hex_decode :: "string \<Rightarrow> string" where
  "hex_decode (a # b # rest) =
     (case (hex_nibble a, hex_nibble b) of
        (Some x, Some y) \<Rightarrow> char_of (16 * x + y) # hex_decode rest
      | _ \<Rightarrow> [])"
| "hex_decode _ = []"

definition KEY_LENGTH :: nat where "KEY_LENGTH = 64"
definition SALT_BYTES :: nat where "SALT_BYTES = 16"

definition encode_hash :: "string \<Rightarrow> string \<Rightarrow> string" where
  "encode_hash salt key = ''scrypt$'' @ hex_encode salt @ ''$'' @ hex_encode key"

definition scrypt_hash :: "(string \<Rightarrow> string \<Rightarrow> nat \<Rightarrow> string) \<Rightarrow> string \<Rightarrow> string \<Rightarrow> string result" where
  "scrypt_hash scrypt salt plaintext =
     passwordHash_fromEncoded (encode_hash salt (scrypt plaintext salt KEY_LENGTH))"

definition scrypt_verify :: "(string \<Rightarrow> string \<Rightarrow> nat \<Rightarrow> string) \<Rightarrow> string \<Rightarrow> string \<Rightarrow> bool" where
  "scrypt_verify scrypt plaintext hash =
     (case split_on (CHR ''$'') hash of
        [scheme, saltHex, keyHex] \<Rightarrow>
          scheme = ''scrypt'' \<and>
          (let salt = hex_decode saltHex; expected = hex_decode keyHex;
               derived = scrypt plaintext salt (length expected)
           in length derived = length expected \<and> derived = expected)
      | _ \<Rightarrow> False)"

definition dummyHash :: string where
  "dummyHash = encode_hash (replicate SALT_BYTES (CHR 0x00)) (replicate KEY_LENGTH (CHR 0x00))"

section \<open>Users\<close>

record user =
  us_id :: string
  us_email :: string
  us_passwordHash :: string
  us_tenantId :: string
  us_name :: "string option"
  us_active :: bool
  us_platformAdmin :: bool

record user_snapshot =
  un_id :: string
  un_email :: string
  un_passwordHash :: string
  un_tenantId :: string
  un_name :: "string option"
  un_active :: "bool option"
  un_platformAdmin :: "bool option"

definition user_fromSnapshot :: "user_snapshot \<Rightarrow> user result" where
  "user_fromSnapshot s =
     rbind (againstEmpty (Some (un_tenantId s)) ''tenantId'') (\<lambda>_.
     rbind (email_fromString (un_email s)) (\<lambda>email.
     rbind (passwordHash_fromEncoded (un_passwordHash s)) (\<lambda>hash.
     Inr \<lparr>us_id = un_id s, us_email = email, us_passwordHash = hash, us_tenantId = un_tenantId s,
          us_name = un_name s, us_active = or_default (un_active s) True,
          us_platformAdmin = or_default (un_platformAdmin s) False\<rparr>)))"

record seed_user =
  sd_id :: string
  sd_email :: string
  sd_password :: string
  sd_tenantId :: string
  sd_name :: "string option"
  sd_platformAdmin :: "bool option"

record user_repository =
  ur_byEmail :: "string \<rightharpoonup> user"
  ur_byId :: "string \<rightharpoonup> user"

definition seed_one ::
  "(string \<Rightarrow> string \<Rightarrow> nat \<Rightarrow> string) \<Rightarrow> (string \<Rightarrow> bool) \<Rightarrow> seed_user \<Rightarrow> string \<Rightarrow> user result" where
  "seed_one scrypt is_uuid seed salt =
     rbind (scrypt_hash scrypt salt (sd_password seed)) (\<lambda>hash.
     rbind (user_fromSnapshot
              \<lparr>un_id = sd_id seed, un_email = sd_email seed, un_passwordHash = hash,
               un_tenantId = sd_tenantId seed, un_name = sd_name seed, un_active = Some True,
               un_platformAdmin = (if sd_platformAdmin seed = Some True then Some True else None)\<rparr>) (\<lambda>u.
     rbind (userId_fromString is_uuid (us_id u)) (\<lambda>_. Inr u)))"

text \<open>The seeding at boot; every seed comes with the random salt of its hash.\<close>

fun onModuleInit ::
  "(string \<Rightarrow> string \<Rightarrow> nat \<Rightarrow> string) \<Rightarrow> (string \<Rightarrow> bool) \<Rightarrow> (seed_user \<times> string) list \<Rightarrow> user_repository \<Rightarrow>
   user_repository result" where
  "onModuleInit scrypt is_uuid [] repo = Inr repo"
| "onModuleInit scrypt is_uuid ((seed, salt) # seeds) repo =
     rbind (seed_one scrypt is_uuid seed salt) (\<lambda>u.
     onModuleInit scrypt is_uuid seeds
       \<lparr>ur_byEmail = (ur_byEmail repo)(us_email u \<mapsto> u), ur_byId = (ur_byId repo)(us_id u \<mapsto> u)\<rparr>)"

text \<open>One entry of SEED_USERS.\<close>

definition toSeedUser :: "json \<Rightarrow> nat \<Rightarrow> seed_user result" where
  "toSeedUser entry index =
     (let what = ''SEED_USERS['' @ nat_str index @ '']'' in
      if \<not> (is_object entry \<or> (case entry of JArr _ \<Rightarrow> True | _ \<Rightarrow> False))
      then Inl (Crash (what @ '' must be an object''))
      else
        (case (jget_string ''id'' entry, jget_string ''email'' entry, jget_string ''password'' entry,
               jget_string ''tenantId'' entry) of
           (Some i, Some email, Some password, Some tenantId) \<Rightarrow>
             Inr \<lparr>sd_id = i, sd_email = email, sd_password = password, sd_tenantId = tenantId,
                  sd_name = jget_string ''name'' entry,
                  sd_platformAdmin = (if jget ''platformAdmin'' entry = Some (JBool True) then Some True else None)\<rparr>
         | _ \<Rightarrow> Inl (Crash (what @ '' requires string id, email, password, tenantId''))))"

section \<open>The signer\<close>

record domain_claims =
  dc_sub :: string
  dc_tid :: string
  dc_sid :: string
  dc_act :: string
  dc_iss :: string
  dc_aud :: string
  dc_platformAdmin :: "bool option"

record signed_token =
  st_token :: string
  st_expiresAt :: int
  st_issuedAt :: int

definition access_header :: "string \<Rightarrow> json" where
  "access_header kid = JObj [(''alg'', JStr ''RS256''), (''typ'', JStr ''JWT''), (''kid'', JStr kid)]"

definition access_payload :: "domain_claims \<Rightarrow> int \<Rightarrow> int \<Rightarrow> json" where
  "access_payload c issuedAt expiresAt =
     JObj ([(''sub'', JStr (dc_sub c)), (''tid'', JStr (dc_tid c)), (''sid'', JStr (dc_sid c)),
            (''act'', JStr (dc_act c)), (''iss'', JStr (dc_iss c)), (''aud'', JStr (dc_aud c)),
            (''iat'', JNum issuedAt), (''exp'', JNum expiresAt)]
           @ (if dc_platformAdmin c = Some True then [(''platform_admin'', JBool True)] else []))"

definition signAccessToken ::
  "(string \<Rightarrow> string) \<Rightarrow> string \<Rightarrow> domain_claims \<Rightarrow> int \<Rightarrow> int \<Rightarrow> signed_token" where
  "signAccessToken rsa_sign kid claims nowSeconds ttlSeconds =
     (let issuedAt = nowSeconds; expiresAt = nowSeconds + ttlSeconds;
          signingInput = base64url_encode (json_stringify (access_header kid)) @ ''.'' @
                         base64url_encode (json_stringify (access_payload claims issuedAt expiresAt));
          signature = base64url_encode (rsa_sign signingInput)
      in \<lparr>st_token = signingInput @ ''.'' @ signature, st_expiresAt = expiresAt, st_issuedAt = issuedAt\<rparr>)"

text \<open>The published key set; \<^term>\<open>n\<close> and \<^term>\<open>e\<close> are the exported members of the public key.\<close>

definition signer_jwks :: "string \<Rightarrow> string option \<Rightarrow> string option \<Rightarrow> remote_jwk list result" where
  "signer_jwks kid n e =
     (case (n, e) of
        (Some n, Some e) \<Rightarrow> Inr [\<lparr>jk_kty = Some ''RSA'', jk_kid = Some kid, jk_n = Some n, jk_e = Some e\<rparr>]
      | _ \<Rightarrow> Inl (Crash ''Public key is not an RSA key; cannot build JWKS''))"

section \<open>Token pairs\<close>

record issuance_policy =
  ip_issuer :: string
  ip_audience :: string
  ip_accessTtl :: int
  ip_refreshTtl :: int

record refresh_record =
  rr_token :: string
  rr_userId :: string
  rr_tenantId :: string
  rr_sessionId :: string
  rr_expiresAt :: int

type_synonym refresh_store = "string \<rightharpoonup> refresh_record"

definition store_save :: "refresh_record \<Rightarrow> refresh_store \<Rightarrow> refresh_store" where
  "store_save r s = s(rr_token r \<mapsto> r)"

definition store_consume :: "string \<Rightarrow> refresh_store \<Rightarrow> refresh_record option \<times> refresh_store" where
  "store_consume t s = (case s t of None \<Rightarrow> (None, s) | Some r \<Rightarrow> (Some r, s(t := None)))"

definition new_refreshToken :: "string \<Rightarrow> string" where
  "new_refreshToken bytes = ''rt_'' @ base64url_encode bytes"

definition new_sessionId :: "string \<Rightarrow> string" where
  "new_sessionId uuid = ''sid_'' @ uuid"

record token_view =
  tv_accessToken :: string
  tv_refreshToken :: string
  tv_expiresIn :: int
  tv_sub :: string
  tv_tid :: string
  tv_sid :: string

text \<open>What a grant draws at random: the bytes of a refresh token and the UUID of a session.\<close>

record secrets =
  sx_bytes :: string
  sx_uuid :: string

record signer =
  sg_sign :: "string \<Rightarrow> string"
  sg_kid :: string

text \<open>The claims: the acting user is the subject, the admin flag is present only when it is set.\<close>

definition issued_claims :: "issuance_policy \<Rightarrow> user \<Rightarrow> string \<Rightarrow> string \<Rightarrow> domain_claims" where
  "issued_claims policy user sub sessionId =
     \<lparr>dc_sub = sub, dc_tid = us_tenantId user, dc_sid = sessionId, dc_act = sub,
      dc_iss = ip_issuer policy, dc_aud = ip_audience policy,
      dc_platformAdmin = (if us_platformAdmin user then Some True else None)\<rparr>"

definition issueFor ::
  "signer \<Rightarrow> issuance_policy \<Rightarrow> (string \<Rightarrow> bool) \<Rightarrow> secrets \<Rightarrow> int \<Rightarrow> user \<Rightarrow> string option \<Rightarrow> refresh_store \<Rightarrow>
   token_view result \<times> refresh_store" where
  "issueFor signer policy is_uuid rnd nowMs user session store =
     (let nowSeconds = nowMs div 1000;
          sessionId = or_default session (new_sessionId (sx_uuid rnd)) in
      case userId_fromString is_uuid (us_id user) of
        Inl e \<Rightarrow> (Inl e, store)
      | Inr sub \<Rightarrow>
          (let signed = signAccessToken (sg_sign signer) (sg_kid signer)
                 (issued_claims policy user sub sessionId) nowSeconds (ip_accessTtl policy);
               refreshToken = new_refreshToken (sx_bytes rnd)
           in (Inr \<lparr>tv_accessToken = st_token signed, tv_refreshToken = refreshToken,
                    tv_expiresIn = ip_accessTtl policy, tv_sub = sub, tv_tid = us_tenantId user,
                    tv_sid = sessionId\<rparr>,
               store_save \<lparr>rr_token = refreshToken, rr_userId = sub, rr_tenantId = us_tenantId user,
                           rr_sessionId = sessionId, rr_expiresAt = nowSeconds + ip_refreshTtl policy\<rparr> store)))"

section \<open>The grants\<close>

definition issueToken_execute ::
  "(string \<Rightarrow> string \<Rightarrow> nat \<Rightarrow> string) \<Rightarrow> signer \<Rightarrow> issuance_policy \<Rightarrow> (string \<Rightarrow> bool) \<Rightarrow> user_repository \<Rightarrow>
   secrets \<Rightarrow> int \<Rightarrow> string \<Rightarrow> string \<Rightarrow> refresh_store \<Rightarrow> token_view result \<times> refresh_store" where
  "issueToken_execute scrypt signer policy is_uuid users rnd nowMs email password store =
     (case email_fromString email of
        Inl e \<Rightarrow> (Inl e, store)
      | Inr email \<Rightarrow>
          (let user = ur_byEmail users email;
               hashToCheck = (case user of Some u \<Rightarrow> us_passwordHash u | None \<Rightarrow> dummyHash);
               passwordMatches = scrypt_verify scrypt password hashToCheck in
           case user of
             None \<Rightarrow> (Inl InvalidCredentialsError, store)
           | Some u \<Rightarrow>
               if \<not> us_active u \<or> \<not> passwordMatches then (Inl InvalidCredentialsError, store)
               else issueFor signer policy is_uuid rnd nowMs u None store))"

definition refreshToken_execute ::
  "signer \<Rightarrow> issuance_policy \<Rightarrow> (string \<Rightarrow> bool) \<Rightarrow> user_repository \<Rightarrow> secrets \<Rightarrow> int \<Rightarrow> string \<Rightarrow> refresh_store \<Rightarrow>
   token_view result \<times> refresh_store" where
  "refreshToken_execute signer policy is_uuid users rnd nowMs token store =
     (case store_consume token store of
        (None, store) \<Rightarrow> (Inl (InvalidRefreshTokenError ''invalid_refresh_token''), store)
      | (Some r, store) \<Rightarrow>
          if rr_expiresAt r \<le> nowMs div 1000
          then (Inl (InvalidRefreshTokenError ''refresh_token_expired''), store)
          else
            (case userId_fromString is_uuid (rr_userId r) of
               Inl e \<Rightarrow> (Inl e, store)
             | Inr i \<Rightarrow>
                 (case ur_byId users i of
                    None \<Rightarrow> (Inl (InvalidRefreshTokenError ''refresh_token_orphaned''), store)
                  | Some u \<Rightarrow>
                      if \<not> us_active u then (Inl (InvalidRefreshTokenError ''refresh_token_orphaned''), store)
                      else issueFor signer policy is_uuid rnd nowMs u (Some (rr_sessionId r)) store)))"

section \<open>The password hash\<close>

lemma hex_nibble_digit: "k < 16 \<Longrightarrow> hex_nibble (hex_digit k) = Some k"
  by (auto simp: hex_nibble_def hex_digit_def Let_def of_char_of)

lemma char_nibbles: "(of_char c :: nat) div 16 < 16" "(of_char c :: nat) mod 16 < 16"
proof -
  have "(of_char c :: nat) < 256" by (cases c) (simp add: of_char_def)
  then show "(of_char c :: nat) div 16 < 16" by (intro less_mult_imp_div_less) simp
qed simp

lemma hex_roundtrip: "hex_decode (hex_encode s) = s"
proof (induction s)
  case (Cons c s)
  have "hex_decode (hex_encode (c # s)) = char_of ((of_char c :: nat)) # hex_decode (hex_encode s)"
    using char_nibbles[of c] by (simp add: hex_encode_def hex_nibble_digit)
  then show ?case using Cons by simp
qed (simp add: hex_encode_def)

lemma hex_no_dollar: "CHR ''$'' \<notin> set (hex_encode s)"
proof
  assume "CHR ''$'' \<in> set (hex_encode s)"
  then obtain c where "CHR ''$'' = hex_digit (of_char c div 16) \<or> CHR ''$'' = hex_digit (of_char c mod 16)"
    by (auto simp: hex_encode_def)
  moreover have "hex_nibble (hex_digit (of_char c div 16)) \<noteq> None" "hex_nibble (hex_digit (of_char c mod 16)) \<noteq> None"
    using char_nibbles[of c] by (simp_all add: hex_nibble_digit)
  moreover have "hex_nibble (CHR ''$'') = None" by code_simp
  ultimately show False by metis
qed

text \<open>A password verifies against a stored hash exactly when scrypt maps it to the same key.\<close>

lemma password_hash_verifies:
  assumes "scrypt_hash scrypt salt p = Inr h" and "\<And>x s n. length (scrypt x s n) = n"
  shows "scrypt_verify scrypt q h \<longleftrightarrow> scrypt q salt KEY_LENGTH = scrypt p salt KEY_LENGTH"
proof -
  have "h = encode_hash salt (scrypt p salt KEY_LENGTH)"
    using assms(1) by (auto simp: scrypt_hash_def passwordHash_fromEncoded_def split: if_splits)
  then have "split_on (CHR ''$'') h = [''scrypt'', hex_encode salt, hex_encode (scrypt p salt KEY_LENGTH)]"
    using split_on_append_sep[of "CHR ''$''" "''scrypt''"] hex_no_dollar
    by (simp add: encode_hash_def split_on_append_sep split_on_no_sep)
  then show ?thesis by (simp add: scrypt_verify_def hex_roundtrip assms(2) Let_def)
qed

end
