(* ===== verification/IdentityLife.thy ===== *)
theory IdentityLife
  imports IdentityProvider
begin

text \<open>
  What the identity service promises to the gateway and to its clients: an issued access
  token is accepted at the edge for exactly its lifetime and for the user it was issued to,
  and a refresh token is good for one exchange.
\<close>

section \<open>From the signer to the verifier\<close>

lemma js_trim_ends: "s \<noteq> [] \<Longrightarrow> \<not> is_ws (hd s) \<Longrightarrow> \<not> is_ws (last s) \<Longrightarrow> js_trim s = s"
proof -
  assume s: "s \<noteq> []" "\<not> is_ws (hd s)" "\<not> is_ws (last s)"
  have "dropWhile is_ws s = s" using s by (cases s) simp_all
  moreover have "dropWhile is_ws (rev s) = rev s" using s by (cases "rev s") (simp_all add: hd_rev flip: last_rev)
  ultimately show ?thesis by (simp add: js_trim_def)
qed

definition jws_of :: "string \<Rightarrow> string \<Rightarrow> string \<Rightarrow> string" where
  "jws_of a b c = base64url_encode a @ CHR ''.'' # base64url_encode b @ CHR ''.'' # base64url_encode c"

lemma base64url_ne: "s \<noteq> [] \<Longrightarrow> base64url_encode s \<noteq> []"
  using base64url_not_blank[of s] by (auto simp: js_trim_def)

lemma jws_not_ws: "c \<in> set (jws_of x y z) \<Longrightarrow> \<not> is_ws c"
  by (auto simp: jws_of_def is_ws_def Let_def dest: base64url_not_ws)

lemma bearer_header:
  assumes "x \<noteq> []" "y \<noteq> []" "z \<noteq> []"
  shows "fromAuthorizationHeader (Some (''Bearer '' @ jws_of x y z)) = Inr (jws_of x y z)"
proof -
  let ?t = "jws_of x y z"
  have ne: "?t \<noteq> []" by (simp add: jws_of_def)
  have last: "\<not> is_ws (last ?t)" and hd: "\<not> is_ws (hd ?t)" using last_in_set[OF ne] hd_in_set[OF ne] jws_not_ws by blast+
  have 1: "js_trim (''Bearer '' @ ?t) = ''Bearer '' @ ?t"
    using ne last by (intro js_trim_ends) (simp_all add: is_ws_def)
  have 2: "js_trim ?t = ?t" using ne hd last by (rule js_trim_ends)
  have "to_lower ''Bearer'' = ''bearer''" "is_ws (CHR '' '')" by code_simp+
  then have 3: "bearer_match (''Bearer '' @ ?t) = Some ?t" using ne by (simp add: bearer_match_def)
  have "isCompactJws ?t"
    using split_jws[of x y z] assms base64url_ne by (simp add: isCompactJws_def jws_of_def Let_def)
  moreover have "length (''Bearer '' @ ?t) \<noteq> 0" by simp
  ultimately show ?thesis
    unfolding fromAuthorizationHeader_def option.case 1 3 Let_def 2 by (simp only: if_False simp_thms)
qed

lemma payload_lookup:
  "jget ''sub'' (access_payload c i x) = Some (JStr (dc_sub c))"
  "jget ''tid'' (access_payload c i x) = Some (JStr (dc_tid c))"
  "jget ''sid'' (access_payload c i x) = Some (JStr (dc_sid c))"
  "jget ''act'' (access_payload c i x) = Some (JStr (dc_act c))"
  "jget ''iss'' (access_payload c i x) = Some (JStr (dc_iss c))"
  "jget ''aud'' (access_payload c i x) = Some (JStr (dc_aud c))"
  "jget ''exp'' (access_payload c i x) = Some (JNum x)"
  "jget ''nbf'' (access_payload c i x) = None"
  "jget ''platform_admin'' (access_payload c i x) = Some (JBool True) \<longleftrightarrow> dc_platformAdmin c = Some True"
  by (simp_all add: access_payload_def)

text \<open>The verifier's view of the issued claims: valid up to the expiry and the tolerated skew.\<close>

lemma issued_claims_valid:
  assumes "vc_issuer cfg = dc_iss c" and "vc_audience cfg = dc_aud c"
  shows "if nowMs div 1000 \<le> x + vc_skew cfg
    then \<exists>a. validateClaims cfg nowMs (access_payload c i x) = Inr a \<and>
      identity_of_claims a = \<lparr>gi_sub = dc_sub c, gi_tid = dc_tid c, gi_sessionId = dc_sid c,
        gi_actorId = dc_act c, gi_platformAdmin = (dc_platformAdmin c = Some True)\<rparr>
    else validateClaims cfg nowMs (access_payload c i x) = Inl (unauthenticated ''token_expired'')"
  using assms
  by (simp add: validateClaims_def Let_def jget_number_def jget_string_def payload_lookup expired_def
      audienceMatches_def identity_of_claims_def)

lemma published_single:
  assumes "signer_jwks kid n e = Inr ks" and "\<And>k. k \<in> set ks \<Longrightarrow> import_key k = Some key"
    and "n \<noteq> Some []" and "e \<noteq> Some []"
  shows "resolveKey import_key cfg (Some ks) nowMs kid None =
     (Inr key, Some \<lparr>jc_keys = [kid \<mapsto> key], jc_fetchedAtMs = nowMs\<rparr>)"
  using assms
  by (auto simp: signer_jwks_def resolveKey_def cachedKeys_def doFetchKeys_def add_key_def Let_def
      split: option.splits)

lemma decode_object: "parse (json_stringify j) = Some j \<Longrightarrow> is_object j \<Longrightarrow>
    decodeJson parse (base64url_encode (json_stringify j)) w = Inr j"
  by (cases j) (simp_all add: decodeJson_def)

lemma access_objects: "is_object (access_header kid)" "is_object (access_payload c i x)"
  by (simp_all add: access_header_def access_payload_def)

text \<open>
  C21. The access token that either grant returns is accepted at the edge, with the published
  key set, exactly until its lifetime and the tolerated clock skew have passed, and yields
  the user, the tenant, the session and the platform-admin flag it was issued for; the
  user acts for themself.  Afterwards it is refused as expired.
\<close>

theorem issued_token_accepted_at_edge:
  assumes issue: "issueFor signer policy is_uuid rnd issuedMs user session store = (Inr view, store')"
    and jwks: "signer_jwks (sg_kid signer) n e = Inr ks" "n \<noteq> Some []" "e \<noteq> Some []"
    and import: "\<And>k. k \<in> set ks \<Longrightarrow> import_key k = Some key"
    and rsa: "\<And>m. rsa_verify key m (sg_sign signer m)" "\<And>m. sg_sign signer m \<noteq> []"
    and kid: "sg_kid signer \<noteq> []"
    and parse: "parses_back parse [access_header (sg_kid signer),
       access_payload (issued_claims policy user (us_id user) (tv_sid view)) (issuedMs div 1000)
         (issuedMs div 1000 + tv_expiresIn view)]"
    and cfg: "vc_issuer cfg = ip_issuer policy" "vc_audience cfg = ip_audience policy"
  shows "fst (authenticate_execute (jwks_verify parse rsa_verify import_key cfg (Some ks) nowMs)
       (Some (''Bearer '' @ tv_accessToken view)) None) =
     (if nowMs div 1000 \<le> issuedMs div 1000 + tv_expiresIn view + vc_skew cfg
      then Inr \<lparr>gi_sub = us_id user, gi_tid = us_tenantId user, gi_sessionId = tv_sid view,
                gi_actorId = us_id user, gi_platformAdmin = us_platformAdmin user\<rparr>
      else Inl (unauthenticated ''token_expired''))"
proof -
  let ?c = "issued_claims policy user (us_id user) (tv_sid view)"
  let ?x = "issuedMs div 1000 + tv_expiresIn view"
  let ?h = "json_stringify (access_header (sg_kid signer))"
  let ?p = "json_stringify (access_payload ?c (issuedMs div 1000) ?x)"
  let ?m = "base64url_encode ?h @ CHR ''.'' # base64url_encode ?p"
  let ?token = "jws_of ?h ?p (sg_sign signer ?m)"
  have token: "tv_accessToken view = ?token"
    using issue
    by (auto simp: issueFor_def Let_def userId_fromString_def signAccessToken_def jws_of_def split: if_splits)
  have ne: "?h \<noteq> []" "?p \<noteq> []" by (simp_all add: access_header_def access_payload_def)
  have header: "fromAuthorizationHeader (Some (''Bearer '' @ ?token)) = Inr ?token"
    by (rule bearer_header[OF ne rsa(2)])
  have dec: "decodeJson parse (base64url_encode ?h) ''header'' = Inr (access_header (sg_kid signer))"
    "decodeJson parse (base64url_encode ?p) ''payload'' = Inr (access_payload ?c (issuedMs div 1000) ?x)"
    using parse decode_object[OF _ access_objects(1)] decode_object[OF _ access_objects(2)]
    by (simp_all add: parses_back_def)
  have hdr: "jget ''alg'' (access_header (sg_kid signer)) = Some (JStr ''RS256'')"
    "jget_string ''kid'' (access_header (sg_kid signer)) = Some (sg_kid signer)"
    by (simp_all add: access_header_def jget_string_def)
  have v: "fst (jwks_verify parse rsa_verify import_key cfg (Some ks) nowMs ?token None) =
      validateClaims cfg nowMs (access_payload ?c (issuedMs div 1000) ?x)"
    using rsa(1)[of ?m] kid
    by (simp add: jwks_verify_def jws_of_def split_jws dec hdr published_single[OF jwks(1) import jwks(2,3)])
  let ?verify = "jwks_verify parse rsa_verify import_key cfg (Some ks) nowMs"
  obtain r c where j: "?verify ?token None = (r, c)" by (cases "?verify ?token None")
  have "fst (authenticate_execute ?verify (Some (''Bearer '' @ ?token)) None) = rbind r (\<lambda>a. Inr (identity_of_claims a))"
    by (simp only: authenticate_execute_def header sum.case j prod.case fst_conv)
  also have "r = validateClaims cfg nowMs (access_payload ?c (issuedMs div 1000) ?x)"
    using v unfolding j by simp
  finally have "fst (authenticate_execute ?verify (Some (''Bearer '' @ ?token)) None) =
      rbind (validateClaims cfg nowMs (access_payload ?c (issuedMs div 1000) ?x)) (\<lambda>a. Inr (identity_of_claims a))" .
  then show ?thesis
    using issued_claims_valid[of cfg ?c nowMs ?x "issuedMs div 1000"] cfg unfolding token
    by (auto simp: issued_claims_def split: if_splits)
qed

definition demo_user :: user where
  "demo_user = \<lparr>us_id = ''u'', us_email = ''u@acme.com'', us_passwordHash = ''scrypt$00$00'', us_tenantId = ''t'',
     us_name = None, us_active = True, us_platformAdmin = True\<rparr>"

definition demo_policy :: issuance_policy where
  "demo_policy = \<lparr>ip_issuer = ''i'', ip_audience = ''a'', ip_accessTtl = 900, ip_refreshTtl = 3600\<rparr>"

definition demo_signer :: signer where
  "demo_signer = \<lparr>sg_sign = (\<lambda>m. ''s''), sg_kid = ''k''\<rparr>"

definition demo_secrets :: secrets where
  "demo_secrets = \<lparr>sx_bytes = ''b'', sx_uuid = ''1''\<rparr>"

definition demo_verifier :: verifier_config where
  "demo_verifier = \<lparr>vc_issuer = ''i'', vc_audience = ''a'', vc_skew = 60, vc_cacheTtlSeconds = 300\<rparr>"

definition demo_view :: token_view where
  "demo_view = (case fst (issueFor demo_signer demo_policy (\<lambda>_. True) demo_secrets 5000 demo_user None Map.empty) of
     Inr v \<Rightarrow> v
   | Inl _ \<Rightarrow> \<lparr>tv_accessToken = [], tv_refreshToken = [], tv_expiresIn = 0, tv_sub = [], tv_tid = [], tv_sid = []\<rparr>)"

definition demo_payload :: json where
  "demo_payload = access_payload (issued_claims demo_policy demo_user ''u'' ''sid_1'') 5 905"

definition demo_parse :: "string \<Rightarrow> json option" where
  "demo_parse s =
     (if s = json_stringify (access_header ''k'') then Some (access_header ''k'')
      else if s = json_stringify demo_payload then Some demo_payload else None)"

lemma issued_token_accepted_at_edge_witness:
  "fst (authenticate_execute
      (jwks_verify demo_parse (\<lambda>k m s. s = ''s'') jk_n demo_verifier
         (Some [\<lparr>jk_kty = Some ''RSA'', jk_kid = Some ''k'', jk_n = Some ''n'', jk_e = Some ''e''\<rparr>]) 965999)
      (Some (''Bearer '' @ tv_accessToken demo_view)) None) =
   Inr \<lparr>gi_sub = ''u'', gi_tid = ''t'', gi_sessionId = ''sid_1'', gi_actorId = ''u'', gi_platformAdmin = True\<rparr> \<and>
   fst (authenticate_execute
      (jwks_verify demo_parse (\<lambda>k m s. s = ''s'') jk_n demo_verifier
         (Some [\<lparr>jk_kty = Some ''RSA'', jk_kid = Some ''k'', jk_n = Some ''n'', jk_e = Some ''e''\<rparr>]) 966000)
      (Some (''Bearer '' @ tv_accessToken demo_view)) None) = Inl (unauthenticated ''token_expired'')"
proof -
  have view: "tv_expiresIn demo_view = 900" "tv_sid demo_view = ''sid_1''"
    by (simp_all add: demo_view_def issueFor_def userId_fromString_def Let_def demo_policy_def new_sessionId_def
        demo_secrets_def)
  obtain store where i: "issueFor demo_signer demo_policy (\<lambda>_. True) demo_secrets 5000 demo_user None Map.empty =
      (Inr demo_view, store)"
    by (simp add: demo_view_def issueFor_def userId_fromString_def Let_def)
  have ids: "us_id demo_user = ''u''" "us_tenantId demo_user = ''t''" "us_platformAdmin demo_user"
    "sg_kid demo_signer = ''k''" "sg_sign demo_signer m = ''s''" "vc_skew demo_verifier = 60" for m
    by (simp_all add: demo_user_def demo_signer_def demo_verifier_def)
  have "json_stringify (access_header ''k'') \<noteq> json_stringify demo_payload" by code_simp
  then have p: "parses_back demo_parse [access_header (sg_kid demo_signer),
       access_payload (issued_claims demo_policy demo_user (us_id demo_user) (tv_sid demo_view)) (5000 div 1000)
         (5000 div 1000 + tv_expiresIn demo_view)]"
    unfolding ids view parses_back_def by (simp add: demo_parse_def flip: demo_payload_def)
  have j: "signer_jwks (sg_kid demo_signer) (Some ''n'') (Some ''e'') =
      Inr [\<lparr>jk_kty = Some ''RSA'', jk_kid = Some ''k'', jk_n = Some ''n'', jk_e = Some ''e''\<rparr>]"
    by (simp add: signer_jwks_def ids)
  note edge = issued_token_accepted_at_edge[where import_key = jk_n and rsa_verify = "\<lambda>k m s. s = ''s''"
      and key = "''n''" and cfg = demo_verifier, OF i j _ _ _ _ _ _ p]
  show ?thesis
    using edge[of 965999] edge[of 966000]
    by (simp add: ids view demo_verifier_def demo_policy_def)
qed

section \<open>Refresh tokens\<close>

definition granted :: "token_view result \<Rightarrow> string set" where
  "granted r = (case r of Inr v \<Rightarrow> {tv_refreshToken v} | Inl _ \<Rightarrow> {})"

text \<open>
  The grants in any order and with any outcome: the tokens handed out so far and those
  exchanged so far.  A token drawn at random has not been handed out before.
\<close>

inductive idp_run ::
  "(string \<Rightarrow> string \<Rightarrow> nat \<Rightarrow> string) \<Rightarrow> signer \<Rightarrow> issuance_policy \<Rightarrow> (string \<Rightarrow> bool) \<Rightarrow> user_repository \<Rightarrow>
   refresh_store \<Rightarrow> string set \<Rightarrow> string list \<Rightarrow> bool"
  for scrypt signer policy is_uuid users where
  boot: "idp_run scrypt signer policy is_uuid users Map.empty {} []"
| password: "idp_run scrypt signer policy is_uuid users st out used \<Longrightarrow> new_refreshToken (sx_bytes rnd) \<notin> out \<Longrightarrow>
    issueToken_execute scrypt signer policy is_uuid users rnd nowMs email pw st = (r, st') \<Longrightarrow>
    idp_run scrypt signer policy is_uuid users st' (out \<union> granted r) used"
| refresh: "idp_run scrypt signer policy is_uuid users st out used \<Longrightarrow> new_refreshToken (sx_bytes rnd) \<notin> out \<Longrightarrow>
    refreshToken_execute signer policy is_uuid users rnd nowMs t st = (r, st') \<Longrightarrow>
    idp_run scrypt signer policy is_uuid users st' (out \<union> granted r) (if is_ok r then used @ [t] else used)"

lemma issueFor_store:
  assumes "issueFor signer policy is_uuid rnd nowMs u session st = (r, st')"
  shows "(\<exists>e. r = Inl e) \<and> st' = st \<or>
    (\<exists>v x. r = Inr v \<and> tv_refreshToken v = new_refreshToken (sx_bytes rnd) \<and> st' = st(tv_refreshToken v \<mapsto> x) \<and>
       tv_sub v = us_id u \<and> tv_tid v = us_tenantId u \<and> tv_sid v = or_default session (new_sessionId (sx_uuid rnd)))"
  using assms by (auto simp: issueFor_def Let_def userId_fromString_def store_save_def split: if_splits)

lemma issueToken_store:
  assumes "issueToken_execute scrypt signer policy is_uuid users rnd nowMs email pw st = (r, st')"
  shows "granted r = {} \<and> st' = st \<or>
    granted r = {new_refreshToken (sx_bytes rnd)} \<and> (\<exists>x. st' = st(new_refreshToken (sx_bytes rnd) \<mapsto> x))"
  using assms issueFor_store[of signer policy is_uuid rnd nowMs _ None st r st']
  by (fastforce simp: issueToken_execute_def granted_def Let_def split: sum.splits option.splits if_splits)

lemma refreshToken_store:
  assumes "refreshToken_execute signer policy is_uuid users rnd nowMs t st = (r, st')"
  shows "(\<exists>e. r = Inl e) \<and> st' = st(t := None) \<or>
    (\<exists>v x old u. r = Inr v \<and> tv_refreshToken v = new_refreshToken (sx_bytes rnd) \<and>
       st' = (st(t := None))(tv_refreshToken v \<mapsto> x) \<and> st t = Some old \<and> nowMs div 1000 < rr_expiresAt old \<and>
       ur_byId users (rr_userId old) = Some u \<and> us_active u \<and> tv_sid v = rr_sessionId old \<and>
       tv_sub v = us_id u \<and> tv_tid v = us_tenantId u)"
proof (cases "st t")
  case None
  then have "st(t := None) = st" by (simp add: fun_upd_idem)
  then show ?thesis using assms None by (auto simp: refreshToken_execute_def store_consume_def)
next
  case (Some old)
  show ?thesis
    using assms Some issueFor_store[of signer policy is_uuid rnd nowMs _ "Some (rr_sessionId old)" "st(t := None)" r st']
    by (fastforce simp: refreshToken_execute_def store_consume_def userId_fromString_def
        split: option.splits if_splits)
qed

lemma idp_run_inv:
  "idp_run scrypt signer policy is_uuid users st out used \<Longrightarrow>
   dom st \<subseteq> out \<and> distinct used \<and> set used \<subseteq> out \<and> set used \<inter> dom st = {}"
proof (induction rule: idp_run.induct)
  case boot
  show ?case by simp
next
  case (password st out used rnd nowMs email pw r st')
  have fresh: "new_refreshToken (sx_bytes rnd) \<notin> set used" using password.hyps(2) password.IH by auto
  from issueToken_store[OF password.hyps(3)] show ?case
  proof
    assume "granted r = {} \<and> st' = st"
    then show ?thesis using password.IH by simp
  next
    assume *: "granted r = {new_refreshToken (sx_bytes rnd)} \<and> (\<exists>x. st' = st(new_refreshToken (sx_bytes rnd) \<mapsto> x))"
    then have g: "granted r = {new_refreshToken (sx_bytes rnd)}"
      and d: "dom st' = insert (new_refreshToken (sx_bytes rnd)) (dom st)" by auto
    show ?thesis unfolding g d using password.IH fresh by auto
  qed
next
  case (refresh st out used rnd nowMs t r st')
  from refreshToken_store[OF refresh.hyps(3)] show ?case
  proof
    assume *: "(\<exists>e. r = Inl e) \<and> st' = st(t := None)"
    then have g: "granted r = {}" "\<not> is_ok r" and d: "dom st' = dom st - {t}"
      by (auto simp: granted_def is_ok_def)
    show ?thesis unfolding d using refresh.IH g by auto
  next
    assume "\<exists>v x old u. r = Inr v \<and> tv_refreshToken v = new_refreshToken (sx_bytes rnd) \<and>
       st' = (st(t := None))(tv_refreshToken v \<mapsto> x) \<and> st t = Some old \<and> nowMs div 1000 < rr_expiresAt old \<and>
       ur_byId users (rr_userId old) = Some u \<and> us_active u \<and> tv_sid v = rr_sessionId old \<and>
       tv_sub v = us_id u \<and> tv_tid v = us_tenantId u"
    then obtain v x old where v: "r = Inr v" "tv_refreshToken v = new_refreshToken (sx_bytes rnd)"
      "st' = (st(t := None))(new_refreshToken (sx_bytes rnd) \<mapsto> x)" "st t = Some old" by auto
    have d: "dom st' = insert (new_refreshToken (sx_bytes rnd)) (dom st - {t})" unfolding v(3) by (rule set_eqI) auto
    have g: "granted r = {new_refreshToken (sx_bytes rnd)}" "is_ok r" using v(1,2) by (simp_all add: granted_def is_ok_def)
    have t: "t \<in> dom st" using v(4) by (rule domI)
    then have "t \<notin> set used" "t \<in> out" using refresh.IH by auto
    moreover have "new_refreshToken (sx_bytes rnd) \<noteq> t" "new_refreshToken (sx_bytes rnd) \<notin> set used"
      using refresh.hyps(2) refresh.IH \<open>t \<in> out\<close> by auto
    ultimately show ?thesis unfolding d g using refresh.IH g by auto
  qed
qed

text \<open>
  C22. In whatever order the two grants are used and whatever they answer, a refresh token is
  exchanged at most once: the tokens exchanged so far are distinct, were all handed out by
  the service, and each of them is refused from then on as invalid.  An exchange that
  succeeds was made before the expiry with a token the store held, keeps the session of that
  token, and issues for the active user of the store.
\<close>

theorem refresh_token_single_use:
  assumes "idp_run scrypt signer policy is_uuid users st out used"
  shows "distinct used \<and> set used \<subseteq> out \<and>
     (\<forall>t \<in> set used. refreshToken_execute signer policy is_uuid users rnd nowMs t st =
        (Inl (InvalidRefreshTokenError ''invalid_refresh_token''), st)) \<and>
     (\<forall>t v st'. refreshToken_execute signer policy is_uuid users rnd nowMs t st = (Inr v, st') \<longrightarrow>
        t \<in> out \<and> t \<notin> set used \<and>
        (\<exists>old u. st t = Some old \<and> nowMs div 1000 < rr_expiresAt old \<and>
           ur_byId users (rr_userId old) = Some u \<and> us_active u \<and> tv_sid v = rr_sessionId old \<and>
           tv_sub v = us_id u \<and> tv_tid v = us_tenantId u))"
proof -
  note inv = idp_run_inv[OF assms]
  have "refreshToken_execute signer policy is_uuid users rnd nowMs t st =
      (Inl (InvalidRefreshTokenError ''invalid_refresh_token''), st)" if "t \<in> set used" for t
  proof -
    have "st t = None" using inv that by blast
    then show ?thesis by (simp add: refreshToken_execute_def store_consume_def)
  qed
  moreover have "t \<in> out \<and> t \<notin> set used \<and>
      (\<exists>old u. st t = Some old \<and> nowMs div 1000 < rr_expiresAt old \<and> ur_byId users (rr_userId old) = Some u \<and>
         us_active u \<and> tv_sid v = rr_sessionId old \<and> tv_sub v = us_id u \<and> tv_tid v = us_tenantId u)"
    if "refreshToken_execute signer policy is_uuid users rnd nowMs t st = (Inr v, st')" for t v st'
  proof -
    note cases = refreshToken_store[OF that]
    obtain old u where row: "st t = Some old" "nowMs div 1000 < rr_expiresAt old" "ur_byId users (rr_userId old) = Some u"
        "us_active u" "tv_sid v = rr_sessionId old" "tv_sub v = us_id u" "tv_tid v = us_tenantId u"
      using cases by auto
    moreover have "t \<in> dom st" using row(1) by blast
    ultimately show ?thesis using inv by blast
  qed
  ultimately show ?thesis using inv by blast
qed

definition demo_users :: user_repository where
  "demo_users = \<lparr>ur_byEmail = [''u@acme.com'' \<mapsto> demo_user], ur_byId = [''u'' \<mapsto> demo_user]\<rparr>"

definition zero_scrypt :: "string \<Rightarrow> string \<Rightarrow> nat \<Rightarrow> string" where
  "zero_scrypt p s n = replicate n (CHR 0x00)"

definition demo_store :: "nat \<Rightarrow> refresh_store" where
  "demo_store n =
     (let st = snd (issueToken_execute zero_scrypt demo_signer demo_policy (\<lambda>_. True) demo_users demo_secrets 5000
                      '' U@acme.com'' ''pw'' Map.empty)
      in if n = 0 then st
         else snd (refreshToken_execute demo_signer demo_policy (\<lambda>_. True) demo_users
                     \<lparr>sx_bytes = ''c'', sx_uuid = ''2''\<rparr> 9000 (new_refreshToken ''b'') st))"

lemma refresh_token_single_use_witness:
  "refreshToken_execute demo_signer demo_policy (\<lambda>_. True) demo_users demo_secrets 9999 (new_refreshToken ''b'') (demo_store 1) =
     (Inl (InvalidRefreshTokenError ''invalid_refresh_token''), demo_store 1)"
proof -
  let ?c = "\<lparr>sx_bytes = ''c'', sx_uuid = ''2''\<rparr>"
  have ok: "is_ok (fst (issueToken_execute zero_scrypt demo_signer demo_policy (\<lambda>_. True) demo_users demo_secrets 5000
      '' U@acme.com'' ''pw'' Map.empty))"
    "is_ok (fst (refreshToken_execute demo_signer demo_policy (\<lambda>_. True) demo_users ?c 9000 (new_refreshToken ''b'')
      (demo_store 0)))"
    subgoal by code_simp
    subgoal by code_simp
    done
  define r where "r = fst (issueToken_execute zero_scrypt demo_signer demo_policy (\<lambda>_. True) demo_users demo_secrets 5000
      '' U@acme.com'' ''pw'' Map.empty)"
  have r: "issueToken_execute zero_scrypt demo_signer demo_policy (\<lambda>_. True) demo_users demo_secrets 5000
      '' U@acme.com'' ''pw'' Map.empty = (r, demo_store 0)"
    by (simp only: demo_store_def Let_def if_True r_def prod.collapse refl)
  define q where "q = fst (refreshToken_execute demo_signer demo_policy (\<lambda>_. True) demo_users ?c 9000
      (new_refreshToken ''b'') (demo_store 0))"
  have q: "refreshToken_execute demo_signer demo_policy (\<lambda>_. True) demo_users ?c 9000 (new_refreshToken ''b'')
      (demo_store 0) = (q, demo_store 1)"
    by (simp only: demo_store_def Let_def if_True if_False q_def prod.collapse refl one_neq_zero)
  have b: "granted r = {new_refreshToken ''b''}"
    using issueToken_store[OF r] ok(1) unfolding r_def[symmetric] by (auto simp: granted_def demo_secrets_def is_ok_def split: sum.splits)
  have ne: "new_refreshToken ''c'' \<noteq> new_refreshToken ''b''" by code_simp
  have "idp_run zero_scrypt demo_signer demo_policy (\<lambda>_. True) demo_users (demo_store 0) ({} \<union> granted r) []"
    by (rule idp_run.password[OF idp_run.boot _ r]) simp
  from idp_run.refresh[OF this _ q] have
    "idp_run zero_scrypt demo_signer demo_policy (\<lambda>_. True) demo_users (demo_store 1)
       (({} \<union> granted r) \<union> granted q) [new_refreshToken ''b'']"
    using ne b ok(2) unfolding q_def[symmetric] by simp
  from refresh_token_single_use[OF this, of demo_secrets 9999] show ?thesis by simp
qed

end
