(* ===== verification/Expense.thy ===== *)
theory Expense
  imports OptimisticLock NewestFirst
begin

text \<open>
  Expense reports (apps/expense/src/modules/expense): the aggregate, its repository and the
  approval.  The state is the list of the expenses the tenant sees under row-level
  security.  An amount is a whole number, as every number of the model; None stands for the
  numbers that are not finite.
\<close>

datatype expense_status = Pending | Approved | Rejected

record expense =
  ex_id :: string
  ex_tenantId :: string
  ex_amount :: int
  ex_currency :: string
  ex_department :: string
  ex_ownerId :: string
  ex_status :: expense_status
  ex_description :: string
  ex_scope :: string
  ex_version :: int
  ex_createdAt :: int
  ex_updatedAt :: int

record create_expense_props =
  ce_id :: string
  ce_tenantId :: string
  ce_amount :: "int option"
  ce_currency :: string
  ce_department :: string
  ce_ownerId :: string
  ce_description :: string
  ce_scope :: string
  ce_now :: int

datatype expense_event = ExpenseApprovedEvent string string string

section \<open>Identifiers and errors\<close>

definition ExpenseNotFoundError :: "string \<Rightarrow> exn" where
  "ExpenseNotFoundError i = NotFoundError (''Expense '' @ i @ '' not found'') (Some ''expense_not_found'')"

definition ExpenseStatusError :: "string \<Rightarrow> string \<Rightarrow> exn" where
  "ExpenseStatusError m reason = ConflictError m (Some reason)"

definition is_alnum :: "char \<Rightarrow> bool" where [char_class]:
  "is_alnum c \<longleftrightarrow> is_lower c \<or> is_upper c \<or> is_digit c"

definition is_expense_id :: "string \<Rightarrow> bool" where
  "is_expense_id v \<longleftrightarrow>
     (case v of
        [] \<Rightarrow> False
      | c # cs \<Rightarrow> is_alnum c \<and> length cs \<le> 63 \<and>
          list_all (\<lambda>x. is_alnum x \<or> x = CHR ''_'' \<or> x = CHR ''-'') cs)"

definition expenseId_fromString :: "string \<Rightarrow> string result" where
  "expenseId_fromString v =
     (if \<not> is_expense_id v then Inl (ValidationError ''Invalid expense id'' (Some ''expense_id_invalid'')) else Inr v)"

section \<open>The aggregate\<close>

definition expense_create :: "create_expense_props \<Rightarrow> expense result" where
  "expense_create p =
     rbind (expenseId_fromString (ce_id p)) (\<lambda>i.
     rbind (againstEmpty (Some (ce_tenantId p)) ''tenantId'') (\<lambda>_.
     rbind (againstEmpty (Some (ce_currency p)) ''currency'') (\<lambda>_.
     rbind (againstEmpty (Some (ce_department p)) ''department'') (\<lambda>_.
     rbind (againstEmpty (Some (ce_ownerId p)) ''ownerId'') (\<lambda>_.
     rbind (againstEmpty (Some (ce_scope p)) ''scope'') (\<lambda>_.
     rbind (guard_invariant (ce_amount p \<noteq> None) ''amount must be a finite number'' ''amount_invalid'') (\<lambda>_.
     rbind (guard_invariant (or_default (ce_amount p) 0 \<ge> 0) ''amount must be non-negative'' ''amount_negative'') (\<lambda>_.
     rbind (guard_invariant (length (ce_description p) \<le> 1000) ''description too long'' ''description_too_long'') (\<lambda>_.
     Inr \<lparr>ex_id = i, ex_tenantId = ce_tenantId p, ex_amount = or_default (ce_amount p) 0,
          ex_currency = ce_currency p, ex_department = ce_department p, ex_ownerId = ce_ownerId p,
          ex_status = Pending, ex_description = ce_description p, ex_scope = ce_scope p,
          ex_version = 1, ex_createdAt = ce_now p, ex_updatedAt = ce_now p\<rparr>)))))))))"

text \<open>Rehydration checks nothing.\<close>

definition expense_fromSnapshot :: "expense \<Rightarrow> expense result" where
  "expense_fromSnapshot s = Inr s"

definition expense_touch :: "int \<Rightarrow> expense \<Rightarrow> expense" where
  "expense_touch now e = e\<lparr>ex_updatedAt := now, ex_version := ex_version e + 1\<rparr>"

definition approve :: "string \<Rightarrow> string \<Rightarrow> int \<Rightarrow> expense \<Rightarrow> (expense \<times> expense_event) result" where
  "approve approvedBy decisionId now e =
     (if ex_status e = Approved
      then Inl (ExpenseStatusError ''Expense is already approved'' ''expense_already_approved'')
      else if ex_status e = Rejected
      then Inl (ExpenseStatusError ''Cannot approve a rejected expense'' ''expense_rejected'')
      else Inr (expense_touch now (e\<lparr>ex_status := Approved\<rparr>),
                ExpenseApprovedEvent (ex_id e) approvedBy decisionId))"

section \<open>The repository\<close>

type_synonym expense_table = "expense list"

definition set_ex_version :: "int \<Rightarrow> expense \<Rightarrow> expense" where
  "set_ex_version v e = e\<lparr>ex_version := v\<rparr>"

text \<open>A number with more than twelve digits before the point of a numeric(14,2) column.\<close>

definition numeric_overflow :: exn where
  "numeric_overflow = Crash ''QueryFailedError: numeric field overflow''"

definition expense_write :: "expense \<Rightarrow> expense_table \<Rightarrow> expense_table result" where
  "expense_write e rows =
     (if \<bar>ex_amount e\<bar> \<ge> 10 ^ 12 then Inl numeric_overflow
      else if length (ex_currency e) > 3 \<or> length (ex_department e) > 100 \<or> length (ex_ownerId e) > 255 \<or>
              length (ex_description e) > 1000 \<or> length (ex_scope e) > 255 \<or> length (ex_id e) > 64
      then Inl value_too_long
      else Inr (save_row ex_id e rows))"

definition expense_save :: "expense \<Rightarrow> expense_table \<Rightarrow> expense_table result" where
  "expense_save e rows =
     rbind (guardOptimisticLock ex_id ex_version set_ex_version (ex_id e) (ex_version e) rows) (expense_write e)"

definition expense_findById :: "string \<Rightarrow> expense_table \<Rightarrow> expense option result" where
  "expense_findById i rows =
     (case find (\<lambda>e. ex_id e = i) rows of
        None \<Rightarrow> Inr None
      | Some row \<Rightarrow> rbind (expense_fromSnapshot row) (\<lambda>e. Inr (Some e)))"

definition expense_list ::
  "(string \<Rightarrow> int option) \<Rightarrow> (string \<Rightarrow> string option) \<Rightarrow> page_query \<Rightarrow> expense_table \<Rightarrow> expense cursor_page result" where
  "expense_list pg_timestamp pg_id q rows =
     newest_page pg_timestamp pg_id ex_createdAt ex_id expense_fromSnapshot q rows"

section \<open>The approval\<close>

record approve_response =
  as_id :: string
  as_status :: expense_status
  as_approvedBy :: string
  as_decisionId :: string
  as_at :: string

text \<open>The reading half of the use case: the approved aggregate, not yet saved, and its event.\<close>

definition approve_load ::
  "int \<Rightarrow> string \<Rightarrow> string \<Rightarrow> string \<Rightarrow> expense_table \<Rightarrow> (expense \<times> expense_event) result" where
  "approve_load now expenseId approvedBy decisionId rows =
     rbind (expenseId_fromString expenseId) (\<lambda>i.
     rbind (expense_findById i rows) (\<lambda>found.
     case found of
       None \<Rightarrow> Inl (ExpenseNotFoundError expenseId)
     | Some e \<Rightarrow> approve approvedBy decisionId now e))"

definition approveExpense_execute ::
  "int \<Rightarrow> string \<Rightarrow> string \<Rightarrow> string \<Rightarrow> expense_table \<Rightarrow>
   (approve_response \<times> expense_table \<times> expense_event list) result" where
  "approveExpense_execute now expenseId approvedBy decisionId rows =
     rbind (approve_load now expenseId approvedBy decisionId rows) (\<lambda>(e, event).
     rbind (expense_save e rows) (\<lambda>rows'.
     Inr (\<lparr>as_id = ex_id e, as_status = ex_status e, as_approvedBy = approvedBy,
           as_decisionId = decisionId, as_at = toISOString now\<rparr>, rows', [event])))"

interpretation expense_versions: versioned_table ex_id ex_version set_ex_version
  by unfold_locales (simp_all add: set_ex_version_def)

lemma expense_findById_ok:
  "expense_findById i rows = Inr (Some e) \<longleftrightarrow> find (\<lambda>e. ex_id e = i) rows = Some e"
  by (auto simp: expense_findById_def expense_fromSnapshot_def split: option.splits)

lemma expense_save_ok:
  assumes "expense_save e rows = Inr rows'"
  obtains rows1 where "guardOptimisticLock ex_id ex_version set_ex_version (ex_id e) (ex_version e) rows = Inr rows1"
    and "rows' = save_row ex_id e rows1"
  using assms by (auto simp: expense_save_def expense_write_def rbind_Inr_iff split: if_splits)

lemma approve_load_ok:
  assumes "approve_load now i by dec rows = Inr (e, event)"
  obtains e0 where "e0 \<in> set rows" "ex_id e0 = i" "ex_status e0 = Pending"
    "e = e0\<lparr>ex_status := Approved, ex_updatedAt := now, ex_version := ex_version e0 + 1\<rparr>"
    "event = ExpenseApprovedEvent i by dec"
  using assms expense_status.exhaust
  by (auto simp: approve_load_def rbind_Inr_iff expenseId_fromString_def expense_findById_ok approve_def
      expense_touch_def split: option.splits if_splits dest!: find_SomeD)

end
