(* ===== verification/ExpenseAccess.thy ===== *)
theory ExpenseAccess
  imports Expense AuthzGuard TenantDb
begin

text \<open>
  Who may approve and read an expense: the guarded approval route of the controller with its
  resource loader, and the listing that asks the PDP for every row of a page.
\<close>

section \<open>Interleaved approvals\<close>

text \<open>
  Approvals of one tenant in any interleaving: an approval reads its expense in one step and
  saves it, or is refused, in a later one.  The state is the table, the approvals that have
  read but not saved, and the events dispatched.
\<close>

type_synonym approvals = "expense_table \<times> (expense \<times> expense_event) list \<times> expense_event list"

inductive approval_step :: "approvals \<Rightarrow> approvals \<Rightarrow> bool" where
  load: "approve_load now i by dec rows = Inr x \<Longrightarrow>
    approval_step (rows, flight, sent) (rows, x # flight, sent)"
| save: "(e, event) \<in> set flight \<Longrightarrow> expense_save e rows = Inr rows' \<Longrightarrow>
    approval_step (rows, flight, sent) (rows', remove1 (e, event) flight, sent @ [event])"
| refuse: "(e, event) \<in> set flight \<Longrightarrow> expense_save e rows = Inl err \<Longrightarrow>
    approval_step (rows, flight, sent) (rows, remove1 (e, event) flight, sent)"

inductive approvals_run :: "expense_table \<Rightarrow> approvals \<Rightarrow> bool" for rows0 where
  start: "approvals_run rows0 (rows0, [], [])"
| step: "approvals_run rows0 s \<Longrightarrow> approval_step s s' \<Longrightarrow> approvals_run rows0 s'"

fun approved_id :: "expense_event \<Rightarrow> string" where
  "approved_id (ExpenseApprovedEvent i by dec) = i"

definition approved_by :: "expense \<Rightarrow> expense \<Rightarrow> expense_event \<Rightarrow> bool" where
  "approved_by e0 e event \<longleftrightarrow> ex_status e0 = Pending \<and>
     (\<exists>now by dec. e = e0\<lparr>ex_status := Approved, ex_updatedAt := now, ex_version := ex_version e0 + 1\<rparr> \<and>
        event = ExpenseApprovedEvent (ex_id e0) by dec)"

text \<open>A row is as it was, and no event names it, or one event approved it once.\<close>

definition row_history :: "expense_event list \<Rightarrow> expense \<Rightarrow> expense \<Rightarrow> bool" where
  "row_history sent e0 e \<longleftrightarrow> (e = e0 \<and> ex_id e0 \<notin> approved_id ` set sent) \<or>
     (\<exists>event \<in> set sent. approved_by e0 e event)"

definition approvals_ok :: "expense_table \<Rightarrow> approvals \<Rightarrow> bool" where
  "approvals_ok rows0 s \<longleftrightarrow> (case s of (rows, flight, sent) \<Rightarrow>
     list_all2 (row_history sent) rows0 rows \<and> distinct (map approved_id sent) \<and>
     (\<forall>(e, event) \<in> set flight. \<exists>e0 \<in> set rows0. approved_by e0 e event))"

lemma approved_by_simps:
  assumes "approved_by e0 e event"
  shows "ex_id e = ex_id e0" "ex_version e = ex_version e0 + 1" "ex_status e = Approved" "ex_status e0 = Pending"
    "approved_id event = ex_id e0"
  using assms by (auto simp: approved_by_def)

lemma row_history_id: "row_history sent e0 e \<Longrightarrow> ex_id e = ex_id e0"
  by (auto simp: row_history_def dest: approved_by_simps)

lemma history_ids: "list_all2 (row_history sent) rows0 rows \<Longrightarrow> map ex_id rows = map ex_id rows0"
  by (induction rule: list_all2_induct) (auto dest: row_history_id)

lemma history_row:
  assumes "list_all2 (row_history sent) rows0 rows" and "e \<in> set rows"
  shows "\<exists>e0 \<in> set rows0. row_history sent e0 e"
proof -
  obtain n where n: "n < length rows" "e = rows ! n" using assms(2) by (metis in_set_conv_nth)
  then have "row_history sent (rows0 ! n) e" "rows0 ! n \<in> set rows0"
    using assms(1) by (simp_all add: list_all2_conv_all_nth)
  then show ?thesis by blast
qed

lemma approval_load_ok:
  assumes ok: "approvals_ok rows0 (rows, flight, sent)" and l: "approve_load now i by dec rows = Inr x"
  shows "approvals_ok rows0 (rows, x # flight, sent)"
proof -
  obtain e event where x: "x = (e, event)" by (cases x)
  obtain r where r: "r \<in> set rows" "ex_id r = i" "ex_status r = Pending"
    "e = r\<lparr>ex_status := Approved, ex_updatedAt := now, ex_version := ex_version r + 1\<rparr>"
    "event = ExpenseApprovedEvent i by dec"
    using approve_load_ok[OF l[unfolded x]] by blast
  have h: "list_all2 (row_history sent) rows0 rows" using ok by (simp add: approvals_ok_def)
  obtain e0 where e0: "e0 \<in> set rows0" "row_history sent e0 r" using history_row[OF h r(1)] by blast
  have "r = e0" using e0(2) r(3) by (auto simp: row_history_def dest: approved_by_simps)
  then have "approved_by e0 e event" using r by (auto simp: approved_by_def)
  then show ?thesis using ok e0(1) by (auto simp: approvals_ok_def x)
qed

lemma approval_save_ok:
  assumes ok: "approvals_ok rows0 (rows, flight, sent)" and f: "(e, event) \<in> set flight"
    and s: "expense_save e rows = Inr rows'"
    and d: "distinct (map ex_id rows0)" and v: "\<And>x. x \<in> set rows0 \<Longrightarrow> 1 \<le> ex_version x"
  shows "approvals_ok rows0 (rows', remove1 (e, event) flight, sent @ [event])"
proof -
  have h: "list_all2 (row_history sent) rows0 rows" and ds: "distinct (map approved_id sent)"
    and fl: "\<forall>(e, event) \<in> set flight. \<exists>e0 \<in> set rows0. approved_by e0 e event"
    using ok by (simp_all add: approvals_ok_def)
  obtain e0 where e0: "e0 \<in> set rows0" "approved_by e0 e event" using fl f by blast
  note e = approved_by_simps[OF e0(2)]
  obtain rows1 where g: "guardOptimisticLock ex_id ex_version set_ex_version (ex_id e) (ex_version e) rows = Inr rows1"
    and rows': "rows' = save_row ex_id e rows1" using expense_save_ok[OF s] by blast
  have ids: "map ex_id rows = map ex_id rows0" using history_ids[OF h] .
  have "ex_id e \<in> set (map ex_id rows)" unfolding ids using e(1) e0(1) by auto
  then have "ex_id e \<in> ex_id ` set rows" by simp
  then have m: "rows' = map (\<lambda>x. if ex_id x = ex_id e then e else x) rows"
    unfolding rows' by (rule expense_versions.guard_save_map[OF g])
  have cur: "ex_version r = ex_version e0" if "r \<in> set rows" "ex_id r = ex_id e" for r
    using expense_versions.guard_current[OF g _ that] v[OF e0(1)] d ids e(2) by simp
  have one: "x0 = e0" if "x0 \<in> set rows0" "ex_id x0 = ex_id e" for x0
    using d that e(1) e0(1) by (metis distinct_map inj_onD)
  have unsent: "ex_id e0 \<notin> approved_id ` set sent"
  proof -
    obtain r where r: "r \<in> set rows" "ex_id r = ex_id e" using \<open>ex_id e \<in> ex_id ` set rows\<close> by auto
    obtain x0 where x0: "x0 \<in> set rows0" "row_history sent x0 r" using history_row[OF h r(1)] by blast
    have "x0 = e0" using one x0 r(2) row_history_id by metis
    then show ?thesis using x0(2) cur[OF r] by (auto simp: row_history_def dest: approved_by_simps)
  qed
  have "list_all2 (row_history (sent @ [event])) rows0 rows'"
  proof (rule list_all2_all_nthI)
    show "length rows0 = length rows'" using h unfolding m by (simp add: list_all2_lengthD)
  next
    fix n assume n: "n < length rows0"
    then have n': "n < length rows" and hn: "row_history sent (rows0 ! n) (rows ! n)"
      using h by (simp_all add: list_all2_lengthD list_all2_nthD)
    show "row_history (sent @ [event]) (rows0 ! n) (rows' ! n)"
    proof (cases "ex_id (rows ! n) = ex_id e")
      case True
      then have "rows0 ! n = e0" using one n row_history_id[OF hn] by simp
      then show ?thesis using True n' e0(2) by (auto simp: m row_history_def)
    next
      case False
      then have "approved_id event \<noteq> ex_id (rows0 ! n)" using row_history_id[OF hn] e(1,5) by simp
      then show ?thesis using False n' hn by (auto simp: m row_history_def)
    qed
  qed
  moreover have "\<forall>x \<in> set (remove1 (e, event) flight). case x of (e, event) \<Rightarrow> \<exists>e0 \<in> set rows0. approved_by e0 e event"
    using fl set_remove1_subset[of "(e, event)" flight] by blast
  ultimately show ?thesis using ds unsent e(5) by (simp add: approvals_ok_def)
qed

lemma approval_step_ok:
  assumes "approval_step s s'" and "approvals_ok rows0 s"
    and d: "distinct (map ex_id rows0)" and v: "\<And>x. x \<in> set rows0 \<Longrightarrow> 1 \<le> ex_version x"
  shows "approvals_ok rows0 s'"
  using assms(1,2)
proof (induction rule: approval_step.induct)
  case (load now i who dec rows x flight sent)
  then show ?case using approval_load_ok by blast
next
  case (save e event flight rows rows' sent)
  then show ?case using approval_save_ok[OF save(3,1,2) d v] by blast
next
  case (refuse e event flight rows err sent)
  have "set (remove1 (e, event) flight) \<subseteq> set flight" by (rule set_remove1_subset)
  then show ?case using refuse(3) unfolding approvals_ok_def by auto
qed

lemma approvals_run_ok:
  assumes "approvals_run rows0 s"
    and "distinct (map ex_id rows0)" and "\<And>x. x \<in> set rows0 \<Longrightarrow> 1 \<le> ex_version x"
  shows "approvals_ok rows0 s"
  using assms(1)
proof (induction rule: approvals_run.induct)
  case start
  have "list_all2 (row_history []) rows0 rows0" by (rule list_all2_refl) (simp add: row_history_def)
  then show ?case by (simp add: approvals_ok_def)
next
  case (step s s')
  then show ?case using approval_step_ok[OF step.hyps(2) step.IH assms(2,3)] by blast
qed

text \<open>
  C26. In every interleaving of approvals each expense is approved at most once.  The events
  dispatched name distinct expenses; a row of the table is unchanged and unnamed, or was
  pending and differs exactly by its status, version and time, with one event that says who
  approved it under which decision.  An approval that read an expense before somebody else
  approved it is refused as a version mismatch when it saves.
\<close>

theorem expense_approved_at_most_once:
  assumes "approvals_run rows0 (rows, flight, sent)"
    and "distinct (map ex_id rows0)" and "\<And>x. x \<in> set rows0 \<Longrightarrow> 1 \<le> ex_version x"
  shows "distinct (map approved_id sent) \<and> list_all2 (row_history sent) rows0 rows \<and>
     (\<forall>(e, event) \<in> set flight. ex_id e \<in> approved_id ` set sent \<longrightarrow>
        expense_save e rows = Inl version_mismatch)"
proof -
  have ok: "approvals_ok rows0 (rows, flight, sent)" by (rule approvals_run_ok[OF assms])
  then have h: "list_all2 (row_history sent) rows0 rows" by (simp add: approvals_ok_def)
  have "expense_save e rows = Inl version_mismatch"
    if f: "(e, event) \<in> set flight" and s: "ex_id e \<in> approved_id ` set sent" for e event
  proof -
    obtain e0 where e0: "e0 \<in> set rows0" "approved_by e0 e event" using ok f by (auto simp: approvals_ok_def)
    note e = approved_by_simps[OF e0(2)]
    have "ex_id e \<in> set (map ex_id rows)" unfolding history_ids[OF h] using e(1) e0(1) by auto
    then obtain r where r: "r \<in> set rows" "ex_id r = ex_id e" by auto
    have "ex_version x \<noteq> ex_version e - 1" if x: "x \<in> set rows" "ex_id x = ex_id e" for x
    proof -
      obtain x0 where x0: "x0 \<in> set rows0" "row_history sent x0 x" using history_row[OF h x(1)] by blast
      have "x0 = e0" using assms(2) x0 x(2) e0(1) e(1) row_history_id by (metis distinct_map inj_onD)
      then show ?thesis using x0(2) s e(1,2) by (auto simp: row_history_def dest: approved_by_simps)
    qed
    then have "guardOptimisticLock ex_id ex_version set_ex_version (ex_id e) (ex_version e) rows = Inl version_mismatch"
      using expense_versions.guard_stale[OF _ r] e(2) assms(3)[OF e0(1)] by simp
    then show ?thesis by (simp add: expense_save_def)
  qed
  then show ?thesis using ok h by (auto simp: approvals_ok_def)
qed

definition sample_expense :: "string \<Rightarrow> string \<Rightarrow> expense" where
  "sample_expense i dept =
     \<lparr>ex_id = i, ex_tenantId = ''t1'', ex_amount = 8500, ex_currency = ''USD'', ex_department = dept,
      ex_ownerId = ''riya'', ex_status = Pending, ex_description = [], ex_scope = ''acme.'' @ dept,
      ex_version = 1, ex_createdAt = 0, ex_updatedAt = 0\<rparr>"

definition approved_sample :: expense where
  "approved_sample = (sample_expense ''e1'' ''finance'')\<lparr>ex_status := Approved, ex_updatedAt := 5, ex_version := 2\<rparr>"

lemma expense_approved_at_most_once_witness:
  "expense_save approved_sample [approved_sample] = Inl version_mismatch \<and>
   approvals_run [sample_expense ''e1'' ''finance'']
     ([approved_sample], [(approved_sample, ExpenseApprovedEvent ''e1'' ''b'' ''d2'')], [ExpenseApprovedEvent ''e1'' ''a'' ''d1''])"
proof -
  let ?e = "sample_expense ''e1'' ''finance''"
  have l: "approve_load 5 ''e1'' who dec [?e] = Inr (approved_sample, ExpenseApprovedEvent ''e1'' who dec)" for who dec
  proof -
    have "is_expense_id ''e1''" by code_simp
    then show ?thesis
      by (simp add: approve_load_def expenseId_fromString_def expense_findById_def expense_fromSnapshot_def
          approve_def expense_touch_def approved_sample_def sample_expense_def)
  qed
  have s: "expense_save approved_sample [?e] = Inr [approved_sample]" by code_simp
  have "approvals_run [?e] ([?e], [], [])" by (rule approvals_run.start)
  from approvals_run.step[OF this approval_step.load[OF l[of "''a''" "''d1''"]]]
  have r1: "approvals_run [?e] ([?e], [(approved_sample, ExpenseApprovedEvent ''e1'' ''a'' ''d1'')], [])" .
  from approvals_run.step[OF r1 approval_step.load[OF l[of "''b''" "''d2''"]]]
  have r2: "approvals_run [?e] ([?e], [(approved_sample, ExpenseApprovedEvent ''e1'' ''b'' ''d2''),
      (approved_sample, ExpenseApprovedEvent ''e1'' ''a'' ''d1'')], [])" .
  have "approval_step ([?e], [(approved_sample, ExpenseApprovedEvent ''e1'' ''b'' ''d2''),
        (approved_sample, ExpenseApprovedEvent ''e1'' ''a'' ''d1'')], [])
      ([approved_sample], remove1 (approved_sample, ExpenseApprovedEvent ''e1'' ''a'' ''d1'')
        [(approved_sample, ExpenseApprovedEvent ''e1'' ''b'' ''d2''),
         (approved_sample, ExpenseApprovedEvent ''e1'' ''a'' ''d1'')], [] @ [ExpenseApprovedEvent ''e1'' ''a'' ''d1''])"
    by (rule approval_step.save[OF _ s]) simp
  from approvals_run.step[OF r2 this] have r3: "approvals_run [?e] ([approved_sample],
      [(approved_sample, ExpenseApprovedEvent ''e1'' ''b'' ''d2'')], [ExpenseApprovedEvent ''e1'' ''a'' ''d1''])"
    by simp
  have "distinct (map ex_id [?e])" and "x \<in> set [?e] \<Longrightarrow> 1 \<le> ex_version x" for x
    by (auto simp: sample_expense_def)
  then have "expense_save approved_sample [approved_sample] = Inl version_mismatch"
    using expense_approved_at_most_once[OF r3] by (auto simp: approved_sample_def sample_expense_def)
  then show ?thesis using r3 by blast
qed

section \<open>The listing\<close>

record list_expenses_query =
  lq_principalId :: string
  lq_tenantId :: string
  lq_actorId :: string
  lq_traceId :: string
  lq_limit :: "int option"
  lq_cursor :: "string option"

record expense_view =
  ev_id :: string
  ev_tenantId :: string
  ev_amount :: int
  ev_currency :: string
  ev_department :: string
  ev_ownerId :: string
  ev_status :: expense_status
  ev_description :: string
  ev_createdAt :: string
  ev_updatedAt :: string

definition toExpenseView :: "expense \<Rightarrow> expense_view" where
  "toExpenseView e =
     \<lparr>ev_id = ex_id e, ev_tenantId = ex_tenantId e, ev_amount = ex_amount e, ev_currency = ex_currency e,
      ev_department = ex_department e, ev_ownerId = ex_ownerId e, ev_status = ex_status e,
      ev_description = ex_description e, ev_createdAt = toISOString (ex_createdAt e),
      ev_updatedAt = toISOString (ex_updatedAt e)\<rparr>"

record expense_page_view =
  xp_items :: "expense_view list"
  xp_nextCursor :: "string option"

definition EXPENSE_RESOURCE_KIND :: string where "EXPENSE_RESOURCE_KIND = ''expense_report''"

text \<open>The attributes of an expense the policies refer to.\<close>

definition expense_attr :: "expense \<Rightarrow> attribute_bag" where
  "expense_attr e =
     [''tenantId'' \<mapsto> JStr (ex_tenantId e), ''amount'' \<mapsto> JNum (ex_amount e),
      ''department'' \<mapsto> JStr (ex_department e), ''ownerId'' \<mapsto> JStr (ex_ownerId e)]"

type_synonym pip_resolver = "string \<Rightarrow> string \<Rightarrow> string \<Rightarrow> bool \<Rightarrow> effective_principal result"

text \<open>The principal of a scope, resolved once per request.\<close>

definition resolveEffective ::
  "pip_resolver \<Rightarrow> list_expenses_query \<Rightarrow> string \<Rightarrow> (string \<rightharpoonup> effective_principal) \<Rightarrow>
   effective_principal result \<times> (string \<rightharpoonup> effective_principal) \<times> pep_call list" where
  "resolveEffective pip q scope byScope =
     (case byScope scope of
        Some eff \<Rightarrow> (Inr eff, byScope, [])
      | None \<Rightarrow>
          (let call = PipResolve (lq_principalId q) (lq_tenantId q) scope False in
           case pip (lq_principalId q) (lq_tenantId q) scope False of
             Inl err \<Rightarrow> (Inl err, byScope, [call])
           | Inr eff \<Rightarrow> (Inr eff, byScope(scope \<mapsto> eff), [call])))"

definition list_emitAudit ::
  "int \<Rightarrow> list_expenses_query \<Rightarrow> string \<Rightarrow> pdp_resource \<Rightarrow> string \<Rightarrow> pdp_effect \<Rightarrow> string option \<Rightarrow> string option \<Rightarrow>
   decision_audit_record" where
  "list_emitAudit now q decisionId resource action effect policy reason =
     \<lparr>dar_decisionId = decisionId, dar_traceId = lq_traceId q, dar_tenantId = lq_tenantId q,
      dar_principalId = lq_principalId q, dar_actorId = lq_actorId q, dar_resourceKind = pr_kind resource,
      dar_resourceId = pr_id resource, dar_action = action, dar_effect = effect,
      dar_policy = (if truthy policy then policy else None),
      dar_reason = (if truthy reason then reason else None), dar_decidedAt = toISOString now\<rparr>"

definition list_principal :: "list_expenses_query \<Rightarrow> effective_principal \<Rightarrow> pdp_principal" where
  "list_principal q eff =
     \<lparr>pp_id = lq_principalId q, pp_roles = ep_roles eff,
      pp_attr = (ep_attr eff)(''tenantId'' \<mapsto> JStr (lq_tenantId q))\<rparr>"

definition list_resource :: "expense \<Rightarrow> pdp_resource" where
  "list_resource e = \<lparr>pr_kind = EXPENSE_RESOURCE_KIND, pr_id = ex_id e, pr_attr = expense_attr e\<rparr>"

text \<open>One decision; \<^term>\<open>uuid\<close> draws the decision id of the expense with that id.\<close>

definition canRead ::
  "(cerbos_request \<Rightarrow> cerbos_response result) \<Rightarrow> pip_resolver \<Rightarrow> (string \<Rightarrow> string) \<Rightarrow> int \<Rightarrow> list_expenses_query \<Rightarrow>
   expense \<Rightarrow> (string \<rightharpoonup> effective_principal) \<Rightarrow>
   bool result \<times> (string \<rightharpoonup> effective_principal) \<times> pep_call list" where
  "canRead cerbos pip uuid now q e byScope =
     (case resolveEffective pip q (ex_scope e) byScope of
        (Inl err, byScope, calls) \<Rightarrow> (Inl err, byScope, calls)
      | (Inr eff, byScope, calls) \<Rightarrow>
          (let subj = list_principal q eff; resource = list_resource e;
               calls = calls @ [PdpCheck
                 \<lparr>cq_principal = subj\<lparr>pp_roles := cerbos_roles (pp_roles subj)\<rparr>, cq_resource = resource,
                  cq_scope = Some (ex_scope e), cq_actions = [''read'']\<rparr>]
           in case pdp_check cerbos (uuid (ex_id e)) subj resource [''read''] (Some (ex_scope e)) of
                Inl err \<Rightarrow> (Inl err, byScope, calls)
              | Inr decision \<Rightarrow>
                  (let result = (case pcr_results decision of [] \<Rightarrow> None | r # _ \<Rightarrow> Some r);
                       effect = (case result of None \<Rightarrow> DENY | Some r \<Rightarrow> par_effect r);
                       audit = list_emitAudit now q (pcr_decisionId decision) resource ''read'' effect
                         (case result of None \<Rightarrow> None | Some r \<Rightarrow> par_policy r)
                         (case result of None \<Rightarrow> None | Some r \<Rightarrow> par_reason r)
                   in (Inr (effect = ALLOW), byScope, calls @ [AuditRecord audit]))))"

fun list_visible ::
  "(cerbos_request \<Rightarrow> cerbos_response result) \<Rightarrow> pip_resolver \<Rightarrow> (string \<Rightarrow> string) \<Rightarrow> int \<Rightarrow> list_expenses_query \<Rightarrow>
   (string \<rightharpoonup> effective_principal) \<Rightarrow> expense list \<Rightarrow> expense_view list result \<times> pep_call list" where
  "list_visible cerbos pip uuid now q byScope [] = (Inr [], [])"
| "list_visible cerbos pip uuid now q byScope (e # es) =
     (case canRead cerbos pip uuid now q e byScope of
        (Inl err, byScope', calls) \<Rightarrow> (Inl err, calls)
      | (Inr allowed, byScope', calls) \<Rightarrow>
          (case list_visible cerbos pip uuid now q byScope' es of
             (Inl err, calls') \<Rightarrow> (Inl err, calls @ calls')
           | (Inr views, calls') \<Rightarrow>
               (Inr (if allowed then toExpenseView e # views else views), calls @ calls')))"

definition listAuthorizedExpenses_execute ::
  "(string \<Rightarrow> int option) \<Rightarrow> (string \<Rightarrow> string option) \<Rightarrow> (cerbos_request \<Rightarrow> cerbos_response result) \<Rightarrow>
   pip_resolver \<Rightarrow> (string \<Rightarrow> string) \<Rightarrow> int \<Rightarrow> list_expenses_query \<Rightarrow> expense_table \<Rightarrow>
   expense_page_view result \<times> pep_call list" where
  "listAuthorizedExpenses_execute pg_timestamp pg_id cerbos pip uuid now q rows =
     (case expense_list pg_timestamp pg_id (pageQueryFrom (lq_limit q) (lq_cursor q)) rows of
        Inl err \<Rightarrow> (Inl err, [])
      | Inr candidates \<Rightarrow>
          (case list_visible cerbos pip uuid now q Map.empty (cp_items candidates) of
             (Inl err, calls) \<Rightarrow> (Inl err, calls)
           | (Inr visible, calls) \<Rightarrow>
               (Inr \<lparr>xp_items = visible, xp_nextCursor = cp_nextCursor candidates\<rparr>, calls)))"

section \<open>What the listing shows\<close>

definition read_request :: "list_expenses_query \<Rightarrow> effective_principal \<Rightarrow> expense \<Rightarrow> cerbos_request" where
  "read_request q eff e =
     \<lparr>cq_principal = (list_principal q eff)\<lparr>pp_roles := cerbos_roles (ep_roles eff)\<rparr>, cq_resource = list_resource e,
      cq_scope = Some (ex_scope e), cq_actions = [''read'']\<rparr>"

text \<open>The decision on one expense: resolve the caller at its scope, ask Cerbos about reading it.\<close>

definition read_verdict ::
  "(cerbos_request \<Rightarrow> cerbos_response result) \<Rightarrow> pip_resolver \<Rightarrow> list_expenses_query \<Rightarrow> expense \<Rightarrow> bool result" where
  "read_verdict cerbos pip q e =
     rbind (pip (lq_principalId q) (lq_tenantId q) (ex_scope e) False) (\<lambda>eff.
     rbind (cerbos (read_request q eff e)) (\<lambda>response. Inr (cr_isAllowed response ''read'' = Some True)))"

fun audited :: "pep_call list \<Rightarrow> decision_audit_record list" where
  "audited [] = []"
| "audited (AuditRecord r # calls) = r # audited calls"
| "audited (_ # calls) = audited calls"

fun resolved :: "pep_call list \<Rightarrow> string list" where
  "resolved [] = []"
| "resolved (PipResolve u t scope fresh # calls) = scope # resolved calls"
| "resolved (_ # calls) = resolved calls"

definition memo_ok :: "pip_resolver \<Rightarrow> list_expenses_query \<Rightarrow> (string \<rightharpoonup> effective_principal) \<Rightarrow> bool" where
  "memo_ok pip q byScope \<longleftrightarrow>
     (\<forall>scope eff. byScope scope = Some eff \<longrightarrow> pip (lq_principalId q) (lq_tenantId q) scope False = Inr eff)"

lemma audited_append [simp]: "audited (xs @ ys) = audited xs @ audited ys"
  by (induction xs rule: audited.induct) auto

lemma resolved_append [simp]: "resolved (xs @ ys) = resolved xs @ resolved ys"
  by (induction xs rule: resolved.induct) auto

text \<open>What an audit record says of whom, about what, with which outcome.\<close>

definition audit_says :: "decision_audit_record \<Rightarrow> string \<times> pdp_effect \<times> string \<times> string \<times> string" where
  "audit_says r = (dar_resourceId r, dar_effect r, dar_tenantId r, dar_principalId r, dar_actorId r)"

lemma read_check:
  "pdp_check cerbos u (list_principal q eff) (list_resource e) [''read''] (Some (ex_scope e)) =
   rbind (cerbos (read_request q eff e)) (\<lambda>response.
     Inr \<lparr>pcr_decisionId = ''dec_'' @ u, pcr_results = [action_result response ''read'']\<rparr>)"
  by (simp add: pdp_check_def read_request_def list_principal_def)

lemma list_resource_id [simp]: "pr_id (list_resource e) = ex_id e"
  by (simp add: list_resource_def)

lemma canRead_spec:
  assumes "canRead cerbos pip uuid now q e m = (r, m', calls)" and "memo_ok pip q m"
  shows "r = read_verdict cerbos pip q e" and "memo_ok pip q m'"
    and "r = Inr b \<Longrightarrow> map audit_says (audited calls) =
       [(ex_id e, if b then ALLOW else DENY, lq_tenantId q, lq_principalId q, lq_actorId q)]"
    and "r = Inr b \<Longrightarrow> dom m' = insert (ex_scope e) (dom m)"
    and "resolved calls = (if m (ex_scope e) = None then [ex_scope e] else [])"
proof -
  have eff: "\<exists>x. pip (lq_principalId q) (lq_tenantId q) (ex_scope e) False = x \<and>
      (case x of Inl err \<Rightarrow> r = Inl err \<and> m' = m \<and> m (ex_scope e) = None \<and> resolved calls = [ex_scope e]
       | Inr eff \<Rightarrow> m' = m(ex_scope e \<mapsto> eff) \<and>
           resolved calls = (if m (ex_scope e) = None then [ex_scope e] else []) \<and>
           r = rbind (cerbos (read_request q eff e)) (\<lambda>response. Inr (cr_isAllowed response ''read'' = Some True)) \<and>
           (\<forall>response. cerbos (read_request q eff e) = Inr response \<longrightarrow>
              map audit_says (audited calls) = [(ex_id e, if cr_isAllowed response ''read'' = Some True then ALLOW else DENY,
                lq_tenantId q, lq_principalId q, lq_actorId q)]))"
  proof (cases "m (ex_scope e)")
    case None
    then show ?thesis using assms(1)
      by (auto simp: canRead_def resolveEffective_def Let_def read_check audit_says_def list_emitAudit_def
          rbind_def split: sum.splits if_splits)
  next
    case (Some eff)
    then have "pip (lq_principalId q) (lq_tenantId q) (ex_scope e) False = Inr eff" "m(ex_scope e \<mapsto> eff) = m"
      using assms(2) by (auto simp: memo_ok_def)
    then show ?thesis using assms(1) Some
      by (auto simp: canRead_def resolveEffective_def Let_def read_check audit_says_def list_emitAudit_def
          rbind_def split: sum.splits if_splits)
  qed
  then show "r = read_verdict cerbos pip q e" by (auto simp: read_verdict_def split: sum.splits)
  from eff show "memo_ok pip q m'" using assms(2) by (auto simp: memo_ok_def split: sum.splits)
  from eff show "r = Inr b \<Longrightarrow> map audit_says (audited calls) =
       [(ex_id e, if b then ALLOW else DENY, lq_tenantId q, lq_principalId q, lq_actorId q)]"
    by (auto simp: rbind_Inr_iff split: sum.splits)
  from eff show "r = Inr b \<Longrightarrow> dom m' = insert (ex_scope e) (dom m)" by (auto split: sum.splits)
  from eff show "resolved calls = (if m (ex_scope e) = None then [ex_scope e] else [])"
    by (auto split: sum.splits)
qed

text \<open>The audit of the decision on one expense.\<close>

definition read_audit :: "list_expenses_query \<Rightarrow> bool result \<Rightarrow> expense \<Rightarrow> string \<times> pdp_effect \<times> string \<times> string \<times> string" where
  "read_audit q v e = (ex_id e, if v = Inr True then ALLOW else DENY, lq_tenantId q, lq_principalId q, lq_actorId q)"

lemma list_visible_spec:
  assumes "list_visible cerbos pip uuid now q m es = (r, calls)" and "memo_ok pip q m"
  shows "r = rbind (rmap (read_verdict cerbos pip q) es) (\<lambda>_.
      Inr (map toExpenseView (filter (\<lambda>e. read_verdict cerbos pip q e = Inr True) es))) \<and>
    (is_ok r \<longrightarrow> map audit_says (audited calls) = map (\<lambda>e. read_audit q (read_verdict cerbos pip q e) e) es) \<and>
    distinct (resolved calls) \<and> set (resolved calls) \<inter> dom m = {}"
  using assms
proof (induction es arbitrary: m r calls)
  case Nil
  then show ?case by simp
next
  case (Cons e es)
  obtain v m' calls1 where c: "canRead cerbos pip uuid now q e m = (v, m', calls1)" by (cases rule: prod_cases3)
  obtain r2 calls2 where l: "list_visible cerbos pip uuid now q m' es = (r2, calls2)" by (cases rule: prod.exhaust)
  note spec = canRead_spec[OF c Cons.prems(2)]
  note IH = Cons.IH[OF l spec(2)]
  show ?case
  proof (cases v)
    case (Inl err)
    then have "calls = calls1" "r = Inl err" using Cons.prems(1) c by simp_all
    moreover have "read_verdict cerbos pip q e = Inl err" using spec(1) Inl by simp
    ultimately show ?thesis using spec(5) by (auto split: if_splits)
  next
    case (Inr b)
    then have "calls = calls1 @ calls2" "r = rbind r2 (\<lambda>views. Inr (if b then toExpenseView e # views else views))"
      using Cons.prems(1) c l by (auto split: sum.splits)
    moreover have "read_verdict cerbos pip q e = Inr b" using spec(1) Inr by simp
    ultimately show ?thesis
      using spec(5) spec(3,4)[OF Inr] IH
      by (cases "rmap (read_verdict cerbos pip q) es") (auto simp: read_audit_def split: if_splits)
  qed
qed

text \<open>
  C27. The listing shows exactly the expenses of the page the caller is allowed to read: it
  succeeds only when every expense of the page was decided, shows those and only those that
  Cerbos allowed to read, in the order of the page, and continues with the cursor of the
  page, so a page may be empty and not the last.  Every decision, allowed or denied, is
  audited once under the caller's verified tenant and actor, and the PIP is asked at most
  once per scope.
\<close>

theorem listing_shows_exactly_the_allowed:
  assumes "listAuthorizedExpenses_execute pg_timestamp pg_id cerbos pip uuid now q rows = (Inr view, calls)"
  shows "\<exists>page. expense_list pg_timestamp pg_id (pageQueryFrom (lq_limit q) (lq_cursor q)) rows = Inr page \<and>
     (\<forall>e \<in> set (cp_items page). is_ok (read_verdict cerbos pip q e)) \<and>
     xp_items view = map toExpenseView (filter (\<lambda>e. read_verdict cerbos pip q e = Inr True) (cp_items page)) \<and>
     xp_nextCursor view = cp_nextCursor page \<and>
     map audit_says (audited calls) = map (\<lambda>e. read_audit q (read_verdict cerbos pip q e) e) (cp_items page) \<and>
     distinct (resolved calls)"
proof -
  obtain page where page: "expense_list pg_timestamp pg_id (pageQueryFrom (lq_limit q) (lq_cursor q)) rows = Inr page"
    using assms by (auto simp: listAuthorizedExpenses_execute_def split: sum.splits)
  obtain r calls' where l: "list_visible cerbos pip uuid now q Map.empty (cp_items page) = (r, calls')"
    by (cases rule: prod.exhaust)
  have r: "\<exists>views. r = Inr views \<and> view = \<lparr>xp_items = views, xp_nextCursor = cp_nextCursor page\<rparr>" "calls = calls'"
    using assms by (auto simp: listAuthorizedExpenses_execute_def page l split: sum.splits)
  have "memo_ok pip q Map.empty" by (simp add: memo_ok_def)
  note spec = list_visible_spec[OF l this]
  have "is_ok r" using r(1) by auto
  moreover obtain vs where vs: "rmap (read_verdict cerbos pip q) (cp_items page) = Inr vs"
    using spec r(1) by (cases "rmap (read_verdict cerbos pip q) (cp_items page)") auto
  moreover have "is_ok (read_verdict cerbos pip q e)" if "e \<in> set (cp_items page)" for e
    using list_all2_in[OF vs[unfolded rmap_Inr_iff] that] by auto
  ultimately show ?thesis using spec r page by auto
qed

definition sample_listing :: list_expenses_query where
  "sample_listing = \<lparr>lq_principalId = ''u1'', lq_tenantId = ''t1'', lq_actorId = ''a1'', lq_traceId = ''x'',
                     lq_limit = None, lq_cursor = None\<rparr>"

definition finance_cerbos :: "cerbos_request \<Rightarrow> cerbos_response result" where
  "finance_cerbos q =
     Inr \<lparr>cr_isAllowed = (\<lambda>a. Some (pr_attr (cq_resource q) ''department'' = Some (JStr ''finance''))),
          cr_matchedPolicy = (\<lambda>a. None)\<rparr>"

definition sample_run :: "expense_page_view result \<times> pep_call list" where
  "sample_run = listAuthorizedExpenses_execute (\<lambda>_. None) Some finance_cerbos (\<lambda>u t s f. Inr sample_eff) id 5
     sample_listing [sample_expense ''e1'' ''finance'', sample_expense ''e2'' ''ops'']"

lemma listing_shows_exactly_the_allowed_witness:
  "\<exists>view calls. sample_run = (Inr view, calls) \<and> map ev_id (xp_items view) = [''e1''] \<and>
     map dar_effect (audited calls) = [DENY, ALLOW]"
proof -
  have "is_ok (fst sample_run)" by code_simp
  then obtain view where "fst sample_run = Inr view" by (auto simp: is_ok_def split: sum.splits)
  then have "sample_run = (Inr view, snd sample_run)" by (simp add: prod_eq_iff)
  then obtain calls where run: "sample_run = (Inr view, calls)" by blast
  obtain page where page:
    "expense_list (\<lambda>_. None) Some (pageQueryFrom None None)
       [sample_expense ''e1'' ''finance'', sample_expense ''e2'' ''ops''] = Inr page"
    "xp_items view = map toExpenseView (filter (\<lambda>e. read_verdict finance_cerbos (\<lambda>u t s f. Inr sample_eff) sample_listing e = Inr True) (cp_items page))"
    "map audit_says (audited calls) = map (\<lambda>e. read_audit sample_listing
       (read_verdict finance_cerbos (\<lambda>u t s f. Inr sample_eff) sample_listing e) e) (cp_items page)"
    using listing_shows_exactly_the_allowed[OF run[unfolded sample_run_def]] by (auto simp: sample_listing_def)
  have "expense_list (\<lambda>_. None) Some (pageQueryFrom None None)
       [sample_expense ''e1'' ''finance'', sample_expense ''e2'' ''ops''] =
     Inr \<lparr>cp_items = [sample_expense ''e2'' ''ops'', sample_expense ''e1'' ''finance''], cp_nextCursor = None, cp_hasMore = False\<rparr>"
    by code_simp
  then have items: "cp_items page = [sample_expense ''e2'' ''ops'', sample_expense ''e1'' ''finance'']"
    using page(1) by auto
  have verdicts: "read_verdict finance_cerbos (\<lambda>u t s f. Inr sample_eff) sample_listing (sample_expense ''e2'' ''ops'') = Inr False"
    "read_verdict finance_cerbos (\<lambda>u t s f. Inr sample_eff) sample_listing (sample_expense ''e1'' ''finance'') = Inr True"
    by (simp_all add: read_verdict_def finance_cerbos_def read_request_def list_resource_def expense_attr_def sample_expense_def)
  have "map (fst \<circ> snd) (map audit_says (audited calls)) = [DENY, ALLOW]"
    unfolding page(3) by (simp add: items verdicts read_audit_def)
  then have "map dar_effect (audited calls) = [DENY, ALLOW]" by (simp add: audit_says_def comp_def)
  moreover have "map ev_id (xp_items view) = [''e1'']"
    unfolding page(2) items by (simp add: verdicts toExpenseView_def, simp add: sample_expense_def)
  ultimately show ?thesis by (intro exI conjI) (rule run)
qed

section \<open>The guarded approval\<close>

definition expense_loaded :: "expense \<Rightarrow> loaded_resource" where
  "expense_loaded e = \<lparr>lr_id = ex_id e, lr_attr = expense_attr e, lr_scope = Some (ex_scope e)\<rparr>"

definition expense_load :: "string option \<Rightarrow> expense_table \<Rightarrow> loaded_resource option result" where
  "expense_load idParam rows =
     (case idParam of
        None \<Rightarrow> Inr None
      | Some idParam \<Rightarrow>
          rbind (expenseId_fromString idParam) (\<lambda>i.
          rbind (expense_findById i rows) (\<lambda>found.
          Inr (map_option expense_loaded found))))"

definition approve_options :: authorize_options where
  "approve_options = \<lparr>az_action = [''approve''], az_resourceKind = EXPENSE_RESOURCE_KIND, az_sensitive = Some True\<rparr>"

text \<open>
  POST expenses/:id/approve.  The guards read the table before the transaction of the
  handler opens, so the handler may find another table; a guard that answers false makes
  Nest throw.
\<close>

definition approve_route ::
  "(cerbos_request \<Rightarrow> cerbos_response result) \<Rightarrow> pip_resolver \<Rightarrow> string \<Rightarrow> (string \<Rightarrow> bool) \<Rightarrow> int \<Rightarrow> string option \<Rightarrow>
   principal_context option \<Rightarrow> string \<Rightarrow> expense_table \<Rightarrow> expense_table \<Rightarrow>
   (approve_response \<times> expense_table \<times> expense_event list) result \<times> pep_call list" where
  "approve_route cerbos pip uuid is_uuid now traceId p idParam guard_rows rows =
     (case identityTenantContextGuard is_uuid p of
        Inl e \<Rightarrow> (Inl e, [])
      | Inr tenantId \<Rightarrow>
          (let g = canActivate cerbos pip (\<lambda>_. expense_load (Some idParam) guard_rows) uuid now traceId
                     (Some approve_options) p
           in case gr_verdict g of
                Inl e \<Rightarrow> (Inl e, gr_trace g)
              | Inr False \<Rightarrow> (Inl (HttpExn 403 (BodyObject (Some (MsgText ''Forbidden resource''))) ''Forbidden resource''), gr_trace g)
              | Inr True \<Rightarrow>
                  (let decisionId = (case gr_decision g of None \<Rightarrow> [] | Some d \<Rightarrow> pcr_decisionId d);
                       approvedBy = (case p of None \<Rightarrow> [] | Some pc \<Rightarrow> pc_actorId pc)
                   in (approveExpense_execute now idParam approvedBy decisionId rows, gr_trace g))))"

lemma expense_load_ok:
  assumes "expense_load (Some i) rows = Inr (Some resource)"
  obtains e where "find (\<lambda>e. ex_id e = i) rows = Some e" "resource = expense_loaded e"
  using assms by (auto simp: expense_load_def rbind_Inr_iff expenseId_fromString_def expense_findById_ok split: if_splits)

lemma approve_route_ok:
  assumes "approve_route cerbos pip u is_uuid now t p i guard_rows rows = (Inr (resp, rows', events), trace)"
  obtains pc e eff response where "p = Some pc" "is_uuid (pc_tenantId pc)"
    "find (\<lambda>e. ex_id e = i) guard_rows = Some e" "ex_tenantId e = pc_tenantId pc"
    "pip (pc_principalId pc) (pc_tenantId pc) (ex_scope e) True = Inr eff"
    "cerbos (guard_request approve_options pc (expense_loaded e) eff) = Inr response"
    "cr_isAllowed response ''approve'' = Some True"
    "approveExpense_execute now i (pc_actorId pc) (''dec_'' @ u) rows = Inr (resp, rows', events)"
proof -
  obtain pc where p: "p = Some pc" "is_uuid (pc_tenantId pc)"
    using assms by (auto simp: approve_route_def identityTenantContextGuard_def split: option.splits if_splits)
  let ?g = "canActivate cerbos pip (\<lambda>_. expense_load (Some i) guard_rows) u now t (Some approve_options) p"
  have v: "gr_verdict ?g = Inr True"
    and h: "approveExpense_execute now i (pc_actorId pc)
      (case gr_decision ?g of None \<Rightarrow> [] | Some d \<Rightarrow> pcr_decisionId d) rows = Inr (resp, rows', events)"
    using assms p by (auto simp: approve_route_def identityTenantContextGuard_def Let_def split: sum.splits bool.splits)
  obtain pc' resource eff response d where g: "p = Some pc'" "expense_load (Some i) guard_rows = Inr (Some resource)"
    "lr_attr resource ''tenantId'' = Some (JStr (pc_tenantId pc'))"
    "pip (pc_principalId pc') (pc_tenantId pc') (or_default (lr_scope resource) []) (or_default (az_sensitive approve_options) False) = Inr eff"
    "cerbos (guard_request approve_options pc' resource eff) = Inr response"
    "\<And>a. a \<in> set (az_action approve_options) \<Longrightarrow> cr_isAllowed response a = Some True"
    "gr_decision ?g = Some d" "pcr_decisionId d = ''dec_'' @ u"
    using canActivate_allowed[OF v] by blast
  obtain e where e: "find (\<lambda>e. ex_id e = i) guard_rows = Some e" "resource = expense_loaded e"
    using expense_load_ok[OF g(2)] by blast
  show thesis
    using that[of pc e eff response] p g e h
    by (simp add: expense_loaded_def expense_attr_def approve_options_def)
qed

lemma approveExpense_ok:
  assumes "approveExpense_execute now i who dec rows = Inr (resp, rows', events)"
  obtains e0 e where "e0 \<in> set rows" "ex_id e0 = i" "ex_status e0 = Pending"
    "e = e0\<lparr>ex_status := Approved, ex_updatedAt := now, ex_version := ex_version e0 + 1\<rparr>"
    "rows' = map (\<lambda>x. if ex_id x = i then e else x) rows" "events = [ExpenseApprovedEvent i who dec]"
    "resp = \<lparr>as_id = i, as_status = Approved, as_approvedBy = who, as_decisionId = dec, as_at = toISOString now\<rparr>"
proof -
  obtain e event where l: "approve_load now i who dec rows = Inr (e, event)"
    and s: "expense_save e rows = Inr rows'"
    and r: "events = [event]" "resp = \<lparr>as_id = ex_id e, as_status = ex_status e, as_approvedBy = who,
      as_decisionId = dec, as_at = toISOString now\<rparr>"
    using assms by (auto simp: approveExpense_execute_def rbind_Inr_iff)
  obtain e0 where e0: "e0 \<in> set rows" "ex_id e0 = i" "ex_status e0 = Pending"
    "e = e0\<lparr>ex_status := Approved, ex_updatedAt := now, ex_version := ex_version e0 + 1\<rparr>"
    "event = ExpenseApprovedEvent i who dec" using approve_load_ok[OF l] by blast
  obtain rows1 where g: "guardOptimisticLock ex_id ex_version set_ex_version (ex_id e) (ex_version e) rows = Inr rows1"
    and rows': "rows' = save_row ex_id e rows1" using expense_save_ok[OF s] by blast
  have i: "ex_id e = i" using e0(2,4) by simp
  then have "ex_id e \<in> ex_id ` set rows" using e0(1,2) by (metis imageI)
  then have "rows' = map (\<lambda>x. if ex_id x = i then e else x) rows"
    using expense_versions.guard_save_map[OF g] unfolding rows' i by simp
  then show thesis using that[OF e0(1-4)] r e0(4,5) i by simp
qed

text \<open>
  An approval approves what was authorized.  When the route approves an expense, the
  caller is verified and of the tenant of the expense, its roles were resolved freshly and
  not from the cache, Cerbos allowed exactly the action approve on the attributes the
  expense still has when it is approved, even though the guard read them before the
  transaction and other approvals ran in between, nothing else of the table changed, and
  the response and the event carry the caller's actor and the id of that decision.
\<close>

theorem approval_approves_what_was_authorized:
  assumes "approve_route cerbos pip u is_uuid now t p i guard_rows rows = (Inr (resp, rows', events), trace)"
    and "approvals_run guard_rows (rows, flight, sent)"
    and "distinct (map ex_id guard_rows)" and "\<And>x. x \<in> set guard_rows \<Longrightarrow> 1 \<le> ex_version x"
  shows "\<exists>pc e eff response. p = Some pc \<and> e \<in> set guard_rows \<and> e \<in> set rows \<and> ex_id e = i \<and>
     ex_tenantId e = pc_tenantId pc \<and>
     pip (pc_principalId pc) (pc_tenantId pc) (ex_scope e) True = Inr eff \<and>
     cerbos (guard_request approve_options pc (expense_loaded e) eff) = Inr response \<and>
     cr_isAllowed response ''approve'' = Some True \<and> ex_status e = Pending \<and>
     rows' = map (\<lambda>x. if ex_id x = i
       then e\<lparr>ex_status := Approved, ex_updatedAt := now, ex_version := ex_version e + 1\<rparr> else x) rows \<and>
     resp = \<lparr>as_id = i, as_status = Approved, as_approvedBy = pc_actorId pc, as_decisionId = ''dec_'' @ u,
             as_at = toISOString now\<rparr> \<and>
     events = [ExpenseApprovedEvent i (pc_actorId pc) (''dec_'' @ u)]"
proof -
  obtain pc e eff response where r: "p = Some pc"
    "find (\<lambda>e. ex_id e = i) guard_rows = Some e" "ex_tenantId e = pc_tenantId pc"
    "pip (pc_principalId pc) (pc_tenantId pc) (ex_scope e) True = Inr eff"
    "cerbos (guard_request approve_options pc (expense_loaded e) eff) = Inr response"
    "cr_isAllowed response ''approve'' = Some True"
    "approveExpense_execute now i (pc_actorId pc) (''dec_'' @ u) rows = Inr (resp, rows', events)"
    by (rule approve_route_ok[OF assms(1)])
  have e: "e \<in> set guard_rows" "ex_id e = i" using r(2) by (auto dest: find_SomeD)
  obtain e0 e1 where a: "e0 \<in> set rows" "ex_id e0 = i" "ex_status e0 = Pending"
    "e1 = e0\<lparr>ex_status := Approved, ex_updatedAt := now, ex_version := ex_version e0 + 1\<rparr>"
    "rows' = map (\<lambda>x. if ex_id x = i then e1 else x) rows" "events = [ExpenseApprovedEvent i (pc_actorId pc) (''dec_'' @ u)]"
    "resp = \<lparr>as_id = i, as_status = Approved, as_approvedBy = pc_actorId pc, as_decisionId = ''dec_'' @ u,
             as_at = toISOString now\<rparr>"
    by (rule approveExpense_ok[OF r(7)])
  have h: "list_all2 (row_history sent) guard_rows rows"
    using approvals_run_ok[OF assms(2-4)] by (simp add: approvals_ok_def)
  obtain x0 where x0: "x0 \<in> set guard_rows" "row_history sent x0 e0" using history_row[OF h a(1)] by blast
  have "x0 = e" using assms(3) x0 e a(2) row_history_id by (metis distinct_map inj_onD)
  then have "e0 = e" using x0(2) a(3) by (auto simp: row_history_def dest: approved_by_simps)
  note a = a[unfolded \<open>e0 = e\<close>]
  show ?thesis
    by (intro exI conjI)
      (rule r(1) e(1) a(1) e(2) r(3) r(4) r(5) r(6) a(3) a(5)[unfolded a(4)] a(7) a(6))+
qed

lemma approval_approves_what_was_authorized_witness:
  "\<exists>resp trace. approve_route (\<lambda>q. Inr \<lparr>cr_isAllowed = (\<lambda>a. Some (a = ''approve'')), cr_matchedPolicy = (\<lambda>a. None)\<rparr>)
      (\<lambda>u t s f. Inr sample_eff) ''9'' (\<lambda>_. True) 5 None (Some sample_pc) ''e1''
      [sample_expense ''e1'' ''finance''] [sample_expense ''e1'' ''finance''] =
      (Inr (resp, [approved_sample], [ExpenseApprovedEvent ''e1'' ''a1'' ''dec_9'']), trace)"
proof -
  let ?e = "sample_expense ''e1'' ''finance''"
  let ?r = "approve_route (\<lambda>q. Inr \<lparr>cr_isAllowed = (\<lambda>a. Some (a = ''approve'')), cr_matchedPolicy = (\<lambda>a. None)\<rparr>)
      (\<lambda>u t s f. Inr sample_eff) ''9'' (\<lambda>_. True) 5 None (Some sample_pc) ''e1'' [?e] [?e]"
  have "is_ok (fst ?r)" by code_simp
  then obtain resp rows' events where "fst ?r = Inr (resp, rows', events)"
    by (auto simp: is_ok_def split: sum.splits)
  then have run: "?r = (Inr (resp, rows', events), snd ?r)" by (simp add: prod_eq_iff)
  have "distinct (map ex_id [?e])" and "x \<in> set [?e] \<Longrightarrow> 1 \<le> ex_version x" for x
    by (auto simp: sample_expense_def)
  from approval_approves_what_was_authorized[OF run approvals_run.start this] obtain pc e where
    e: "Some sample_pc = Some pc" "e \<in> set [?e]"
    "rows' = map (\<lambda>x. if ex_id x = ''e1''
       then e\<lparr>ex_status := Approved, ex_updatedAt := 5, ex_version := ex_version e + 1\<rparr> else x) [?e]"
    "events = [ExpenseApprovedEvent ''e1'' (pc_actorId pc) (''dec_'' @ ''9'')]" by blast
  then have "rows' = [approved_sample]" "events = [ExpenseApprovedEvent ''e1'' ''a1'' ''dec_9'']"
    by (auto simp: approved_sample_def sample_expense_def sample_pc_def)
  then show ?thesis using run by metis
qed

end
