(* ===== verification/TenantIsolation.thy ===== *)
theory TenantIsolation
  imports Expense TenantDb
begin

text \<open>
  Tenant isolation end to end: a route of a tenant neither sees nor changes the rows of
  another, and for the approval of an expense the database under row-level security is
  exactly the table of the visible rows that the other theories work with.
\<close>

lemma boot_check [simp]: "assertRuntimeRoleEnforcesRls (role # rest) = Inr u \<longleftrightarrow> \<not> bypasses_rls role"
  by (simp add: assertRuntimeRoleEnforcesRls_def bypasses_rls_def Let_def)

lemma transaction_isolated:
  assumes "pg_uuid s = Some t" and "agree id_of tenant_of t rows1 rows2"
  shows "fst (runWithRls False pg_uuid id_of tenant_of (Some s) h rows1) =
      fst (runWithRls False pg_uuid id_of tenant_of (Some s) h rows2) \<and>
    agree id_of tenant_of t (snd (runWithRls False pg_uuid id_of tenant_of (Some s) h rows1))
      (snd (runWithRls False pg_uuid id_of tenant_of (Some s) h rows2)) \<and>
    others tenant_of t (snd (runWithRls False pg_uuid id_of tenant_of (Some s) h rows1)) = others tenant_of t rows1"
  using handler_isolated[where pg_uuid = pg_uuid and s = s and h = h, OF assms] assms(2)
  by (auto simp: runWithRls_def split: sum.splits prod.splits)


section \<open>The approval under row-level security\<close>

definition approve_handler ::
  "int \<Rightarrow> string \<Rightarrow> string \<Rightarrow> string \<Rightarrow>
   (expense, expense \<times> expense_event, approve_response \<times> expense_event list) handler" where
  "approve_handler now i who dec =
     Query (\<lambda>rows. rbind (approve_load now i who dec rows) (\<lambda>x. Inr (x, rows))) (\<lambda>(e, event).
     Query (\<lambda>rows. rbind (expense_save e rows) (\<lambda>rows'. Inr ((e, event), rows'))) (\<lambda>_.
     Return (\<lparr>as_id = ex_id e, as_status = ex_status e, as_approvedBy = who, as_decisionId = dec,
              as_at = toISOString now\<rparr>, [event])))"

lemma expense_save_visible:
  assumes "expense_save e rows = Inr rows'" and "e0 \<in> set rows" and "ex_id e = ex_id e0"
  shows "map ex_id rows' = map ex_id rows" and "set rows' \<subseteq> insert e (set rows)"
proof -
  obtain rows1 where g: "guardOptimisticLock ex_id ex_version set_ex_version (ex_id e) (ex_version e) rows = Inr rows1"
    and r: "rows' = save_row ex_id e rows1" using expense_save_ok[OF assms(1)] by blast
  have "ex_id e \<in> ex_id ` set rows" using assms(2,3) by (metis imageI)
  then have "rows' = map (\<lambda>y. if ex_id y = ex_id e then e else y) rows"
    unfolding r by (rule expense_versions.guard_save_map[OF g])
  then show "map ex_id rows' = map ex_id rows" and "set rows' \<subseteq> insert e (set rows)" by auto
qed

text \<open>A statement that keeps the primary keys and the tenant of the rows it sees.\<close>

lemma statement_on_view:
  assumes "pg_uuid s = Some t" and d: "distinct (map ex_id rows)"
    and fn: "fn (filter (\<lambda>e. ex_tenantId e = t) rows) = Inr (v, vis')"
    and ids: "map ex_id vis' = map ex_id (filter (\<lambda>e. ex_tenantId e = t) rows)"
    and tenant: "\<And>e. e \<in> set vis' \<Longrightarrow> ex_tenantId e = t"
  shows "rls_statement False pg_uuid ex_id ex_tenantId (Some s) fn rows = Inr (v, others ex_tenantId t rows @ vis')"
proof -
  have "ex_id ` set vis' \<inter> ex_id ` set (others ex_tenantId t rows) = {}"
  proof -
    have "ex_id ` set vis' = ex_id ` set (filter (\<lambda>e. ex_tenantId e = t) rows)" using arg_cong[OF ids, of set] by simp
    then show ?thesis using d by (auto simp: others_def distinct_map inj_on_def)
  qed
  then have "\<not> list_ex (\<lambda>r. ex_id r \<in> ex_id ` set (others ex_tenantId t rows)) vis'"
    by (auto simp: list_ex_iff)
  then show ?thesis
    using fn tenant by (simp add: rls_statement_scoped[where pg_uuid = pg_uuid and s = s, OF assms(1)] list_all_iff)
qed

lemma view_twice:
  assumes "distinct (map ex_id rows)"
  shows "filter (\<lambda>e. ex_tenantId e = t) (others ex_tenantId t rows @ filter (\<lambda>e. ex_tenantId e = t) rows) =
      filter (\<lambda>e. ex_tenantId e = t) rows"
    "others ex_tenantId t (others ex_tenantId t rows @ filter (\<lambda>e. ex_tenantId e = t) rows) = others ex_tenantId t rows"
    "distinct (map ex_id (others ex_tenantId t rows @ filter (\<lambda>e. ex_tenantId e = t) rows))"
  using assms by (auto simp: others_def filter_empty_conv distinct_map inj_on_def intro!: filter_True)

lemma approve_handler_view:
  assumes u: "pg_uuid s = Some t" and d: "distinct (map ex_id rows)"
  shows "runWithRls False pg_uuid ex_id ex_tenantId (Some s) (approve_handler now i who dec) rows =
    (case approveExpense_execute now i who dec (filter (\<lambda>e. ex_tenantId e = t) rows) of
       Inl err \<Rightarrow> (Inl err, rows)
     | Inr (resp, rows', events) \<Rightarrow> (Inr (resp, events), others ex_tenantId t rows @ rows'))"
proof (cases "approve_load now i who dec (filter (\<lambda>e. ex_tenantId e = t) rows)")
  case (Inl err)
  then show ?thesis
    by (simp add: runWithRls_def approve_handler_def approveExpense_execute_def
        rls_statement_scoped[where pg_uuid = pg_uuid and s = s, OF u])
next
  case (Inr x)
  obtain e event where x: "x = (e, event)" by (cases x)
  let ?vis = "filter (\<lambda>e. ex_tenantId e = t) rows" and ?hid = "others ex_tenantId t rows"
  have first: "rls_statement False pg_uuid ex_id ex_tenantId (Some s)
      (\<lambda>rows. rbind (approve_load now i who dec rows) (\<lambda>x. Inr (x, rows))) rows = Inr ((e, event), ?hid @ ?vis)"
    by (rule statement_on_view[where pg_uuid = pg_uuid and s = s, OF u d]) (simp_all add: Inr x)
  obtain e0 where e0: "e0 \<in> set ?vis" "ex_id e0 = i" "ex_status e0 = Pending"
    "e = e0\<lparr>ex_status := Approved, ex_updatedAt := now, ex_version := ex_version e0 + 1\<rparr>"
    "event = ExpenseApprovedEvent i who dec" by (rule approve_load_ok[OF Inr[unfolded x]])
  show ?thesis
  proof (cases "expense_save e ?vis")
    case err: (Inl err)
    have "rls_statement False pg_uuid ex_id ex_tenantId (Some s)
        (\<lambda>rows. rbind (expense_save e rows) (\<lambda>rows'. Inr ((e, event), rows'))) (?hid @ ?vis) = Inl err"
      unfolding rls_statement_scoped[where pg_uuid = pg_uuid and s = s, OF u] view_twice[OF d] err by simp
    then show ?thesis
      using err by (simp add: runWithRls_def approve_handler_def approveExpense_execute_def first Inr x)
  next
    case saved: (Inr rows')
    have "ex_id e = ex_id e0" "ex_tenantId e = t" using e0(1,4) by simp_all
    note keeps = expense_save_visible[OF saved e0(1) this(1)] this(2)
    have "rls_statement False pg_uuid ex_id ex_tenantId (Some s)
        (\<lambda>rows. rbind (expense_save e rows) (\<lambda>rows'. Inr ((e, event), rows'))) (?hid @ ?vis) =
        Inr ((e, event), others ex_tenantId t (?hid @ ?vis) @ rows')"
      by (rule statement_on_view[where pg_uuid = pg_uuid and s = s, OF u view_twice(3)[OF d]])
        (use saved keeps in auto)
    then show ?thesis
      by (simp add: runWithRls_def approve_handler_def approveExpense_execute_def first Inr x saved view_twice[OF d])
  qed
qed

text \<open>
  C25. The transaction of a tenant refines the operation on its rows: the approval run as
  statements under row-level security answers exactly what the use case answers on the list
  of the rows of that tenant, and the database keeps all other rows and gets the tenant's
  rows of the use case, or stays as it was when the use case throws.
\<close>

theorem approval_under_rls_refines_use_case:
  assumes "is_uuid (pc_tenantId pc)" and "pg_uuid (pc_tenantId pc) = Some t"
    and "distinct (map ex_id rows)"
  shows "tenant_route is_uuid True False pg_uuid ex_id ex_tenantId (Some pc)
      (\<lambda>_. approve_handler now i who dec) rows =
    (case approveExpense_execute now i who dec (filter (\<lambda>e. ex_tenantId e = t) rows) of
       Inl err \<Rightarrow> (Inl err, rows)
     | Inr (resp, rows', events) \<Rightarrow> (Inr (resp, events), others ex_tenantId t rows @ rows'))"
  using approve_handler_view[where pg_uuid = pg_uuid and s = "pc_tenantId pc", OF assms(2,3)] assms(1)
  by (simp add: tenant_route_def tenantContextGuard_def intercept_def)

definition two_tenants :: "expense \<Rightarrow> expense list" where
  "two_tenants foreign =
     [\<lparr>ex_id = ''e1'', ex_tenantId = ''t1'', ex_amount = 8500, ex_currency = ''USD'', ex_department = ''finance'',
       ex_ownerId = ''riya'', ex_status = Pending, ex_description = [], ex_scope = ''acme'',
       ex_version = 1, ex_createdAt = 0, ex_updatedAt = 0\<rparr>, foreign]"

definition foreign_row :: "int \<Rightarrow> expense_status \<Rightarrow> expense" where
  "foreign_row amount status =
     \<lparr>ex_id = ''x1'', ex_tenantId = ''t2'', ex_amount = amount, ex_currency = ''USD'', ex_department = ''ops'',
      ex_ownerId = ''gwen'', ex_status = status, ex_description = [], ex_scope = ''globex'',
      ex_version = 1, ex_createdAt = 0, ex_updatedAt = 0\<rparr>"

definition tenant_caller :: principal_context where
  "tenant_caller = \<lparr>pc_principalId = ''u1'', pc_tenantId = ''t1'', pc_actorId = ''a1'', pc_sessionId = ''s1'', pc_platformAdmin = False\<rparr>"


lemma approval_under_rls_refines_use_case_witness:
  "\<exists>resp. tenant_route (\<lambda>_. True) True False Some ex_id ex_tenantId (Some tenant_caller)
      (\<lambda>_. approve_handler 5 ''e1'' ''a1'' ''d'') (two_tenants (foreign_row 1 Pending)) =
     (Inr (resp, [ExpenseApprovedEvent ''e1'' ''a1'' ''d'']),
      [foreign_row 1 Pending, (hd (two_tenants undefined))\<lparr>ex_status := Approved, ex_updatedAt := 5, ex_version := 2\<rparr>])"
proof -
  have "approveExpense_execute 5 ''e1'' ''a1'' ''d'' [hd (two_tenants undefined)] =
      Inr (\<lparr>as_id = ''e1'', as_status = Approved, as_approvedBy = ''a1'', as_decisionId = ''d'', as_at = toISOString 5\<rparr>,
        [(hd (two_tenants undefined))\<lparr>ex_status := Approved, ex_updatedAt := 5, ex_version := 2\<rparr>],
        [ExpenseApprovedEvent ''e1'' ''a1'' ''d''])"
    unfolding two_tenants_def list.sel by code_simp
  moreover have "filter (\<lambda>e. ex_tenantId e = ''t1'') (two_tenants (foreign_row 1 Pending)) = [hd (two_tenants undefined)]"
    "others ex_tenantId ''t1'' (two_tenants (foreign_row 1 Pending)) = [foreign_row 1 Pending]"
    by (simp_all add: two_tenants_def foreign_row_def others_def)
  moreover have "Some (pc_tenantId tenant_caller) = Some ''t1''" "distinct (map ex_id (two_tenants (foreign_row 1 Pending)))"
    by (simp_all add: tenant_caller_def two_tenants_def foreign_row_def)
  ultimately show ?thesis
    using approval_under_rls_refines_use_case[where is_uuid = "\<lambda>_. True" and pc = tenant_caller and pg_uuid = Some
        and t = "''t1''" and rows = "two_tenants (foreign_row 1 Pending)" and now = 5 and i = "''e1''"
        and who = "''a1''" and dec = "''d''"] by simp
qed

end
