(* ===== verification/ExpenseApi.thy ===== *)
theory ExpenseApi
  imports ExpenseAccess TenantIsolation HttpApi
begin

text \<open>
  The expense service as a whole (apps/expense/src/app.module.ts,
  apps/expense/src/modules/expense/presentation): the middleware that verifies the internal
  token, the guards of the two routes, the transaction of the tenant under row-level
  security, the transport validation and the use cases.  Guards run before the transaction
  is opened, so the resource loader reads in a transaction of its own; what other sessions
  do in between is the argument \<^term>\<open>between\<close>.  \<^term>\<open>rnd\<close> draws the decision id of the
  expense with that id.
\<close>

section \<open>The service\<close>

record expense_deps =
  xd_hmac :: "string \<Rightarrow> string \<Rightarrow> string"
  xd_parse :: "string \<Rightarrow> json option"
  xd_options :: authz_options
  xd_is_uuid :: "string \<Rightarrow> bool"
  xd_to_number :: "string \<Rightarrow> int option"
  xd_pg_uuid :: "string \<Rightarrow> string option"
  xd_pg_timestamp :: "string \<Rightarrow> int option"
  xd_pg_id :: "string \<Rightarrow> string option"
  xd_bypass :: bool
  xd_cerbos :: "cerbos_request \<Rightarrow> cerbos_response result"
  xd_pip :: pip_resolver
  xd_messages :: "string list"

datatype expense_request =
    PostApprove string "(string \<times> json) list"
  | GetExpenses "string option" "string option"

datatype expense_answer =
    ApproveAnswer approve_response "expense_event list"
  | ListAnswer expense_page_view

definition approveExpenseRequest_valid :: "(string \<times> json) list \<Rightarrow> bool" where
  "approveExpenseRequest_valid ms \<longleftrightarrow>
     dto_keys [''comment''] ms \<and> dto_optional (is_text 0 1000) ''comment'' (JObj ms)"

text \<open>The loader of the guard: the repository outside a request transaction.\<close>

definition load_in_tenant ::
  "expense_deps \<Rightarrow> string \<Rightarrow> string \<Rightarrow> expense_table \<Rightarrow> loaded_resource option result" where
  "load_in_tenant d tenantId i db =
     fst (withTenantManager (xd_bypass d) (xd_pg_uuid d) ex_id ex_tenantId None (Some tenantId)
       (Query (\<lambda>rows. rbind (expense_load (Some i) rows) (\<lambda>x. Inr (x, rows))) Return) db)"

definition approve_controller ::
  "expense_deps \<Rightarrow> (string \<Rightarrow> string) \<Rightarrow> int \<Rightarrow> string option \<Rightarrow> (expense_table \<Rightarrow> expense_table) \<Rightarrow> principal_context \<Rightarrow>
   string \<Rightarrow> (string \<times> json) list \<Rightarrow> expense_table \<Rightarrow> expense_answer result \<times> pep_call list \<times> expense_table" where
  "approve_controller d rnd now traceId between pc i body db =
     (case identityTenantContextGuard (xd_is_uuid d) (Some pc) of
        Inl e \<Rightarrow> (Inl e, [], between db)
      | Inr tenantId \<Rightarrow>
          (let g = canActivate (xd_cerbos d) (xd_pip d) (\<lambda>_. load_in_tenant d tenantId i db) (rnd i) now traceId
                     (Some approve_options) (Some pc)
           in case gr_verdict g of
                Inl e \<Rightarrow> (Inl e, gr_trace g, between db)
              | Inr False \<Rightarrow>
                  (Inl (HttpExn 403 (BodyObject (Some (MsgText ''Forbidden resource''))) ''Forbidden resource''),
                   gr_trace g, between db)
              | Inr True \<Rightarrow>
                  (if \<not> approveExpenseRequest_valid body
                   then (Inl (bad_request (xd_messages d)), gr_trace g, between db)
                   else
                     (let decisionId = (case gr_decision g of None \<Rightarrow> [] | Some x \<Rightarrow> pcr_decisionId x) in
                      case intercept True (xd_bypass d) (xd_pg_uuid d) ex_id ex_tenantId (Some tenantId)
                             (approve_handler now i (pc_actorId pc) decisionId) (between db) of
                        (Inl e, db') \<Rightarrow> (Inl e, gr_trace g, db')
                      | (Inr (resp, events), db') \<Rightarrow> (Inr (ApproveAnswer resp events), gr_trace g, db')))))"

definition list_controller ::
  "expense_deps \<Rightarrow> (string \<Rightarrow> string) \<Rightarrow> int \<Rightarrow> string option \<Rightarrow> principal_context \<Rightarrow> string option \<Rightarrow> string option \<Rightarrow>
   expense_table \<Rightarrow> expense_answer result \<times> pep_call list" where
  "list_controller d rnd now traceId pc limit cursor db =
     (case identityTenantContextGuard (xd_is_uuid d) (Some pc) of
        Inl e \<Rightarrow> (Inl e, [])
      | Inr tenantId \<Rightarrow>
          (case page_limit (xd_to_number d) (xd_messages d) limit of
             Inl e \<Rightarrow> (Inl e, [])
           | Inr n \<Rightarrow>
               (case fst (intercept True (xd_bypass d) (xd_pg_uuid d) ex_id ex_tenantId (Some tenantId)
                       (Query (\<lambda>rows. Inr (rows, rows)) Return) db) of
                  Inl e \<Rightarrow> (Inl e, [])
                | Inr rows \<Rightarrow>
                    (case listAuthorizedExpenses_execute (xd_pg_timestamp d) (xd_pg_id d) (xd_cerbos d) (xd_pip d) rnd now
                            \<lparr>lq_principalId = pc_principalId pc, lq_tenantId = pc_tenantId pc, lq_actorId = pc_actorId pc,
                             lq_traceId = or_default traceId [], lq_limit = n, lq_cursor = cursor\<rparr> rows of
                       (r, calls) \<Rightarrow> (rbind r (\<lambda>view. Inr (ListAnswer view)), calls)))))"

text \<open>The middleware runs before every route of the service but the health probe.\<close>

definition expense_identity :: "expense_deps \<Rightarrow> int \<Rightarrow> request_headers \<Rightarrow> principal_context result" where
  "expense_identity d now headers = middleware_use (xd_hmac d) (xd_parse d) (xd_options d) now headers"

definition expense_service ::
  "expense_deps \<Rightarrow> (string \<Rightarrow> string) \<Rightarrow> int \<Rightarrow> string option \<Rightarrow> (expense_table \<Rightarrow> expense_table) \<Rightarrow> request_headers \<Rightarrow>
   expense_request \<Rightarrow> expense_table \<Rightarrow> expense_answer result \<times> pep_call list \<times> expense_table" where
  "expense_service d rnd now traceId between headers request db =
     (case expense_identity d now headers of
        Inl e \<Rightarrow> (Inl e, [], db)
      | Inr pc \<Rightarrow>
          (case request of
             PostApprove i body \<Rightarrow> approve_controller d rnd now traceId between pc i body db
           | GetExpenses limit cursor \<Rightarrow>
               (case list_controller d rnd now traceId pc limit cursor db of (r, calls) \<Rightarrow> (r, calls, db))))"

section \<open>The loader sees the rows of the tenant\<close>

definition own :: "string \<Rightarrow> expense_table \<Rightarrow> expense_table" where
  "own t rows = filter (\<lambda>e. ex_tenantId e = t) rows"

lemma load_on_view:
  assumes "\<not> xd_bypass d" and "xd_pg_uuid d tid = Some t" and "tid \<noteq> []" and "distinct (map ex_id db)"
  shows "load_in_tenant d tid i db = expense_load (Some i) (own t db)"
proof -
  let ?fn = "\<lambda>rows. rbind (expense_load (Some i) rows) (\<lambda>x. Inr (x, rows))"
  have "fst (runWithRls False (xd_pg_uuid d) ex_id ex_tenantId (Some tid) (Query ?fn Return) db) =
    expense_load (Some i) (own t db)"
  proof (cases "expense_load (Some i) (own t db)")
    case (Inl e)
    then show ?thesis
      by (simp add: runWithRls_def rls_statement_scoped[where pg_uuid = "xd_pg_uuid d" and s = tid, OF assms(2)] own_def)
  next
    case (Inr x)
    have "rls_statement False (xd_pg_uuid d) ex_id ex_tenantId (Some tid) ?fn db =
        Inr (x, others ex_tenantId t db @ own t db)"
      by (rule statement_on_view[where pg_uuid = "xd_pg_uuid d" and s = tid, OF assms(2,4)])
        (use Inr in \<open>simp_all add: own_def\<close>)
    then show ?thesis using Inr by (simp add: runWithRls_def)
  qed
  then show ?thesis using assms(1,3) by (simp add: load_in_tenant_def withTenantManager_def truthy_def)
qed

lemma load_without_tenant:
  assumes "\<not> xd_bypass d" and "tid = [] \<or> xd_pg_uuid d tid = None"
  shows "load_in_tenant d tid i db \<noteq> Inr (Some r)"
  using assms
  by (auto simp: load_in_tenant_def withTenantManager_def truthy_def runWithRls_def rls_statement_def current_tenant_def
      expense_load_def expense_findById_def rbind_def Let_def split: sum.splits if_splits)

text \<open>The approval of the service is the approval route on the rows of the verified tenant.\<close>

lemma service_approval:
  assumes run: "expense_service d rnd now traceId between headers (PostApprove i body) db =
      (Inr (ApproveAnswer resp events), trace, db')"
    and rls: "\<not> xd_bypass d" and dist: "distinct (map ex_id db)" "distinct (map ex_id (between db))"
  shows "\<exists>pc t rows'. expense_identity d now headers = Inr pc \<and> xd_pg_uuid d (pc_tenantId pc) = Some t \<and>
    approve_route (xd_cerbos d) (xd_pip d) (rnd i) (xd_is_uuid d) now traceId (Some pc) i (own t db) (own t (between db)) =
      (Inr (resp, rows', events), trace) \<and>
    db' = others ex_tenantId t (between db) @ rows'"
proof -
  obtain pc where pc: "expense_identity d now headers = Inr pc"
    and c: "approve_controller d rnd now traceId between pc i body db = (Inr (ApproveAnswer resp events), trace, db')"
    using run by (auto simp: expense_service_def split: sum.splits)
  let ?tid = "pc_tenantId pc"
  let ?g = "canActivate (xd_cerbos d) (xd_pip d) (\<lambda>_. load_in_tenant d ?tid i db) (rnd i) now traceId
    (Some approve_options) (Some pc)"
  have uuid: "xd_is_uuid d ?tid" and verdict: "gr_verdict ?g = Inr True" and trace: "trace = gr_trace ?g"
    and inter: "intercept True (xd_bypass d) (xd_pg_uuid d) ex_id ex_tenantId (Some ?tid)
      (approve_handler now i (pc_actorId pc) (case gr_decision ?g of None \<Rightarrow> [] | Some x \<Rightarrow> pcr_decisionId x)) (between db) =
      (Inr (resp, events), db')"
    using c by (auto simp: approve_controller_def identityTenantContextGuard_def Let_def
        split: if_splits sum.splits bool.splits prod.splits)
  obtain r where "load_in_tenant d ?tid i db = Inr (Some r)"
    using canActivate_allowed[OF verdict] by auto
  then have "\<not> (?tid = [] \<or> xd_pg_uuid d ?tid = None)" using load_without_tenant[OF rls] by blast
  then obtain t where t: "xd_pg_uuid d ?tid = Some t" "?tid \<noteq> []" by auto
  note load = load_on_view[OF rls t dist(1), of i]
  note view = approve_handler_view[where pg_uuid = "xd_pg_uuid d" and s = ?tid, OF t(1) dist(2)]
  obtain rows' where "approveExpense_execute now i (pc_actorId pc)
      (case gr_decision ?g of None \<Rightarrow> [] | Some x \<Rightarrow> pcr_decisionId x) (own t (between db)) = Inr (resp, rows', events)"
    and "db' = others ex_tenantId t (between db) @ rows'"
    using inter rls by (auto simp: intercept_def view own_def split: sum.splits prod.splits)
  then have "approve_route (xd_cerbos d) (xd_pip d) (rnd i) (xd_is_uuid d) now traceId (Some pc) i (own t db) (own t (between db)) =
      (Inr (resp, rows', events), trace)"
    using uuid verdict trace by (simp add: approve_route_def identityTenantContextGuard_def Let_def load)
  then show ?thesis using pc t(1) \<open>db' = _\<close> by blast
qed

section \<open>The decision behind an approval is audited\<close>

lemma allowed_audited:
  assumes ok: "gr_verdict (canActivate cerbos pip load u now t (Some options) p) = Inr True" and a: "a \<in> set (az_action options)"
  shows "\<exists>pc r. p = Some pc \<and> AuditRecord r \<in> set (gr_trace (canActivate cerbos pip load u now t (Some options) p)) \<and>
    dar_effect r = ALLOW \<and> dar_action r = a \<and> dar_decisionId r = ''dec_'' @ u \<and> dar_actorId r = pc_actorId pc \<and>
    dar_tenantId r = pc_tenantId pc"
proof -
  obtain pc resource eff response where g: "p = Some pc" "load pc = Inr (Some resource)"
    "lr_attr resource ''tenantId'' = Some (JStr (pc_tenantId pc))"
    "pip (pc_principalId pc) (pc_tenantId pc) (or_default (lr_scope resource) []) (or_default (az_sensitive options) False) = Inr eff"
    "cerbos (guard_request options pc resource eff) = Inr response"
    "\<forall>a \<in> set (az_action options). cr_isAllowed response a = Some True"
    using canActivate_allowed[OF ok] by blast
  have "enforceTenantGuardrail pc resource = Inr ()" using g(3) guardrail_iff by blast
  note step = canActivate_past_guardrail[where pip = pip and load = load, OF this g(2)]
  have "AuditRecord (emitAudit now (''dec_'' @ u) (or_default t []) pc (cq_resource (guard_request options pc resource eff))
      (action_result response a)) \<in> set (gr_trace (canActivate cerbos pip load u now t (Some options) p))"
    unfolding g(1) step g(4) using a by (simp add: guard_decide_trace g(5))
  then show ?thesis using g(1,6) a by (intro exI conjI) (auto simp: emitAudit_def action_result_def Let_def)
qed

lemma approve_route_audited:
  assumes run: "approve_route cerbos pip u is_uuid now t p i guard_rows rows = (Inr x, trace)"
  shows "\<exists>pc r. p = Some pc \<and> AuditRecord r \<in> set trace \<and> dar_effect r = ALLOW \<and>
    dar_action r = ''approve'' \<and> dar_decisionId r = ''dec_'' @ u \<and> dar_actorId r = pc_actorId pc \<and>
    dar_tenantId r = pc_tenantId pc"
proof -
  let ?g = "canActivate cerbos pip (\<lambda>_. expense_load (Some i) guard_rows) u now t (Some approve_options) p"
  have "gr_verdict ?g = Inr True" and trace: "trace = gr_trace ?g"
    using run by (auto simp: approve_route_def identityTenantContextGuard_def Let_def
        split: option.splits sum.splits bool.splits if_splits)
  from allowed_audited[OF this(1), of "''approve''"] show ?thesis
    unfolding trace by (simp add: approve_options_def)
qed

section \<open>Approving through the service\<close>

text \<open>
  C23. A request the service answers with an approval comes from a caller whose internal
  token verifies; the expense is a row of that caller's tenant that Cerbos allowed it to
  approve, with roles resolved freshly; although other sessions approve expenses between
  the guard and the transaction, the row is still the pending one the decision was made on;
  the rows of every other tenant are as the other sessions left them, of the own tenant only
  that row changes, to approved with the next version; the answer and the event name the
  caller's actor and the decision, and an ALLOW record with that decision id and actor went
  to the audit sink.
\<close>

theorem service_approves_what_was_authorized:
  assumes run: "expense_service d rnd now traceId between headers (PostApprove i body) db =
      (Inr (ApproveAnswer resp events), trace, db')"
    and rls: "\<not> xd_bypass d" and dist: "distinct (map ex_id db)" "distinct (map ex_id (between db))"
    and vers: "\<And>x. x \<in> set db \<Longrightarrow> 1 \<le> ex_version x"
    and others: "\<And>t. \<exists>flight sent. approvals_run (own t db) (own t (between db), flight, sent)"
  shows "\<exists>pc t e eff response r.
    middleware_use (xd_hmac d) (xd_parse d) (xd_options d) now headers = Inr pc \<and>
    xd_pg_uuid d (pc_tenantId pc) = Some t \<and>
    e \<in> set db \<and> ex_id e = i \<and> ex_tenantId e = pc_tenantId pc \<and> ex_tenantId e = t \<and> ex_status e = Pending \<and>
    xd_pip d (pc_principalId pc) t (ex_scope e) True = Inr eff \<and>
    xd_cerbos d (guard_request approve_options pc (expense_loaded e) eff) = Inr response \<and>
    cr_isAllowed response ''approve'' = Some True \<and>
    db' = TenantDb.others ex_tenantId t (between db) @
      map (\<lambda>x. if ex_id x = i
        then e\<lparr>ex_status := Approved, ex_updatedAt := now, ex_version := ex_version e + 1\<rparr> else x) (own t (between db)) \<and>
    as_approvedBy resp = pc_actorId pc \<and> as_decisionId resp = ''dec_'' @ rnd i \<and>
    events = [ExpenseApprovedEvent i (pc_actorId pc) (''dec_'' @ rnd i)] \<and>
    AuditRecord r \<in> set trace \<and> dar_effect r = ALLOW \<and> dar_decisionId r = ''dec_'' @ rnd i \<and>
    dar_actorId r = pc_actorId pc"
proof -
  obtain pc t rows' where s: "expense_identity d now headers = Inr pc" "xd_pg_uuid d (pc_tenantId pc) = Some t"
    "approve_route (xd_cerbos d) (xd_pip d) (rnd i) (xd_is_uuid d) now traceId (Some pc) i (own t db) (own t (between db)) =
      (Inr (resp, rows', events), trace)"
    "db' = TenantDb.others ex_tenantId t (between db) @ rows'"
    using service_approval[OF run rls dist] by blast
  obtain r where r: "AuditRecord r \<in> set trace" "dar_effect r = ALLOW" "dar_decisionId r = ''dec_'' @ rnd i"
    "dar_actorId r = pc_actorId pc" using approve_route_audited[OF s(3)] by auto
  obtain flight sent where o: "approvals_run (own t db) (own t (between db), flight, sent)" using others by blast
  have own: "distinct (map ex_id (own t db))" "\<And>x. x \<in> set (own t db) \<Longrightarrow> 1 \<le> ex_version x"
    using dist(1) vers by (auto simp: own_def distinct_map inj_on_def)
  from approval_approves_what_was_authorized[OF s(3) o own] obtain e eff response where a:
    "e \<in> set (own t db)" "ex_id e = i" "ex_tenantId e = pc_tenantId pc"
    "xd_pip d (pc_principalId pc) (pc_tenantId pc) (ex_scope e) True = Inr eff"
    "xd_cerbos d (guard_request approve_options pc (expense_loaded e) eff) = Inr response"
    "cr_isAllowed response ''approve'' = Some True" "ex_status e = Pending"
    "rows' = map (\<lambda>x. if ex_id x = i
       then e\<lparr>ex_status := Approved, ex_updatedAt := now, ex_version := ex_version e + 1\<rparr> else x) (own t (between db))"
    "as_approvedBy resp = pc_actorId pc" "as_decisionId resp = ''dec_'' @ rnd i"
    "events = [ExpenseApprovedEvent i (pc_actorId pc) (''dec_'' @ rnd i)]" by auto
  have e: "e \<in> set db" "ex_tenantId e = t" using a(1) by (auto simp: own_def)
  show ?thesis
    by (rule exI[of _ pc], rule exI[of _ t], rule exI[of _ e], rule exI[of _ eff], rule exI[of _ response], rule exI[of _ r])
      (use s a e r in \<open>simp add: expense_identity_def\<close>)
qed

section \<open>An approval from the signed header to the stored row\<close>

definition sample_service :: expense_deps where
  "sample_service =
     \<lparr>xd_hmac = (\<lambda>k m. k), xd_parse = sample_parse, xd_options = newAuthzOptions (Some ''key'') None None,
      xd_is_uuid = (\<lambda>_. True), xd_to_number = (\<lambda>_. None), xd_pg_uuid = Some, xd_pg_timestamp = (\<lambda>_. None),
      xd_pg_id = Some, xd_bypass = False,
      xd_cerbos = (\<lambda>q. Inr \<lparr>cr_isAllowed = (\<lambda>a. Some (a = ''approve'')), cr_matchedPolicy = (\<lambda>a. None)\<rparr>),
      xd_pip = (\<lambda>u t s f. Inr sample_eff), xd_messages = []\<rparr>"

text \<open>Two tenants share the table.\<close>

definition sample_expenses :: expense_table where
  "sample_expenses = [(sample_expense ''e2'' ''it'')\<lparr>ex_tenantId := ''t2''\<rparr>, sample_expense ''e1'' ''finance'']"

lemma sample_identity_accepted:
  "expense_identity sample_service 359000 (sample_request (\<lambda>k m. k)) =
     Inr \<lparr>pc_principalId = ''u1'', pc_tenantId = ''t1'', pc_actorId = ''u1'', pc_sessionId = ''s1'', pc_platformAdmin = False\<rparr>"
  using sample_accepted by (simp add: expense_identity_def sample_service_def)

lemma sample_approval:
  "\<exists>resp events trace db'. expense_service sample_service (\<lambda>_. ''9'') 359000 None (\<lambda>db. db)
     (sample_request (\<lambda>k m. k)) (PostApprove ''e1'' []) sample_expenses = (Inr (ApproveAnswer resp events), trace, db')"
proof -
  let ?pc = "\<lparr>pc_principalId = ''u1'', pc_tenantId = ''t1'', pc_actorId = ''u1'', pc_sessionId = ''s1'', pc_platformAdmin = False\<rparr>"
  have "is_ok (rbind (fst (approve_controller sample_service (\<lambda>_. ''9'') 359000 None (\<lambda>db. db) ?pc ''e1'' [] sample_expenses))
     (\<lambda>a. case a of ApproveAnswer resp events \<Rightarrow> Inr () | ListAnswer v \<Rightarrow> Inl (Crash [])))"
    by code_simp
  then show ?thesis
    by (auto simp: expense_service_def sample_identity_accepted is_ok_def rbind_def prod_eq_iff
        split: sum.splits expense_answer.splits)
qed

lemma service_approves_what_was_authorized_witness:
  "\<exists>resp events trace db'. expense_service sample_service (\<lambda>_. ''9'') 359000 None (\<lambda>db. db)
     (sample_request (\<lambda>k m. k)) (PostApprove ''e1'' []) sample_expenses = (Inr (ApproveAnswer resp events), trace, db') \<and>
   events = [ExpenseApprovedEvent ''e1'' ''u1'' ''dec_9''] \<and>
   db' = [(sample_expense ''e2'' ''it'')\<lparr>ex_tenantId := ''t2''\<rparr>,
          (sample_expense ''e1'' ''finance'')\<lparr>ex_status := Approved, ex_updatedAt := 359000, ex_version := 2\<rparr>]"
proof -
  obtain resp events trace db' where run: "expense_service sample_service (\<lambda>_. ''9'') 359000 None (\<lambda>db. db)
     (sample_request (\<lambda>k m. k)) (PostApprove ''e1'' []) sample_expenses = (Inr (ApproveAnswer resp events), trace, db')"
    using sample_approval by blast
  have "\<not> xd_bypass sample_service" and d: "distinct (map ex_id sample_expenses)"
    and "x \<in> set sample_expenses \<Longrightarrow> 1 \<le> ex_version x" for x
    by (auto simp: sample_service_def sample_expenses_def sample_expense_def)
  from service_approves_what_was_authorized[OF run this(1) d d this(3)] obtain pc t e where a:
    "middleware_use (xd_hmac sample_service) (xd_parse sample_service) (xd_options sample_service) 359000
       (sample_request (\<lambda>k m. k)) = Inr pc"
    "xd_pg_uuid sample_service (pc_tenantId pc) = Some t" "e \<in> set sample_expenses" "ex_id e = ''e1''"
    "db' = TenantDb.others ex_tenantId t sample_expenses @
      map (\<lambda>x. if ex_id x = ''e1''
        then e\<lparr>ex_status := Approved, ex_updatedAt := 359000, ex_version := ex_version e + 1\<rparr> else x) (own t sample_expenses)"
    "events = [ExpenseApprovedEvent ''e1'' (pc_actorId pc) (''dec_'' @ ''9'')]"
    by (blast intro: approvals_run.start)
  have pc: "pc_tenantId pc = ''t1''" "pc_actorId pc = ''u1''"
    using a(1) sample_identity_accepted by (simp_all add: expense_identity_def)
  have t: "t = ''t1''" using a(2) pc(1) by (simp add: sample_service_def)
  have e: "e = sample_expense ''e1'' ''finance''" using a(3,4) by (auto simp: sample_expenses_def sample_expense_def)
  show ?thesis using run a(5,6) pc(2)
    by (auto simp: t e own_def TenantDb.others_def sample_expenses_def sample_expense_def)
qed

end
