(* ===== verification/Tenant.thy ===== *)
theory Tenant
  imports OptimisticLock NewestFirst TenantDb
begin

text \<open>
  Tenants (apps/authz-admin/src/modules/tenant): the aggregate with its lifecycle, the
  repository and the use cases behind the platform-admin guard.  The table of tenants is
  global and has no row-level security, so the state is the list of all tenants.
\<close>

datatype tenant_status = TenantActive | TenantSuspended

record tenant =
  tn_id :: string
  tn_name :: string
  tn_slug :: string
  tn_status :: tenant_status
  tn_isolationTier :: string
  tn_version :: int
  tn_createdAt :: int
  tn_updatedAt :: int

datatype tenant_event = TenantSuspendedEvent string string

section \<open>Errors and value objects\<close>

definition TenantNotFoundError :: "string \<Rightarrow> exn" where
  "TenantNotFoundError i = NotFoundError (''Tenant '' @ i @ '' not found'') (Some ''tenant_not_found'')"

definition TenantSlugTakenError :: "string \<Rightarrow> exn" where
  "TenantSlugTakenError s =
     ConflictError (''Tenant slug \"'' @ s @ ''\" is already taken'') (Some ''tenant_slug_taken'')"

definition TenantStatusError :: "string \<Rightarrow> string \<Rightarrow> exn" where
  "TenantStatusError m reason = ConflictError m (Some reason)"

definition tenantId_fromString :: "(string \<Rightarrow> bool) \<Rightarrow> string \<Rightarrow> string result" where
  "tenantId_fromString is_uuid v =
     (if \<not> is_uuid v then Inl (ValidationError ''Invalid tenant id'' (Some ''tenant_id_invalid'')) else Inr v)"

definition ALL_TIERS :: "string list" where
  "ALL_TIERS = [''pool'', ''bridge'', ''silo'']"

definition isolationTier_default :: string where
  "isolationTier_default = ''pool''"

definition isolationTier_fromString :: "string \<Rightarrow> string result" where
  "isolationTier_fromString v = rbind (oneOf v ALL_TIERS ''isolationTier'') (\<lambda>_. Inr v)"

section \<open>The aggregate\<close>

definition tenant_create :: "string \<Rightarrow> string \<Rightarrow> string \<Rightarrow> string option \<Rightarrow> int \<Rightarrow> tenant result" where
  "tenant_create freshId name slug tier now =
     rbind (againstEmpty (Some name) ''name'') (\<lambda>_.
     rbind (againstEmpty (Some slug) ''slug'') (\<lambda>_.
     rbind (guard_invariant (is_runs (CHR ''-'') slug) ''slug must be kebab-case'' ''slug_format'') (\<lambda>_.
     rbind (guard_invariant (length name \<le> 200) ''name too long'' ''name_too_long'') (\<lambda>_.
     Inr \<lparr>tn_id = freshId, tn_name = js_trim name, tn_slug = slug, tn_status = TenantActive,
          tn_isolationTier = or_default tier isolationTier_default, tn_version = 1,
          tn_createdAt = now, tn_updatedAt = now\<rparr>))))"

definition tenant_fromSnapshot :: "tenant \<Rightarrow> tenant result" where
  "tenant_fromSnapshot s =
     rbind (isolationTier_fromString (tn_isolationTier s)) (\<lambda>tier. Inr (s\<lparr>tn_isolationTier := tier\<rparr>))"

definition tenant_touch :: "int \<Rightarrow> tenant \<Rightarrow> tenant" where
  "tenant_touch now t = t\<lparr>tn_updatedAt := now, tn_version := tn_version t + 1\<rparr>"

definition tenant_suspend :: "string \<Rightarrow> int \<Rightarrow> tenant \<Rightarrow> (tenant \<times> tenant_event) result" where
  "tenant_suspend reason now t =
     (if tn_status t = TenantSuspended
      then Inl (TenantStatusError ''Tenant is already suspended'' ''tenant_already_suspended'')
      else Inr (tenant_touch now (t\<lparr>tn_status := TenantSuspended\<rparr>), TenantSuspendedEvent (tn_id t) reason))"

definition tenant_activate :: "int \<Rightarrow> tenant \<Rightarrow> tenant result" where
  "tenant_activate now t =
     (if tn_status t = TenantActive
      then Inl (TenantStatusError ''Tenant is already active'' ''tenant_already_active'')
      else Inr (tenant_touch now (t\<lparr>tn_status := TenantActive\<rparr>)))"

section \<open>The repository\<close>

type_synonym tenant_table = "tenant list"

definition set_tn_version :: "int \<Rightarrow> tenant \<Rightarrow> tenant" where
  "set_tn_version v t = t\<lparr>tn_version := v\<rparr>"

definition tenant_write :: "tenant \<Rightarrow> tenant_table \<Rightarrow> tenant_table result" where
  "tenant_write t rows =
     (if length (tn_slug t) > 100 then Inl value_too_long
      else if list_ex (\<lambda>x. tn_slug x = tn_slug t \<and> tn_id x \<noteq> tn_id t) rows
      then Inl (unique_violation ''uq_tenants_slug'')
      else Inr (save_row tn_id t rows))"

definition tenant_save :: "tenant \<Rightarrow> tenant_table \<Rightarrow> tenant_table result" where
  "tenant_save t rows =
     rbind (guardOptimisticLock tn_id tn_version set_tn_version (tn_id t) (tn_version t) rows) (tenant_write t)"

definition tenant_toDomain :: "tenant option \<Rightarrow> tenant option result" where
  "tenant_toDomain row =
     (case row of None \<Rightarrow> Inr None
      | Some r \<Rightarrow> rbind (tenant_fromSnapshot r) (\<lambda>t. Inr (Some t)))"

definition tenant_findById :: "string \<Rightarrow> tenant_table \<Rightarrow> tenant option result" where
  "tenant_findById i rows = tenant_toDomain (find (\<lambda>t. tn_id t = i) rows)"

definition tenant_findBySlug :: "string \<Rightarrow> tenant_table \<Rightarrow> tenant option result" where
  "tenant_findBySlug slug rows = tenant_toDomain (find (\<lambda>t. tn_slug t = slug) rows)"

definition tenant_list ::
  "(string \<Rightarrow> int option) \<Rightarrow> (string \<Rightarrow> string option) \<Rightarrow> page_query \<Rightarrow> tenant_table \<Rightarrow> tenant cursor_page result" where
  "tenant_list pg_timestamp pg_id q rows =
     newest_page pg_timestamp pg_id tn_createdAt tn_id tenant_fromSnapshot q rows"

section \<open>The use cases\<close>

definition createTenant_execute ::
  "string \<Rightarrow> int \<Rightarrow> string \<Rightarrow> string \<Rightarrow> string option \<Rightarrow> tenant_table \<Rightarrow> (tenant \<times> tenant_table) result" where
  "createTenant_execute freshId now name slug tier rows =
     rbind (tenant_findBySlug slug rows) (\<lambda>existing.
     rbind (ensure (existing = None) (TenantSlugTakenError slug)) (\<lambda>_.
     rbind (case tier of
              Some v \<Rightarrow> if v = [] then Inr None else rbind (isolationTier_fromString v) (\<lambda>v. Inr (Some v))
            | None \<Rightarrow> Inr None) (\<lambda>tier.
     rbind (tenant_create freshId name slug tier now) (\<lambda>t.
     rbind (tenant_save t rows) (\<lambda>rows'. Inr (t, rows'))))))"

definition getTenant_execute :: "(string \<Rightarrow> bool) \<Rightarrow> string \<Rightarrow> tenant_table \<Rightarrow> tenant result" where
  "getTenant_execute is_uuid tenantId rows =
     rbind (tenantId_fromString is_uuid tenantId) (\<lambda>i.
     rbind (tenant_findById i rows) (\<lambda>found.
     case found of None \<Rightarrow> Inl (TenantNotFoundError tenantId) | Some t \<Rightarrow> Inr t))"

definition listTenants_execute ::
  "(string \<Rightarrow> int option) \<Rightarrow> (string \<Rightarrow> string option) \<Rightarrow> int option \<Rightarrow> string option \<Rightarrow> tenant_table \<Rightarrow>
   tenant cursor_page result" where
  "listTenants_execute pg_timestamp pg_id limit cursor rows =
     tenant_list pg_timestamp pg_id (pageQueryFrom limit cursor) rows"

definition suspendTenant_execute ::
  "(string \<Rightarrow> bool) \<Rightarrow> int \<Rightarrow> string \<Rightarrow> string \<Rightarrow> int option \<Rightarrow> tenant_table \<Rightarrow>
   (tenant \<times> tenant_table \<times> tenant_event list) result" where
  "suspendTenant_execute is_uuid now tenantId reason expected rows =
     rbind (tenantId_fromString is_uuid tenantId) (\<lambda>i.
     rbind (tenant_findById i rows) (\<lambda>found.
     case found of
       None \<Rightarrow> Inl (TenantNotFoundError tenantId)
     | Some t \<Rightarrow>
         rbind (check_expected ''Tenant'' expected (tn_version t)) (\<lambda>_.
         rbind (tenant_suspend reason now t) (\<lambda>(t, event).
         rbind (tenant_save t rows) (\<lambda>rows'. Inr (t, rows', [event]))))))"

section \<open>The controller\<close>

definition createTenantRequest_valid :: "string \<Rightarrow> string \<Rightarrow> string option \<Rightarrow> bool" where
  "createTenantRequest_valid name slug tier \<longleftrightarrow>
     1 \<le> length name \<and> length name \<le> 200 \<and> 1 \<le> length slug \<and> length slug \<le> 100 \<and>
     is_runs (CHR ''-'') slug \<and> (case tier of None \<Rightarrow> True | Some v \<Rightarrow> v \<in> set ALL_TIERS)"

definition suspendTenantRequest_valid :: "string \<Rightarrow> bool" where
  "suspendTenantRequest_valid reason \<longleftrightarrow> 1 \<le> length reason \<and> length reason \<le> 500"

text \<open>The two guards of every tenant route, and of the creation of permissions, in their order.\<close>

definition platform_route ::
  "(string \<Rightarrow> bool) \<Rightarrow> principal_context option \<Rightarrow> ('t \<Rightarrow> ('x \<times> 't) result) \<Rightarrow> 't \<Rightarrow> ('x \<times> 't) result" where
  "platform_route is_uuid p handler table =
     rbind (tenantContextGuard is_uuid p) (\<lambda>store.
     rbind (platformAdminGuard (Some store)) (\<lambda>_.
     handler table))"

end
