(* ===== verification/Permission.thy ===== *)
theory Permission
  imports Role TenantDb
begin

text \<open>
  The global catalogue of permissions (apps/authz-admin/src/modules/permission).  Its table
  has no row-level security either; the key of a permission is the value object of the
  theory Role.
\<close>

record permission =
  pm_id :: string
  pm_key :: string
  pm_description :: string
  pm_version :: int
  pm_createdAt :: int
  pm_updatedAt :: int

datatype permission_event = PermissionCreatedEvent string string

definition PermissionNotFoundError :: "string \<Rightarrow> exn" where
  "PermissionNotFoundError i =
     NotFoundError (''Permission '' @ i @ '' not found'') (Some ''permission_not_found'')"

definition PermissionKeyTakenError :: "string \<Rightarrow> exn" where
  "PermissionKeyTakenError k =
     ConflictError (''Permission key \"'' @ k @ ''\" is already registered'') (Some ''permission_key_taken'')"

definition permissionId_fromString :: "(string \<Rightarrow> bool) \<Rightarrow> string \<Rightarrow> string result" where
  "permissionId_fromString is_uuid v =
     (if \<not> is_uuid v then Inl (ValidationError ''Invalid permission id'' (Some ''permission_id_invalid'')) else Inr v)"

definition MAX_DESCRIPTION_LENGTH :: nat where "MAX_DESCRIPTION_LENGTH = 500"

text \<open>Creation, with the event it records.\<close>

definition permission_create :: "string \<Rightarrow> string \<Rightarrow> string \<Rightarrow> int \<Rightarrow> (permission \<times> permission_event) result" where
  "permission_create freshId key description now =
     rbind (againstEmpty (Some description) ''description'') (\<lambda>_.
     rbind (guard_invariant (length description \<le> MAX_DESCRIPTION_LENGTH)
              ''description too long'' ''description_too_long'') (\<lambda>_.
     rbind (permissionKey_fromString key) (\<lambda>key.
     Inr (\<lparr>pm_id = freshId, pm_key = key, pm_description = js_trim description, pm_version = 1,
           pm_createdAt = now, pm_updatedAt = now\<rparr>, PermissionCreatedEvent freshId key))))"

definition permission_fromSnapshot :: "permission \<Rightarrow> permission result" where
  "permission_fromSnapshot s =
     rbind (permissionKey_fromString (pm_key s)) (\<lambda>key. Inr (s\<lparr>pm_key := key\<rparr>))"

section \<open>The repository\<close>

type_synonym permission_table = "permission list"

text \<open>No version is compared: a permission is never changed once it is registered.\<close>

definition permission_save :: "permission \<Rightarrow> permission_table \<Rightarrow> permission_table result" where
  "permission_save p rows =
     (if length (pm_key p) > 150 then Inl value_too_long
      else if list_ex (\<lambda>x. pm_key x = pm_key p \<and> pm_id x \<noteq> pm_id p) rows
      then Inl (unique_violation ''uq_permissions_key'')
      else Inr (save_row pm_id p rows))"

definition permission_toDomain :: "permission option \<Rightarrow> permission option result" where
  "permission_toDomain row =
     (case row of None \<Rightarrow> Inr None
      | Some r \<Rightarrow> rbind (permission_fromSnapshot r) (\<lambda>p. Inr (Some p)))"

definition permission_findById :: "string \<Rightarrow> permission_table \<Rightarrow> permission option result" where
  "permission_findById i rows = permission_toDomain (find (\<lambda>p. pm_id p = i) rows)"

definition permission_findByKey :: "string \<Rightarrow> permission_table \<Rightarrow> permission option result" where
  "permission_findByKey k rows = permission_toDomain (find (\<lambda>p. pm_key p = k) rows)"

definition permission_list ::
  "(string \<Rightarrow> int option) \<Rightarrow> (string \<Rightarrow> string option) \<Rightarrow> page_query \<Rightarrow> permission_table \<Rightarrow>
   permission cursor_page result" where
  "permission_list pg_timestamp pg_id q rows =
     newest_page pg_timestamp pg_id pm_createdAt pm_id permission_fromSnapshot q rows"

section \<open>The use cases\<close>

definition createPermission_execute ::
  "string \<Rightarrow> int \<Rightarrow> string \<Rightarrow> string \<Rightarrow> permission_table \<Rightarrow>
   ((permission \<times> permission_event list) \<times> permission_table) result" where
  "createPermission_execute freshId now key description rows =
     rbind (permission_findByKey key rows) (\<lambda>existing.
     rbind (ensure (existing = None) (PermissionKeyTakenError key)) (\<lambda>_.
     rbind (permission_create freshId key description now) (\<lambda>(p, event).
     rbind (permission_save p rows) (\<lambda>rows'. Inr ((p, [event]), rows')))))"

definition getPermission_execute :: "(string \<Rightarrow> bool) \<Rightarrow> string \<Rightarrow> permission_table \<Rightarrow> permission result" where
  "getPermission_execute is_uuid permissionId rows =
     rbind (permissionId_fromString is_uuid permissionId) (\<lambda>i.
     rbind (permission_findById i rows) (\<lambda>found.
     case found of None \<Rightarrow> Inl (PermissionNotFoundError permissionId) | Some p \<Rightarrow> Inr p))"

definition listPermissions_execute ::
  "(string \<Rightarrow> int option) \<Rightarrow> (string \<Rightarrow> string option) \<Rightarrow> int option \<Rightarrow> string option \<Rightarrow> permission_table \<Rightarrow>
   permission cursor_page result" where
  "listPermissions_execute pg_timestamp pg_id limit cursor rows =
     permission_list pg_timestamp pg_id (pageQueryFrom limit cursor) rows"

text \<open>The transport validation: three segments of letters, digits and underscores, no star.\<close>

definition createPermissionRequest_valid :: "string \<Rightarrow> string \<Rightarrow> bool" where
  "createPermissionRequest_valid key description \<longleftrightarrow>
     1 \<le> length key \<and> length key \<le> 150 \<and>
     length (split_on (CHR '':'') key) = 3 \<and>
     list_all (\<lambda>s. s \<noteq> [] \<and> list_all (\<lambda>c. is_lower_alnum c \<or> c = CHR ''_'') s) (split_on (CHR '':'') key) \<and>
     1 \<le> length description \<and> length description \<le> 500"

text \<open>A key the catalogue accepts over HTTP may be one the requests of the roles refuse.\<close>

lemma catalogue_key_not_grantable:
  "createPermissionRequest_valid ''expense:report_item:read'' ''d'' \<and>
   \<not> request_permission_valid ''expense:report_item:read''"
  by code_simp

end
