(* ===== verification/Directory.thy ===== *)
theory Directory
  imports Tenant Permission
begin

text \<open>
  The platform-wide tables over any sequence of requests: the directory of tenants and the
  catalogue of permissions, which only verified platform administrators change.
\<close>

interpretation tenant_versions: versioned_table tn_id tn_version set_tn_version
  by unfold_locales (simp_all add: set_tn_version_def)

section \<open>The directory of tenants\<close>

text \<open>The two routes that write; ids of new tenants are fresh.\<close>

inductive tenant_step :: "(string \<Rightarrow> bool) \<Rightarrow> principal_context option \<Rightarrow> tenant_table \<Rightarrow> tenant_table \<Rightarrow> bool"
  for is_uuid p where
  create: "platform_route is_uuid p (createTenant_execute freshId now name slug tier) rows = Inr (t, rows') \<Longrightarrow>
    freshId \<notin> tn_id ` set rows \<Longrightarrow> tenant_step is_uuid p rows rows'"
| suspend: "platform_route is_uuid p (\<lambda>rows. rbind (suspendTenant_execute is_uuid now i reason expected rows)
      (\<lambda>(t, rows', events). Inr ((t, events), rows'))) rows = Inr (te, rows') \<Longrightarrow>
    tenant_step is_uuid p rows rows'"

inductive_cases tenant_stepE: "tenant_step is_uuid p rows rows'"

inductive tenants_reachable :: "(string \<Rightarrow> bool) \<Rightarrow> tenant_table \<Rightarrow> bool" for is_uuid where
  empty: "tenants_reachable is_uuid []"
| step: "tenants_reachable is_uuid rows \<Longrightarrow> tenant_step is_uuid p rows rows' \<Longrightarrow> tenants_reachable is_uuid rows'"

definition tenant_ok :: "tenant \<Rightarrow> bool" where
  "tenant_ok t \<longleftrightarrow> is_runs (CHR ''-'') (tn_slug t) \<and> length (tn_slug t) \<le> 100 \<and> tn_name t \<noteq> [] \<and>
     length (tn_name t) \<le> 200 \<and> tn_isolationTier t \<in> set ALL_TIERS \<and>
     (tn_status t = TenantActive \<and> tn_version t = 1 \<or> tn_status t = TenantSuspended \<and> tn_version t = 2)"

definition tenants_ok :: "tenant_table \<Rightarrow> bool" where
  "tenants_ok rows \<longleftrightarrow> distinct (map tn_id rows) \<and> distinct (map tn_slug rows) \<and> list_all tenant_ok rows"

lemma platform_route_admin:
  assumes "platform_route is_uuid p h rows = Inr x"
  shows "\<exists>pc. p = Some pc \<and> is_uuid (pc_tenantId pc) \<and> pc_platformAdmin pc \<and> h rows = Inr x"
  using assms
  by (auto simp: platform_route_def tenantContextGuard_def platformAdminGuard_def isPlatformAdmin_def rbind_Inr_iff
      split: option.splits if_splits)

lemma tier_ok [simp]: "isolationTier_fromString v = Inr w \<longleftrightarrow> w = v \<and> v \<in> set ALL_TIERS"
  by (auto simp: isolationTier_fromString_def oneOf_def)

lemma tenant_fromSnapshot_ok [simp]:
  "tenant_fromSnapshot t = Inr u \<longleftrightarrow> u = t \<and> tn_isolationTier t \<in> set ALL_TIERS"
  by (auto simp: tenant_fromSnapshot_def rbind_Inr_iff)

lemma tenant_findById_ok:
  "tenant_findById i rows = Inr (Some t) \<Longrightarrow> t \<in> set rows \<and> tn_id t = i"
  by (auto simp: tenant_findById_def tenant_toDomain_def rbind_Inr_iff split: option.splits dest: find_SomeD)

lemma tenant_save_ok:
  assumes save: "tenant_save t rows = Inr rows'" and ok: "tenants_ok rows"
    and t: "tenant_ok t"
  shows "tenants_ok rows'"
proof -
  obtain rows1 where g: "guardOptimisticLock tn_id tn_version set_tn_version (tn_id t) (tn_version t) rows = Inr rows1"
    and w: "tenant_write t rows1 = Inr rows'"
    using save by (auto simp: tenant_save_def elim: rbind_InrE)
  have rows': "rows' = save_row tn_id t rows1"
    and slugs: "\<And>x. x \<in> set rows1 \<Longrightarrow> tn_id x \<noteq> tn_id t \<Longrightarrow> tn_slug x \<noteq> tn_slug t"
    using w by (auto simp: tenant_write_def list_ex_iff split: if_splits)
  have "distinct (map tn_id rows')"
    unfolding rows' using tenant_versions.guard_save_ids[OF g] ok by (simp add: tenants_ok_def)
  moreover have "distinct (map tn_slug rows')"
    unfolding rows' using tenant_versions.guard_save_unique[OF g, of tn_slug] ok slugs
    by (simp add: set_tn_version_def tenants_ok_def)
  moreover have "list_all tenant_ok rows'"
    using tenant_versions.guard_save_set[OF g] t ok unfolding rows' by (auto simp: list_all_iff tenants_ok_def)
  ultimately show ?thesis by (simp add: tenants_ok_def)
qed

lemma tenant_write_slug: "tenant_write t rows = Inr rows' \<Longrightarrow> length (tn_slug t) \<le> 100"
  by (auto simp: tenant_write_def split: if_splits)

lemma tenant_save_slug: "tenant_save t rows = Inr rows' \<Longrightarrow> length (tn_slug t) \<le> 100"
  by (auto simp: tenant_save_def rbind_Inr_iff dest: tenant_write_slug)

lemma tenant_create_ok:
  assumes "tenant_create freshId name slug tier now = Inr t" and "tier = None \<or> the tier \<in> set ALL_TIERS"
    and "length (tn_slug t) \<le> 100"
  shows "tenant_ok t"
  using assms js_trim_length[of name]
  by (auto simp: tenant_create_def rbind_Inr_iff tenant_ok_def ALL_TIERS_def isolationTier_default_def or_default_def
      split: option.splits)

lemma tenant_suspend_ok:
  assumes "tenant_suspend reason now t = Inr (t', e)" and "tenant_ok t"
  shows "tenant_ok t' \<and> tn_id t' = tn_id t"
  using assms by (auto simp: tenant_suspend_def tenant_touch_def tenant_ok_def split: if_splits)

lemma tenant_step_ok:
  assumes "tenant_step is_uuid p rows rows'" and ok: "tenants_ok rows"
  shows "tenants_ok rows'"
  using assms(1)
proof cases
  case (create freshId now name slug tier t)
  then obtain tier' where c: "tenant_create freshId name slug tier' now = Inr t" "tenant_save t rows = Inr rows'"
    "tier' = None \<or> the tier' \<in> set ALL_TIERS"
    by (auto dest!: platform_route_admin simp: createTenant_execute_def rbind_Inr_iff split: option.splits if_splits)
  show ?thesis by (rule tenant_save_ok[OF c(2) ok tenant_create_ok[OF c(1,3) tenant_save_slug[OF c(2)]]])
next
  case (suspend now i reason expected te)
  then obtain t0 t e where s: "t0 \<in> set rows" "tenant_suspend reason now t0 = Inr (t, e)" "tenant_save t rows = Inr rows'"
    by (auto dest!: platform_route_admin tenant_findById_ok simp: suspendTenant_execute_def rbind_Inr_iff split: option.splits)
  have "tenant_ok t0" using ok s(1) by (simp add: tenants_ok_def list_all_iff)
  then show ?thesis using tenant_save_ok[OF s(3) ok] tenant_suspend_ok[OF s(2)] by blast
qed

text \<open>
  In every state the tenant routes can reach, ids and slugs are unique, every slug is a
  kebab-case name of at most a hundred characters, every tier is a known one, and the
  lifecycle is one way: a tenant is active at version one or suspended at version two, since
  no route reactivates it.  Every change was requested by a verified platform administrator.
\<close>

theorem tenant_directory_well_formed:
  assumes "tenants_reachable is_uuid rows"
  shows "distinct (map tn_id rows) \<and> distinct (map tn_slug rows) \<and> list_all tenant_ok rows \<and>
     (\<forall>p rows'. tenant_step is_uuid p rows rows' \<longrightarrow> (\<exists>pc. p = Some pc \<and> pc_platformAdmin pc))"
proof -
  have "tenants_ok rows" using assms
    by (induction rule: tenants_reachable.induct) (simp add: tenants_ok_def, rule tenant_step_ok)
  moreover have "\<exists>pc. p = Some pc \<and> pc_platformAdmin pc" if "tenant_step is_uuid p rows rows'" for p rows'
    using that by (auto elim!: tenant_stepE dest!: platform_route_admin)
  ultimately show ?thesis by (simp add: tenants_ok_def)
qed

definition admin_caller :: principal_context where
  "admin_caller = \<lparr>pc_principalId = ''dev'', pc_tenantId = ''t1'', pc_actorId = ''dev'', pc_sessionId = ''s1'', pc_platformAdmin = True\<rparr>"

lemma tenant_directory_well_formed_witness:
  "\<exists>rows. tenants_reachable (\<lambda>_. True) rows \<and> rows \<noteq> [] \<and> list_all tenant_ok rows"
proof -
  let ?r = "platform_route (\<lambda>_. True) (Some admin_caller) (createTenant_execute ''1'' 5 ''Acme'' ''acme'' None) []"
  have "is_ok ?r" "is_ok (rbind ?r (\<lambda>(t, rows). ensure (rows \<noteq> []) (Crash [])))" by code_simp+
  then obtain t rows where r: "?r = Inr (t, rows)" "rows \<noteq> []" by (auto simp: is_ok_def split: sum.splits)
  have "tenants_reachable (\<lambda>_. True) rows"
    by (rule tenants_reachable.step[OF tenants_reachable.empty tenant_step.create[OF r(1)]]) simp
  from this tenant_directory_well_formed[OF this] r(2) show ?thesis by blast
qed

section \<open>The catalogue of permissions\<close>

lemma permission_fromSnapshot_ok [simp]:
  "permission_fromSnapshot p = Inr q \<longleftrightarrow> q = p \<and> is_permission_key (pm_key p)"
  by (auto simp: permission_fromSnapshot_def rbind_Inr_iff)

inductive permission_step ::
  "(string \<Rightarrow> bool) \<Rightarrow> principal_context option \<Rightarrow> permission_table \<Rightarrow> permission_table \<Rightarrow> permission_event list \<Rightarrow> bool"
  for is_uuid p where
  create: "platform_route is_uuid p (createPermission_execute freshId now key description) rows = Inr ((pm, events), rows') \<Longrightarrow>
    freshId \<notin> pm_id ` set rows \<Longrightarrow> permission_step is_uuid p rows rows' events"

inductive permissions_reachable :: "(string \<Rightarrow> bool) \<Rightarrow> permission_table \<Rightarrow> bool" for is_uuid where
  empty: "permissions_reachable is_uuid []"
| step: "permissions_reachable is_uuid rows \<Longrightarrow> permission_step is_uuid p rows rows' events \<Longrightarrow>
    permissions_reachable is_uuid rows'"

definition permission_ok :: "permission \<Rightarrow> bool" where
  "permission_ok p \<longleftrightarrow> is_permission_key (pm_key p) \<and> length (pm_key p) \<le> 150 \<and> pm_description p \<noteq> [] \<and>
     length (pm_description p) \<le> MAX_DESCRIPTION_LENGTH \<and> pm_version p = 1"

lemma permission_create_ok:
  assumes "permission_create freshId key description now = Inr (pm, event)" and "length (pm_key pm) \<le> 150"
  shows "permission_ok pm \<and> pm_id pm = freshId \<and> event = PermissionCreatedEvent freshId (pm_key pm)"
  using assms js_trim_length[of description] by (auto simp: permission_create_def rbind_Inr_iff permission_ok_def)

lemma permission_step_ok:
  assumes "permission_step is_uuid p rows rows' events"
  shows "\<exists>pc pm. p = Some pc \<and> pc_platformAdmin pc \<and> rows' = rows @ [pm] \<and> permission_ok pm \<and>
     pm_id pm \<notin> pm_id ` set rows \<and> pm_key pm \<notin> pm_key ` set rows \<and>
     events = [PermissionCreatedEvent (pm_id pm) (pm_key pm)]"
  using assms
proof cases
  case (create freshId now key description pm)
  obtain pc where pc: "p = Some pc" "pc_platformAdmin pc"
    and c: "createPermission_execute freshId now key description rows = Inr ((pm, events), rows')"
    using platform_route_admin[OF create(1)] by blast
  obtain event where n: "permission_create freshId key description now = Inr (pm, event)" "events = [event]"
    "permission_save pm rows = Inr rows'"
    using c by (auto simp: createPermission_execute_def rbind_Inr_iff)
  have l: "length (pm_key pm) \<le> 150" using n(3) by (auto simp: permission_save_def split: if_splits)
  note ok = permission_create_ok[OF n(1) l]
  have "\<not> list_ex (\<lambda>x. pm_id x = pm_id pm) rows" using ok create(2) unfolding list_ex_iff by (metis imageI)
  then have "rows' = rows @ [pm]"
    using n(3) by (simp add: permission_save_def save_row_def split: if_splits)
  moreover have "pm_key pm \<notin> pm_key ` set rows"
  proof
    assume "pm_key pm \<in> pm_key ` set rows"
    then obtain x where x: "x \<in> set rows" "pm_key x = pm_key pm" by auto
    have "pm_id x \<noteq> pm_id pm" using x(1) ok create(2) by (metis imageI)
    then show False using n(3) x by (auto simp: permission_save_def list_ex_iff split: if_splits)
  qed
  ultimately show ?thesis using pc ok create(2) n(2) by auto
qed

text \<open>
  The catalogue only grows.  In every reachable state ids and keys are unique and every
  entry is well-formed at version one; a request that changes it comes from a verified
  platform administrator, appends one entry with a new key, and dispatches the event that
  names it.
\<close>

theorem permission_catalogue_only_grows:
  assumes "permissions_reachable is_uuid rows"
  shows "distinct (map pm_id rows) \<and> distinct (map pm_key rows) \<and> list_all permission_ok rows \<and>
     (\<forall>p rows' events. permission_step is_uuid p rows rows' events \<longrightarrow>
        (\<exists>pc pm. p = Some pc \<and> pc_platformAdmin pc \<and> rows' = rows @ [pm] \<and> pm_key pm \<notin> pm_key ` set rows \<and>
           events = [PermissionCreatedEvent (pm_id pm) (pm_key pm)]))"
proof -
  have "distinct (map pm_id rows) \<and> distinct (map pm_key rows) \<and> list_all permission_ok rows" using assms
  proof (induction rule: permissions_reachable.induct)
    case empty
    show ?case by simp
  next
    case (step rows p rows' events)
    show ?case using permission_step_ok[OF step.hyps(2)] step.IH by auto
  qed
  then show ?thesis using permission_step_ok by blast
qed

lemma permission_catalogue_only_grows_witness:
  "\<exists>rows. permissions_reachable (\<lambda>_. True) rows \<and> rows \<noteq> [] \<and> list_all permission_ok rows"
proof -
  let ?r = "platform_route (\<lambda>_. True) (Some admin_caller) (createPermission_execute ''1'' 5 ''expense:report:read'' ''Read'') []"
  have "is_ok ?r" by code_simp
  then obtain pm events rows where r: "?r = Inr ((pm, events), rows)" by (auto simp: is_ok_def split: sum.splits)
  have s: "permission_step (\<lambda>_. True) (Some admin_caller) [] rows events"
    by (rule permission_step.create[OF r]) simp
  then have "permissions_reachable (\<lambda>_. True) rows"
    by (rule permissions_reachable.step[OF permissions_reachable.empty])
  moreover have "rows \<noteq> []" using permission_step_ok[OF s] by auto
  ultimately show ?thesis using permission_catalogue_only_grows by blast
qed

end
