(* ===== verification/Views.thy ===== *)
theory Views
  imports Directory EffectiveRoles PolicyStore OrgUnit
begin

text \<open>
  The read models of the administration service (apps/authz-admin/src/modules/*/application/dto
  and the response classes of presentation/dto, which copy them): what a caller sees of an
  aggregate, with its instants as ISO texts and its status as the text of the enumeration.
\<close>

definition iso_opt :: "int option \<Rightarrow> string option" where
  "iso_opt t = map_option toISOString t"

section \<open>Roles\<close>

record role_view =
  rv_id :: string
  rv_tenantId :: string
  rv_key :: string
  rv_scope :: string
  rv_description :: string
  rv_permissions :: "string list"
  rv_version :: int
  rv_createdAt :: string
  rv_updatedAt :: string

definition toRoleView :: "role \<Rightarrow> role_view" where
  "toRoleView r =
     \<lparr>rv_id = ro_id r, rv_tenantId = ro_tenantId r, rv_key = ro_key r, rv_scope = ro_scope r,
      rv_description = ro_description r, rv_permissions = ro_permissions r, rv_version = ro_version r,
      rv_createdAt = toISOString (ro_createdAt r), rv_updatedAt = toISOString (ro_updatedAt r)\<rparr>"

definition toRolePageView :: "role cursor_page \<Rightarrow> role_view cursor_page" where
  "toRolePageView p =
     \<lparr>cp_items = map toRoleView (cp_items p), cp_nextCursor = cp_nextCursor p, cp_hasMore = cp_hasMore p\<rparr>"

section \<open>Role assignments\<close>

fun assignment_status_str :: "assignment_status \<Rightarrow> string" where
  "assignment_status_str AssignmentActive = ''active''"
| "assignment_status_str AssignmentRevoked = ''revoked''"

record role_assignment_view =
  rav_id :: string
  rav_tenantId :: string
  rav_userId :: string
  rav_roleId :: string
  rav_scope :: string
  rav_status :: string
  rav_validUntil :: "string option"
  rav_delegatedBy :: "string option"
  rav_version :: int
  rav_createdAt :: string
  rav_updatedAt :: string

definition toRoleAssignmentView :: "role_assignment \<Rightarrow> role_assignment_view" where
  "toRoleAssignmentView a =
     \<lparr>rav_id = ra_id a, rav_tenantId = ra_tenantId a, rav_userId = ra_userId a, rav_roleId = ra_roleId a,
      rav_scope = ra_scope a, rav_status = assignment_status_str (ra_status a),
      rav_validUntil = iso_opt (ra_validUntil a), rav_delegatedBy = ra_delegatedBy a,
      rav_version = ra_version a, rav_createdAt = toISOString (ra_createdAt a),
      rav_updatedAt = toISOString (ra_updatedAt a)\<rparr>"

definition toRoleAssignmentPageView :: "role_assignment cursor_page \<Rightarrow> role_assignment_view cursor_page" where
  "toRoleAssignmentPageView p =
     \<lparr>cp_items = map toRoleAssignmentView (cp_items p), cp_nextCursor = cp_nextCursor p, cp_hasMore = cp_hasMore p\<rparr>"

section \<open>Organisation units\<close>

record org_unit_view =
  ouv_id :: string
  ouv_tenantId :: string
  ouv_parentId :: "string option"
  ouv_path :: string
  ouv_name :: string
  ouv_version :: int
  ouv_createdAt :: string
  ouv_updatedAt :: string

definition toOrgUnitView :: "org_unit \<Rightarrow> org_unit_view" where
  "toOrgUnitView u =
     \<lparr>ouv_id = ou_id u, ouv_tenantId = ou_tenantId u, ouv_parentId = ou_parentId u, ouv_path = ou_path u,
      ouv_name = ou_name u, ouv_version = ou_version u, ouv_createdAt = toISOString (ou_createdAt u),
      ouv_updatedAt = toISOString (ou_updatedAt u)\<rparr>"

definition toOrgUnitPageView :: "org_unit cursor_page \<Rightarrow> org_unit_view cursor_page" where
  "toOrgUnitPageView p =
     \<lparr>cp_items = map toOrgUnitView (cp_items p), cp_nextCursor = cp_nextCursor p, cp_hasMore = cp_hasMore p\<rparr>"

section \<open>Policies\<close>

text \<open>The tenant of a policy that was never saved is an exception of the getter.\<close>

fun policy_status_str :: "policy_status \<Rightarrow> string" where
  "policy_status_str Staged = ''staged''"
| "policy_status_str Active = ''active''"

record policy_view =
  pvw_id :: string
  pvw_tenantId :: string
  pvw_scope :: string
  pvw_rule :: json
  pvw_status :: string
  pvw_version :: int
  pvw_effectiveDate :: string
  pvw_createdAt :: string
  pvw_updatedAt :: string

definition policy_tenantId :: "policy \<Rightarrow> string result" where
  "policy_tenantId p =
     (case po_tenantId p of
        None \<Rightarrow> Inl (Crash ''Policy tenantId is not yet stamped (call stampTenant on save)'')
      | Some t \<Rightarrow> Inr t)"

definition toPolicyView :: "policy \<Rightarrow> policy_view result" where
  "toPolicyView p =
     rbind (policy_tenantId p) (\<lambda>t.
     Inr \<lparr>pvw_id = po_id p, pvw_tenantId = t, pvw_scope = po_scope p, pvw_rule = po_rule p,
          pvw_status = policy_status_str (po_status p), pvw_version = po_version p,
          pvw_effectiveDate = toISOString (po_effectiveDate p), pvw_createdAt = toISOString (po_createdAt p),
          pvw_updatedAt = toISOString (po_updatedAt p)\<rparr>)"

definition toPolicyPageView :: "policy cursor_page \<Rightarrow> policy_view cursor_page result" where
  "toPolicyPageView p =
     rbind (rmap toPolicyView (cp_items p)) (\<lambda>items.
     Inr \<lparr>cp_items = items, cp_nextCursor = cp_nextCursor p, cp_hasMore = cp_hasMore p\<rparr>)"

section \<open>Tenants and permissions\<close>

fun tenant_status_str :: "tenant_status \<Rightarrow> string" where
  "tenant_status_str TenantActive = ''active''"
| "tenant_status_str TenantSuspended = ''suspended''"

record tenant_view =
  tv_id :: string
  tv_name :: string
  tv_slug :: string
  tv_status :: string
  tv_isolationTier :: string
  tv_version :: int
  tv_createdAt :: string
  tv_updatedAt :: string

definition toTenantView :: "tenant \<Rightarrow> tenant_view" where
  "toTenantView t =
     \<lparr>tv_id = tn_id t, tv_name = tn_name t, tv_slug = tn_slug t, tv_status = tenant_status_str (tn_status t),
      tv_isolationTier = tn_isolationTier t, tv_version = tn_version t,
      tv_createdAt = toISOString (tn_createdAt t), tv_updatedAt = toISOString (tn_updatedAt t)\<rparr>"

definition toTenantPageView :: "tenant cursor_page \<Rightarrow> tenant_view cursor_page" where
  "toTenantPageView p =
     \<lparr>cp_items = map toTenantView (cp_items p), cp_nextCursor = cp_nextCursor p, cp_hasMore = cp_hasMore p\<rparr>"

record permission_view =
  pmv_id :: string
  pmv_key :: string
  pmv_description :: string
  pmv_version :: int
  pmv_createdAt :: string
  pmv_updatedAt :: string

definition toPermissionView :: "permission \<Rightarrow> permission_view" where
  "toPermissionView p =
     \<lparr>pmv_id = pm_id p, pmv_key = pm_key p, pmv_description = pm_description p, pmv_version = pm_version p,
      pmv_createdAt = toISOString (pm_createdAt p), pmv_updatedAt = toISOString (pm_updatedAt p)\<rparr>"

definition toPermissionPageView :: "permission cursor_page \<Rightarrow> permission_view cursor_page" where
  "toPermissionPageView p =
     \<lparr>cp_items = map toPermissionView (cp_items p), cp_nextCursor = cp_nextCursor p, cp_hasMore = cp_hasMore p\<rparr>"

section \<open>Effective principals\<close>

record effective_view =
  ev_id :: string
  ev_tenantId :: string
  ev_roles :: "string list"
  ev_attr :: "(string \<times> json) list"

text \<open>The attributes: the tenant and, when there is one, the department.\<close>

definition toEffectiveView :: "principal_view \<Rightarrow> effective_view" where
  "toEffectiveView v =
     \<lparr>ev_id = pv_id v, ev_tenantId = pv_tenantId v, ev_roles = pv_roles v,
      ev_attr = (''tenantId'', JStr (pv_tenantId v)) #
        (case pv_department v of None \<Rightarrow> [] | Some d \<Rightarrow> [(''department'', JStr d)])\<rparr>"

end
