(* ===== verification/AdminApi.thy ===== *)
theory AdminApi
  imports Views HttpApi
begin

text \<open>
  The HTTP surface of the administration service: every route of the seven controllers
  (apps/authz-admin/src/modules/*/presentation) with its guards, its transport validation and
  its use case, run by the interceptor under the row-level security of the caller's tenant,
  and the middleware in front of them (apps/authz-admin/src/app.module.ts).  Texts of the
  validators, the checks of class-validator, Postgres and the clock are arguments.
\<close>

section \<open>State, dependencies and requests\<close>

record admin_db =
  db_units :: org_table
  db_roles :: role_table
  db_assignments :: assignment_table
  db_policies :: policy_state
  db_tenants :: tenant_table
  db_permissions :: permission_table

record admin_deps =
  ad_hmac :: "string \<Rightarrow> string \<Rightarrow> string"
  ad_parse :: "string \<Rightarrow> json option"
  ad_options :: authz_options
  ad_is_uuid :: "string \<Rightarrow> bool"
  ad_dto_uuid :: "string \<Rightarrow> bool"
  ad_pipe_uuid :: "string \<Rightarrow> bool"
  ad_is_iso8601 :: "string \<Rightarrow> bool"
  ad_date :: "string \<Rightarrow> int option"
  ad_to_number :: "string \<Rightarrow> int option"
  ad_json_number :: "json \<Rightarrow> int option"
  ad_pg_uuid :: "string \<Rightarrow> string option"
  ad_pg_id :: "string \<Rightarrow> string option"
  ad_pg_timestamp :: "string \<Rightarrow> int option"
  ad_bypass :: bool
  ad_publisher :: publisher
  ad_plan :: "role_grant list \<Rightarrow> role_grant list"
  ad_messages :: "string list"

datatype admin_request =
    CreateUnit create_org_command
  | GetUnit string
  | ListUnits string "string option" "string option"
  | MoveUnit string "string option" "string option"
  | CreateRole create_role_command
  | GetRole string
  | ListRoles "string option" "string option"
  | GrantPermission string string "string option"
  | RevokePermission string string "string option"
  | AssignRole assign_role_command
  | ListAssignments string "string option" "string option"
  | RevokeAssignment string "string option"
  | PublishPolicy string json string
  | GetPolicy string
  | ListPolicies "string option" "string option"
  | ActivatePolicy string "string option"
  | RollbackPolicy string json
  | CreateTenant string string "string option"
  | GetTenant string
  | ListTenants "string option" "string option"
  | SuspendTenant string string "string option"
  | CreatePermission string string
  | GetPermission string
  | ListPermissions "string option" "string option"
  | EffectivePrincipal string "string list" string

datatype admin_response =
    UnitItem org_unit_view
  | UnitPage "org_unit_view cursor_page"
  | RoleItem role_view
  | RolePage "role_view cursor_page"
  | AssignmentItem role_assignment_view
  | AssignmentPage "role_assignment_view cursor_page"
  | PolicyItem policy_view
  | PolicyPage "policy_view cursor_page"
  | TenantItem tenant_view
  | TenantPage "tenant_view cursor_page"
  | PermissionItem permission_view
  | PermissionPage "permission_view cursor_page"
  | PrincipalItem effective_view

section \<open>Statements under the policies of the tenant\<close>

definition policy_owner :: "policy \<Rightarrow> string" where
  "policy_owner p = or_default (po_tenantId p) []"

definition on_table ::
  "(admin_db \<Rightarrow> 'r list) \<Rightarrow> ('r list \<Rightarrow> admin_db \<Rightarrow> admin_db) \<Rightarrow> ('r \<Rightarrow> string) \<Rightarrow> ('r \<Rightarrow> string) \<Rightarrow>
   admin_deps \<Rightarrow> tenant_store \<Rightarrow> ('r list \<Rightarrow> ('v \<times> 'r list) result) \<Rightarrow> admin_db \<Rightarrow> ('v \<times> admin_db) result" where
  "on_table get put id_of tenant_of d store fn db =
     rbind (rls_statement (ad_bypass d) (ad_pg_uuid d) id_of tenant_of (Some (ts_tenantId store)) fn (get db))
       (\<lambda>(v, rows). Inr (v, put rows db))"

definition on_units ::
  "admin_deps \<Rightarrow> tenant_store \<Rightarrow> (org_table \<Rightarrow> ('v \<times> org_table) result) \<Rightarrow> admin_db \<Rightarrow> ('v \<times> admin_db) result" where
  "on_units = on_table db_units (\<lambda>rows db. db\<lparr>db_units := rows\<rparr>) ou_id ou_tenantId"

definition on_roles ::
  "admin_deps \<Rightarrow> tenant_store \<Rightarrow> (role_table \<Rightarrow> ('v \<times> role_table) result) \<Rightarrow> admin_db \<Rightarrow> ('v \<times> admin_db) result" where
  "on_roles = on_table db_roles (\<lambda>rows db. db\<lparr>db_roles := rows\<rparr>) ro_id ro_tenantId"

definition on_assignments ::
  "admin_deps \<Rightarrow> tenant_store \<Rightarrow> (assignment_table \<Rightarrow> ('v \<times> assignment_table) result) \<Rightarrow> admin_db \<Rightarrow>
   ('v \<times> admin_db) result" where
  "on_assignments = on_table db_assignments (\<lambda>rows db. db\<lparr>db_assignments := rows\<rparr>) ra_id ra_tenantId"

text \<open>A use case of the policies also writes files and dispatches events, outside the table.\<close>

definition on_policies ::
  "admin_deps \<Rightarrow> tenant_store \<Rightarrow> (policy_state \<Rightarrow> ('v \<times> policy_state) result) \<Rightarrow> admin_db \<Rightarrow>
   ('v \<times> admin_db) result" where
  "on_policies d store fn db =
     rbind (on_table (\<lambda>db. ps_rows (db_policies db)) (\<lambda>rows db. db\<lparr>db_policies := (db_policies db)\<lparr>ps_rows := rows\<rparr>\<rparr>)
         po_id policy_owner d store
         (\<lambda>rows. rbind (fn ((db_policies db)\<lparr>ps_rows := rows\<rparr>)) (\<lambda>(v, st). Inr ((v, st), ps_rows st))) db)
       (\<lambda>((v, st), db). Inr (v, db\<lparr>db_policies := (db_policies db)\<lparr>ps_dir := ps_dir st, ps_events := ps_events st\<rparr>\<rparr>))"

text \<open>A statement that only reads.\<close>

definition read_table ::
  "(admin_db \<Rightarrow> 'r list) \<Rightarrow> ('r \<Rightarrow> string) \<Rightarrow> ('r \<Rightarrow> string) \<Rightarrow> admin_deps \<Rightarrow> tenant_store \<Rightarrow>
   ('r list \<Rightarrow> 'v result) \<Rightarrow> admin_db \<Rightarrow> 'v result" where
  "read_table get id_of tenant_of d store fn db =
     rbind (rls_statement (ad_bypass d) (ad_pg_uuid d) id_of tenant_of (Some (ts_tenantId store))
         (\<lambda>rows. rbind (fn rows) (\<lambda>v. Inr (v, rows))) (get db)) (\<lambda>(v, rows). Inr v)"

definition read_units :: "admin_deps \<Rightarrow> tenant_store \<Rightarrow> (org_table \<Rightarrow> 'v result) \<Rightarrow> admin_db \<Rightarrow> 'v result" where
  "read_units = read_table db_units ou_id ou_tenantId"

definition read_roles :: "admin_deps \<Rightarrow> tenant_store \<Rightarrow> (role_table \<Rightarrow> 'v result) \<Rightarrow> admin_db \<Rightarrow> 'v result" where
  "read_roles = read_table db_roles ro_id ro_tenantId"

definition read_assignments ::
  "admin_deps \<Rightarrow> tenant_store \<Rightarrow> (assignment_table \<Rightarrow> 'v result) \<Rightarrow> admin_db \<Rightarrow> 'v result" where
  "read_assignments = read_table db_assignments ra_id ra_tenantId"

definition read_policies :: "admin_deps \<Rightarrow> tenant_store \<Rightarrow> (policy_state \<Rightarrow> 'v result) \<Rightarrow> admin_db \<Rightarrow> 'v result" where
  "read_policies d store fn db =
     read_table (\<lambda>db. ps_rows (db_policies db)) po_id policy_owner d store
       (\<lambda>rows. fn ((db_policies db)\<lparr>ps_rows := rows\<rparr>)) db"

text \<open>The pipe of a route parameter that must be a uuid.\<close>

definition uuid_pipe :: "admin_deps \<Rightarrow> string \<Rightarrow> unit result" where
  "uuid_pipe d i = ensure (ad_pipe_uuid d i) (HttpExn 400
     (BodyObject (Some (MsgText ''Validation failed (uuid is expected)''))) ''Validation failed (uuid is expected)'')"

definition dto :: "admin_deps \<Rightarrow> bool \<Rightarrow> unit result" where
  "dto d valid = ensure valid (bad_request (ad_messages d))"

abbreviation ad_limit :: "admin_deps \<Rightarrow> string option \<Rightarrow> int option result" where
  "ad_limit d \<equiv> page_limit (ad_to_number d) (ad_messages d)"

abbreviation ad_etag :: "admin_deps \<Rightarrow> string option \<Rightarrow> int option" where
  "ad_etag d \<equiv> parseEtag (ad_to_number d)"

section \<open>Organisation units\<close>

definition unit_create_route ::
  "admin_deps \<Rightarrow> tenant_store \<Rightarrow> string \<Rightarrow> int \<Rightarrow> create_org_command \<Rightarrow> admin_db \<Rightarrow>
   (admin_response \<times> admin_db) result" where
  "unit_create_route d store freshId now c db =
     rbind (dto d (createOrgUnitRequest_valid (ad_dto_uuid d) c)) (\<lambda>_.
     rbind (on_units d store (createOrgUnit_execute (ad_is_uuid d) freshId (ts_tenantId store) now c) db) (\<lambda>(u, db).
     Inr (UnitItem (toOrgUnitView u), db)))"

definition unit_get_route ::
  "admin_deps \<Rightarrow> tenant_store \<Rightarrow> string \<Rightarrow> admin_db \<Rightarrow> (admin_response \<times> admin_db) result" where
  "unit_get_route d store i db =
     rbind (uuid_pipe d i) (\<lambda>_.
     rbind (read_units d store (getOrgUnit_execute (ad_is_uuid d) i) db) (\<lambda>u.
     Inr (UnitItem (toOrgUnitView u), db)))"

definition unit_list_route ::
  "admin_deps \<Rightarrow> tenant_store \<Rightarrow> string \<Rightarrow> string option \<Rightarrow> string option \<Rightarrow> admin_db \<Rightarrow>
   (admin_response \<times> admin_db) result" where
  "unit_list_route d store rootPath limit cursor db =
     rbind (dto d (1 \<le> length rootPath \<and> length rootPath \<le> 1024)) (\<lambda>_.
     rbind (ad_limit d limit) (\<lambda>n.
     rbind (read_units d store (listSubtree_execute (ad_pg_id d) rootPath n cursor) db) (\<lambda>p.
     Inr (UnitPage (toOrgUnitPageView p), db))))"

definition unit_move_route ::
  "admin_deps \<Rightarrow> tenant_store \<Rightarrow> int \<Rightarrow> string \<Rightarrow> string option \<Rightarrow> string option \<Rightarrow> admin_db \<Rightarrow>
   (admin_response \<times> admin_db) result" where
  "unit_move_route d store now i newParentId ifMatch db =
     rbind (uuid_pipe d i) (\<lambda>_.
     rbind (dto d (case newParentId of None \<Rightarrow> True | Some p \<Rightarrow> ad_dto_uuid d p)) (\<lambda>_.
     rbind (on_units d store (\<lambda>rows.
         rbind (moveOrgUnit_execute (ad_is_uuid d) now
             \<lparr>mo_orgUnitId = i, mo_newParentId = newParentId, mo_expectedVersion = ad_etag d ifMatch\<rparr> rows)
           (\<lambda>(u, rows, events). Inr (u, rows))) db) (\<lambda>(u, db).
     Inr (UnitItem (toOrgUnitView u), db))))"

section \<open>Roles\<close>

text \<open>The tenant of a new role is the one of the context, whatever the request says.\<close>

definition role_create_route ::
  "admin_deps \<Rightarrow> tenant_store \<Rightarrow> string \<Rightarrow> int \<Rightarrow> create_role_command \<Rightarrow> admin_db \<Rightarrow>
   (admin_response \<times> admin_db) result" where
  "role_create_route d store freshId now c db =
     rbind (dto d (createRoleRequest_valid c)) (\<lambda>_.
     rbind (on_roles d store (createRole_execute freshId now (c\<lparr>cr_tenantId := ts_tenantId store\<rparr>)) db) (\<lambda>(r, db).
     Inr (RoleItem (toRoleView r), db)))"

definition role_get_route ::
  "admin_deps \<Rightarrow> tenant_store \<Rightarrow> string \<Rightarrow> admin_db \<Rightarrow> (admin_response \<times> admin_db) result" where
  "role_get_route d store i db =
     rbind (uuid_pipe d i) (\<lambda>_.
     rbind (read_roles d store (getRole_execute (ad_is_uuid d) i) db) (\<lambda>r.
     Inr (RoleItem (toRoleView r), db)))"

definition role_list_route ::
  "admin_deps \<Rightarrow> tenant_store \<Rightarrow> string option \<Rightarrow> string option \<Rightarrow> admin_db \<Rightarrow>
   (admin_response \<times> admin_db) result" where
  "role_list_route d store limit cursor db =
     rbind (ad_limit d limit) (\<lambda>n.
     rbind (read_roles d store (listRoles_execute (ad_pg_timestamp d) (ad_pg_id d) n cursor) db) (\<lambda>p.
     Inr (RolePage (toRolePageView p), db)))"

definition role_grant_route ::
  "admin_deps \<Rightarrow> tenant_store \<Rightarrow> int \<Rightarrow> string \<Rightarrow> string \<Rightarrow> string option \<Rightarrow> admin_db \<Rightarrow>
   (admin_response \<times> admin_db) result" where
  "role_grant_route d store now i permission ifMatch db =
     rbind (uuid_pipe d i) (\<lambda>_.
     rbind (dto d (addPermissionRequest_valid permission)) (\<lambda>_.
     rbind (on_roles d store (\<lambda>rows.
         rbind (addPermissionToRole_execute (ad_is_uuid d) now i permission (ad_etag d ifMatch) rows)
           (\<lambda>(r, rows, events). Inr (r, rows))) db) (\<lambda>(r, db).
     Inr (RoleItem (toRoleView r), db))))"

definition role_revoke_route ::
  "admin_deps \<Rightarrow> tenant_store \<Rightarrow> int \<Rightarrow> string \<Rightarrow> string \<Rightarrow> string option \<Rightarrow> admin_db \<Rightarrow>
   (admin_response \<times> admin_db) result" where
  "role_revoke_route d store now i permission ifMatch db =
     rbind (uuid_pipe d i) (\<lambda>_.
     rbind (on_roles d store (\<lambda>rows.
         rbind (removePermissionFromRole_execute (ad_is_uuid d) now i permission (ad_etag d ifMatch) rows)
           (\<lambda>(r, rows, events). Inr (r, rows))) db) (\<lambda>(r, db).
     Inr (RoleItem (toRoleView r), db)))"

section \<open>Role assignments\<close>

text \<open>The two writes require a platform administrator.\<close>

definition assign_route ::
  "admin_deps \<Rightarrow> tenant_store \<Rightarrow> string \<Rightarrow> int \<Rightarrow> assign_role_command \<Rightarrow> admin_db \<Rightarrow>
   (admin_response \<times> admin_db) result" where
  "assign_route d store freshId now c db =
     rbind (platformAdminGuard (Some store)) (\<lambda>_.
     rbind (dto d (assignRoleRequest_valid (ad_is_iso8601 d) c)) (\<lambda>_.
     rbind (on_assignments d store (assignRole_execute (ad_date d) freshId now
         (c\<lparr>as_tenantId := ts_tenantId store, as_delegatedBy := getActorId (Some store)\<rparr>)) db) (\<lambda>(a, db).
     Inr (AssignmentItem (toRoleAssignmentView a), db))))"

definition assignment_list_route ::
  "admin_deps \<Rightarrow> tenant_store \<Rightarrow> string \<Rightarrow> string option \<Rightarrow> string option \<Rightarrow> admin_db \<Rightarrow>
   (admin_response \<times> admin_db) result" where
  "assignment_list_route d store userId limit cursor db =
     rbind (dto d (1 \<le> length userId \<and> length userId \<le> 255)) (\<lambda>_.
     rbind (ad_limit d limit) (\<lambda>n.
     rbind (read_assignments d store
         (listAssignmentsForUser_execute (ad_pg_timestamp d) (ad_pg_id d) userId n cursor) db) (\<lambda>p.
     Inr (AssignmentPage (toRoleAssignmentPageView p), db))))"

definition assignment_revoke_route ::
  "admin_deps \<Rightarrow> tenant_store \<Rightarrow> int \<Rightarrow> string \<Rightarrow> string option \<Rightarrow> admin_db \<Rightarrow>
   (admin_response \<times> admin_db) result" where
  "assignment_revoke_route d store now i ifMatch db =
     rbind (platformAdminGuard (Some store)) (\<lambda>_.
     rbind (uuid_pipe d i) (\<lambda>_.
     rbind (on_assignments d store (\<lambda>rows.
         rbind (revokeRole_execute (ad_is_uuid d) now i (ad_etag d ifMatch) rows)
           (\<lambda>(a, rows, events). Inr (a, rows))) db) (\<lambda>(a, db).
     Inr (AssignmentItem (toRoleAssignmentView a), db))))"

section \<open>Policies\<close>

text \<open>
  The effective date reaches the database as a Date: a text that passes the validator and is
  none for the Date constructor fails when the row is written.
\<close>

definition policy_publish_route ::
  "admin_deps \<Rightarrow> tenant_store \<Rightarrow> string \<Rightarrow> int \<Rightarrow> string \<Rightarrow> json \<Rightarrow> string \<Rightarrow> admin_db \<Rightarrow>
   (admin_response \<times> admin_db) result" where
  "policy_publish_route d store freshId now scope rule effectiveDate db =
     rbind (dto d (1 \<le> length scope \<and> length scope \<le> 255 \<and> is_runs (CHR ''.'') scope \<and> is_object rule \<and>
         ad_is_iso8601 d effectiveDate)) (\<lambda>_.
     rbind (case ad_date d effectiveDate of None \<Rightarrow> Inl (Crash ''Invalid time value'') | Some t \<Rightarrow> Inr t) (\<lambda>t.
     rbind (on_policies d store
         (publishPolicy_execute (ad_publisher d) (ts_tenantId store) freshId now scope rule t) db) (\<lambda>(p, db).
     rbind (toPolicyView p) (\<lambda>v. Inr (PolicyItem v, db)))))"

definition policy_get_route ::
  "admin_deps \<Rightarrow> tenant_store \<Rightarrow> string \<Rightarrow> admin_db \<Rightarrow> (admin_response \<times> admin_db) result" where
  "policy_get_route d store i db =
     rbind (uuid_pipe d i) (\<lambda>_.
     rbind (read_policies d store (getPolicy_execute (ad_is_uuid d) i) db) (\<lambda>p.
     rbind (toPolicyView p) (\<lambda>v. Inr (PolicyItem v, db))))"

definition policy_list_route ::
  "admin_deps \<Rightarrow> tenant_store \<Rightarrow> string option \<Rightarrow> string option \<Rightarrow> admin_db \<Rightarrow>
   (admin_response \<times> admin_db) result" where
  "policy_list_route d store limit cursor db =
     rbind (ad_limit d limit) (\<lambda>n.
     rbind (read_policies d store (listPolicies_execute (ad_pg_timestamp d) (ad_pg_id d) n cursor) db) (\<lambda>p.
     rbind (toPolicyPageView p) (\<lambda>v. Inr (PolicyPage v, db))))"

definition policy_activate_route ::
  "admin_deps \<Rightarrow> tenant_store \<Rightarrow> int \<Rightarrow> string \<Rightarrow> string option \<Rightarrow> admin_db \<Rightarrow>
   (admin_response \<times> admin_db) result" where
  "policy_activate_route d store now i ifMatch db =
     rbind (uuid_pipe d i) (\<lambda>_.
     rbind (on_policies d store
         (activatePolicy_execute (ad_publisher d) (ad_is_uuid d) (ts_tenantId store) now i (ad_etag d ifMatch)) db)
       (\<lambda>(p, db).
     rbind (toPolicyView p) (\<lambda>v. Inr (PolicyItem v, db))))"

definition policy_rollback_route ::
  "admin_deps \<Rightarrow> tenant_store \<Rightarrow> string \<Rightarrow> int \<Rightarrow> string \<Rightarrow> json \<Rightarrow> admin_db \<Rightarrow>
   (admin_response \<times> admin_db) result" where
  "policy_rollback_route d store freshId now i toVersion db =
     rbind (uuid_pipe d i) (\<lambda>_.
     rbind (case ad_json_number d toVersion of
              None \<Rightarrow> Inl (bad_request (ad_messages d))
            | Some n \<Rightarrow> if 1 \<le> n then Inr n else Inl (bad_request (ad_messages d))) (\<lambda>n.
     rbind (on_policies d store
         (rollbackPolicy_execute (ad_publisher d) (ad_is_uuid d) (ts_tenantId store) freshId now i n) db) (\<lambda>(p, db).
     rbind (toPolicyView p) (\<lambda>v. Inr (PolicyItem v, db)))))"

section \<open>Tenants and permissions\<close>

text \<open>
  Every tenant route requires a platform administrator; of the permission routes only the
  creation does.  Neither table is under row-level security.
\<close>

definition tenant_create_route ::
  "admin_deps \<Rightarrow> tenant_store \<Rightarrow> string \<Rightarrow> int \<Rightarrow> string \<Rightarrow> string \<Rightarrow> string option \<Rightarrow> admin_db \<Rightarrow>
   (admin_response \<times> admin_db) result" where
  "tenant_create_route d store freshId now name slug tier db =
     rbind (platformAdminGuard (Some store)) (\<lambda>_.
     rbind (dto d (createTenantRequest_valid name slug tier)) (\<lambda>_.
     rbind (createTenant_execute freshId now name slug tier (db_tenants db)) (\<lambda>(t, rows).
     Inr (TenantItem (toTenantView t), db\<lparr>db_tenants := rows\<rparr>))))"

definition tenant_get_route ::
  "admin_deps \<Rightarrow> tenant_store \<Rightarrow> string \<Rightarrow> admin_db \<Rightarrow> (admin_response \<times> admin_db) result" where
  "tenant_get_route d store i db =
     rbind (platformAdminGuard (Some store)) (\<lambda>_.
     rbind (uuid_pipe d i) (\<lambda>_.
     rbind (getTenant_execute (ad_is_uuid d) i (db_tenants db)) (\<lambda>t.
     Inr (TenantItem (toTenantView t), db))))"

definition tenant_list_route ::
  "admin_deps \<Rightarrow> tenant_store \<Rightarrow> string option \<Rightarrow> string option \<Rightarrow> admin_db \<Rightarrow>
   (admin_response \<times> admin_db) result" where
  "tenant_list_route d store limit cursor db =
     rbind (platformAdminGuard (Some store)) (\<lambda>_.
     rbind (ad_limit d limit) (\<lambda>n.
     rbind (listTenants_execute (ad_pg_timestamp d) (ad_pg_id d) n cursor (db_tenants db)) (\<lambda>p.
     Inr (TenantPage (toTenantPageView p), db))))"

definition tenant_suspend_route ::
  "admin_deps \<Rightarrow> tenant_store \<Rightarrow> int \<Rightarrow> string \<Rightarrow> string \<Rightarrow> string option \<Rightarrow> admin_db \<Rightarrow>
   (admin_response \<times> admin_db) result" where
  "tenant_suspend_route d store now i reason ifMatch db =
     rbind (platformAdminGuard (Some store)) (\<lambda>_.
     rbind (uuid_pipe d i) (\<lambda>_.
     rbind (dto d (suspendTenantRequest_valid reason)) (\<lambda>_.
     rbind (suspendTenant_execute (ad_is_uuid d) now i reason (ad_etag d ifMatch) (db_tenants db)) (\<lambda>(t, rows, events).
     Inr (TenantItem (toTenantView t), db\<lparr>db_tenants := rows\<rparr>)))))"

definition permission_create_route ::
  "admin_deps \<Rightarrow> tenant_store \<Rightarrow> string \<Rightarrow> int \<Rightarrow> string \<Rightarrow> string \<Rightarrow> admin_db \<Rightarrow>
   (admin_response \<times> admin_db) result" where
  "permission_create_route d store freshId now key description db =
     rbind (platformAdminGuard (Some store)) (\<lambda>_.
     rbind (dto d (createPermissionRequest_valid key description)) (\<lambda>_.
     rbind (createPermission_execute freshId now key description (db_permissions db)) (\<lambda>((p, events), rows).
     Inr (PermissionItem (toPermissionView p), db\<lparr>db_permissions := rows\<rparr>))))"

definition permission_get_route ::
  "admin_deps \<Rightarrow> string \<Rightarrow> admin_db \<Rightarrow> (admin_response \<times> admin_db) result" where
  "permission_get_route d i db =
     rbind (uuid_pipe d i) (\<lambda>_.
     rbind (getPermission_execute (ad_is_uuid d) i (db_permissions db)) (\<lambda>p.
     Inr (PermissionItem (toPermissionView p), db)))"

definition permission_list_route ::
  "admin_deps \<Rightarrow> string option \<Rightarrow> string option \<Rightarrow> admin_db \<Rightarrow> (admin_response \<times> admin_db) result" where
  "permission_list_route d limit cursor db =
     rbind (ad_limit d limit) (\<lambda>n.
     rbind (listPermissions_execute (ad_pg_timestamp d) (ad_pg_id d) n cursor (db_permissions db)) (\<lambda>p.
     Inr (PermissionPage (toPermissionPageView p), db)))"

section \<open>Principals\<close>

text \<open>The information point reads the grants of the tenant it was asked about.\<close>

definition resolvePrincipalQuery_valid :: "string list \<Rightarrow> string \<Rightarrow> bool" where
  "resolvePrincipalQuery_valid tenantIds scope \<longleftrightarrow>
     (case tenantIds of [t] \<Rightarrow> 1 \<le> length t \<and> length t \<le> 255 | _ \<Rightarrow> False) \<and>
     1 \<le> length scope \<and> length scope \<le> 255 \<and> is_runs (CHR ''.'') scope"

definition principal_effective_route ::
  "admin_deps \<Rightarrow> tenant_store \<Rightarrow> int \<Rightarrow> string \<Rightarrow> string list \<Rightarrow> string \<Rightarrow> admin_db \<Rightarrow>
   (admin_response \<times> admin_db) result" where
  "principal_effective_route d store now userId tenantIds scope db =
     rbind (dto d (resolvePrincipalQuery_valid tenantIds scope)) (\<lambda>_.
     rbind (read_assignments d store Inr db) (\<lambda>assignments.
     rbind (read_roles d store Inr db) (\<lambda>roles.
     rbind (resolvePrincipal_execute (ad_plan d) (ts_tenantId store) now userId scope assignments roles) (\<lambda>v.
     Inr (PrincipalItem (toEffectiveView v), db)))))"

section \<open>The service\<close>

text \<open>The middleware runs before every route but the one of the information point.\<close>

definition admin_identity ::
  "admin_deps \<Rightarrow> int \<Rightarrow> request_headers \<Rightarrow> admin_request \<Rightarrow> principal_context option result" where
  "admin_identity d now headers request =
     (case request of
        EffectivePrincipal _ _ _ \<Rightarrow> Inr None
      | _ \<Rightarrow> rbind (middleware_use (ad_hmac d) (ad_parse d) (ad_options d) now headers) (\<lambda>pc. Inr (Some pc)))"

text \<open>The guard of each controller that binds the tenant.\<close>

definition admin_store ::
  "admin_deps \<Rightarrow> principal_context option \<Rightarrow> admin_request \<Rightarrow> tenant_store result" where
  "admin_store d p request =
     (case request of
        EffectivePrincipal _ tenantIds _ \<Rightarrow> pipTenantContextGuard (ad_is_uuid d) tenantIds
      | _ \<Rightarrow> tenantContextGuard (ad_is_uuid d) p)"

definition admin_handle ::
  "admin_deps \<Rightarrow> tenant_store \<Rightarrow> string \<Rightarrow> int \<Rightarrow> admin_request \<Rightarrow> admin_db \<Rightarrow> (admin_response \<times> admin_db) result" where
  "admin_handle d store freshId now request db =
     (case request of
        CreateUnit c \<Rightarrow> unit_create_route d store freshId now c db
      | GetUnit i \<Rightarrow> unit_get_route d store i db
      | ListUnits root limit cursor \<Rightarrow> unit_list_route d store root limit cursor db
      | MoveUnit i parent ifMatch \<Rightarrow> unit_move_route d store now i parent ifMatch db
      | CreateRole c \<Rightarrow> role_create_route d store freshId now c db
      | GetRole i \<Rightarrow> role_get_route d store i db
      | ListRoles limit cursor \<Rightarrow> role_list_route d store limit cursor db
      | GrantPermission i permission ifMatch \<Rightarrow> role_grant_route d store now i permission ifMatch db
      | RevokePermission i permission ifMatch \<Rightarrow> role_revoke_route d store now i permission ifMatch db
      | AssignRole c \<Rightarrow> assign_route d store freshId now c db
      | ListAssignments userId limit cursor \<Rightarrow> assignment_list_route d store userId limit cursor db
      | RevokeAssignment i ifMatch \<Rightarrow> assignment_revoke_route d store now i ifMatch db
      | PublishPolicy scope rule date \<Rightarrow> policy_publish_route d store freshId now scope rule date db
      | GetPolicy i \<Rightarrow> policy_get_route d store i db
      | ListPolicies limit cursor \<Rightarrow> policy_list_route d store limit cursor db
      | ActivatePolicy i ifMatch \<Rightarrow> policy_activate_route d store now i ifMatch db
      | RollbackPolicy i version \<Rightarrow> policy_rollback_route d store freshId now i version db
      | CreateTenant name slug tier \<Rightarrow> tenant_create_route d store freshId now name slug tier db
      | GetTenant i \<Rightarrow> tenant_get_route d store i db
      | ListTenants limit cursor \<Rightarrow> tenant_list_route d store limit cursor db
      | SuspendTenant i reason ifMatch \<Rightarrow> tenant_suspend_route d store now i reason ifMatch db
      | CreatePermission key description \<Rightarrow> permission_create_route d store freshId now key description db
      | GetPermission i \<Rightarrow> permission_get_route d i db
      | ListPermissions limit cursor \<Rightarrow> permission_list_route d limit cursor db
      | EffectivePrincipal userId tenantIds scope \<Rightarrow>
          principal_effective_route d store now userId tenantIds scope db)"

definition admin_service ::
  "admin_deps \<Rightarrow> string \<Rightarrow> int \<Rightarrow> request_headers \<Rightarrow> admin_request \<Rightarrow> admin_db \<Rightarrow>
   admin_response result \<times> admin_db" where
  "admin_service d freshId now headers request db =
     (case rbind (admin_identity d now headers request) (\<lambda>p.
           rbind (admin_store d p request) (\<lambda>store.
           admin_handle d store freshId now request db)) of
        Inl e \<Rightarrow> (Inl e, db)
      | Inr (response, db') \<Rightarrow> (Inr response, db'))"

end
