(* ===== verification/AdminSafety.thy ===== *)
theory AdminSafety
  imports AdminApi
begin

text \<open>
  What the administration service guarantees of every request: who may make it, whose rows it
  can change, and that a refused request changes nothing; and what it does not gate.
\<close>

section \<open>Tables under row-level security\<close>

locale tenant_table =
  fixes get :: "admin_db \<Rightarrow> 'r list"
    and put :: "'r list \<Rightarrow> admin_db \<Rightarrow> admin_db"
    and id_of :: "'r \<Rightarrow> string"
    and tenant_of :: "'r \<Rightarrow> string"
  assumes get_put: "get (put rows db) = rows"
begin

lemma on_table_put: "on_table get put id_of tenant_of d store fn db = Inr (v, db') \<Longrightarrow> \<exists>rows. db' = put rows db"
  by (auto simp: on_table_def rbind_Inr_iff)

lemma on_table_others:
  assumes "\<not> ad_bypass d" and "ad_pg_uuid d (ts_tenantId store) = Some t"
    and "on_table get put id_of tenant_of d store fn db = Inr (v, db')"
  shows "others tenant_of t (get db') = others tenant_of t (get db)"
proof -
  obtain rows where "rls_statement False (ad_pg_uuid d) id_of tenant_of (Some (ts_tenantId store)) fn (get db) = Inr (v, rows)"
    "db' = put rows db" using assms(1,3) by (auto simp: on_table_def rbind_Inr_iff)
  with rls_statement_others[where pg_uuid = "ad_pg_uuid d" and s = "ts_tenantId store", OF assms(2)] show ?thesis
    by (simp add: get_put)
qed

end

interpretation units: tenant_table db_units "\<lambda>rows db. db\<lparr>db_units := rows\<rparr>" ou_id ou_tenantId
  by unfold_locales simp

interpretation roles: tenant_table db_roles "\<lambda>rows db. db\<lparr>db_roles := rows\<rparr>" ro_id ro_tenantId
  by unfold_locales simp

interpretation assignments: tenant_table db_assignments "\<lambda>rows db. db\<lparr>db_assignments := rows\<rparr>" ra_id ra_tenantId
  by unfold_locales simp

interpretation policies:
  tenant_table "\<lambda>db. ps_rows (db_policies db)" "\<lambda>rows db. db\<lparr>db_policies := (db_policies db)\<lparr>ps_rows := rows\<rparr>\<rparr>"
    po_id policy_owner
  by unfold_locales simp

text \<open>The rows of the other tenants, in the four tables that have a tenant.\<close>

definition foreign ::
  "string \<Rightarrow> admin_db \<Rightarrow> org_table \<times> role_table \<times> assignment_table \<times> policy_table" where
  "foreign t db =
     (others ou_tenantId t (db_units db), others ro_tenantId t (db_roles db),
      others ra_tenantId t (db_assignments db), others policy_owner t (ps_rows (db_policies db)))"

text \<open>The two tables of the platform.\<close>

definition directory :: "admin_db \<Rightarrow> tenant_table \<times> permission_table" where
  "directory db = (db_tenants db, db_permissions db)"

definition scoped :: "admin_deps \<Rightarrow> tenant_store \<Rightarrow> string \<Rightarrow> bool" where
  "scoped d store t \<longleftrightarrow> \<not> ad_bypass d \<and> ad_pg_uuid d (ts_tenantId store) = Some t"

named_theorems stays "a statement of a tenant leaves the rows of the others and the directory alone"

lemma on_units_stays [stays]:
  "on_units d store fn db = Inr (v, db') \<Longrightarrow> directory db' = directory db \<and> (scoped d store t \<longrightarrow> foreign t db' = foreign t db)"
  using units.on_table_others[of d store t fn db v db'] units.on_table_put[of d store fn db v db']
  by (auto simp: on_units_def foreign_def directory_def scoped_def)

lemma on_roles_stays [stays]:
  "on_roles d store fn db = Inr (v, db') \<Longrightarrow> directory db' = directory db \<and> (scoped d store t \<longrightarrow> foreign t db' = foreign t db)"
  using roles.on_table_others[of d store t fn db v db'] roles.on_table_put[of d store fn db v db']
  by (auto simp: on_roles_def foreign_def directory_def scoped_def)

lemma on_assignments_stays [stays]:
  "on_assignments d store fn db = Inr (v, db') \<Longrightarrow> directory db' = directory db \<and> (scoped d store t \<longrightarrow> foreign t db' = foreign t db)"
  using assignments.on_table_others[of d store t fn db v db'] assignments.on_table_put[of d store fn db v db']
  by (auto simp: on_assignments_def foreign_def directory_def scoped_def)

lemma on_policies_stays [stays]:
  assumes "on_policies d store fn db = Inr (v, db')"
  shows "directory db' = directory db \<and> (scoped d store t \<longrightarrow> foreign t db' = foreign t db)"
proof -
  let ?fn = "\<lambda>rows. rbind (fn ((db_policies db)\<lparr>ps_rows := rows\<rparr>)) (\<lambda>(v, st). Inr ((v, st), ps_rows st))"
  obtain st db1 where s: "on_table (\<lambda>db. ps_rows (db_policies db)) (\<lambda>rows db. db\<lparr>db_policies := (db_policies db)\<lparr>ps_rows := rows\<rparr>\<rparr>)
      po_id policy_owner d store ?fn db = Inr ((v, st), db1)"
    "db' = db1\<lparr>db_policies := (db_policies db1)\<lparr>ps_dir := ps_dir st, ps_events := ps_events st\<rparr>\<rparr>"
    using assms by (auto simp: on_policies_def rbind_Inr_iff)
  from policies.on_table_put[OF s(1)] policies.on_table_others[of d store t ?fn db "(v, st)" db1] s show ?thesis
    by (auto simp: foreign_def directory_def scoped_def)
qed

lemmas tenant_routes =
  unit_create_route_def unit_get_route_def unit_list_route_def unit_move_route_def role_create_route_def
  role_get_route_def role_list_route_def role_grant_route_def role_revoke_route_def assign_route_def
  assignment_list_route_def assignment_revoke_route_def policy_publish_route_def policy_get_route_def
  policy_list_route_def policy_activate_route_def policy_rollback_route_def permission_get_route_def
  permission_list_route_def principal_effective_route_def

lemmas directory_routes =
  tenant_create_route_def tenant_get_route_def tenant_list_route_def tenant_suspend_route_def
  permission_create_route_def

section \<open>Who may ask\<close>

definition admin_only :: "admin_request \<Rightarrow> bool" where
  "admin_only request =
     (case request of
        AssignRole _ \<Rightarrow> True | RevokeAssignment _ _ \<Rightarrow> True | CreateTenant _ _ _ \<Rightarrow> True | GetTenant _ \<Rightarrow> True
      | ListTenants _ _ \<Rightarrow> True | SuspendTenant _ _ _ \<Rightarrow> True | CreatePermission _ _ \<Rightarrow> True | _ \<Rightarrow> False)"

lemma guard_admin [simp]: "platformAdminGuard (Some store) = Inr u \<longleftrightarrow> ts_isPlatformAdmin store"
  by (auto simp: platformAdminGuard_def isPlatformAdmin_def)

lemma handle_admin:
  assumes "admin_handle d store freshId now request db = Inr (v, db')" and "admin_only request"
  shows "ts_isPlatformAdmin store"
  using assms
  by (cases request)
    (simp_all add: admin_handle_def admin_only_def assign_route_def assignment_revoke_route_def directory_routes rbind_Inr_iff)

lemma handle_stays:
  assumes "admin_handle d store freshId now request db = Inr (v, db')" and "scoped d store t"
  shows "foreign t db' = foreign t db \<and> (directory db' = directory db \<or> ts_isPlatformAdmin store)"
proof -
  have frame [simp]: "foreign t (db\<lparr>db_tenants := x\<rparr>) = foreign t db" "foreign t (db\<lparr>db_permissions := y\<rparr>) = foreign t db"
    for x y by (simp_all add: foreign_def)
  show ?thesis
    using assms
    by (cases request)
      (auto simp: admin_handle_def tenant_routes directory_routes rbind_Inr_iff dest: stays[where t = t])
qed

lemma rls_statement_value:
  "rls_statement bypass pg id_of tenant_of s fn rows = Inr (v, rows') \<Longrightarrow> \<exists>xs ys. fn xs = Inr (v, ys)"
  by (auto simp: rls_statement_def rbind_Inr_iff Let_def split: if_splits)

lemma on_table_value:
  "on_table get put id_of tenant_of d store fn db = Inr (v, db') \<Longrightarrow> \<exists>xs ys. fn xs = Inr (v, ys)"
  by (auto simp: on_table_def rbind_Inr_iff dest: rls_statement_value)

lemma assign_stamped:
  assumes "assign_route d store freshId now c db = Inr (response, db')"
  shows "\<exists>v. response = AssignmentItem v \<and> rav_tenantId v = ts_tenantId store \<and> rav_userId v = as_userId c \<and>
    rav_roleId v = as_roleId c \<and> rav_delegatedBy v = ts_actorId store \<and> rav_status v = ''active''"
proof -
  obtain a where a: "response = AssignmentItem (toRoleAssignmentView a)"
    "on_assignments d store (assignRole_execute (ad_date d) freshId now
         (c\<lparr>as_tenantId := ts_tenantId store, as_delegatedBy := getActorId (Some store)\<rparr>)) db = Inr (a, db')"
    using assms by (auto simp: assign_route_def rbind_Inr_iff)
  from on_table_value[OF a(2)[unfolded on_assignments_def]] obtain xs ys where
    "assignRole_execute (ad_date d) freshId now
       (c\<lparr>as_tenantId := ts_tenantId store, as_delegatedBy := getActorId (Some store)\<rparr>) xs = Inr (a, ys)" by blast
  then show ?thesis
    by (auto simp: a(1) assignRole_execute_def rbind_Inr_iff ra_create_def toRoleAssignmentView_def getActorId_def
        split: if_splits)
qed

text \<open>What an answered request has passed.\<close>

lemma service_answered:
  assumes "admin_service d freshId now headers request db = (Inr response, db')"
  shows "\<exists>p store. admin_identity d now headers request = Inr p \<and> admin_store d p request = Inr store \<and>
    admin_handle d store freshId now request db = Inr (response, db')"
proof -
  obtain x where x: "rbind (admin_identity d now headers request) (\<lambda>p. rbind (admin_store d p request) (\<lambda>store.
      admin_handle d store freshId now request db)) = Inr x" "x = (response, db')"
    using assms by (auto simp: admin_service_def split: sum.splits prod.splits)
  then show ?thesis by (auto simp: rbind_Inr_iff)
qed

definition for_principals :: "admin_request \<Rightarrow> bool" where
  "for_principals request = (case request of EffectivePrincipal _ _ _ \<Rightarrow> True | _ \<Rightarrow> False)"

lemma caller_verified:
  assumes "admin_identity d now headers request = Inr p" and "admin_store d p request = Inr store"
    and "\<not> for_principals request"
  shows "\<exists>pc. middleware_use (ad_hmac d) (ad_parse d) (ad_options d) now headers = Inr pc \<and> ad_is_uuid d (pc_tenantId pc) \<and>
    store = \<lparr>ts_tenantId = pc_tenantId pc, ts_isPlatformAdmin = pc_platformAdmin pc, ts_actorId = Some (pc_actorId pc)\<rparr>"
  using assms
  by (cases request)
    (auto simp: admin_identity_def admin_store_def for_principals_def rbind_Inr_iff tenantContextGuard_def
      split: option.splits if_splits)

section \<open>Properties\<close>


text \<open>
  C31. An administration request cannot reach across tenants: under a database role that does
  not bypass row-level security, whatever a caller asks, the organisation units, roles,
  assignments and policies of every other tenant are the same rows afterwards, the tables of
  the platform change only for a platform administrator, and an assignment it makes is
  stamped with the tenant and the actor of the verified token.
\<close>

theorem admin_writes_stay_in_tenant:
  assumes "admin_service d freshId now headers request db = (r, db')" and "\<not> for_principals request"
    and "\<not> ad_bypass d" and "middleware_use (ad_hmac d) (ad_parse d) (ad_options d) now headers = Inr pc"
    and "ad_pg_uuid d (pc_tenantId pc) = Some t"
  shows "foreign t db' = foreign t db \<and> (directory db' = directory db \<or> pc_platformAdmin pc) \<and>
    (\<forall>c response. request = AssignRole c \<and> r = Inr response \<longrightarrow>
      (\<exists>v. response = AssignmentItem v \<and> rav_tenantId v = pc_tenantId pc \<and> rav_userId v = as_userId c \<and>
        rav_roleId v = as_roleId c \<and> rav_delegatedBy v = Some (pc_actorId pc)))"
proof (cases r)
  case (Inl e)
  then show ?thesis using assms(1) by (auto simp: admin_service_def split: sum.splits prod.splits)
next
  case (Inr response)
  from service_answered[OF assms(1)[unfolded Inr]] obtain p store where
    s: "admin_identity d now headers request = Inr p" "admin_store d p request = Inr store"
      "admin_handle d store freshId now request db = Inr (response, db')" by blast
  have store: "store = \<lparr>ts_tenantId = pc_tenantId pc, ts_isPlatformAdmin = pc_platformAdmin pc, ts_actorId = Some (pc_actorId pc)\<rparr>"
    using caller_verified[OF s(1,2) assms(2)] assms(4) by auto
  have "scoped d store t" using assms(3,5) by (simp add: scoped_def store)
  note stays = handle_stays[OF s(3) this]
  have "\<exists>v. response = AssignmentItem v \<and> rav_tenantId v = pc_tenantId pc \<and> rav_userId v = as_userId c \<and>
      rav_roleId v = as_roleId c \<and> rav_delegatedBy v = Some (pc_actorId pc)" if "request = AssignRole c" for c
    using assign_stamped[of d store freshId now c db response db'] s(3) that by (auto simp: admin_handle_def store)
  then show ?thesis using stays by (simp add: Inr store)
qed

text \<open>
  The other writes do not look at the administrator claim: any user of the tenant creates and
  changes roles, organisation units and policies.
\<close>

definition open_write :: "admin_request \<Rightarrow> bool" where
  "open_write request =
     (case request of
        CreateUnit _ \<Rightarrow> True | MoveUnit _ _ _ \<Rightarrow> True | CreateRole _ \<Rightarrow> True | GrantPermission _ _ _ \<Rightarrow> True
      | RevokePermission _ _ _ \<Rightarrow> True | PublishPolicy _ _ _ \<Rightarrow> True | ActivatePolicy _ _ \<Rightarrow> True
      | RollbackPolicy _ _ \<Rightarrow> True | _ \<Rightarrow> False)"

lemma role_and_policy_writes_ignore_admin_claim:
  assumes "open_write request"
  shows "admin_handle d (store\<lparr>ts_isPlatformAdmin := b\<rparr>) freshId now request db = admin_handle d store freshId now request db"
  using assms
  by (cases request)
    (simp_all add: open_write_def admin_handle_def tenant_routes on_units_def on_roles_def on_policies_def on_table_def)

section \<open>Samples\<close>

text \<open>A user who is no administrator grants the approval permission to a role of its tenant.\<close>

definition sample_admin :: admin_deps where
  "sample_admin =
     \<lparr>ad_hmac = (\<lambda>k m. k), ad_parse = sample_parse, ad_options = newAuthzOptions (Some ''key'') None None,
      ad_is_uuid = (\<lambda>_. True), ad_dto_uuid = (\<lambda>_. True), ad_pipe_uuid = (\<lambda>_. True),
      ad_is_iso8601 = (\<lambda>_. True), ad_date = (\<lambda>_. Some 0), ad_to_number = (\<lambda>_. None),
      ad_json_number = (\<lambda>_. None), ad_pg_uuid = Some, ad_pg_id = Some, ad_pg_timestamp = (\<lambda>_. None),
      ad_bypass = False, ad_publisher = noop_publisher, ad_plan = (\<lambda>gs. gs), ad_messages = []\<rparr>"

definition role_of :: "string \<Rightarrow> string \<Rightarrow> role" where
  "role_of i tenant =
     \<lparr>ro_id = i, ro_tenantId = tenant, ro_key = ''employee'', ro_scope = ''acme'', ro_description = [],
      ro_permissions = [], ro_version = 1, ro_createdAt = 0, ro_updatedAt = 0\<rparr>"

definition two_tenants :: admin_db where
  "two_tenants =
     \<lparr>db_units = [], db_roles = [role_of ''r1'' ''t1'', role_of ''r2'' ''t2''], db_assignments = [],
      db_policies = \<lparr>ps_rows = [], ps_dir = Map.empty, ps_events = []\<rparr>, db_tenants = [], db_permissions = []\<rparr>"

abbreviation grant_request :: admin_request where
  "grant_request \<equiv> GrantPermission ''r1'' ''expense:report:approve'' None"

definition sample_caller :: principal_context where
  "sample_caller = \<lparr>pc_principalId = ''u1'', pc_tenantId = ''t1'', pc_actorId = ''u1'', pc_sessionId = ''s1'', pc_platformAdmin = False\<rparr>"

lemma sample_caller_accepted:
  "middleware_use (ad_hmac sample_admin) (ad_parse sample_admin) (ad_options sample_admin) 359000
     (sample_request (\<lambda>k m. k)) = Inr sample_caller"
  using sample_accepted by (simp add: sample_admin_def sample_caller_def)

lemma ordinary_user_extends_role:
  "\<exists>v db'. admin_service sample_admin ''n1'' 359000 (sample_request (\<lambda>k m. k)) grant_request two_tenants =
      (Inr (RoleItem v), db') \<and> rv_permissions v = [''expense:report:approve''] \<and> \<not> pc_platformAdmin sample_caller"
proof -
  let ?store = "\<lparr>ts_tenantId = ''t1'', ts_isPlatformAdmin = False, ts_actorId = Some ''u1''\<rparr>"
  have "is_ok (rbind (admin_handle sample_admin ?store ''n1'' 359000 grant_request two_tenants) (\<lambda>(response, db).
      ensure (case response of RoleItem v \<Rightarrow> rv_permissions v = [''expense:report:approve''] | _ \<Rightarrow> False) (Crash [])))"
    by code_simp
  then obtain v db' where h: "admin_handle sample_admin ?store ''n1'' 359000 grant_request two_tenants = Inr (RoleItem v, db')"
    "rv_permissions v = [''expense:report:approve'']"
    by (auto simp: is_ok_def rbind_def split: sum.splits admin_response.splits)
  have "admin_identity sample_admin 359000 (sample_request (\<lambda>k m. k)) grant_request = Inr (Some sample_caller)"
    by (simp add: admin_identity_def sample_caller_accepted)
  moreover have "admin_store sample_admin (Some sample_caller) grant_request = Inr ?store"
    by (simp add: admin_store_def tenantContextGuard_def sample_caller_def sample_admin_def)
  ultimately show ?thesis using h by (simp add: admin_service_def sample_caller_def)
qed


lemma admin_writes_stay_in_tenant_witness:
  "\<exists>r db'. admin_service sample_admin ''n1'' 359000 (sample_request (\<lambda>k m. k)) grant_request two_tenants = (r, db') \<and>
     foreign ''t1'' db' = ([], [role_of ''r2'' ''t2''], [], [])"
proof -
  from ordinary_user_extends_role obtain v db' where s:
    "admin_service sample_admin ''n1'' 359000 (sample_request (\<lambda>k m. k)) grant_request two_tenants = (Inr (RoleItem v), db')"
    by blast
  have "foreign ''t1'' db' = foreign ''t1'' two_tenants"
    by (rule conjunct1[OF admin_writes_stay_in_tenant[OF s _ _ sample_caller_accepted]])
      (simp_all add: for_principals_def sample_admin_def sample_caller_def)
  also have "\<dots> = ([], [role_of ''r2'' ''t2''], [], [])"
    by (simp add: foreign_def others_def two_tenants_def role_of_def)
  finally show ?thesis using s by blast
qed

end
