(* ===== verification/Config.thy ===== *)
theory Config
  imports IdentityProvider EdgeAuth
begin

text \<open>
  The configuration of the five services (apps/*/src/config): the environment read once at
  boot, its defaults, and the checks that refuse to start in production on a setting the
  repository publishes.  The environment is a partial map of texts.  What Number makes of a
  text when the result is whole (\<^term>\<open>number\<close>), the check of a URL, the texts of the schema
  library's issues and the file system are arguments.
\<close>

type_synonym env = "string \<Rightarrow> string option"

section \<open>Fields of a schema\<close>

text \<open>A field is its value or the path of the issue; a default applies to an unset variable only.\<close>

definition env_text :: "env \<Rightarrow> string \<Rightarrow> string \<Rightarrow> string" where
  "env_text env k d = or_default (env k) d"

definition env_enum :: "env \<Rightarrow> string \<Rightarrow> string list \<Rightarrow> string \<Rightarrow> string + string" where
  "env_enum env k allowed d =
     (case env k of None \<Rightarrow> Inr d | Some v \<Rightarrow> if v \<in> set allowed then Inr v else Inl k)"

definition env_int :: "(string \<Rightarrow> int option) \<Rightarrow> env \<Rightarrow> string \<Rightarrow> int \<Rightarrow> int \<Rightarrow> string + int" where
  "env_int number env k least d =
     (case env k of
        None \<Rightarrow> Inr d
      | Some v \<Rightarrow> (case number v of None \<Rightarrow> Inl k | Some n \<Rightarrow> if least \<le> n then Inr n else Inl k))"

definition env_url :: "(string \<Rightarrow> bool) \<Rightarrow> env \<Rightarrow> string \<Rightarrow> string \<Rightarrow> string + string" where
  "env_url is_url env k d =
     (case env k of None \<Rightarrow> Inr d | Some v \<Rightarrow> if is_url v then Inr v else Inl k)"

definition booleanFromEnv :: "env \<Rightarrow> string \<Rightarrow> bool \<Rightarrow> bool" where
  "booleanFromEnv env k d = (case env k of None \<Rightarrow> d | Some v \<Rightarrow> to_lower v = ''true'')"

definition issue :: "string + 'a \<Rightarrow> string list" where
  "issue r = (case r of Inl k \<Rightarrow> [k] | Inr _ \<Rightarrow> [])"

definition got :: "string + 'a \<Rightarrow> 'a" where
  "got r = projr r"

definition environments :: "string list" where
  "environments = [''development'', ''test'', ''production'']"

definition log_levels :: "string list" where
  "log_levels = [''fatal'', ''error'', ''warn'', ''info'', ''debug'', ''trace'']"

text \<open>The error of a boot that is refused: one line per issue.\<close>

definition invalid_environment :: "string list \<Rightarrow> exn" where
  "invalid_environment issues =
     Crash (''Invalid environment configuration:'' @ [CHR 0x0A] @
       join_with [CHR 0x0A] (map (\<lambda>i. ''  - '' @ i) issues))"

definition issue_lines :: "(string \<Rightarrow> string) \<Rightarrow> string list \<Rightarrow> string list" where
  "issue_lines message paths = map (\<lambda>p. p @ '': '' @ message p) paths"

section \<open>The services with a database\<close>

record service_config =
  sc_NODE_ENV :: string
  sc_PORT :: int
  sc_LOG_LEVEL :: string
  sc_DB_ENABLED :: bool
  sc_DB_HOST :: string
  sc_DB_PORT :: int
  sc_DB_USERNAME :: string
  sc_DB_PASSWORD :: string
  sc_DB_DATABASE :: string
  sc_DB_SYNCHRONIZE :: bool
  sc_INTERNAL_TOKEN_SECRET :: string
  sc_INTERNAL_TOKEN_ISSUER :: string
  sc_INTERNAL_TOKEN_CLOCK_TOLERANCE_SECONDS :: int

record admin_config = service_config +
  ac_CERBOS_POLICY_DIR :: string
  ac_CERBOS_PUBLISH_ENABLED :: bool
  ac_CERBOS_URL :: string

record expense_config = service_config +
  ec_CERBOS_URL :: string
  ec_PAP_URL :: string
  ec_AUDIT_URL :: string
  ec_PIP_TIMEOUT_MS :: int

text \<open>The fields the three schemas share, with the defaults that differ.\<close>

definition service_issues :: "(string \<Rightarrow> int option) \<Rightarrow> env \<Rightarrow> string list" where
  "service_issues number env =
     issue (env_enum env ''NODE_ENV'' environments ''development'') @ issue (env_int number env ''PORT'' 1 1) @
     issue (env_enum env ''LOG_LEVEL'' log_levels ''info'') @ issue (env_int number env ''DB_PORT'' 1 5432) @
     issue (env_int number env ''INTERNAL_TOKEN_CLOCK_TOLERANCE_SECONDS'' 0 60)"

definition service_fields ::
  "(string \<Rightarrow> int option) \<Rightarrow> env \<Rightarrow> int \<Rightarrow> string \<Rightarrow> string \<Rightarrow> service_config" where
  "service_fields number env port dbUser database =
     \<lparr>sc_NODE_ENV = got (env_enum env ''NODE_ENV'' environments ''development''),
      sc_PORT = got (env_int number env ''PORT'' 1 port),
      sc_LOG_LEVEL = got (env_enum env ''LOG_LEVEL'' log_levels ''info''),
      sc_DB_ENABLED = booleanFromEnv env ''DB_ENABLED'' True,
      sc_DB_HOST = env_text env ''DB_HOST'' ''localhost'',
      sc_DB_PORT = got (env_int number env ''DB_PORT'' 1 5432),
      sc_DB_USERNAME = env_text env ''DB_USERNAME'' dbUser,
      sc_DB_PASSWORD = env_text env ''DB_PASSWORD'' dbUser,
      sc_DB_DATABASE = env_text env ''DB_DATABASE'' database,
      sc_DB_SYNCHRONIZE = booleanFromEnv env ''DB_SYNCHRONIZE'' False,
      sc_INTERNAL_TOKEN_SECRET = env_text env ''INTERNAL_TOKEN_SECRET'' [],
      sc_INTERNAL_TOKEN_ISSUER = env_text env ''INTERNAL_TOKEN_ISSUER'' ''api-gateway'',
      sc_INTERNAL_TOKEN_CLOCK_TOLERANCE_SECONDS =
        got (env_int number env ''INTERNAL_TOKEN_CLOCK_TOLERANCE_SECONDS'' 0 60)\<rparr>"

definition admin_fields :: "(string \<Rightarrow> int option) \<Rightarrow> env \<Rightarrow> admin_config" where
  "admin_fields number env =
     service_config.extend (service_fields number env 3000 ''authz_app'' ''authz_admin'')
       (admin_config.fields (env_text env ''CERBOS_POLICY_DIR'' ''deploy/cerbos/policies'')
          (booleanFromEnv env ''CERBOS_PUBLISH_ENABLED'' True) (env_text env ''CERBOS_URL'' ''localhost:3593''))"

definition expense_fields :: "(string \<Rightarrow> int option) \<Rightarrow> env \<Rightarrow> expense_config" where
  "expense_fields number env =
     service_config.extend (service_fields number env 3000 ''expense_app'' ''expense'')
       (expense_config.fields (env_text env ''CERBOS_URL'' ''localhost:3593'')
          (env_text env ''PAP_URL'' ''http://localhost:3000'') (env_text env ''AUDIT_URL'' ''http://localhost:3100'')
          (got (env_int number env ''PIP_TIMEOUT_MS'' 1 2000)))"

definition assertProductionDbCredentials :: "'a service_config_scheme \<Rightarrow> env \<Rightarrow> unit result" where
  "assertProductionDbCredentials config env =
     (if sc_NODE_ENV config \<noteq> ''production'' \<or> \<not> sc_DB_ENABLED config then Inr ()
      else
        (let missing = [k \<leftarrow> [''DB_USERNAME'', ''DB_PASSWORD'']. \<not> truthy (env k)] in
         if length missing > 0
         then Inl (invalid_environment [join_with '', '' missing @ '': '' @
           ''must be set explicitly in production (refusing to boot with the shipped '' @
           ''default DB credentials). Set DB_USERNAME/DB_PASSWORD to the unprivileged '' @
           ''runtime role provisioned by the migration.''])
         else Inr ()))"

definition assertProductionInternalTokenSecret :: "string \<Rightarrow> 'a service_config_scheme \<Rightarrow> unit result" where
  "assertProductionInternalTokenSecret why config =
     (if sc_NODE_ENV config \<noteq> ''production'' then Inr ()
      else if length (sc_INTERNAL_TOKEN_SECRET config) = 0
      then Inl (invalid_environment [''INTERNAL_TOKEN_SECRET: '' @ why])
      else Inr ())"

definition admin_secret_why :: string where
  "admin_secret_why =
     ''must be set in production so the PAP verifies the gateway-signed internal '' @
     ''identity token (refusing to boot with internal-token signature verification '' @
     ''disabled, which would trust unsigned identity headers on the IAM control '' @
     ''plane). Set it to the gateway's INTERNAL_TOKEN_SECRET.''"

definition expense_secret_why :: string where
  "expense_secret_why =
     ''must be set in production so the PEP verifies the gateway-signed internal '' @
     ''identity token (refusing to boot with internal-token signature verification '' @
     ''disabled, which would trust unsigned identity headers). Set it to the '' @
     ''gateway's INTERNAL_TOKEN_SECRET.''"

definition audit_secret_why :: string where
  "audit_secret_why =
     ''must be set in production so the audit read endpoints verify the '' @
     ''gateway-signed internal identity token and scope the decision log to the '' @
     ''caller's verified tenant (refusing to boot with verification disabled, '' @
     ''which would allow cross-tenant log reads). Set it to the gateway's '' @
     ''INTERNAL_TOKEN_SECRET.''"

definition loadConfig_admin ::
  "(string \<Rightarrow> int option) \<Rightarrow> (string \<Rightarrow> string) \<Rightarrow> env \<Rightarrow> admin_config result" where
  "loadConfig_admin number message env =
     (let paths = service_issues number env; config = admin_fields number env in
      if paths \<noteq> [] then Inl (invalid_environment (issue_lines message paths))
      else
        rbind (assertProductionDbCredentials config env) (\<lambda>_.
        rbind (assertProductionInternalTokenSecret admin_secret_why config) (\<lambda>_. Inr config)))"

definition loadConfig_expense ::
  "(string \<Rightarrow> int option) \<Rightarrow> (string \<Rightarrow> string) \<Rightarrow> env \<Rightarrow> expense_config result" where
  "loadConfig_expense number message env =
     (let paths = service_issues number env @ issue (env_int number env ''PIP_TIMEOUT_MS'' 1 2000);
          config = expense_fields number env in
      if paths \<noteq> [] then Inl (invalid_environment (issue_lines message paths))
      else
        rbind (assertProductionDbCredentials config env) (\<lambda>_.
        rbind (assertProductionInternalTokenSecret expense_secret_why config) (\<lambda>_. Inr config)))"

text \<open>The audit service has no runtime role of its own, so it checks no credentials.\<close>

definition loadConfig_audit ::
  "(string \<Rightarrow> int option) \<Rightarrow> (string \<Rightarrow> string) \<Rightarrow> env \<Rightarrow> service_config result" where
  "loadConfig_audit number message env =
     (let paths = service_issues number env; config = service_fields number env 3100 ''authz'' ''audit'' in
      if paths \<noteq> [] then Inl (invalid_environment (issue_lines message paths))
      else rbind (assertProductionInternalTokenSecret audit_secret_why config) (\<lambda>_. Inr config))"

text \<open>The options the three services hand to the identity middleware.\<close>

definition service_options :: "'a service_config_scheme \<Rightarrow> authz_options" where
  "service_options config =
     newAuthzOptions (Some (sc_INTERNAL_TOKEN_SECRET config)) (Some (sc_INTERNAL_TOKEN_ISSUER config))
       (Some (sc_INTERNAL_TOKEN_CLOCK_TOLERANCE_SECONDS config))"

section \<open>The gateway\<close>

definition DEV_INTERNAL_TOKEN_SECRET :: string where
  "DEV_INTERNAL_TOKEN_SECRET = ''dev-internal-token-secret-change-me''"

record gateway_config =
  gc_NODE_ENV :: string
  gc_PORT :: int
  gc_LOG_LEVEL :: string
  gc_IDENTITY_JWKS_URL :: string
  gc_IDENTITY_ISSUER :: string
  gc_IDENTITY_AUDIENCE :: string
  gc_JWKS_CACHE_TTL_SECONDS :: int
  gc_JWT_CLOCK_TOLERANCE_SECONDS :: int
  gc_INTERNAL_TOKEN_SECRET :: string
  gc_INTERNAL_TOKEN_KID :: string
  gc_INTERNAL_TOKEN_ISSUER :: string
  gc_INTERNAL_TOKEN_TTL_SECONDS :: int
  gc_IDENTITY_URL :: string
  gc_AUTHZ_ADMIN_URL :: string
  gc_EXPENSE_URL :: string
  gc_AUDIT_URL :: string
  gc_UPSTREAM_TIMEOUT_MS :: int
  gc_CORS_ALLOWED_ORIGINS :: "string list"
  gc_RATE_LIMIT_ENABLED :: bool
  gc_RATE_LIMIT_WINDOW_MS :: int
  gc_RATE_LIMIT_MAX :: int

text \<open>The signing secret must not be empty; the origins are split at commas and trimmed.\<close>

definition gateway_secret :: "env \<Rightarrow> string + string" where
  "gateway_secret env =
     (case env ''INTERNAL_TOKEN_SECRET'' of
        None \<Rightarrow> Inr DEV_INTERNAL_TOKEN_SECRET
      | Some v \<Rightarrow> if 1 \<le> length v then Inr v else Inl ''INTERNAL_TOKEN_SECRET'')"

definition cors_origins :: "env \<Rightarrow> string list" where
  "cors_origins env =
     filter (\<lambda>origin. length origin > 0) (map js_trim (split_on (CHR '','')
       (env_text env ''CORS_ALLOWED_ORIGINS'' ''http://localhost:5173,http://localhost:8081'')))"

definition gateway_issues :: "(string \<Rightarrow> int option) \<Rightarrow> (string \<Rightarrow> bool) \<Rightarrow> env \<Rightarrow> string list" where
  "gateway_issues number is_url env =
     issue (env_enum env ''NODE_ENV'' environments ''development'') @
     issue (env_int number env ''PORT'' 1 8080) @
     issue (env_enum env ''LOG_LEVEL'' log_levels ''info'') @
     issue (env_url is_url env ''IDENTITY_JWKS_URL'' ''http://identity:3200/.well-known/jwks.json'') @
     issue (env_int number env ''JWKS_CACHE_TTL_SECONDS'' 0 300) @
     issue (env_int number env ''JWT_CLOCK_TOLERANCE_SECONDS'' 0 60) @
     issue (gateway_secret env) @
     issue (env_int number env ''INTERNAL_TOKEN_TTL_SECONDS'' 1 120) @
     issue (env_url is_url env ''IDENTITY_URL'' ''http://identity:3200'') @
     issue (env_url is_url env ''AUTHZ_ADMIN_URL'' ''http://authz-admin:3000'') @
     issue (env_url is_url env ''EXPENSE_URL'' ''http://expense:3300'') @
     issue (env_url is_url env ''AUDIT_URL'' ''http://audit:3100'') @
     issue (env_int number env ''UPSTREAM_TIMEOUT_MS'' 1 10000) @
     issue (env_int number env ''RATE_LIMIT_WINDOW_MS'' 1 60000) @
     issue (env_int number env ''RATE_LIMIT_MAX'' 1 120)"

definition gateway_fields :: "(string \<Rightarrow> int option) \<Rightarrow> (string \<Rightarrow> bool) \<Rightarrow> env \<Rightarrow> gateway_config" where
  "gateway_fields number is_url env =
     \<lparr>gc_NODE_ENV = got (env_enum env ''NODE_ENV'' environments ''development''),
      gc_PORT = got (env_int number env ''PORT'' 1 8080),
      gc_LOG_LEVEL = got (env_enum env ''LOG_LEVEL'' log_levels ''info''),
      gc_IDENTITY_JWKS_URL = got (env_url is_url env ''IDENTITY_JWKS_URL'' ''http://identity:3200/.well-known/jwks.json''),
      gc_IDENTITY_ISSUER = env_text env ''IDENTITY_ISSUER'' ''http://localhost:3200'',
      gc_IDENTITY_AUDIENCE = env_text env ''IDENTITY_AUDIENCE'' ''authz-platform'',
      gc_JWKS_CACHE_TTL_SECONDS = got (env_int number env ''JWKS_CACHE_TTL_SECONDS'' 0 300),
      gc_JWT_CLOCK_TOLERANCE_SECONDS = got (env_int number env ''JWT_CLOCK_TOLERANCE_SECONDS'' 0 60),
      gc_INTERNAL_TOKEN_SECRET = got (gateway_secret env),
      gc_INTERNAL_TOKEN_KID = env_text env ''INTERNAL_TOKEN_KID'' ''gw-internal-2026'',
      gc_INTERNAL_TOKEN_ISSUER = env_text env ''INTERNAL_TOKEN_ISSUER'' ''api-gateway'',
      gc_INTERNAL_TOKEN_TTL_SECONDS = got (env_int number env ''INTERNAL_TOKEN_TTL_SECONDS'' 1 120),
      gc_IDENTITY_URL = got (env_url is_url env ''IDENTITY_URL'' ''http://identity:3200''),
      gc_AUTHZ_ADMIN_URL = got (env_url is_url env ''AUTHZ_ADMIN_URL'' ''http://authz-admin:3000''),
      gc_EXPENSE_URL = got (env_url is_url env ''EXPENSE_URL'' ''http://expense:3300''),
      gc_AUDIT_URL = got (env_url is_url env ''AUDIT_URL'' ''http://audit:3100''),
      gc_UPSTREAM_TIMEOUT_MS = got (env_int number env ''UPSTREAM_TIMEOUT_MS'' 1 10000),
      gc_CORS_ALLOWED_ORIGINS = cors_origins env,
      gc_RATE_LIMIT_ENABLED = booleanFromEnv env ''RATE_LIMIT_ENABLED'' True,
      gc_RATE_LIMIT_WINDOW_MS = got (env_int number env ''RATE_LIMIT_WINDOW_MS'' 1 60000),
      gc_RATE_LIMIT_MAX = got (env_int number env ''RATE_LIMIT_MAX'' 1 120)\<rparr>"

text \<open>The refinement of the schema runs once every field has been read.\<close>

definition dev_secret_message :: string where
  "dev_secret_message =
     ''refusing to boot in production with the committed dev secret '' @
     ''('' @ [CHR 0x27] @ DEV_INTERNAL_TOKEN_SECRET @ [CHR 0x27] @ ''); set INTERNAL_TOKEN_SECRET to a unique secret''"

definition loadConfig_gateway ::
  "(string \<Rightarrow> int option) \<Rightarrow> (string \<Rightarrow> bool) \<Rightarrow> (string \<Rightarrow> string) \<Rightarrow> env \<Rightarrow> gateway_config result" where
  "loadConfig_gateway number is_url message env =
     (let paths = gateway_issues number is_url env; config = gateway_fields number is_url env in
      if paths \<noteq> [] then Inl (invalid_environment (issue_lines message paths))
      else if gc_NODE_ENV config = ''production'' \<and> gc_INTERNAL_TOKEN_SECRET config = DEV_INTERNAL_TOKEN_SECRET
      then Inl (invalid_environment [''INTERNAL_TOKEN_SECRET: '' @ dev_secret_message])
      else Inr config)"

section \<open>The identity service\<close>

record identity_config =
  ic_NODE_ENV :: string
  ic_PORT :: int
  ic_LOG_LEVEL :: string
  ic_IDENTITY_ISSUER :: string
  ic_IDENTITY_AUDIENCE :: string
  ic_JWT_SIGNING_KID :: string
  ic_JWT_PRIVATE_KEY :: "string option"
  ic_JWT_PRIVATE_KEY_PATH :: "string option"
  ic_JWT_PUBLIC_KEY :: "string option"
  ic_JWT_PUBLIC_KEY_PATH :: "string option"
  ic_ACCESS_TOKEN_TTL_SECONDS :: int
  ic_REFRESH_TOKEN_TTL_SECONDS :: int
  ic_SEED_USERS :: "string option"

definition identity_issues :: "(string \<Rightarrow> int option) \<Rightarrow> env \<Rightarrow> string list" where
  "identity_issues number env =
     issue (env_enum env ''NODE_ENV'' environments ''development'') @ issue (env_int number env ''PORT'' 1 3100) @
     issue (env_enum env ''LOG_LEVEL'' log_levels ''info'') @
     issue (env_int number env ''ACCESS_TOKEN_TTL_SECONDS'' 1 900) @
     issue (env_int number env ''REFRESH_TOKEN_TTL_SECONDS'' 1 2592000)"

definition identity_fields :: "(string \<Rightarrow> int option) \<Rightarrow> env \<Rightarrow> identity_config" where
  "identity_fields number env =
     \<lparr>ic_NODE_ENV = got (env_enum env ''NODE_ENV'' environments ''development''),
      ic_PORT = got (env_int number env ''PORT'' 1 3100),
      ic_LOG_LEVEL = got (env_enum env ''LOG_LEVEL'' log_levels ''info''),
      ic_IDENTITY_ISSUER = env_text env ''IDENTITY_ISSUER'' ''http://localhost:3100'',
      ic_IDENTITY_AUDIENCE = env_text env ''IDENTITY_AUDIENCE'' ''authz-platform'',
      ic_JWT_SIGNING_KID = env_text env ''JWT_SIGNING_KID'' ''dev-rsa-2026'',
      ic_JWT_PRIVATE_KEY = env ''JWT_PRIVATE_KEY'', ic_JWT_PRIVATE_KEY_PATH = env ''JWT_PRIVATE_KEY_PATH'',
      ic_JWT_PUBLIC_KEY = env ''JWT_PUBLIC_KEY'', ic_JWT_PUBLIC_KEY_PATH = env ''JWT_PUBLIC_KEY_PATH'',
      ic_ACCESS_TOKEN_TTL_SECONDS = got (env_int number env ''ACCESS_TOKEN_TTL_SECONDS'' 1 900),
      ic_REFRESH_TOKEN_TTL_SECONDS = got (env_int number env ''REFRESH_TOKEN_TTL_SECONDS'' 1 2592000),
      ic_SEED_USERS = env ''SEED_USERS''\<rparr>"

definition loadConfig_identity ::
  "(string \<Rightarrow> int option) \<Rightarrow> (string \<Rightarrow> string) \<Rightarrow> env \<Rightarrow> identity_config result" where
  "loadConfig_identity number message env =
     (let paths = identity_issues number env in
      if paths \<noteq> [] then Inl (invalid_environment (issue_lines message paths))
      else Inr (identity_fields number env))"

text \<open>Which of the two is set: the first that is not absent, and it must not be empty.\<close>

definition has_source :: "string option \<Rightarrow> string option \<Rightarrow> bool" where
  "has_source key path = truthy (case key of Some k \<Rightarrow> Some k | None \<Rightarrow> path)"

definition assertProductionSigningKeys :: "identity_config \<Rightarrow> unit result" where
  "assertProductionSigningKeys c =
     (if ic_NODE_ENV c \<noteq> ''production'' then Inr ()
      else
        (let hasPrivate = has_source (ic_JWT_PRIVATE_KEY c) (ic_JWT_PRIVATE_KEY_PATH c);
             hasPublic = has_source (ic_JWT_PUBLIC_KEY c) (ic_JWT_PUBLIC_KEY_PATH c);
             missing = join_with '', ''
               ((if hasPrivate then [] else [''JWT_PRIVATE_KEY or JWT_PRIVATE_KEY_PATH'']) @
                (if hasPublic then [] else [''JWT_PUBLIC_KEY or JWT_PUBLIC_KEY_PATH'']))
         in if hasPrivate \<and> hasPublic then Inr ()
            else Inl (Crash (''Signing-key safety check failed: production must supply its own RS256 keypair '' @
              ''(missing '' @ missing @ ''). Refusing to boot with the committed dev keypair '' @
              ''(apps/identity/keys), which is published in the repo and would let anyone '' @
              ''forge valid JWTs for any user/tenant.''))))"

text \<open>A backslash followed by n stands for a newline.\<close>

fun normalizePem :: "string \<Rightarrow> string" where
  "normalizePem (a # b # cs) =
     (if a = CHR 0x5C \<and> b = CHR ''n'' then CHR 0x0A # normalizePem cs else a # normalizePem (b # cs))"
| "normalizePem cs = cs"

definition resolvePrivateKey :: "(string \<Rightarrow> string result) \<Rightarrow> string \<Rightarrow> identity_config \<Rightarrow> string result" where
  "resolvePrivateKey readFile devKeys c =
     (if truthy (ic_JWT_PRIVATE_KEY c) then Inr (normalizePem (or_default (ic_JWT_PRIVATE_KEY c) []))
      else if truthy (ic_JWT_PRIVATE_KEY_PATH c) then readFile (or_default (ic_JWT_PRIVATE_KEY_PATH c) [])
      else readFile (devKeys @ ''/dev-private.pem''))"

definition resolvePublicKey :: "(string \<Rightarrow> string result) \<Rightarrow> string \<Rightarrow> identity_config \<Rightarrow> string result" where
  "resolvePublicKey readFile devKeys c =
     (if truthy (ic_JWT_PUBLIC_KEY c) then Inr (normalizePem (or_default (ic_JWT_PUBLIC_KEY c) []))
      else if truthy (ic_JWT_PUBLIC_KEY_PATH c) then readFile (or_default (ic_JWT_PUBLIC_KEY_PATH c) [])
      else readFile (devKeys @ ''/dev-public.pem''))"

definition DEFAULT_SEED_USERS :: "seed_user list" where
  "DEFAULT_SEED_USERS =
     [\<lparr>sd_id = ''11111111-1111-4111-8111-111111111111'', sd_email = ''riya@acme.com'', sd_password = ''Password123!'',
       sd_tenantId = ''acme'', sd_name = Some ''Riya (Finance Manager)'', sd_platformAdmin = None\<rparr>,
      \<lparr>sd_id = ''22222222-2222-4222-8222-222222222222'', sd_email = ''sam@acme.com'', sd_password = ''Password123!'',
       sd_tenantId = ''acme'', sd_name = Some ''Sam (Employee)'', sd_platformAdmin = None\<rparr>,
      \<lparr>sd_id = ''33333333-3333-4333-8333-333333333333'', sd_email = ''dev@acme.com'', sd_password = ''Password123!'',
       sd_tenantId = ''acme'', sd_name = Some ''Dev (Org Admin)'', sd_platformAdmin = Some True\<rparr>]"

fun toSeedUsers :: "json list \<Rightarrow> nat \<Rightarrow> seed_user list result" where
  "toSeedUsers [] index = Inr []"
| "toSeedUsers (entry # entries) index =
     rbind (toSeedUser entry index) (\<lambda>u. rbind (toSeedUsers entries (Suc index)) (\<lambda>us. Inr (u # us)))"

definition resolveSeedUsers :: "(string \<Rightarrow> json option) \<Rightarrow> identity_config \<Rightarrow> seed_user list result" where
  "resolveSeedUsers parse c =
     (if \<not> truthy (ic_SEED_USERS c) then Inr DEFAULT_SEED_USERS
      else (case parse (or_default (ic_SEED_USERS c) []) of
              None \<Rightarrow> Inl (Crash ''SyntaxError'')
            | Some (JArr entries) \<Rightarrow> toSeedUsers entries 0
            | Some _ \<Rightarrow> Inl (Crash ''SEED_USERS must be a JSON array of users'')))"

record identity_boot =
  ib_values :: identity_config
  ib_privateKeyPem :: string
  ib_publicKeyPem :: string
  ib_seedUsers :: "seed_user list"

definition identity_configService ::
  "(string \<Rightarrow> int option) \<Rightarrow> (string \<Rightarrow> string) \<Rightarrow> (string \<Rightarrow> json option) \<Rightarrow> (string \<Rightarrow> string result) \<Rightarrow> string \<Rightarrow>
   env \<Rightarrow> identity_boot result" where
  "identity_configService number message parse readFile devKeys env =
     rbind (loadConfig_identity number message env) (\<lambda>c.
     rbind (assertProductionSigningKeys c) (\<lambda>_.
     rbind (resolvePrivateKey readFile devKeys c) (\<lambda>privateKey.
     rbind (resolvePublicKey readFile devKeys c) (\<lambda>publicKey.
     rbind (resolveSeedUsers parse c) (\<lambda>users.
     Inr \<lparr>ib_values = c, ib_privateKeyPem = privateKey, ib_publicKeyPem = publicKey, ib_seedUsers = users\<rparr>)))))"

end
