(* ===== verification/Boot.thy ===== *)
theory Boot
  imports Config TenantDb
begin

text \<open>
  What a boot that succeeds guarantees in production, and what it leaves to the operator.
\<close>

section \<open>Production\<close>

text \<open>A middleware with these options accepts a request only for its signed claims.\<close>

definition verifies_tokens :: "authz_options \<Rightarrow> bool" where
  "verifies_tokens opts \<longleftrightarrow>
     (\<forall>hmac parse now headers pc. middleware_use hmac parse opts now headers = Inr pc \<longrightarrow>
        (\<exists>jws payload. singleHeader headers SIGNATURE_HEADER = Some jws \<and>
           signed_claims hmac parse opts now jws payload \<and> pc = principalContextFromToken payload))"

lemma secret_verifies: "ao_secret opts \<noteq> [] \<Longrightarrow> verifies_tokens opts"
  unfolding verifies_tokens_def using verifySignedToken_sound
  by (fastforce simp: middleware_use_def elim!: rbind_InrE)

lemma secret_checked:
  "assertProductionInternalTokenSecret why c = Inr u \<Longrightarrow> sc_NODE_ENV c = ''production'' \<Longrightarrow>
   verifies_tokens (service_options c)"
  by (rule secret_verifies)
    (simp add: assertProductionInternalTokenSecret_def service_options_def newAuthzOptions_def split: if_splits)

lemma credentials_checked:
  "assertProductionDbCredentials c env = Inr u \<Longrightarrow> sc_NODE_ENV c = ''production'' \<Longrightarrow> sc_DB_ENABLED c \<Longrightarrow>
   truthy (env ''DB_USERNAME'') \<and> truthy (env ''DB_PASSWORD'')"
  by (auto simp: assertProductionDbCredentials_def Let_def split: if_splits)


definition production_env :: env where
  "production_env =
     [''NODE_ENV'' \<mapsto> ''production'', ''INTERNAL_TOKEN_SECRET'' \<mapsto> ''s3cret'', ''DB_USERNAME'' \<mapsto> ''app'',
      ''DB_PASSWORD'' \<mapsto> ''pw'', ''JWT_PRIVATE_KEY'' \<mapsto> ''private'', ''JWT_PUBLIC_KEY_PATH'' \<mapsto> ''/run/public.pem'']"


lemma key_source:
  assumes "has_source key path"
  shows "(\<exists>k. key = Some k \<and> k \<noteq> []) \<or> key = None \<and> (\<exists>p. path = Some p \<and> p \<noteq> [])"
  using assms by (auto simp: has_source_def truthy_def split: option.splits)

text \<open>
  In production nothing is signed with a key the repository publishes: a gateway that
  starts has a secret that is neither empty nor the committed one, and the identity service
  signs with the key the operator gave, as the text of a variable or as the file it names;
  without both keys it does not start.
\<close>

theorem production_signs_with_own_keys:
  "(\<forall>c. loadConfig_gateway number is_url message env = Inr c \<and> gc_NODE_ENV c = ''production'' \<longrightarrow>
      gc_INTERNAL_TOKEN_SECRET c \<noteq> DEV_INTERNAL_TOKEN_SECRET \<and> gc_INTERNAL_TOKEN_SECRET c \<noteq> []) \<and>
   (\<forall>b. identity_configService number message parse readFile devKeys env = Inr b \<and>
      ic_NODE_ENV (ib_values b) = ''production'' \<longrightarrow>
      ((\<exists>k. env ''JWT_PRIVATE_KEY'' = Some k \<and> k \<noteq> [] \<and> ib_privateKeyPem b = normalizePem k) \<or>
       env ''JWT_PRIVATE_KEY'' = None \<and>
         (\<exists>p. env ''JWT_PRIVATE_KEY_PATH'' = Some p \<and> p \<noteq> [] \<and> readFile p = Inr (ib_privateKeyPem b))) \<and>
      ((\<exists>k. env ''JWT_PUBLIC_KEY'' = Some k \<and> k \<noteq> [] \<and> ib_publicKeyPem b = normalizePem k) \<or>
       env ''JWT_PUBLIC_KEY'' = None \<and>
         (\<exists>p. env ''JWT_PUBLIC_KEY_PATH'' = Some p \<and> p \<noteq> [] \<and> readFile p = Inr (ib_publicKeyPem b))))"
proof (intro conjI allI impI)
  fix c assume c: "loadConfig_gateway number is_url message env = Inr c \<and> gc_NODE_ENV c = ''production''"
  then have issues: "issue (gateway_secret env) = []" and fields: "c = gateway_fields number is_url env"
    by (auto simp: loadConfig_gateway_def gateway_issues_def Let_def split: if_splits)
  show "gc_INTERNAL_TOKEN_SECRET c \<noteq> DEV_INTERNAL_TOKEN_SECRET"
    using c by (auto simp: loadConfig_gateway_def Let_def split: if_splits)
  show "gc_INTERNAL_TOKEN_SECRET c \<noteq> []"
    using issues by (auto simp: fields gateway_fields_def gateway_secret_def issue_def got_def DEV_INTERNAL_TOKEN_SECRET_def
        split: option.splits if_splits)
next
  fix b assume "identity_configService number message parse readFile devKeys env = Inr b \<and>
      ic_NODE_ENV (ib_values b) = ''production''"
  then obtain v where i: "v = ib_values b" "v = identity_fields number env" "ic_NODE_ENV v = ''production''"
    "assertProductionSigningKeys v = Inr ()"
    "resolvePrivateKey readFile devKeys v = Inr (ib_privateKeyPem b)"
    "resolvePublicKey readFile devKeys v = Inr (ib_publicKeyPem b)"
    by (auto simp: identity_configService_def loadConfig_identity_def Let_def rbind_Inr_iff split: if_splits)
  have src: "has_source (env ''JWT_PRIVATE_KEY'') (env ''JWT_PRIVATE_KEY_PATH'')"
    "has_source (env ''JWT_PUBLIC_KEY'') (env ''JWT_PUBLIC_KEY_PATH'')"
    using i(3,4) by (auto simp: assertProductionSigningKeys_def Let_def i(2) identity_fields_def split: if_splits)
  show "(\<exists>k. env ''JWT_PRIVATE_KEY'' = Some k \<and> k \<noteq> [] \<and> ib_privateKeyPem b = normalizePem k) \<or>
       env ''JWT_PRIVATE_KEY'' = None \<and>
         (\<exists>p. env ''JWT_PRIVATE_KEY_PATH'' = Some p \<and> p \<noteq> [] \<and> readFile p = Inr (ib_privateKeyPem b))"
    using key_source[OF src(1)] i(5) by (auto simp: i(2) identity_fields_def resolvePrivateKey_def)
  show "(\<exists>k. env ''JWT_PUBLIC_KEY'' = Some k \<and> k \<noteq> [] \<and> ib_publicKeyPem b = normalizePem k) \<or>
       env ''JWT_PUBLIC_KEY'' = None \<and>
         (\<exists>p. env ''JWT_PUBLIC_KEY_PATH'' = Some p \<and> p \<noteq> [] \<and> readFile p = Inr (ib_publicKeyPem b))"
    using key_source[OF src(2)] i(6) by (auto simp: i(2) identity_fields_def resolvePublicKey_def)
qed

lemma production_signs_with_own_keys_witness:
  "\<exists>b. identity_configService (\<lambda>_. None) (\<lambda>_. []) (\<lambda>_. None) (\<lambda>p. Inr p) ''/dev'' production_env = Inr b \<and>
     ib_privateKeyPem b = ''private'' \<and> ib_publicKeyPem b = ''/run/public.pem''"
proof -
  let ?boot = "identity_configService (\<lambda>_. None) (\<lambda>_. []) (\<lambda>_. None) (\<lambda>p. Inr p) ''/dev'' production_env"
  have "is_ok (rbind ?boot (\<lambda>b. ensure (ic_NODE_ENV (ib_values b) = ''production'') (Crash [])))" by code_simp
  then obtain b where b: "?boot = Inr b" "ic_NODE_ENV (ib_values b) = ''production''"
    by (auto simp: is_ok_def rbind_def split: sum.splits if_splits)
  have pem: "normalizePem ''private'' = ''private''" by code_simp
  from production_signs_with_own_keys[of "\<lambda>_. None" "\<lambda>_. True" "\<lambda>_. []" production_env "\<lambda>_. None" Inr "''/dev''"] b
  show ?thesis by (auto simp: production_env_def pem)
qed

section \<open>What a boot does not check\<close>

text \<open>The services behind the gateway start with the secret the gateway refuses.\<close>

lemma service_accepts_published_secret:
  assumes "env ''NODE_ENV'' = Some ''production''" and "env ''INTERNAL_TOKEN_SECRET'' = Some DEV_INTERNAL_TOKEN_SECRET"
    and "service_issues number env = []"
  shows "is_ok (loadConfig_audit number message env)"
  using assms
  by (simp add: loadConfig_audit_def Let_def assertProductionInternalTokenSecret_def service_fields_def env_text_def
      DEV_INTERNAL_TOKEN_SECRET_def is_ok_def)

text \<open>An empty key variable hides the path beside it from the check, not from the resolution.\<close>

lemma empty_key_hides_path:
  assumes "ic_JWT_PRIVATE_KEY c = Some []" and "ic_JWT_PRIVATE_KEY_PATH c = Some p" and "p \<noteq> []"
  shows "\<not> has_source (ic_JWT_PRIVATE_KEY c) (ic_JWT_PRIVATE_KEY_PATH c)"
    and "resolvePrivateKey readFile devKeys c = readFile p"
  using assms by (simp_all add: has_source_def resolvePrivateKey_def)

text \<open>The identity service and the gateway do not default to the same issuer.\<close>

lemma default_issuers_disagree:
  "ic_IDENTITY_ISSUER (identity_fields number Map.empty) \<noteq> gc_IDENTITY_ISSUER (gateway_fields number is_url Map.empty)"
  by (simp add: identity_fields_def gateway_fields_def env_text_def)

text \<open>The tenant of the default users is no uuid, so the administration service refuses them all.\<close>

lemma default_users_have_no_tenant:
  assumes "\<not> is_uuid ''acme''" and "u \<in> set DEFAULT_SEED_USERS" and "pc_tenantId pc = sd_tenantId u"
  shows "tenantContextGuard is_uuid (Some pc) =
    Inl (unauthorized ''Internal identity token carries a non-UUID tenant id'')"
  using assms by (auto simp: DEFAULT_SEED_USERS_def tenantContextGuard_def)

end
