(* ===== verification/Lifecycle.thy ===== *)
theory Lifecycle
  imports RoleAssignment Expense Tenant PolicyStore
begin

text \<open>
  The lifecycles of the aggregates.  Every status type is ordered by how far along its
  lifecycle it is; an operation that changes the status of an aggregate moves it strictly
  forward and keeps its identity, so that no sequence of operations brings a status back.
  The activation of a suspended tenant, which the entity has and no route calls, is the
  exception and stays outside.
\<close>

section \<open>Statuses are ordered\<close>

instantiation assignment_status :: linorder
begin

definition less_eq_assignment_status :: "assignment_status \<Rightarrow> assignment_status \<Rightarrow> bool" where
  "less_eq_assignment_status a b \<longleftrightarrow> a = AssignmentActive \<or> b = AssignmentRevoked"

definition less_assignment_status :: "assignment_status \<Rightarrow> assignment_status \<Rightarrow> bool" where
  "less_assignment_status a b \<longleftrightarrow> a = AssignmentActive \<and> b = AssignmentRevoked"

instance
proof
  fix x y z :: assignment_status
  show "x < y \<longleftrightarrow> x \<le> y \<and> \<not> y \<le> x"
    by (cases x; cases y) (simp_all add: less_eq_assignment_status_def less_assignment_status_def)
  show "x \<le> x" by (cases x) (simp_all add: less_eq_assignment_status_def)
  show "x \<le> y \<or> y \<le> x" by (cases x; cases y) (simp_all add: less_eq_assignment_status_def)
  show "x \<le> z" if "x \<le> y" "y \<le> z" using that by (cases y) (auto simp: less_eq_assignment_status_def)
  show "x = y" if "x \<le> y" "y \<le> x" using that by (cases x; cases y) (auto simp: less_eq_assignment_status_def)
qed

end

instantiation tenant_status :: linorder
begin

definition less_eq_tenant_status :: "tenant_status \<Rightarrow> tenant_status \<Rightarrow> bool" where
  "less_eq_tenant_status a b \<longleftrightarrow> a = TenantActive \<or> b = TenantSuspended"

definition less_tenant_status :: "tenant_status \<Rightarrow> tenant_status \<Rightarrow> bool" where
  "less_tenant_status a b \<longleftrightarrow> a = TenantActive \<and> b = TenantSuspended"

instance
proof
  fix x y z :: tenant_status
  show "x < y \<longleftrightarrow> x \<le> y \<and> \<not> y \<le> x"
    by (cases x; cases y) (simp_all add: less_eq_tenant_status_def less_tenant_status_def)
  show "x \<le> x" by (cases x) (simp_all add: less_eq_tenant_status_def)
  show "x \<le> y \<or> y \<le> x" by (cases x; cases y) (simp_all add: less_eq_tenant_status_def)
  show "x \<le> z" if "x \<le> y" "y \<le> z" using that by (cases y) (auto simp: less_eq_tenant_status_def)
  show "x = y" if "x \<le> y" "y \<le> x" using that by (cases x; cases y) (auto simp: less_eq_tenant_status_def)
qed

end

instantiation policy_status :: linorder
begin

definition less_eq_policy_status :: "policy_status \<Rightarrow> policy_status \<Rightarrow> bool" where
  "less_eq_policy_status a b \<longleftrightarrow> a = Staged \<or> b = Active"

definition less_policy_status :: "policy_status \<Rightarrow> policy_status \<Rightarrow> bool" where
  "less_policy_status a b \<longleftrightarrow> a = Staged \<and> b = Active"

instance
proof
  fix x y z :: policy_status
  show "x < y \<longleftrightarrow> x \<le> y \<and> \<not> y \<le> x"
    by (cases x; cases y) (simp_all add: less_eq_policy_status_def less_policy_status_def)
  show "x \<le> x" by (cases x) (simp_all add: less_eq_policy_status_def)
  show "x \<le> y \<or> y \<le> x" by (cases x; cases y) (simp_all add: less_eq_policy_status_def)
  show "x \<le> z" if "x \<le> y" "y \<le> z" using that by (cases y) (auto simp: less_eq_policy_status_def)
  show "x = y" if "x \<le> y" "y \<le> x" using that by (cases x; cases y) (auto simp: less_eq_policy_status_def)
qed

end

text \<open>An expense ends approved or rejected, and these two are not comparable.\<close>

instantiation expense_status :: order
begin

definition less_eq_expense_status :: "expense_status \<Rightarrow> expense_status \<Rightarrow> bool" where
  "less_eq_expense_status a b \<longleftrightarrow> a = Pending \<or> a = b"

definition less_expense_status :: "expense_status \<Rightarrow> expense_status \<Rightarrow> bool" where
  "less_expense_status a b \<longleftrightarrow> a = Pending \<and> b \<noteq> Pending"

instance
  by standard (auto simp: less_eq_expense_status_def less_expense_status_def)

end

lemmas status_order_defs =
  less_eq_assignment_status_def less_assignment_status_def less_eq_tenant_status_def less_tenant_status_def
  less_eq_policy_status_def less_policy_status_def less_eq_expense_status_def less_expense_status_def

section \<open>One-way lifecycles\<close>

locale one_way =
  fixes step :: "'a \<Rightarrow> 'a \<Rightarrow> bool" and status :: "'a \<Rightarrow> 's::order" and ident :: "'a \<Rightarrow> 'k"
  assumes forward: "step a b \<Longrightarrow> status a < status b"
    and same: "step a b \<Longrightarrow> ident b = ident a"
begin

lemma steps_forward: "step\<^sup>*\<^sup>* a b \<Longrightarrow> status a \<le> status b \<and> ident b = ident a"
proof (induction rule: rtranclp_induct)
  case (step b c)
  then show ?case using forward[OF step.hyps(2)] same[OF step.hyps(2)] by (auto intro: order.trans order.strict_implies_order)
qed simp

lemma never_returns: "step\<^sup>+\<^sup>+ a b \<Longrightarrow> status a < status b"
proof (induction rule: tranclp_induct)
  case (step b c)
  then show ?case using forward[OF step.hyps(2)] by (auto intro: order.strict_trans)
qed (rule forward)

lemma final_is_final: "\<forall>s. \<not> status a < s \<Longrightarrow> step\<^sup>*\<^sup>* a b \<Longrightarrow> b = a"
  by (erule converse_rtranclpE) (auto dest: forward)

end

text \<open>An aggregate with a version moves by one version per operation, so the version counts them.\<close>

locale counted_way = one_way +
  fixes version :: "'a \<Rightarrow> int"
  assumes counts: "step a b \<Longrightarrow> version b = version a + 1"
begin

lemma version_counts: "(step ^^ n) a b \<Longrightarrow> version b = version a + int n"
  by (induction n arbitrary: b) (auto simp: relcompp_apply dest: counts)

end

section \<open>The aggregates\<close>

inductive assignment_change :: "role_assignment \<Rightarrow> role_assignment \<Rightarrow> bool" where
  revoked: "ra_revoke now a = Inr (b, e) \<Longrightarrow> assignment_change a b"

inductive expense_change :: "expense \<Rightarrow> expense \<Rightarrow> bool" where
  approved: "approve approvedBy decisionId now a = Inr (b, e) \<Longrightarrow> expense_change a b"

inductive tenant_change :: "tenant \<Rightarrow> tenant \<Rightarrow> bool" where
  suspended: "tenant_suspend reason now a = Inr (b, e) \<Longrightarrow> tenant_change a b"

inductive policy_change :: "policy \<Rightarrow> policy \<Rightarrow> bool" where
  activated: "policy_activate now a = Inr b \<Longrightarrow> policy_change a b"

inductive_simps assignment_change_iff: "assignment_change a b"
inductive_simps expense_change_iff: "expense_change a b"
inductive_simps tenant_change_iff: "tenant_change a b"
inductive_simps policy_change_iff: "policy_change a b"

lemmas change_defs =
  assignment_change_iff ra_revoke_def ra_touch_def expense_change_iff approve_def expense_touch_def
  tenant_change_iff tenant_suspend_def tenant_touch_def policy_change_iff policy_activate_def

interpretation assignment_life: counted_way assignment_change ra_status ra_id ra_version
  by unfold_locales
    (auto simp: change_defs status_order_defs split: if_splits intro: assignment_status.exhaust)

interpretation expense_life: counted_way expense_change ex_status ex_id ex_version
  by unfold_locales (auto simp: change_defs status_order_defs split: if_splits intro: expense_status.exhaust)

interpretation tenant_life: counted_way tenant_change tn_status tn_id tn_version
  by unfold_locales (auto simp: change_defs status_order_defs split: if_splits intro: tenant_status.exhaust)

interpretation policy_life: one_way policy_change po_status "\<lambda>p. (po_id p, po_scope p, po_version p, po_rule p)"
  by unfold_locales (auto simp: change_defs status_order_defs split: if_splits intro: policy_status.exhaust)

text \<open>A revoked assignment, an approved expense, a suspended tenant and an active policy are at the end.\<close>

lemma final_statuses:
  "assignment_change\<^sup>*\<^sup>* a a' \<Longrightarrow> ra_status a = AssignmentRevoked \<Longrightarrow> a' = a"
  "expense_change\<^sup>*\<^sup>* x x' \<Longrightarrow> ex_status x \<noteq> Pending \<Longrightarrow> x' = x"
  "tenant_change\<^sup>*\<^sup>* t t' \<Longrightarrow> tn_status t = TenantSuspended \<Longrightarrow> t' = t"
  "policy_change\<^sup>*\<^sup>* p p' \<Longrightarrow> po_status p = Active \<Longrightarrow> p' = p"
  by (auto simp: status_order_defs intro: assignment_life.final_is_final expense_life.final_is_final
      tenant_life.final_is_final policy_life.final_is_final)

end
