(* ===== verification/IdentityApi.thy ===== *)
theory IdentityApi
  imports IdentityLife HttpApi
begin

text \<open>
  The HTTP surface of the identity service (apps/identity/src/modules/identity/presentation):
  the two token endpoints and the published key set.  None of the routes is authenticated.
\<close>

section \<open>Requests and answers\<close>

text \<open>The routes, with the members of a body the framework has parsed.\<close>

datatype identity_request =
    PostToken "(string \<times> json) list"
  | PostRefresh "(string \<times> json) list"
  | GetJwks

datatype identity_answer = TokenResponse token_view | JwksResponse "remote_jwk list"

text \<open>
  What the service is started with.  \<^term>\<open>id_is_email\<close> is the address check of the
  validator library; \<^term>\<open>id_jwk_n\<close> and \<^term>\<open>id_jwk_e\<close> are the members of its public key.
\<close>

record identity_deps =
  id_scrypt :: "string \<Rightarrow> string \<Rightarrow> nat \<Rightarrow> string"
  id_signer :: signer
  id_policy :: issuance_policy
  id_is_uuid :: "string \<Rightarrow> bool"
  id_is_email :: "string \<Rightarrow> bool"
  id_users :: user_repository
  id_jwk_n :: "string option"
  id_jwk_e :: "string option"
  id_messages :: "string list"

section \<open>The request bodies\<close>

definition issueTokenRequest_valid :: "(string \<Rightarrow> bool) \<Rightarrow> (string \<times> json) list \<Rightarrow> bool" where
  "issueTokenRequest_valid is_email_address ms \<longleftrightarrow>
     dto_keys [''email'', ''password''] ms \<and>
     dto_field (\<lambda>v. is_text_where is_email_address v \<and> is_text 0 320 v) ''email'' (JObj ms) \<and>
     dto_field (is_text 1 256) ''password'' (JObj ms)"

definition refreshTokenRequest_valid :: "(string \<times> json) list \<Rightarrow> bool" where
  "refreshTokenRequest_valid ms \<longleftrightarrow>
     dto_keys [''refreshToken''] ms \<and> dto_field (is_text 1 512) ''refreshToken'' (JObj ms)"

definition text_member :: "string \<Rightarrow> (string \<times> json) list \<Rightarrow> string" where
  "text_member k ms = or_default (jget_string k (JObj ms)) []"

section \<open>The controllers\<close>

definition token_route ::
  "identity_deps \<Rightarrow> secrets \<Rightarrow> int \<Rightarrow> (string \<times> json) list \<Rightarrow> refresh_store \<Rightarrow> identity_answer result \<times> refresh_store" where
  "token_route d rnd nowMs body store =
     (if \<not> issueTokenRequest_valid (id_is_email d) body then (Inl (bad_request (id_messages d)), store)
      else
        (case issueToken_execute (id_scrypt d) (id_signer d) (id_policy d) (id_is_uuid d) (id_users d) rnd nowMs
                (text_member ''email'' body) (text_member ''password'' body) store of
           (r, store') \<Rightarrow> (rbind r (\<lambda>view. Inr (TokenResponse view)), store')))"

definition refresh_route ::
  "identity_deps \<Rightarrow> secrets \<Rightarrow> int \<Rightarrow> (string \<times> json) list \<Rightarrow> refresh_store \<Rightarrow> identity_answer result \<times> refresh_store" where
  "refresh_route d rnd nowMs body store =
     (if \<not> refreshTokenRequest_valid body then (Inl (bad_request (id_messages d)), store)
      else
        (case refreshToken_execute (id_signer d) (id_policy d) (id_is_uuid d) (id_users d) rnd nowMs
                (text_member ''refreshToken'' body) store of
           (r, store') \<Rightarrow> (rbind r (\<lambda>view. Inr (TokenResponse view)), store')))"

definition jwks_route :: "identity_deps \<Rightarrow> identity_answer result" where
  "jwks_route d = rbind (signer_jwks (sg_kid (id_signer d)) (id_jwk_n d) (id_jwk_e d)) (\<lambda>ks. Inr (JwksResponse ks))"

definition identity_service ::
  "identity_deps \<Rightarrow> secrets \<Rightarrow> int \<Rightarrow> identity_request \<Rightarrow> refresh_store \<Rightarrow> identity_answer result \<times> refresh_store" where
  "identity_service d rnd nowMs request store =
     (case request of
        PostToken body \<Rightarrow> token_route d rnd nowMs body store
      | PostRefresh body \<Rightarrow> refresh_route d rnd nowMs body store
      | GetJwks \<Rightarrow> (jwks_route d, store))"

text \<open>The status and the body a client sees when the request is refused.\<close>

definition identity_refusal ::
  "identity_deps \<Rightarrow> secrets \<Rightarrow> int \<Rightarrow> identity_request \<Rightarrow> refresh_store \<Rightarrow> string option \<Rightarrow> (nat \<times> error_body) option" where
  "identity_refusal d rnd nowMs request store traceId =
     (case fst (identity_service d rnd nowMs request store) of
        Inl e \<Rightarrow> Some (toHttp_identity e traceId)
      | Inr _ \<Rightarrow> None)"

section \<open>Logging in\<close>

text \<open>Whether a password opens an account.\<close>

definition credentials_match :: "identity_deps \<Rightarrow> string \<Rightarrow> string \<Rightarrow> bool" where
  "credentials_match d email password \<longleftrightarrow>
     (case ur_byEmail (id_users d) email of
        None \<Rightarrow> False
      | Some u \<Rightarrow> us_active u \<and> scrypt_verify (id_scrypt d) password (us_passwordHash u))"

lemma failed_login:
  assumes "email_fromString email = Inr address" and "\<not> credentials_match d address password"
  shows "issueToken_execute (id_scrypt d) (id_signer d) (id_policy d) (id_is_uuid d) (id_users d) rnd nowMs
    email password store = (Inl InvalidCredentialsError, store)"
  using assms by (auto simp: issueToken_execute_def credentials_match_def Let_def split: option.splits)

lemma invalid_credentials_answer:
  "toHttp_identity InvalidCredentialsError traceId =
    (401, \<lparr>eb_code = ''unauthenticated'', eb_message = ''Invalid email or password'',
           eb_reason = Some ''invalid_credentials'', eb_decisionId = None, eb_traceId = if_truthy traceId\<rparr>)"
  by (simp add: InvalidCredentialsError_def UnauthenticatedError_def newDomainError_def toHttp_identity_def to_http_def
      statusForDomainError_identity_def if_truthy_def truthy_def)

text \<open>
  C33. A login does not say what was wrong.  A well-formed password grant whose credentials
  do not match, because no account has the address, because the account is disabled or
  because the password is another, is answered 401 with one and the same body, and leaves
  the store of refresh tokens as it was.
\<close>

theorem login_failures_look_alike:
  assumes "issueTokenRequest_valid (id_is_email d) body"
    and "email_fromString (text_member ''email'' body) = Inr address"
    and "\<not> credentials_match d address (text_member ''password'' body)"
  shows "identity_refusal d rnd nowMs (PostToken body) store traceId =
      Some (401, \<lparr>eb_code = ''unauthenticated'', eb_message = ''Invalid email or password'',
                  eb_reason = Some ''invalid_credentials'', eb_decisionId = None, eb_traceId = if_truthy traceId\<rparr>) \<and>
    snd (identity_service d rnd nowMs (PostToken body) store) = store"
proof -
  have "identity_service d rnd nowMs (PostToken body) store = (Inl InvalidCredentialsError, store)"
    using failed_login[OF assms(2,3), of rnd nowMs store] assms(1) by (simp add: identity_service_def token_route_def)
  then show ?thesis by (simp add: identity_refusal_def invalid_credentials_answer)
qed

definition demo_deps :: identity_deps where
  "demo_deps =
     \<lparr>id_scrypt = (\<lambda>p s n. replicate n (if p = ''pw'' then CHR 0x00 else CHR 0x01)), id_signer = demo_signer,
      id_policy = demo_policy, id_is_uuid = (\<lambda>_. True), id_is_email = (\<lambda>_. True), id_users = demo_users,
      id_jwk_n = Some ''n'', id_jwk_e = Some ''e'', id_messages = []\<rparr>"

definition login_body :: "string \<Rightarrow> string \<Rightarrow> (string \<times> json) list" where
  "login_body email password = [(''email'', JStr email), (''password'', JStr password)]"

lemma sample_login:
  "issueTokenRequest_valid (id_is_email demo_deps) (login_body ''u@acme.com'' ''no'')"
  "issueTokenRequest_valid (id_is_email demo_deps) (login_body ''x@acme.com'' ''pw'')"
  "email_fromString (text_member ''email'' (login_body ''u@acme.com'' ''no'')) = Inr ''u@acme.com''"
  "email_fromString (text_member ''email'' (login_body ''x@acme.com'' ''pw'')) = Inr ''x@acme.com''"
  "\<not> credentials_match demo_deps ''u@acme.com'' (text_member ''password'' (login_body ''u@acme.com'' ''no''))"
  "\<not> credentials_match demo_deps ''x@acme.com'' (text_member ''password'' (login_body ''x@acme.com'' ''pw''))"
  "is_ok (fst (identity_service demo_deps demo_secrets 5000 (PostToken (login_body ''u@acme.com'' ''pw'')) Map.empty))"
  by code_simp+

lemma login_failures_look_alike_witness:
  "identity_refusal demo_deps demo_secrets 5000 (PostToken (login_body ''u@acme.com'' ''no'')) Map.empty None =
   identity_refusal demo_deps demo_secrets 5000 (PostToken (login_body ''x@acme.com'' ''pw'')) Map.empty None"
  using login_failures_look_alike[OF sample_login(1,3,5), of demo_secrets 5000 Map.empty None]
    login_failures_look_alike[OF sample_login(2,4,6), of demo_secrets 5000 Map.empty None] by simp

end
