(* ===== verification/Seed.thy ===== *)
theory Seed
  imports AdminApi Directory Expense OrgTree
begin

text \<open>
  The demo data of the administration and expense services
  (apps/authz-admin and apps/expense, src/shared/infrastructure/database/seed.ts), which
  are inserted with fixed ids and ON CONFLICT DO NOTHING.  The script connects as the
  privileged owner of the schema; the rows of a tenant are written in a transaction of that
  tenant.  Two statements of a transaction see each other, and one that fails rolls the
  transaction back, while what was committed before stays.
\<close>

section \<open>Inserting what is missing\<close>

text \<open>
  INSERT ... ON CONFLICT (id) DO NOTHING of rows, in their order: a row whose id is taken is
  skipped; a row that clashes with another unique index is an error.
\<close>

fun insert_missing ::
  "('r \<Rightarrow> string) \<Rightarrow> ('r \<Rightarrow> 'r \<Rightarrow> bool) \<Rightarrow> string \<Rightarrow> 'r list \<Rightarrow> 'r list \<Rightarrow> 'r list result" where
  "insert_missing id_of clash index [] rows = Inr rows"
| "insert_missing id_of clash index (r # new) rows =
     (if id_of r \<in> id_of ` set rows then insert_missing id_of clash index new rows
      else if list_ex (clash r) rows then Inl (unique_violation index)
      else insert_missing id_of clash index new (rows @ [r]))"

definition foreign_key_violation :: "string \<Rightarrow> exn" where
  "foreign_key_violation name = Crash (''QueryFailedError: violates foreign key constraint '' @ name)"

text \<open>The rows of role_permissions are the permissions of the role; a pair that is there is skipped.\<close>

definition grant_missing :: "string \<Rightarrow> string list \<Rightarrow> role_table \<Rightarrow> role_table result" where
  "grant_missing roleId permissions roles =
     (if roleId \<notin> ro_id ` set roles then Inl (foreign_key_violation ''fk_role_permissions_role'')
      else Inr (map (\<lambda>r. if ro_id r = roleId
                        then r\<lparr>ro_permissions := foldl (\<lambda>ps p. set_add p ps) (ro_permissions r) permissions\<rparr>
                        else r) roles))"

definition same_slug :: "tenant \<Rightarrow> tenant \<Rightarrow> bool" where "same_slug a b \<longleftrightarrow> tn_slug a = tn_slug b"
definition same_key :: "permission \<Rightarrow> permission \<Rightarrow> bool" where "same_key a b \<longleftrightarrow> pm_key a = pm_key b"
definition same_unit_path :: "org_unit \<Rightarrow> org_unit \<Rightarrow> bool" where
  "same_unit_path a b \<longleftrightarrow> ou_tenantId a = ou_tenantId b \<and> ou_path a = ou_path b"
definition same_role_key :: "role \<Rightarrow> role \<Rightarrow> bool" where
  "same_role_key a b \<longleftrightarrow> ro_tenantId a = ro_tenantId b \<and> ro_key a = ro_key b"

definition insert_tenants :: "tenant list \<Rightarrow> tenant_table \<Rightarrow> tenant_table result" where
  "insert_tenants = insert_missing tn_id same_slug ''uq_tenants_slug''"

definition insert_permissions :: "permission list \<Rightarrow> permission_table \<Rightarrow> permission_table result" where
  "insert_permissions = insert_missing pm_id same_key ''uq_permissions_key''"

text \<open>The parents are checked when all units of the statement are there.\<close>

definition insert_units :: "org_unit list \<Rightarrow> org_table \<Rightarrow> org_table result" where
  "insert_units new rows =
     rbind (insert_missing ou_id same_unit_path ''uq_org_units_tenant_path'' new rows) (\<lambda>rows'.
     if list_all (\<lambda>u. case ou_parentId u of None \<Rightarrow> True | Some p \<Rightarrow> p \<in> ou_id ` set rows') new
     then Inr rows' else Inl (foreign_key_violation ''fk_org_units_parent''))"

definition insert_roles :: "role list \<Rightarrow> role_table \<Rightarrow> role_table result" where
  "insert_roles = insert_missing ro_id same_role_key ''uq_roles_tenant_key''"

definition insert_assignments :: "role_assignment list \<Rightarrow> assignment_table \<Rightarrow> assignment_table result" where
  "insert_assignments = insert_missing ra_id (\<lambda>_ _. False) []"

section \<open>The fixed ids\<close>

definition TENANT_ACME :: string where "TENANT_ACME = ''aaaaaaaa-0000-4000-8000-000000000001''"
definition TENANT_GLOBEX :: string where "TENANT_GLOBEX = ''bbbbbbbb-0000-4000-8000-000000000002''"
definition OU_ACME :: string where "OU_ACME = ''0a000000-0000-4000-8000-000000000001''"
definition OU_ACME_FINANCE :: string where "OU_ACME_FINANCE = ''0a000000-0000-4000-8000-000000000002''"
definition OU_ACME_FINANCE_EMEA :: string where "OU_ACME_FINANCE_EMEA = ''0a000000-0000-4000-8000-000000000003''"
definition OU_GLOBEX :: string where "OU_GLOBEX = ''0b000000-0000-4000-8000-000000000001''"
definition OU_GLOBEX_OPS :: string where "OU_GLOBEX_OPS = ''0b000000-0000-4000-8000-000000000002''"
definition PERM_EXPENSE_READ :: string where "PERM_EXPENSE_READ = ''0c000000-0000-4000-8000-000000000001''"
definition PERM_EXPENSE_APPROVE :: string where "PERM_EXPENSE_APPROVE = ''0c000000-0000-4000-8000-000000000002''"
definition PERM_PAYROLL_EXECUTE :: string where "PERM_PAYROLL_EXECUTE = ''0c000000-0000-4000-8000-000000000003''"
definition PERM_INVOICE_APPROVE :: string where "PERM_INVOICE_APPROVE = ''0c000000-0000-4000-8000-000000000004''"
definition ROLE_FINANCE_MANAGER :: string where "ROLE_FINANCE_MANAGER = ''0d000000-0000-4000-8000-000000000001''"
definition ROLE_ENGINEER :: string where "ROLE_ENGINEER = ''0d000000-0000-4000-8000-000000000002''"
definition ROLE_ORG_ADMIN :: string where "ROLE_ORG_ADMIN = ''0d000000-0000-4000-8000-000000000003''"
definition ROLE_OPS_MANAGER :: string where "ROLE_OPS_MANAGER = ''0d000000-0000-4000-8000-000000000004''"
definition ASSIGN_RIYA :: string where "ASSIGN_RIYA = ''0e000000-0000-4000-8000-000000000001''"
definition ASSIGN_SAM :: string where "ASSIGN_SAM = ''0e000000-0000-4000-8000-000000000002''"
definition ASSIGN_DEV :: string where "ASSIGN_DEV = ''0e000000-0000-4000-8000-000000000003''"
definition USER_UUID_RIYA :: string where "USER_UUID_RIYA = ''11111111-1111-4111-8111-111111111111''"
definition USER_UUID_SAM :: string where "USER_UUID_SAM = ''22222222-2222-4222-8222-222222222222''"
definition USER_UUID_DEV :: string where "USER_UUID_DEV = ''33333333-3333-4333-8333-333333333333''"
definition USER_UUID_GWEN :: string where "USER_UUID_GWEN = ''44444444-4444-4444-8444-444444444444''"
definition ASSIGN_RIYA_UUID :: string where "ASSIGN_RIYA_UUID = ''0e000000-0000-4000-8000-000000000011''"
definition ASSIGN_SAM_UUID :: string where "ASSIGN_SAM_UUID = ''0e000000-0000-4000-8000-000000000012''"
definition ASSIGN_DEV_UUID :: string where "ASSIGN_DEV_UUID = ''0e000000-0000-4000-8000-000000000013''"
definition ASSIGN_GWEN :: string where "ASSIGN_GWEN = ''0e000000-0000-4000-8000-000000000004''"
definition ASSIGN_GWEN_UUID :: string where "ASSIGN_GWEN_UUID = ''0e000000-0000-4000-8000-000000000014''"

text \<open>The dash of the descriptions, in UTF-8.\<close>

definition em_dash :: string where "em_dash = [CHR '' '', CHR 0xE2, CHR 0x80, CHR 0x94, CHR '' '']"

section \<open>The rows of authz-admin\<close>

definition seed_tenants :: "int \<Rightarrow> tenant list" where
  "seed_tenants now =
     [\<lparr>tn_id = TENANT_ACME, tn_name = ''Acme'', tn_slug = ''acme'', tn_status = TenantActive,
       tn_isolationTier = ''pool'', tn_version = 1, tn_createdAt = now, tn_updatedAt = now\<rparr>,
      \<lparr>tn_id = TENANT_GLOBEX, tn_name = ''Globex'', tn_slug = ''globex'', tn_status = TenantActive,
       tn_isolationTier = ''silo'', tn_version = 1, tn_createdAt = now, tn_updatedAt = now\<rparr>]"

definition seed_permission :: "int \<Rightarrow> string \<Rightarrow> string \<Rightarrow> string \<Rightarrow> permission" where
  "seed_permission now i key description =
     \<lparr>pm_id = i, pm_key = key, pm_description = description, pm_version = 1, pm_createdAt = now, pm_updatedAt = now\<rparr>"

definition seed_permissions :: "int \<Rightarrow> permission list" where
  "seed_permissions now =
     [seed_permission now PERM_EXPENSE_READ ''expense:report:read'' ''Read expense reports'',
      seed_permission now PERM_EXPENSE_APPROVE ''expense:report:approve'' ''Approve expense reports'',
      seed_permission now PERM_PAYROLL_EXECUTE ''payroll:run:execute'' ''Execute a payroll run'',
      seed_permission now PERM_INVOICE_APPROVE ''invoice:invoice:approve'' ''Approve an invoice'']"

definition seed_unit :: "int \<Rightarrow> string \<Rightarrow> string \<Rightarrow> string option \<Rightarrow> string \<Rightarrow> string \<Rightarrow> org_unit" where
  "seed_unit now i tenantId parentId path name =
     \<lparr>ou_id = i, ou_tenantId = tenantId, ou_parentId = parentId, ou_path = path, ou_name = name,
      ou_version = 1, ou_createdAt = now, ou_updatedAt = now\<rparr>"

definition acme_units :: "int \<Rightarrow> org_unit list" where
  "acme_units now =
     [seed_unit now OU_ACME TENANT_ACME None ''acme'' ''Acme'',
      seed_unit now OU_ACME_FINANCE TENANT_ACME (Some OU_ACME) ''acme.finance'' ''Finance'',
      seed_unit now OU_ACME_FINANCE_EMEA TENANT_ACME (Some OU_ACME_FINANCE) ''acme.finance.emea'' ''Finance EMEA'']"

definition globex_units :: "int \<Rightarrow> org_unit list" where
  "globex_units now =
     [seed_unit now OU_GLOBEX TENANT_GLOBEX None ''globex'' ''Globex'',
      seed_unit now OU_GLOBEX_OPS TENANT_GLOBEX (Some OU_GLOBEX) ''globex.ops'' ''Operations'']"

definition seed_role :: "int \<Rightarrow> string \<Rightarrow> string \<Rightarrow> string \<Rightarrow> string \<Rightarrow> string \<Rightarrow> role" where
  "seed_role now i tenantId key scope description =
     \<lparr>ro_id = i, ro_tenantId = tenantId, ro_key = key, ro_scope = scope, ro_description = description,
      ro_permissions = [], ro_version = 1, ro_createdAt = now, ro_updatedAt = now\<rparr>"

definition acme_roles :: "int \<Rightarrow> role list" where
  "acme_roles now =
     [seed_role now ROLE_FINANCE_MANAGER TENANT_ACME ''finance_manager'' ''acme.finance''
        (''Manage finance'' @ em_dash @ ''read/approve expense reports''),
      seed_role now ROLE_ENGINEER TENANT_ACME ''engineer'' ''acme'' ''Engineering staff'',
      seed_role now ROLE_ORG_ADMIN TENANT_ACME ''org_admin'' ''acme'' ''Tenant organization administrator'']"

definition globex_roles :: "int \<Rightarrow> role list" where
  "globex_roles now =
     [seed_role now ROLE_OPS_MANAGER TENANT_GLOBEX ''ops_manager'' ''globex.ops''
        (''Manage operations'' @ em_dash @ ''read/approve expense reports'')]"

definition seed_assignment :: "int \<Rightarrow> string \<Rightarrow> string \<Rightarrow> string \<Rightarrow> string \<Rightarrow> string \<Rightarrow> role_assignment" where
  "seed_assignment now i tenantId userId roleId scope =
     \<lparr>ra_id = i, ra_tenantId = tenantId, ra_userId = userId, ra_roleId = roleId, ra_scope = scope,
      ra_status = AssignmentActive, ra_validUntil = None, ra_delegatedBy = None, ra_version = 1,
      ra_createdAt = now, ra_updatedAt = now\<rparr>"

definition acme_assignments :: "int \<Rightarrow> role_assignment list" where
  "acme_assignments now =
     [seed_assignment now ASSIGN_RIYA TENANT_ACME ''riya'' ROLE_FINANCE_MANAGER ''acme.finance'',
      seed_assignment now ASSIGN_SAM TENANT_ACME ''sam'' ROLE_ENGINEER ''acme'',
      seed_assignment now ASSIGN_DEV TENANT_ACME ''dev'' ROLE_ORG_ADMIN ''acme'',
      seed_assignment now ASSIGN_RIYA_UUID TENANT_ACME USER_UUID_RIYA ROLE_FINANCE_MANAGER ''acme.finance'',
      seed_assignment now ASSIGN_SAM_UUID TENANT_ACME USER_UUID_SAM ROLE_ENGINEER ''acme'',
      seed_assignment now ASSIGN_DEV_UUID TENANT_ACME USER_UUID_DEV ROLE_ORG_ADMIN ''acme'']"

definition globex_assignments :: "int \<Rightarrow> role_assignment list" where
  "globex_assignments now =
     [seed_assignment now ASSIGN_GWEN TENANT_GLOBEX ''gwen'' ROLE_OPS_MANAGER ''globex.ops'',
      seed_assignment now ASSIGN_GWEN_UUID TENANT_GLOBEX USER_UUID_GWEN ROLE_OPS_MANAGER ''globex.ops'']"

section \<open>The script of authz-admin\<close>

text \<open>A transaction of a tenant: what fails is rolled back.  The role of the script bypasses the policies.\<close>

definition withTenant :: "('db \<Rightarrow> 'db result) \<Rightarrow> 'db \<Rightarrow> unit result \<times> 'db" where
  "withTenant fn db = (case fn db of Inl e \<Rightarrow> (Inl e, db) | Inr db' \<Rightarrow> (Inr (), db'))"

text \<open>The global tables are written statement by statement.\<close>

definition seedGlobal :: "int \<Rightarrow> admin_db \<Rightarrow> unit result \<times> admin_db" where
  "seedGlobal now db =
     (case insert_tenants (seed_tenants now) (db_tenants db) of
        Inl e \<Rightarrow> (Inl e, db)
      | Inr tenants \<Rightarrow>
          (case insert_permissions (seed_permissions now) (db_permissions db) of
             Inl e \<Rightarrow> (Inl e, db\<lparr>db_tenants := tenants\<rparr>)
           | Inr permissions \<Rightarrow> (Inr (), db\<lparr>db_tenants := tenants, db_permissions := permissions\<rparr>)))"

definition seed_tenant_rows ::
  "org_unit list \<Rightarrow> role list \<Rightarrow> string \<Rightarrow> role_assignment list \<Rightarrow> admin_db \<Rightarrow> admin_db result" where
  "seed_tenant_rows units roles managerId assignments db =
     rbind (insert_units units (db_units db)) (\<lambda>units'.
     rbind (insert_roles roles (db_roles db)) (\<lambda>roles1.
     rbind (grant_missing managerId [''expense:report:read'', ''expense:report:approve''] roles1) (\<lambda>roles'.
     rbind (insert_assignments assignments (db_assignments db)) (\<lambda>assignments'.
     Inr (db\<lparr>db_units := units', db_roles := roles', db_assignments := assignments'\<rparr>)))))"

definition seedAcme :: "int \<Rightarrow> admin_db \<Rightarrow> unit result \<times> admin_db" where
  "seedAcme now =
     withTenant (seed_tenant_rows (acme_units now) (acme_roles now) ROLE_FINANCE_MANAGER (acme_assignments now))"

definition seedGlobex :: "int \<Rightarrow> admin_db \<Rightarrow> unit result \<times> admin_db" where
  "seedGlobex now =
     withTenant (seed_tenant_rows (globex_units now) (globex_roles now) ROLE_OPS_MANAGER (globex_assignments now))"

text \<open>One step after another, to the first that fails.\<close>

fun seed_steps :: "('db \<Rightarrow> unit result \<times> 'db) list \<Rightarrow> 'db \<Rightarrow> unit result \<times> 'db" where
  "seed_steps [] db = (Inr (), db)"
| "seed_steps (step # steps) db =
     (case step db of
        (Inl e, db') \<Rightarrow> (Inl e, db')
      | (Inr _, db') \<Rightarrow> seed_steps steps db')"

definition seed_run :: "int \<Rightarrow> admin_db \<Rightarrow> unit result \<times> admin_db" where
  "seed_run now = seed_steps [seedGlobal now, seedAcme now, seedGlobex now]"

section \<open>The script of the expense service\<close>

definition seed_expense :: "int \<Rightarrow> string \<Rightarrow> string \<Rightarrow> int \<Rightarrow> string \<Rightarrow> string \<Rightarrow> string \<Rightarrow> string \<Rightarrow> expense" where
  "seed_expense now i tenantId amount department ownerId description scope =
     \<lparr>ex_id = i, ex_tenantId = tenantId, ex_amount = amount, ex_currency = ''USD'', ex_department = department,
      ex_ownerId = ownerId, ex_status = Pending, ex_description = description, ex_scope = scope,
      ex_version = 1, ex_createdAt = now, ex_updatedAt = now\<rparr>"

definition acme_expenses :: "int \<Rightarrow> expense list" where
  "acme_expenses now =
     [seed_expense now ''exp_42'' TENANT_ACME 8500 ''finance'' ''riya''
        (''Q2 client dinner'' @ em_dash @ ''EMEA roadshow'') ''acme.finance'',
      seed_expense now ''exp_43'' TENANT_ACME 1200 ''finance'' ''riya''
        (''Team offsite taxis'' @ em_dash @ ''FR-8 live-flip demo'') ''acme.finance'',
      seed_expense now ''exp_99'' TENANT_ACME 25000 ''finance'' ''riya''
        ''Annual offsite venue deposit'' ''acme.finance'']"

definition globex_expenses :: "int \<Rightarrow> expense list" where
  "globex_expenses now =
     [seed_expense now ''exp_glx'' TENANT_GLOBEX 4200 ''ops'' ''gframe''
        (''Globex logistics'' @ em_dash @ ''cross-tenant isolation demo'') ''globex'',
      seed_expense now ''exp_gx1'' TENANT_GLOBEX 3200 ''ops'' ''gwen''
        (''Globex ops'' @ em_dash @ ''courier run (Gwen approves)'') ''globex.ops'',
      seed_expense now ''exp_gx2'' TENANT_GLOBEX 42000 ''ops'' ''gwen''
        (''Globex ops'' @ em_dash @ ''warehouse lease deposit'') ''globex.ops'']"

definition insert_expenses :: "expense list \<Rightarrow> expense_table \<Rightarrow> expense_table result" where
  "insert_expenses = insert_missing ex_id (\<lambda>_ _. False) []"

definition expense_seedAcme :: "int \<Rightarrow> expense_table \<Rightarrow> unit result \<times> expense_table" where
  "expense_seedAcme now = withTenant (insert_expenses (acme_expenses now))"

definition expense_seedGlobex :: "int \<Rightarrow> expense_table \<Rightarrow> unit result \<times> expense_table" where
  "expense_seedGlobex now = withTenant (insert_expenses (globex_expenses now))"

definition expense_seed_run :: "int \<Rightarrow> expense_table \<Rightarrow> unit result \<times> expense_table" where
  "expense_seed_run now = seed_steps [expense_seedAcme now, expense_seedGlobex now]"

section \<open>Seeding again\<close>

lemma insert_missing_ids:
  "insert_missing id_of clash ix new rows = Inr rows' \<Longrightarrow> id_of ` set rows' = id_of ` set rows \<union> id_of ` set new"
  by (induction new arbitrary: rows) (auto split: if_splits)

lemma insert_missing_present:
  "id_of ` set new \<subseteq> id_of ` set rows \<Longrightarrow> insert_missing id_of clash ix new rows = Inr rows"
  by (induction new) auto

lemma insert_missing_appends:
  "insert_missing id_of clash ix new rows = Inr rows' \<Longrightarrow> \<exists>added. rows' = rows @ added \<and> set added \<subseteq> set new"
  by (induction new arbitrary: rows) (fastforce split: if_splits)+

lemmas insert_defs = insert_tenants_def insert_permissions_def insert_roles_def insert_assignments_def insert_expenses_def

text \<open>Whether a role has the permissions, and whether a database has all rows of the script.\<close>

definition granted_all :: "string \<Rightarrow> string list \<Rightarrow> role_table \<Rightarrow> bool" where
  "granted_all roleId permissions roles \<longleftrightarrow>
     roleId \<in> ro_id ` set roles \<and> (\<forall>r \<in> set roles. ro_id r = roleId \<longrightarrow> set permissions \<subseteq> set (ro_permissions r))"

lemma add_all_set: "set (foldl (\<lambda>ps p. set_add p ps) ps new) = set ps \<union> set new"
  by (induction new arbitrary: ps) (auto simp: set_add_def)

lemma add_all_present: "set new \<subseteq> set ps \<Longrightarrow> foldl (\<lambda>ps p. set_add p ps) ps new = ps"
  by (induction new) (auto simp: set_add_def)

lemma grant_missing_ok:
  assumes "grant_missing roleId ps roles = Inr roles'"
  shows "granted_all roleId ps roles'" and "ro_id ` set roles' = ro_id ` set roles"
    and "\<And>i qs. granted_all i qs roles \<Longrightarrow> granted_all i qs roles'"
proof -
  have r: "roles' = map (\<lambda>r. if ro_id r = roleId
      then r\<lparr>ro_permissions := foldl (\<lambda>ps p. set_add p ps) (ro_permissions r) ps\<rparr> else r) roles" (is "_ = map ?g _")
    and i: "roleId \<in> ro_id ` set roles" using assms by (auto simp: grant_missing_def split: if_splits)
  have id: "ro_id (?g r) = ro_id r" for r by simp
  show ids: "ro_id ` set roles' = ro_id ` set roles" unfolding r set_map image_image id ..
  show "granted_all roleId ps roles'" unfolding granted_all_def ids using i by (auto simp: r add_all_set)
  show "granted_all i qs roles'" if "granted_all i qs roles" for i qs
    using that unfolding granted_all_def ids by (fastforce simp: r add_all_set)
qed

lemma grant_missing_present: "granted_all roleId ps roles \<Longrightarrow> grant_missing roleId ps roles = Inr roles"
  by (auto simp: granted_all_def grant_missing_def add_all_present intro!: map_idI)

lemma granted_all_append:
  assumes "insert_missing ro_id clash ix new roles = Inr roles'" and "granted_all i qs roles"
  shows "granted_all i qs roles'"
  using assms
proof (induction new arbitrary: roles)
  case (Cons r new)
  show ?case
  proof (cases "ro_id r \<in> ro_id ` set roles")
    case False
    then have "granted_all i qs (roles @ [r])" using Cons.prems(2) by (auto simp: granted_all_def)
    then show ?thesis using Cons.IH[of "roles @ [r]"] Cons.prems(1) False by (auto split: if_splits)
  qed (use Cons in auto)
qed simp

definition tenant_seeded :: "string list \<Rightarrow> string list \<Rightarrow> string \<Rightarrow> string list \<Rightarrow> admin_db \<Rightarrow> bool" where
  "tenant_seeded units roles managerId assignments db \<longleftrightarrow>
     set units \<subseteq> ou_id ` set (db_units db) \<and> set roles \<subseteq> ro_id ` set (db_roles db) \<and>
     granted_all managerId [''expense:report:read'', ''expense:report:approve''] (db_roles db) \<and>
     set assignments \<subseteq> ra_id ` set (db_assignments db)"

lemma seed_tenant_done:
  assumes "seed_tenant_rows units roles i assignments db = Inr db'"
  shows "tenant_seeded (map ou_id units) (map ro_id roles) i (map ra_id assignments) db'"
    and "\<And>us rs j as. tenant_seeded us rs j as db \<Longrightarrow> tenant_seeded us rs j as db'"
    and "db_tenants db' = db_tenants db" and "db_permissions db' = db_permissions db"
    and "\<forall>u \<in> set units. case ou_parentId u of None \<Rightarrow> True | Some p \<Rightarrow> p \<in> ou_id ` set (db_units db')"
proof -
  obtain us rs1 rs as where st: "insert_units units (db_units db) = Inr us" "insert_roles roles (db_roles db) = Inr rs1"
    "grant_missing i [''expense:report:read'', ''expense:report:approve''] rs1 = Inr rs"
    "insert_assignments assignments (db_assignments db) = Inr as"
    and db': "db' = db\<lparr>db_units := us, db_roles := rs, db_assignments := as\<rparr>"
    using assms unfolding seed_tenant_rows_def by (elim rbind_InrE) simp
  have u: "insert_missing ou_id same_unit_path ''uq_org_units_tenant_path'' units (db_units db) = Inr us"
    and par: "\<forall>u \<in> set units. case ou_parentId u of None \<Rightarrow> True | Some p \<Rightarrow> p \<in> ou_id ` set us"
    using st(1) by (auto simp: insert_units_def list_all_iff elim!: rbind_InrE split: if_splits)
  note ids = insert_missing_ids[OF u] insert_missing_ids[OF st(2)[unfolded insert_defs]]
    insert_missing_ids[OF st(4)[unfolded insert_defs]] grant_missing_ok(2)[OF st(3)]
  show "tenant_seeded (map ou_id units) (map ro_id roles) i (map ra_id assignments) db'"
    using ids grant_missing_ok(1)[OF st(3)] by (auto simp: tenant_seeded_def db')
  show "tenant_seeded us' rs' j as' db'" if "tenant_seeded us' rs' j as' db" for us' rs' j as'
    using that ids grant_missing_ok(3)[OF st(3) granted_all_append[OF st(2)[unfolded insert_defs]]]
    by (auto simp: tenant_seeded_def db')
  show "db_tenants db' = db_tenants db" "db_permissions db' = db_permissions db" by (simp_all add: db')
  show "\<forall>u \<in> set units. case ou_parentId u of None \<Rightarrow> True | Some p \<Rightarrow> p \<in> ou_id ` set (db_units db')"
    using par unfolding db' by (auto split: option.splits)
qed

lemma seed_tenant_again:
  assumes "tenant_seeded (map ou_id units) (map ro_id roles) i (map ra_id assignments) db"
    and "\<forall>u \<in> set units. case ou_parentId u of None \<Rightarrow> True | Some p \<Rightarrow> p \<in> ou_id ` set (db_units db)"
  shows "seed_tenant_rows units roles i assignments db = Inr db"
  using assms by (simp add: tenant_seeded_def seed_tenant_rows_def insert_units_def insert_defs insert_missing_present
      grant_missing_present list_all_iff)

lemma seed_global_done:
  assumes "seedGlobal now db = (Inr (), db')"
  shows "set (map tn_id (seed_tenants now)) \<subseteq> tn_id ` set (db_tenants db')"
    and "set (map pm_id (seed_permissions now)) \<subseteq> pm_id ` set (db_permissions db')"
  using assms insert_missing_ids[of tn_id same_slug _ "seed_tenants now" "db_tenants db" "db_tenants db'"]
    insert_missing_ids[of pm_id same_key _ "seed_permissions now" "db_permissions db" "db_permissions db'"]
  by (auto simp: seedGlobal_def insert_defs split: sum.splits)

lemma seed_global_again:
  assumes "set (map tn_id (seed_tenants now)) \<subseteq> tn_id ` set (db_tenants db)"
    and "set (map pm_id (seed_permissions now)) \<subseteq> pm_id ` set (db_permissions db)"
  shows "seedGlobal now db = (Inr (), db)"
  using assms by (simp add: seedGlobal_def insert_defs insert_missing_present)

lemma withTenant_ok [simp]: "withTenant fn db = (Inr u, db') \<longleftrightarrow> fn db = Inr db'"
  by (auto simp: withTenant_def split: sum.splits)

lemma seed_steps_ok [simp]:
  "seed_steps (step # steps) db = (Inr u, db') \<longleftrightarrow>
     (\<exists>db1. step db = (Inr (), db1) \<and> seed_steps steps db1 = (Inr u, db'))"
  by (auto split: prod.splits sum.splits)

declare seed_steps.simps(2) [simp del]

lemma seed_ids:
  "map tn_id (seed_tenants now') = map tn_id (seed_tenants now)"
  "map pm_id (seed_permissions now') = map pm_id (seed_permissions now)"
  "map ou_id (acme_units now') = map ou_id (acme_units now)"
  "map ou_id (globex_units now') = map ou_id (globex_units now)"
  "map ro_id (acme_roles now') = map ro_id (acme_roles now)"
  "map ro_id (globex_roles now') = map ro_id (globex_roles now)"
  "map ra_id (acme_assignments now') = map ra_id (acme_assignments now)"
  "map ra_id (globex_assignments now') = map ra_id (globex_assignments now)"
  by (simp_all add: seed_tenants_def seed_permissions_def seed_permission_def acme_units_def globex_units_def seed_unit_def
      acme_roles_def globex_roles_def seed_role_def acme_assignments_def globex_assignments_def seed_assignment_def)

lemma unit_parents:
  assumes "set (map ou_id (acme_units now)) \<subseteq> ids" and "set (map ou_id (globex_units now)) \<subseteq> ids"
  shows "\<forall>u \<in> set (acme_units now). case ou_parentId u of None \<Rightarrow> True | Some p \<Rightarrow> p \<in> ids"
    and "\<forall>u \<in> set (globex_units now). case ou_parentId u of None \<Rightarrow> True | Some p \<Rightarrow> p \<in> ids"
  using assms by (simp_all add: acme_units_def globex_units_def seed_unit_def)

text \<open>
  The seed script can be run again.  Whatever was in the database and however often the
  rows were changed since, a run that follows a successful one succeeds and changes nothing:
  no row is duplicated and no later edit of a seeded row is undone.
\<close>

theorem seeding_is_idempotent:
  assumes "seed_run now db = (Inr (), db')"
  shows "seed_run later db' = (Inr (), db')"
proof -
  obtain db1 db2 where g: "seedGlobal now db = (Inr (), db1)"
    and a: "seed_tenant_rows (acme_units now) (acme_roles now) ROLE_FINANCE_MANAGER (acme_assignments now) db1 = Inr db2"
    and b: "seed_tenant_rows (globex_units now) (globex_roles now) ROLE_OPS_MANAGER (globex_assignments now) db2 = Inr db'"
    using assms by (auto simp: seed_run_def seedAcme_def seedGlobex_def)
  note a' = seed_tenant_done(2)[OF b seed_tenant_done(1)[OF a]] and b' = seed_tenant_done(1)[OF b]
  have par: "set (map ou_id (acme_units later)) \<subseteq> ou_id ` set (db_units db')"
    "set (map ou_id (globex_units later)) \<subseteq> ou_id ` set (db_units db')"
    using a' b' by (simp_all add: tenant_seeded_def seed_ids[of later now] del: set_map)
  have "seed_tenant_rows (acme_units later) (acme_roles later) ROLE_FINANCE_MANAGER (acme_assignments later) db' = Inr db'"
    by (rule seed_tenant_again) (use a' unit_parents(1)[OF par] in \<open>simp_all only: seed_ids[of later now]\<close>)
  moreover have "seed_tenant_rows (globex_units later) (globex_roles later) ROLE_OPS_MANAGER (globex_assignments later) db' = Inr db'"
    by (rule seed_tenant_again) (use b' unit_parents(2)[OF par] in \<open>simp_all only: seed_ids[of later now]\<close>)
  moreover have "seedGlobal later db' = (Inr (), db')"
    by (rule seed_global_again) (use seed_global_done[OF g] seed_tenant_done(3,4)[OF a] seed_tenant_done(3,4)[OF b]
      in \<open>simp_all only: seed_ids[of later now]\<close>)
  ultimately show ?thesis by (simp add: seed_run_def seedAcme_def seedGlobex_def)
qed

lemma expense_seeding_is_idempotent:
  assumes "expense_seed_run now rows = (Inr (), rows')"
  shows "expense_seed_run later rows' = (Inr (), rows')"
proof -
  have ids: "ex_id ` set (acme_expenses later) = ex_id ` set (acme_expenses now)"
    "ex_id ` set (globex_expenses later) = ex_id ` set (globex_expenses now)"
    by (simp_all add: acme_expenses_def globex_expenses_def seed_expense_def)
  obtain rows1 where a: "insert_expenses (acme_expenses now) rows = Inr rows1"
    and b: "insert_expenses (globex_expenses now) rows1 = Inr rows'"
    using assms by (auto simp: expense_seed_run_def expense_seedAcme_def expense_seedGlobex_def)
  note all_there = insert_missing_ids[OF a[unfolded insert_defs]] insert_missing_ids[OF b[unfolded insert_defs]]
  have "insert_expenses (acme_expenses later) rows' = Inr rows'" "insert_expenses (globex_expenses later) rows' = Inr rows'"
    unfolding insert_defs by (rule insert_missing_present, unfold ids all_there, blast)+
  then show ?thesis by (simp add: expense_seed_run_def expense_seedAcme_def expense_seedGlobex_def)
qed

section \<open>What a fresh database holds after seeding\<close>

definition no_rows :: admin_db where
  "no_rows = \<lparr>db_units = [], db_roles = [], db_assignments = [],
              db_policies = \<lparr>ps_rows = [], ps_dir = Map.empty, ps_events = []\<rparr>, db_tenants = [], db_permissions = []\<rparr>"

definition seeded :: "int \<Rightarrow> admin_db" where "seeded now = snd (seed_run now no_rows)"

definition tenant_units :: "string \<Rightarrow> admin_db \<Rightarrow> org_table" where
  "tenant_units t db = filter (\<lambda>u. ou_tenantId u = t) (db_units db)"

definition tenant_roles :: "string \<Rightarrow> admin_db \<Rightarrow> role_table" where
  "tenant_roles t db = filter (\<lambda>r. ro_tenantId r = t) (db_roles db)"

definition tenant_assignments :: "string \<Rightarrow> admin_db \<Rightarrow> assignment_table" where
  "tenant_assignments t db = filter (\<lambda>a. ra_tenantId a = t) (db_assignments db)"

lemma seeding_succeeds: "fst (seed_run now no_rows) = Inr ()"
  by code_simp

lemma seeded_tenants: "tenants_ok (db_tenants (seeded now))"
  by code_simp

lemma seeded_roles: "roles_ok (tenant_roles TENANT_ACME (seeded now))" "roles_ok (tenant_roles TENANT_GLOBEX (seeded now))"
  by code_simp+

lemma seeded_trees: "org_tree (tenant_units TENANT_ACME (seeded now))" "org_tree (tenant_units TENANT_GLOBEX (seeded now))"
  by code_simp+

text \<open>What the PIP answers for a user of a tenant on the seeded rows of that tenant.\<close>

definition seeded_principal :: "int \<Rightarrow> int \<Rightarrow> string \<Rightarrow> string \<Rightarrow> string \<Rightarrow> principal_view result" where
  "seeded_principal now later t userId scope =
     resolvePrincipal_execute (\<lambda>gs. gs) t later userId scope
       (tenant_assignments t (seeded now)) (tenant_roles t (seeded now))"

lemma seeded_acme:
  "seeded_principal now later TENANT_ACME USER_UUID_RIYA ''acme.finance'' =
     Inr \<lparr>pv_id = USER_UUID_RIYA, pv_tenantId = TENANT_ACME, pv_roles = [''finance_manager''],
          pv_department = Some ''finance''\<rparr>"
  "seeded_principal now later TENANT_ACME USER_UUID_SAM ''acme.finance'' =
     Inr \<lparr>pv_id = USER_UUID_SAM, pv_tenantId = TENANT_ACME, pv_roles = [''engineer''], pv_department = None\<rparr>"
  "seeded_principal now later TENANT_ACME USER_UUID_RIYA ''acme'' =
     Inr \<lparr>pv_id = USER_UUID_RIYA, pv_tenantId = TENANT_ACME, pv_roles = [], pv_department = None\<rparr>"
  "seeded_principal now later TENANT_GLOBEX USER_UUID_GWEN ''globex.ops'' =
     Inr \<lparr>pv_id = USER_UUID_GWEN, pv_tenantId = TENANT_GLOBEX, pv_roles = [''ops_manager''],
          pv_department = Some ''ops''\<rparr>"
  by code_simp+

lemma seeding_is_idempotent_witness: "seed_run 9 (seeded 5) = (Inr (), seeded 5)"
proof -
  have "seed_run 5 no_rows = (Inr (), seeded 5)"
    using seeding_succeeds[of 5] by (metis prod.collapse seeded_def)
  then show ?thesis by (rule seeding_is_idempotent)
qed

end
