(* ===== verification/Sql.thy ===== *)
theory Sql
  imports TenantDb
begin

text \<open>
  What the migrations of the services use of Postgres: the catalogue of a database, the
  statements that change it, and the query runner of the migration tool, which runs all
  statements of a migration in one transaction.  A statement that fails aborts the
  transaction it is in: every later statement is refused, whether or not the program caught
  the error.
\<close>

section \<open>The catalogue\<close>

datatype sql_type =
    Uuid | Varchar nat | CharN nat | IntegerT | Bigserial | Timestamptz | Jsonb | Numeric nat nat

record column =
  cl_name :: string
  cl_type :: sql_type
  cl_nullable :: bool
  cl_default :: "string option"

datatype on_delete = SetNull | Cascade

record foreign_key =
  fk_name :: string
  fk_column :: string
  fk_table :: string
  fk_ref :: string
  fk_on_delete :: on_delete

record sql_table =
  tb_name :: string
  tb_columns :: "column list"
  tb_pk :: string
  tb_key :: "string list"
  tb_fks :: "foreign_key list"

text \<open>A key of an index: a column, descending, with the operator class of text patterns, or read as an ltree.\<close>

datatype index_key = KeyColumn string | KeyDesc string | KeyPattern string | KeyLtree string

record sql_index =
  ix_name :: string
  ix_table :: string
  ix_unique :: bool
  ix_gist :: bool
  ix_keys :: "index_key list"

text \<open>The expression column = current_setting(name, true)::uuid.\<close>

datatype policy_expr = EqualsSetting string string

record sql_policy =
  pl_name :: string
  pl_table :: string
  pl_using :: policy_expr
  pl_check :: policy_expr

record db_role =
  rl_name :: string
  rl_password :: string
  rl_login :: bool
  rl_superuser :: bool
  rl_bypassrls :: bool
  rl_createdb :: bool
  rl_createrole :: bool

datatype privilege = Select | Insert | Update | Delete | Usage

datatype grant_object = OnSchema string | OnTable string | OnFutureTables string | OnFutureSequences string

text \<open>A trigger FOR EACH ROW before some of the operations.\<close>

record sql_trigger =
  tg_name :: string
  tg_table :: string
  tg_before :: "privilege list"
  tg_function :: string

record catalog =
  ca_extensions :: "string list"
  ca_tables :: "sql_table list"
  ca_indexes :: "sql_index list"
  ca_rls_enabled :: "string list"
  ca_rls_forced :: "string list"
  ca_policies :: "sql_policy list"
  ca_functions :: "string list"
  ca_triggers :: "sql_trigger list"
  ca_roles :: "db_role list"
  ca_grants :: "(string \<times> grant_object \<times> privilege list) list"

section \<open>Statements\<close>

datatype statement =
    CreateExtension string
  | CreateTable sql_table
  | CreateIndex sql_index
  | EnableRls string
  | ForceRls string
  | CreatePolicy sql_policy
  | CreateRoleIfMissing db_role
  | GrantSchema string string
  | GrantAllTables string "privilege list"
  | GrantAllSequences string
  | GrantFutureTables string "privilege list"
  | GrantFutureSequences string
  | CreateFunction string
  | CreateTrigger sql_trigger
  | DropPolicyIfExists string string
  | DropTriggerIfExists string string
  | DropFunctionIfExists string
  | DropTableIfExists string

definition sql_error :: "string \<Rightarrow> exn" where
  "sql_error m = Crash (''QueryFailedError: '' @ m)"

definition table_named :: "string \<Rightarrow> catalog \<Rightarrow> sql_table option" where
  "table_named t cat = find (\<lambda>x. tb_name x = t) (ca_tables cat)"

definition has_table :: "string \<Rightarrow> catalog \<Rightarrow> bool" where
  "has_table t cat \<longleftrightarrow> t \<in> set (map tb_name (ca_tables cat))"

definition column_names :: "sql_table \<Rightarrow> string list" where
  "column_names t = map cl_name (tb_columns t)"

text \<open>Tables, the indexes of primary keys and other indexes share one name space.\<close>

definition relation_names :: "catalog \<Rightarrow> string list" where
  "relation_names cat = map tb_name (ca_tables cat) @ map tb_pk (ca_tables cat) @ map ix_name (ca_indexes cat)"

fun key_column :: "index_key \<Rightarrow> string" where
  "key_column (KeyColumn c) = c"
| "key_column (KeyDesc c) = c"
| "key_column (KeyPattern c) = c"
| "key_column (KeyLtree c) = c"

text \<open>The extensions a key needs: the ltree type, and the GiST operator classes of scalar types.\<close>

fun key_needs :: "bool \<Rightarrow> index_key \<Rightarrow> string list" where
  "key_needs gist (KeyLtree c) = [''ltree'']"
| "key_needs gist k = (if gist then [''btree_gist''] else [])"

definition create_table :: "sql_table \<Rightarrow> catalog \<Rightarrow> catalog result" where
  "create_table t cat =
     (if tb_name t \<in> set (relation_names cat) \<or> tb_pk t \<in> set (relation_names cat)
      then Inl (sql_error ''relation already exists'')
      else if \<not> distinct (column_names t) \<or> \<not> set (tb_key t) \<subseteq> set (column_names t) \<or>
              \<not> list_all (\<lambda>f. fk_column f \<in> set (column_names t)) (tb_fks t)
      then Inl (sql_error ''column does not exist or is repeated'')
      else if \<not> list_all (\<lambda>f. fk_table f = tb_name t \<or> has_table (fk_table f) cat) (tb_fks t)
      then Inl (sql_error ''relation does not exist'')
      else Inr (cat\<lparr>ca_tables := ca_tables cat @ [t]\<rparr>))"

definition create_index :: "sql_index \<Rightarrow> catalog \<Rightarrow> catalog result" where
  "create_index ix cat =
     (if ix_name ix \<in> set (relation_names cat) then Inl (sql_error ''relation already exists'')
      else
        (case table_named (ix_table ix) cat of
           None \<Rightarrow> Inl (sql_error ''relation does not exist'')
         | Some t \<Rightarrow>
             if \<not> list_all (\<lambda>k. key_column k \<in> set (column_names t)) (ix_keys ix)
             then Inl (sql_error ''column does not exist'')
             else if \<not> list_all (\<lambda>k. set (key_needs (ix_gist ix) k) \<subseteq> set (ca_extensions cat)) (ix_keys ix)
             then Inl (sql_error ''type, function or operator class does not exist'')
             else Inr (cat\<lparr>ca_indexes := ca_indexes cat @ [ix]\<rparr>)))"

text \<open>A table another one references is kept; with a table go its indexes, policies and triggers.\<close>

definition drop_table :: "string \<Rightarrow> catalog \<Rightarrow> catalog result" where
  "drop_table t cat =
     (if \<not> has_table t cat then Inr cat
      else if list_ex (\<lambda>x. tb_name x \<noteq> t \<and> list_ex (\<lambda>f. fk_table f = t) (tb_fks x)) (ca_tables cat)
      then Inl (sql_error ''cannot drop table because other objects depend on it'')
      else Inr (cat\<lparr>ca_tables := filter (\<lambda>x. tb_name x \<noteq> t) (ca_tables cat),
                   ca_indexes := filter (\<lambda>x. ix_table x \<noteq> t) (ca_indexes cat),
                   ca_rls_enabled := filter (\<lambda>x. x \<noteq> t) (ca_rls_enabled cat),
                   ca_rls_forced := filter (\<lambda>x. x \<noteq> t) (ca_rls_forced cat),
                   ca_policies := filter (\<lambda>x. pl_table x \<noteq> t) (ca_policies cat),
                   ca_triggers := filter (\<lambda>x. tg_table x \<noteq> t) (ca_triggers cat),
                   ca_grants := filter (\<lambda>(_, x, _). x \<noteq> OnTable t) (ca_grants cat)\<rparr>))"

definition needs_table :: "string \<Rightarrow> catalog \<Rightarrow> catalog \<Rightarrow> catalog result" where
  "needs_table t cat cat' = (if has_table t cat then Inr cat' else Inl (sql_error ''relation does not exist''))"

definition grant_to :: "string \<Rightarrow> (grant_object \<times> privilege list) list \<Rightarrow> catalog \<Rightarrow> catalog result" where
  "grant_to role grants cat =
     (if role \<notin> rl_name ` set (ca_roles cat) then Inl (sql_error ''role does not exist'')
      else Inr (cat\<lparr>ca_grants := foldl (\<lambda>gs g. set_add g gs) (ca_grants cat) (map (Pair role) grants)\<rparr>))"

text \<open>
  One statement.  \<^term>\<open>available\<close> says which extensions the server can create for the user
  of the migration.
\<close>

fun exec_sql :: "(string \<Rightarrow> bool) \<Rightarrow> statement \<Rightarrow> catalog \<Rightarrow> catalog result" where
  "exec_sql available (CreateExtension e) cat =
     (if e \<in> set (ca_extensions cat) then Inr cat
      else if available e then Inr (cat\<lparr>ca_extensions := ca_extensions cat @ [e]\<rparr>)
      else Inl (sql_error ''extension is not available''))"
| "exec_sql available (CreateTable t) cat = create_table t cat"
| "exec_sql available (CreateIndex ix) cat = create_index ix cat"
| "exec_sql available (EnableRls t) cat = needs_table t cat (cat\<lparr>ca_rls_enabled := set_add t (ca_rls_enabled cat)\<rparr>)"
| "exec_sql available (ForceRls t) cat = needs_table t cat (cat\<lparr>ca_rls_forced := set_add t (ca_rls_forced cat)\<rparr>)"
| "exec_sql available (CreatePolicy p) cat =
     (if list_ex (\<lambda>x. pl_name x = pl_name p \<and> pl_table x = pl_table p) (ca_policies cat)
      then Inl (sql_error ''policy already exists'')
      else needs_table (pl_table p) cat (cat\<lparr>ca_policies := ca_policies cat @ [p]\<rparr>))"
| "exec_sql available (CreateRoleIfMissing r) cat =
     (if rl_name r \<in> rl_name ` set (ca_roles cat) then Inr cat else Inr (cat\<lparr>ca_roles := ca_roles cat @ [r]\<rparr>))"
| "exec_sql available (GrantSchema s role) cat = grant_to role [(OnSchema s, [Usage])] cat"
| "exec_sql available (GrantAllTables role ps) cat =
     grant_to role (map (\<lambda>t. (OnTable (tb_name t), ps)) (ca_tables cat)) cat"
| "exec_sql available (GrantAllSequences role) cat = grant_to role [] cat"
| "exec_sql available (GrantFutureTables role ps) cat = grant_to role [(OnFutureTables ''public'', ps)] cat"
| "exec_sql available (GrantFutureSequences role) cat = grant_to role [(OnFutureSequences ''public'', [Usage, Select])] cat"
| "exec_sql available (CreateFunction f) cat = Inr (cat\<lparr>ca_functions := set_add f (ca_functions cat)\<rparr>)"
| "exec_sql available (CreateTrigger g) cat =
     (if tg_function g \<notin> set (ca_functions cat) then Inl (sql_error ''function does not exist'')
      else if list_ex (\<lambda>x. tg_name x = tg_name g \<and> tg_table x = tg_table g) (ca_triggers cat)
      then Inl (sql_error ''trigger already exists'')
      else needs_table (tg_table g) cat (cat\<lparr>ca_triggers := ca_triggers cat @ [g]\<rparr>))"
| "exec_sql available (DropPolicyIfExists n t) cat =
     Inr (cat\<lparr>ca_policies := filter (\<lambda>x. \<not> (pl_name x = n \<and> pl_table x = t)) (ca_policies cat)\<rparr>)"
| "exec_sql available (DropTriggerIfExists n t) cat =
     Inr (cat\<lparr>ca_triggers := filter (\<lambda>x. \<not> (tg_name x = n \<and> tg_table x = t)) (ca_triggers cat)\<rparr>)"
| "exec_sql available (DropFunctionIfExists f) cat =
     (if list_ex (\<lambda>x. tg_function x = f) (ca_triggers cat)
      then Inl (sql_error ''cannot drop function because other objects depend on it'')
      else Inr (cat\<lparr>ca_functions := filter (\<lambda>x. x \<noteq> f) (ca_functions cat)\<rparr>))"
| "exec_sql available (DropTableIfExists t) cat = drop_table t cat"

section \<open>The query runner\<close>

record query_runner =
  qr_in_tx :: bool
  qr_aborted :: bool
  qr_catalog :: catalog

definition query :: "(string \<Rightarrow> bool) \<Rightarrow> statement \<Rightarrow> query_runner \<Rightarrow> unit result \<times> query_runner" where
  "query available st qr =
     (if qr_aborted qr
      then (Inl (sql_error ''current transaction is aborted, commands ignored until end of transaction block''), qr)
      else
        (case exec_sql available st (qr_catalog qr) of
           Inl e \<Rightarrow> (Inl e, qr\<lparr>qr_aborted := qr_in_tx qr\<rparr>)
         | Inr cat \<Rightarrow> (Inr (), qr\<lparr>qr_catalog := cat\<rparr>)))"

fun queries :: "(string \<Rightarrow> bool) \<Rightarrow> statement list \<Rightarrow> query_runner \<Rightarrow> unit result \<times> query_runner" where
  "queries available [] qr = (Inr (), qr)"
| "queries available (st # sts) qr =
     (case query available st qr of
        (Inl e, qr') \<Rightarrow> (Inl e, qr')
      | (Inr _, qr') \<Rightarrow> queries available sts qr')"

text \<open>A statement whose failure the program catches.\<close>

definition try_query :: "(string \<Rightarrow> bool) \<Rightarrow> statement \<Rightarrow> query_runner \<Rightarrow> bool \<times> query_runner" where
  "try_query available st qr =
     (case query available st qr of (Inl _, qr') \<Rightarrow> (False, qr') | (Inr _, qr') \<Rightarrow> (True, qr'))"

text \<open>One direction of a migration, in the transaction of the tool or with every statement on its own.\<close>

definition migrate ::
  "bool \<Rightarrow> (query_runner \<Rightarrow> unit result \<times> query_runner) \<Rightarrow> catalog \<Rightarrow> unit result \<times> catalog" where
  "migrate in_tx step cat =
     (case step \<lparr>qr_in_tx = in_tx, qr_aborted = False, qr_catalog = cat\<rparr> of
        (Inl e, qr) \<Rightarrow> (Inl e, if in_tx then cat else qr_catalog qr)
      | (Inr _, qr) \<Rightarrow> (Inr (), if qr_aborted qr then cat else qr_catalog qr))"

section \<open>Aborted transactions\<close>

lemma query_aborted: "qr_aborted qr \<Longrightarrow> \<not> is_ok (fst (query available st qr))"
  by (simp add: query_def)

lemma queries_aborted: "qr_aborted qr \<Longrightarrow> sts \<noteq> [] \<Longrightarrow> \<not> is_ok (fst (queries available sts qr))"
  by (cases sts) (simp_all add: query_def)

lemma try_query_aborted:
  "try_query available st qr = (ok, qr') \<Longrightarrow> qr_aborted qr \<or> (qr_in_tx qr \<and> \<not> ok) \<Longrightarrow> qr_aborted qr'"
  by (auto simp: try_query_def query_def split: if_splits sum.splits prod.splits)

lemma queries_append:
  "queries available (xs @ ys) qr =
     (case queries available xs qr of (Inl e, qr') \<Rightarrow> (Inl e, qr') | (Inr _, qr') \<Rightarrow> queries available ys qr')"
  by (induction xs arbitrary: qr) (auto split: prod.splits sum.splits)

section \<open>Who row-level security binds\<close>

text \<open>
  Policies apply to a role that does not bypass them, on a table that has them enabled; to
  the owner of the table only when they are forced.  The isolation policy must be the only
  one, since permissive policies add up.
\<close>

definition tenant_isolated :: "catalog \<Rightarrow> string \<Rightarrow> bool" where
  "tenant_isolated cat t \<longleftrightarrow>
     t \<in> set (ca_rls_enabled cat) \<and> t \<in> set (ca_rls_forced cat) \<and>
     (let ps = filter (\<lambda>p. pl_table p = t) (ca_policies cat);
          tenant = EqualsSetting ''tenant_id'' ''app.current_tenant''
      in ps \<noteq> [] \<and> list_all (\<lambda>p. pl_using p = tenant \<and> pl_check p = tenant) ps)"

text \<open>What the boot check reads of the role it runs as.\<close>

definition role_rows :: "catalog \<Rightarrow> string \<Rightarrow> role_privileges list" where
  "role_rows cat role =
     map (\<lambda>r. \<lparr>rp_is_superuser = (if rl_superuser r then ''on'' else ''off''), rp_rolbypassrls = rl_bypassrls r\<rparr>)
       (filter (\<lambda>r. rl_name r = role) (ca_roles cat))"

end
