(* ===== verification/Schema.thy ===== *)
theory Schema
  imports Sql
begin

text \<open>
  The initial migrations of the three services that own a database
  (apps/authz-admin, apps/expense and apps/audit, src/shared/infrastructure/database/migrations),
  forwards and backwards, as the statements of the theory Sql.
\<close>

section \<open>Columns\<close>

definition req :: "string \<Rightarrow> sql_type \<Rightarrow> column" where
  "req n t = \<lparr>cl_name = n, cl_type = t, cl_nullable = False, cl_default = None\<rparr>"

definition opt :: "string \<Rightarrow> sql_type \<Rightarrow> column" where
  "opt n t = \<lparr>cl_name = n, cl_type = t, cl_nullable = True, cl_default = None\<rparr>"

definition dflt :: "string \<Rightarrow> sql_type \<Rightarrow> string \<Rightarrow> column" where
  "dflt n t d = \<lparr>cl_name = n, cl_type = t, cl_nullable = False, cl_default = Some d\<rparr>"

definition stamps :: "column list" where
  "stamps = [dflt ''created_at'' Timestamptz ''now()'', dflt ''updated_at'' Timestamptz ''now()'']"

definition btree_index :: "bool \<Rightarrow> string \<Rightarrow> string \<Rightarrow> index_key list \<Rightarrow> sql_index" where
  "btree_index unique name table keys =
     \<lparr>ix_name = name, ix_table = table, ix_unique = unique, ix_gist = False, ix_keys = keys\<rparr>"

definition gist_index :: "string \<Rightarrow> string \<Rightarrow> index_key list \<Rightarrow> sql_index" where
  "gist_index name table keys =
     \<lparr>ix_name = name, ix_table = table, ix_unique = False, ix_gist = True, ix_keys = keys\<rparr>"

section \<open>The tables of authz-admin\<close>

definition tenants_table :: sql_table where
  "tenants_table =
     \<lparr>tb_name = ''tenants'',
      tb_columns = [req ''id'' Uuid, req ''name'' (Varchar 200), req ''slug'' (Varchar 100), req ''status'' (Varchar 20),
                    req ''isolation_tier'' (Varchar 20), req ''version'' IntegerT] @ stamps,
      tb_pk = ''pk_tenants'', tb_key = [''id''], tb_fks = []\<rparr>"

definition permissions_table :: sql_table where
  "permissions_table =
     \<lparr>tb_name = ''permissions'',
      tb_columns = [req ''id'' Uuid, req ''key'' (Varchar 150), req ''description'' (Varchar 500),
                    req ''version'' IntegerT] @ stamps,
      tb_pk = ''pk_permissions'', tb_key = [''id''], tb_fks = []\<rparr>"

definition org_units_table :: sql_table where
  "org_units_table =
     \<lparr>tb_name = ''org_units'',
      tb_columns = [req ''id'' Uuid, req ''tenant_id'' Uuid, opt ''parent_id'' Uuid, req ''path'' (Varchar 1024),
                    req ''name'' (Varchar 200), req ''version'' IntegerT] @ stamps,
      tb_pk = ''pk_org_units'', tb_key = [''id''],
      tb_fks = [\<lparr>fk_name = ''fk_org_units_parent'', fk_column = ''parent_id'', fk_table = ''org_units'',
                 fk_ref = ''id'', fk_on_delete = SetNull\<rparr>]\<rparr>"

definition roles_table :: sql_table where
  "roles_table =
     \<lparr>tb_name = ''roles'',
      tb_columns = [req ''id'' Uuid, req ''tenant_id'' Uuid, req ''key'' (Varchar 100), req ''scope'' (Varchar 255),
                    dflt ''description'' (Varchar 500) '''', req ''version'' IntegerT] @ stamps,
      tb_pk = ''pk_roles'', tb_key = [''id''], tb_fks = []\<rparr>"

definition role_permissions_table :: sql_table where
  "role_permissions_table =
     \<lparr>tb_name = ''role_permissions'',
      tb_columns = [req ''role_id'' Uuid, req ''permission'' (Varchar 255), req ''tenant_id'' Uuid],
      tb_pk = ''pk_role_permissions'', tb_key = [''role_id'', ''permission''],
      tb_fks = [\<lparr>fk_name = ''fk_role_permissions_role'', fk_column = ''role_id'', fk_table = ''roles'',
                 fk_ref = ''id'', fk_on_delete = Cascade\<rparr>]\<rparr>"

definition role_assignments_table :: sql_table where
  "role_assignments_table =
     \<lparr>tb_name = ''role_assignments'',
      tb_columns = [req ''id'' Uuid, req ''tenant_id'' Uuid, req ''user_id'' (Varchar 255), req ''role_id'' (Varchar 255),
                    req ''scope'' (Varchar 255), req ''status'' (Varchar 20), opt ''valid_until'' Timestamptz,
                    opt ''delegated_by'' (Varchar 255), req ''version'' IntegerT] @ stamps,
      tb_pk = ''pk_role_assignments'', tb_key = [''id''], tb_fks = []\<rparr>"

definition policies_table :: sql_table where
  "policies_table =
     \<lparr>tb_name = ''policies'',
      tb_columns = [req ''id'' Uuid, req ''tenant_id'' Uuid, req ''scope'' (Varchar 255), req ''rule'' Jsonb,
                    req ''status'' (Varchar 20), req ''version'' IntegerT, req ''effective_date'' Timestamptz] @ stamps,
      tb_pk = ''pk_policies'', tb_key = [''id''], tb_fks = []\<rparr>"

text \<open>The index for subtree scans, by what could be installed.\<close>

definition path_indexes :: "bool \<Rightarrow> bool \<Rightarrow> sql_index list" where
  "path_indexes hasLtree hasBtreeGist =
     (if hasLtree \<and> hasBtreeGist
      then [gist_index ''ix_org_units_tenant_path_gist'' ''org_units'' [KeyColumn ''tenant_id'', KeyLtree ''path'']]
      else if hasLtree
      then [gist_index ''ix_org_units_path_gist'' ''org_units'' [KeyLtree ''path''],
            btree_index False ''ix_org_units_tenant'' ''org_units'' [KeyColumn ''tenant_id'']]
      else [btree_index False ''ix_org_units_tenant_path_prefix'' ''org_units''
              [KeyColumn ''tenant_id'', KeyPattern ''path'']])"

definition admin_tables :: "bool \<Rightarrow> bool \<Rightarrow> statement list" where
  "admin_tables hasLtree hasBtreeGist =
     [CreateTable tenants_table,
      CreateIndex (btree_index True ''uq_tenants_slug'' ''tenants'' [KeyColumn ''slug'']),
      CreateTable permissions_table,
      CreateIndex (btree_index True ''uq_permissions_key'' ''permissions'' [KeyColumn ''key'']),
      CreateTable org_units_table,
      CreateIndex (btree_index True ''uq_org_units_tenant_path'' ''org_units'' [KeyColumn ''tenant_id'', KeyColumn ''path''])] @
     map CreateIndex (path_indexes hasLtree hasBtreeGist) @
     [CreateTable roles_table,
      CreateIndex (btree_index True ''uq_roles_tenant_key'' ''roles'' [KeyColumn ''tenant_id'', KeyColumn ''key'']),
      CreateTable role_permissions_table,
      CreateIndex (btree_index False ''idx_role_permissions_tenant'' ''role_permissions'' [KeyColumn ''tenant_id'']),
      CreateTable role_assignments_table,
      CreateIndex (btree_index False ''ix_role_assignments_tenant_user'' ''role_assignments''
        [KeyColumn ''tenant_id'', KeyColumn ''user_id'']),
      CreateIndex (btree_index False ''ix_role_assignments_tenant_role'' ''role_assignments''
        [KeyColumn ''tenant_id'', KeyColumn ''role_id'']),
      CreateTable policies_table,
      CreateIndex (btree_index True ''uq_policies_scope_version'' ''policies''
        [KeyColumn ''tenant_id'', KeyColumn ''scope'', KeyColumn ''version'']),
      CreateIndex (btree_index False ''ix_policies_scope'' ''policies'' [KeyColumn ''scope''])]"

section \<open>Row-level security and the application role\<close>

definition isolation_policy :: "string \<Rightarrow> sql_policy" where
  "isolation_policy t =
     \<lparr>pl_name = t @ ''_tenant_isolation'', pl_table = t,
      pl_using = EqualsSetting ''tenant_id'' ''app.current_tenant'',
      pl_check = EqualsSetting ''tenant_id'' ''app.current_tenant''\<rparr>"

definition isolate :: "string \<Rightarrow> statement list" where
  "isolate t = [EnableRls t, ForceRls t, CreatePolicy (isolation_policy t)]"

definition crud :: "privilege list" where "crud = [Select, Insert, Update, Delete]"

text \<open>The name loses its quotes; the quotes of the password are escaped, so it is what was configured.\<close>

definition app_role_name :: "string option \<Rightarrow> string \<Rightarrow> string" where
  "app_role_name username fallback = filter (\<lambda>c. c \<noteq> CHR 0x22) (or_default username fallback)"

definition app_role :: "string \<Rightarrow> string \<Rightarrow> db_role" where
  "app_role name password =
     \<lparr>rl_name = name, rl_password = password, rl_login = True, rl_superuser = False, rl_bypassrls = False,
      rl_createdb = False, rl_createrole = False\<rparr>"

definition provision :: "string \<Rightarrow> string \<Rightarrow> statement list" where
  "provision role password =
     [CreateRoleIfMissing (app_role role password), GrantSchema ''public'' role, GrantAllTables role crud,
      GrantAllSequences role, GrantFutureTables role crud, GrantFutureSequences role]"

section \<open>The migrations\<close>

record db_env =
  de_appUsername :: "string option"
  de_appPassword :: "string option"

definition admin_up ::
  "(string \<Rightarrow> bool) \<Rightarrow> bool \<Rightarrow> db_env \<Rightarrow> query_runner \<Rightarrow> unit result \<times> query_runner" where
  "admin_up available isPostgres env qr =
     (let (hasLtree, qr1) = (if isPostgres then try_query available (CreateExtension ''ltree'') qr else (False, qr));
          (hasBtreeGist, qr2) = (if isPostgres then try_query available (CreateExtension ''btree_gist'') qr1 else (False, qr1));
          qr3 = (if isPostgres then snd (try_query available (CreateExtension ''pgcrypto'') qr2) else qr2)
      in queries available
           (admin_tables hasLtree hasBtreeGist @
            (if isPostgres
             then concat (map isolate [''org_units'', ''roles'', ''role_permissions'', ''role_assignments'', ''policies'']) @
                  provision (app_role_name (de_appUsername env) ''authz_app'') (or_default (de_appPassword env) ''authz_app'')
             else []))
           qr3)"

definition drop_isolation :: "string \<Rightarrow> statement" where
  "drop_isolation t = DropPolicyIfExists (t @ ''_tenant_isolation'') t"

definition admin_down :: "(string \<Rightarrow> bool) \<Rightarrow> bool \<Rightarrow> query_runner \<Rightarrow> unit result \<times> query_runner" where
  "admin_down available isPostgres =
     queries available
       ((if isPostgres
         then map drop_isolation [''policies'', ''role_assignments'', ''role_permissions'', ''roles'', ''org_units'']
         else []) @
        map DropTableIfExists
          [''policies'', ''role_assignments'', ''role_permissions'', ''roles'', ''org_units'', ''permissions'', ''tenants''])"

definition expenses_table :: sql_table where
  "expenses_table =
     \<lparr>tb_name = ''expenses'',
      tb_columns = [req ''id'' (Varchar 64), req ''tenant_id'' Uuid, req ''amount'' (Numeric 14 2), req ''currency'' (Varchar 3),
                    req ''department'' (Varchar 100), req ''owner_id'' (Varchar 255), req ''status'' (Varchar 20),
                    dflt ''description'' (Varchar 1000) '''', req ''scope'' (Varchar 255), req ''version'' IntegerT] @ stamps,
      tb_pk = ''pk_expenses'', tb_key = [''id''], tb_fks = []\<rparr>"

definition expense_up ::
  "(string \<Rightarrow> bool) \<Rightarrow> bool \<Rightarrow> db_env \<Rightarrow> query_runner \<Rightarrow> unit result \<times> query_runner" where
  "expense_up available isPostgres env =
     queries available
       ([CreateTable expenses_table,
         CreateIndex (btree_index False ''ix_expenses_tenant'' ''expenses'' [KeyColumn ''tenant_id'']),
         CreateIndex (btree_index False ''ix_expenses_tenant_created'' ''expenses''
           [KeyColumn ''tenant_id'', KeyColumn ''created_at'', KeyColumn ''id''])] @
        (if isPostgres
         then isolate ''expenses'' @
              provision (app_role_name (de_appUsername env) ''expense_app'') (or_default (de_appPassword env) ''expense_app'')
         else []))"

definition expense_down :: "(string \<Rightarrow> bool) \<Rightarrow> bool \<Rightarrow> query_runner \<Rightarrow> unit result \<times> query_runner" where
  "expense_down available isPostgres =
     queries available
       ((if isPostgres then [drop_isolation ''expenses''] else []) @ [DropTableIfExists ''expenses''])"

definition audit_events_table :: sql_table where
  "audit_events_table =
     \<lparr>tb_name = ''audit_events'',
      tb_columns = [req ''seq'' Bigserial, req ''id'' Uuid, req ''tenant_id'' Uuid, req ''actor'' (Varchar 255),
                    req ''action'' (Varchar 255), req ''decision'' (Varchar 20), req ''resource_kind'' (Varchar 255),
                    req ''resource_id'' (Varchar 255), opt ''reason'' (Varchar 1024), opt ''policy'' (Varchar 512),
                    opt ''decision_id'' (Varchar 255), opt ''trace_id'' (Varchar 255), req ''occurred_at'' Timestamptz,
                    dflt ''recorded_at'' Timestamptz ''now()'', req ''prev_hash'' (CharN 64), req ''record_hash'' (CharN 64)],
      tb_pk = ''pk_audit_events'', tb_key = [''seq''], tb_fks = []\<rparr>"

definition block_update_delete :: sql_trigger where
  "block_update_delete =
     \<lparr>tg_name = ''audit_events_block_update_delete'', tg_table = ''audit_events'', tg_before = [Update, Delete],
      tg_function = ''audit_events_no_mutate''\<rparr>"

definition audit_up :: "(string \<Rightarrow> bool) \<Rightarrow> bool \<Rightarrow> query_runner \<Rightarrow> unit result \<times> query_runner" where
  "audit_up available isPostgres qr =
     queries available
       ([CreateTable audit_events_table,
         CreateIndex (btree_index True ''uq_audit_events_id'' ''audit_events'' [KeyColumn ''id'']),
         CreateIndex (btree_index True ''uq_audit_events_record_hash'' ''audit_events'' [KeyColumn ''record_hash'']),
         CreateIndex (btree_index False ''ix_audit_events_tenant_seq'' ''audit_events'' [KeyColumn ''tenant_id'', KeyDesc ''seq'']),
         CreateIndex (btree_index False ''ix_audit_events_trace'' ''audit_events'' [KeyColumn ''trace_id''])] @
        (if isPostgres then [CreateFunction ''audit_events_no_mutate'', CreateTrigger block_update_delete] else []))
       (if isPostgres then snd (try_query available (CreateExtension ''pgcrypto'') qr) else qr)"

definition audit_down :: "(string \<Rightarrow> bool) \<Rightarrow> bool \<Rightarrow> query_runner \<Rightarrow> unit result \<times> query_runner" where
  "audit_down available isPostgres =
     queries available
       ((if isPostgres
         then [DropTriggerIfExists ''audit_events_block_update_delete'' ''audit_events'',
               DropFunctionIfExists ''audit_events_no_mutate'']
         else []) @ [DropTableIfExists ''audit_events''])"

section \<open>A database before its first migration\<close>

definition bare :: "string list \<Rightarrow> db_role list \<Rightarrow> (string \<times> grant_object \<times> privilege list) list \<Rightarrow> catalog" where
  "bare extensions roles grants =
     \<lparr>ca_extensions = extensions, ca_tables = [], ca_indexes = [], ca_rls_enabled = [], ca_rls_forced = [],
      ca_policies = [], ca_functions = [], ca_triggers = [], ca_roles = roles, ca_grants = grants\<rparr>"

section \<open>The services\<close>

datatype db_service = AdminDb | ExpenseDb | AuditDb

definition service_up ::
  "db_service \<Rightarrow> (string \<Rightarrow> bool) \<Rightarrow> db_env \<Rightarrow> query_runner \<Rightarrow> unit result \<times> query_runner" where
  "service_up s available env =
     (case s of
        AdminDb \<Rightarrow> admin_up available True env
      | ExpenseDb \<Rightarrow> expense_up available True env
      | AuditDb \<Rightarrow> audit_up available True)"

definition service_down :: "db_service \<Rightarrow> (string \<Rightarrow> bool) \<Rightarrow> query_runner \<Rightarrow> unit result \<times> query_runner" where
  "service_down s available =
     (case s of
        AdminDb \<Rightarrow> admin_down available True
      | ExpenseDb \<Rightarrow> expense_down available True
      | AuditDb \<Rightarrow> audit_down available True)"

text \<open>The role the API of a service connects as.\<close>

definition service_role :: "db_service \<Rightarrow> db_env \<Rightarrow> string" where
  "service_role s env =
     app_role_name (de_appUsername env) (case s of AdminDb \<Rightarrow> ''authz_app'' | _ \<Rightarrow> ''expense_app'')"

end
