(* ===== verification/SchemaSafety.thy ===== *)
theory SchemaSafety
  imports Schema
begin

text \<open>
  What the migrations establish: every table of a tenant is isolated by row-level security,
  reverting a migration leaves nothing behind and it can be applied again, and the decision
  log only grows.
\<close>


section \<open>The administration schema\<close>

definition admin_extensions :: "string list" where "admin_extensions = [''ltree'', ''btree_gist'', ''pgcrypto'']"

definition admin_scoped :: "string list" where
  "admin_scoped = [''org_units'', ''roles'', ''role_permissions'', ''role_assignments'', ''policies'']"

text \<open>What the migration leaves, before the application role is provisioned.\<close>

definition admin_schema :: "db_role list \<Rightarrow> (string \<times> grant_object \<times> privilege list) list \<Rightarrow> catalog" where
  "admin_schema roles grants =
     (bare admin_extensions roles grants)\<lparr>
      ca_tables := [tenants_table, permissions_table, org_units_table, roles_table, role_permissions_table,
                   role_assignments_table, policies_table],
      ca_indexes := List.map_filter (\<lambda>st. case st of CreateIndex ix \<Rightarrow> Some ix | _ \<Rightarrow> None) (admin_tables True True),
      ca_rls_enabled := admin_scoped, ca_rls_forced := admin_scoped,
      ca_policies := map isolation_policy admin_scoped\<rparr>"

text \<open>The grants that are left when tables are dropped.\<close>

definition grants_without :: "string list \<Rightarrow> (string \<times> grant_object \<times> privilege list) list \<Rightarrow>
  (string \<times> grant_object \<times> privilege list) list" where
  "grants_without ts grants = foldl (\<lambda>gs t. filter (\<lambda>(_, x, _). x \<noteq> OnTable t) gs) grants ts"

lemma admin_statements:
  "queries available (admin_tables True True @ concat (map isolate admin_scoped))
     \<lparr>qr_in_tx = tx, qr_aborted = False, qr_catalog = bare admin_extensions roles grants\<rparr> =
   (Inr (), \<lparr>qr_in_tx = tx, qr_aborted = False, qr_catalog = admin_schema roles grants\<rparr>)"
  by code_simp

lemma admin_down_statements:
  "admin_down available True \<lparr>qr_in_tx = tx, qr_aborted = False, qr_catalog = admin_schema roles grants\<rparr> =
   (Inr (), \<lparr>qr_in_tx = tx, qr_aborted = False,
             qr_catalog = bare admin_extensions roles (grants_without (rev (map tb_name (ca_tables (admin_schema roles grants)))) grants)\<rparr>)"
  by code_simp

definition expense_schema :: "string list \<Rightarrow> db_role list \<Rightarrow> (string \<times> grant_object \<times> privilege list) list \<Rightarrow> catalog" where
  "expense_schema extensions roles grants =
     (bare extensions roles grants)\<lparr>
      ca_tables := [expenses_table],
      ca_indexes := [btree_index False ''ix_expenses_tenant'' ''expenses'' [KeyColumn ''tenant_id''],
         btree_index False ''ix_expenses_tenant_created'' ''expenses'' [KeyColumn ''tenant_id'', KeyColumn ''created_at'', KeyColumn ''id'']],
      ca_rls_enabled := [''expenses''], ca_rls_forced := [''expenses''],
      ca_policies := [isolation_policy ''expenses'']\<rparr>"

lemma expense_statements:
  "queries available
       ([CreateTable expenses_table,
         CreateIndex (btree_index False ''ix_expenses_tenant'' ''expenses'' [KeyColumn ''tenant_id'']),
         CreateIndex (btree_index False ''ix_expenses_tenant_created'' ''expenses''
           [KeyColumn ''tenant_id'', KeyColumn ''created_at'', KeyColumn ''id''])] @ isolate ''expenses'')
     \<lparr>qr_in_tx = tx, qr_aborted = False, qr_catalog = bare extensions roles grants\<rparr> =
   (Inr (), \<lparr>qr_in_tx = tx, qr_aborted = False, qr_catalog = expense_schema extensions roles grants\<rparr>)"
  by code_simp

lemma expense_down_statements:
  "expense_down available True \<lparr>qr_in_tx = tx, qr_aborted = False, qr_catalog = expense_schema extensions roles grants\<rparr> =
   (Inr (), \<lparr>qr_in_tx = tx, qr_aborted = False, qr_catalog = bare extensions roles (grants_without [''expenses''] grants)\<rparr>)"
  by code_simp

definition audit_schema :: "string list \<Rightarrow> db_role list \<Rightarrow> (string \<times> grant_object \<times> privilege list) list \<Rightarrow> catalog" where
  "audit_schema extensions roles grants =
     (bare extensions roles grants)\<lparr>
      ca_tables := [audit_events_table],
      ca_indexes := [btree_index True ''uq_audit_events_id'' ''audit_events'' [KeyColumn ''id''],
         btree_index True ''uq_audit_events_record_hash'' ''audit_events'' [KeyColumn ''record_hash''],
         btree_index False ''ix_audit_events_tenant_seq'' ''audit_events'' [KeyColumn ''tenant_id'', KeyDesc ''seq''],
         btree_index False ''ix_audit_events_trace'' ''audit_events'' [KeyColumn ''trace_id'']],
      ca_functions := [''audit_events_no_mutate''], ca_triggers := [block_update_delete]\<rparr>"

lemma audit_statements:
  "audit_up available True \<lparr>qr_in_tx = True, qr_aborted = False, qr_catalog = bare [''pgcrypto''] roles grants\<rparr> =
   (Inr (), \<lparr>qr_in_tx = True, qr_aborted = False, qr_catalog = audit_schema [''pgcrypto''] roles grants\<rparr>)"
  by code_simp

lemma audit_down_statements:
  "audit_down available True \<lparr>qr_in_tx = True, qr_aborted = False, qr_catalog = audit_schema extensions roles grants\<rparr> =
   (Inr (), \<lparr>qr_in_tx = True, qr_aborted = False, qr_catalog = bare extensions roles (grants_without [''audit_events''] grants)\<rparr>)"
  by code_simp

text \<open>Provisioning changes only roles and grants.\<close>

definition with_role :: "string \<Rightarrow> string \<Rightarrow> db_role list \<Rightarrow> db_role list" where
  "with_role role password roles = (if role \<in> rl_name ` set roles then roles else roles @ [app_role role password])"

lemma app_role_named [simp]: "rl_name (app_role role password) = role"
  by (simp add: app_role_def)

lemma with_role_there: "role \<in> rl_name ` set (with_role role password roles)"
  by (auto simp: with_role_def)

lemma provision_run:
  "\<exists>grants'. queries available (provision role password) \<lparr>qr_in_tx = tx, qr_aborted = False, qr_catalog = cat\<rparr> =
     (Inr (), \<lparr>qr_in_tx = tx, qr_aborted = False,
               qr_catalog = cat\<lparr>ca_roles := with_role role password (ca_roles cat), ca_grants := grants'\<rparr>\<rparr>)"
  using with_role_there[of role password "ca_roles cat"]
  by (auto simp: provision_def query_def grant_to_def with_role_def)

lemma try_extension:
  "try_query available (CreateExtension e) \<lparr>qr_in_tx = True, qr_aborted = False, qr_catalog = cat\<rparr> =
     (if e \<in> set (ca_extensions cat) then (True, \<lparr>qr_in_tx = True, qr_aborted = False, qr_catalog = cat\<rparr>)
      else if available e then (True, \<lparr>qr_in_tx = True, qr_aborted = False,
                                      qr_catalog = cat\<lparr>ca_extensions := ca_extensions cat @ [e]\<rparr>\<rparr>)
      else (False, \<lparr>qr_in_tx = True, qr_aborted = True, qr_catalog = cat\<rparr>))"
  by (simp add: try_query_def query_def)

lemma try_aborted: "qr_aborted qr \<Longrightarrow> try_query available st qr = (False, qr)"
  by (simp add: try_query_def query_def)

lemma admin_tables_aborted:
  "qr_aborted qr \<Longrightarrow> queries available (admin_tables a b @ xs) qr \<noteq> (Inr u, qr')"
  by (simp add: admin_tables_def query_def)

definition admin_role :: "db_env \<Rightarrow> db_role list \<Rightarrow> db_role list" where
  "admin_role env = with_role (app_role_name (de_appUsername env) ''authz_app'') (or_default (de_appPassword env) ''authz_app'')"

definition expense_role :: "db_env \<Rightarrow> db_role list \<Rightarrow> db_role list" where
  "expense_role env = with_role (app_role_name (de_appUsername env) ''expense_app'') (or_default (de_appPassword env) ''expense_app'')"

lemma schema_update [simp]:
  "(admin_schema roles grants)\<lparr>ca_roles := rs, ca_grants := gs\<rparr> = admin_schema rs gs"
  "(expense_schema exts roles grants)\<lparr>ca_roles := rs, ca_grants := gs\<rparr> = expense_schema exts rs gs"
  "ca_roles (admin_schema roles grants) = roles" "ca_roles (expense_schema exts roles grants) = roles"
  "ca_roles (audit_schema exts roles grants) = roles"
  by (simp_all add: admin_schema_def expense_schema_def audit_schema_def bare_def)

lemma queries_then: "queries available xs qr = (Inr u, qr') \<Longrightarrow> queries available (xs @ ys) qr = queries available ys qr'"
  by (simp add: queries_append)

lemma admin_up_extensions:
  assumes "fst (migrate True (admin_up available True env) (bare [] roles grants)) = Inr ()"
  shows "\<forall>e \<in> set admin_extensions. available e"
proof (rule ccontr)
  assume "\<not> ?thesis"
  then have "\<not> available ''ltree'' \<or> \<not> available ''btree_gist'' \<or> \<not> available ''pgcrypto''" by (auto simp: admin_extensions_def)
  then show False
    using assms admin_tables_aborted
    by (auto simp: migrate_def admin_up_def try_extension try_aborted bare_def Let_def split: if_splits prod.splits sum.splits)
qed

lemma admin_up_run:
  assumes "\<forall>e \<in> set admin_extensions. available e" and "exts = [] \<or> exts = admin_extensions"
  shows "\<exists>grants'. migrate True (admin_up available True env) (bare exts roles grants) =
    (Inr (), admin_schema (admin_role env roles) grants')"
proof -
  let ?qr = "\<lambda>c. \<lparr>qr_in_tx = True, qr_aborted = False, qr_catalog = c\<rparr>"
  have "admin_up available True env (?qr (bare exts roles grants)) =
    queries available ((admin_tables True True @ concat (map isolate admin_scoped)) @
      provision (app_role_name (de_appUsername env) ''authz_app'') (or_default (de_appPassword env) ''authz_app''))
      (?qr (bare admin_extensions roles grants))"
    using assms by (auto simp: admin_up_def try_extension bare_def admin_extensions_def admin_scoped_def)
  also have "\<dots> = queries available (provision (app_role_name (de_appUsername env) ''authz_app'') (or_default (de_appPassword env) ''authz_app''))
      (?qr (admin_schema roles grants))"
    by (rule queries_then[OF admin_statements])
  finally show ?thesis
    using provision_run[of available "app_role_name (de_appUsername env) ''authz_app''" "or_default (de_appPassword env) ''authz_app''"
        True "admin_schema roles grants"]
    by (auto simp: migrate_def admin_role_def)
qed

lemma expense_up_run:
  "\<exists>grants'. migrate True (expense_up available True env) (bare exts roles grants) =
    (Inr (), expense_schema exts (expense_role env roles) grants')"
proof -
  let ?qr = "\<lambda>c. \<lparr>qr_in_tx = True, qr_aborted = False, qr_catalog = c\<rparr>"
  have "expense_up available True env (?qr (bare exts roles grants)) =
    queries available (provision (app_role_name (de_appUsername env) ''expense_app'') (or_default (de_appPassword env) ''expense_app''))
      (?qr (expense_schema exts roles grants))"
    using queries_then[OF expense_statements[of available True exts roles grants]] by (simp add: expense_up_def)
  then show ?thesis
    using provision_run[of available "app_role_name (de_appUsername env) ''expense_app''" "or_default (de_appPassword env) ''expense_app''"
        True "expense_schema exts roles grants"]
    by (auto simp: migrate_def expense_role_def)
qed

lemma audit_up_run:
  assumes "available ''pgcrypto''" and "exts = [] \<or> exts = [''pgcrypto'']"
  shows "migrate True (audit_up available True) (bare exts roles grants) = (Inr (), audit_schema [''pgcrypto''] roles grants)"
proof -
  let ?qr = "\<lambda>c. \<lparr>qr_in_tx = True, qr_aborted = False, qr_catalog = c\<rparr>"
  have "audit_up available True (?qr (bare exts roles grants)) = audit_up available True (?qr (bare [''pgcrypto''] roles grants))"
    using assms by (auto simp: audit_up_def try_extension bare_def)
  then show ?thesis by (simp add: migrate_def audit_statements)
qed

lemma audit_up_extensions:
  assumes "fst (migrate True (audit_up available True) (bare [] roles grants)) = Inr ()"
  shows "available ''pgcrypto''"
  using assms by (auto simp: migrate_def audit_up_def try_extension bare_def query_def split: if_splits prod.splits sum.splits)


section \<open>The three services\<close>

definition no_objects :: "catalog \<Rightarrow> bool" where
  "no_objects cat \<longleftrightarrow> cat = bare (ca_extensions cat) (ca_roles cat) (ca_grants cat)"

definition same_schema :: "catalog \<Rightarrow> catalog \<Rightarrow> bool" where
  "same_schema a b \<longleftrightarrow> a\<lparr>ca_grants := []\<rparr> = b\<lparr>ca_grants := []\<rparr>"

lemma same_schemas [simp]:
  "same_schema (admin_schema rs g) (admin_schema rs g')" "same_schema (expense_schema es rs g) (expense_schema es rs g')"
  "same_schema (audit_schema es rs g) (audit_schema es rs g')"
  by (simp_all add: same_schema_def admin_schema_def expense_schema_def audit_schema_def bare_def)

lemma bare_no_objects [simp]: "no_objects (bare es rs g)" "ca_roles (bare es rs g) = rs"
  by (simp_all add: no_objects_def bare_def)

lemma with_role_again [simp]: "with_role r p (with_role r p rs) = with_role r p rs"
  by (auto simp: with_role_def)


section \<open>Isolation\<close>

lemma admin_isolated:
  "\<forall>t \<in> set (ca_tables (admin_schema rs g)). ''tenant_id'' \<in> set (column_names t) \<longrightarrow>
     tenant_isolated (admin_schema rs g) (tb_name t)"
  by code_simp

lemma expense_isolated:
  "\<forall>t \<in> set (ca_tables (expense_schema es rs g)). ''tenant_id'' \<in> set (column_names t) \<longrightarrow>
     tenant_isolated (expense_schema es rs g) (tb_name t)"
  by code_simp

lemma created_role_checked:
  assumes "role \<notin> rl_name ` set rs"
  shows "assertRuntimeRoleEnforcesRls (map (\<lambda>r. \<lparr>rp_is_superuser = (if rl_superuser r then ''on'' else ''off''),
    rp_rolbypassrls = rl_bypassrls r\<rparr>) (filter (\<lambda>r. rl_name r = role) (with_role role p rs))) = Inr ()"
proof -
  have "filter (\<lambda>r. rl_name r = role) rs = []" using assms by (auto simp: filter_empty_conv)
  then have "filter (\<lambda>r. rl_name r = role) (with_role role p rs) = [app_role role p]" using assms by (simp add: with_role_def)
  then show ?thesis by (simp add: assertRuntimeRoleEnforcesRls_def app_role_def)
qed


section \<open>What the fallbacks are worth\<close>

text \<open>
  The migration of the administration service catches the failure of an extension to choose
  another index.  In the transaction of the tool the failure has aborted everything after it,
  so the migration succeeds only with all three extensions; the fallback is reached when
  every statement commits on its own.
\<close>

lemma migration_needs_extensions:
  "fst (migrate True (admin_up available True env) (bare [] roles [])) = Inr () \<longleftrightarrow>
     available ''ltree'' \<and> available ''btree_gist'' \<and> available ''pgcrypto''"
  using admin_up_extensions[of available env roles "[]"] admin_up_run[of available "[]" env roles "[]"]
  by (auto simp: admin_extensions_def)

lemma fallback_outside_a_transaction:
  "''ix_org_units_tenant_path_prefix'' \<in> ix_name ` set (ca_indexes (snd (migrate False
     (admin_up (\<lambda>_. False) True \<lparr>de_appUsername = None, de_appPassword = None\<rparr>) (bare [] [] []))))"
  by code_simp

section \<open>The decision log only grows\<close>

text \<open>
  Statements on the rows of a table.  A trigger FOR EACH ROW fires when a row is updated or
  deleted; the function of the audit migration raises an exception, so the statement fails
  as a whole.  The rows of an INSERT are those that meet the constraints of the table.  TRUNCATE fires no such trigger.
\<close>

datatype 'r dml = InsertRows "'r list" | UpdateRows "'r \<Rightarrow> bool" "'r \<Rightarrow> 'r" | DeleteRows "'r \<Rightarrow> bool" | TruncateTable

definition blocked :: "catalog \<Rightarrow> string \<Rightarrow> privilege \<Rightarrow> bool" where
  "blocked cat t op \<longleftrightarrow>
     list_ex (\<lambda>g. tg_table g = t \<and> op \<in> set (tg_before g) \<and> tg_function g = ''audit_events_no_mutate'') (ca_triggers cat)"

definition append_only :: exn where
  "append_only = sql_error ''audit_events is append-only''"

fun exec_dml :: "catalog \<Rightarrow> string \<Rightarrow> 'r dml \<Rightarrow> 'r list \<Rightarrow> 'r list result" where
  "exec_dml cat t (InsertRows new) rows = Inr (rows @ new)"
| "exec_dml cat t (UpdateRows p f) rows =
     (if blocked cat t Update \<and> list_ex p rows then Inl append_only else Inr (map (\<lambda>r. if p r then f r else r) rows))"
| "exec_dml cat t (DeleteRows p) rows =
     (if blocked cat t Delete \<and> list_ex p rows then Inl append_only else Inr (filter (\<lambda>r. \<not> p r) rows))"
| "exec_dml cat t TruncateTable rows = Inr []"

text \<open>A session of statements; one that fails changes nothing.\<close>

fun run_dml :: "catalog \<Rightarrow> string \<Rightarrow> 'r dml list \<Rightarrow> 'r list \<Rightarrow> 'r list" where
  "run_dml cat t [] rows = rows"
| "run_dml cat t (st # sts) rows =
     run_dml cat t sts (case exec_dml cat t st rows of Inl e \<Rightarrow> rows | Inr rows' \<Rightarrow> rows')"

lemma audit_blocked: "blocked (audit_schema es rs g) ''audit_events'' Update" "blocked (audit_schema es rs g) ''audit_events'' Delete"
  by code_simp+

fun_cases exec_dml_okE: "exec_dml cat t st rows = Inr rows'"

lemma exec_dml_grows:
  assumes "blocked cat t Update" and "blocked cat t Delete" and "st \<noteq> TruncateTable" and "exec_dml cat t st rows = Inr rows'"
  shows "\<exists>added. rows' = rows @ added"
  using assms(4)
proof (rule exec_dml_okE)
  fix p f assume "st = UpdateRows p f"
    and r: "Inr rows' = (if blocked cat t Update \<and> list_ex p rows then Inl append_only else Inr (map (\<lambda>r. if p r then f r else r) rows))"
  then have "rows' = rows" using assms(1) by (auto simp: list_ex_iff intro!: map_idI split: if_splits)
  then show ?thesis by simp
next
  fix p assume "st = DeleteRows p"
    and r: "Inr rows' = (if blocked cat t Delete \<and> list_ex p rows then Inl append_only else Inr (filter (\<lambda>r. \<not> p r) rows))"
  then have "rows' = rows" using assms(2) by (auto simp: list_ex_iff intro!: filter_True split: if_splits)
  then show ?thesis by simp
qed (use assms(3) in auto)

text \<open>
  C35. The decision log is append-only in the database.  After the migration of the audit
  service, no sequence of INSERT, UPDATE and DELETE statements on the table of events, by
  whatever role, changes, removes or moves a row: the table only gets rows at its end.
\<close>

theorem migrated_log_append_only:
  assumes "migrate True (service_up AuditDb available env) (bare [] roles []) = (Inr (), cat)"
    and "TruncateTable \<notin> set session"
  shows "\<exists>added. run_dml cat ''audit_events'' session rows = rows @ added"
proof -
  have "available ''pgcrypto''"
    using assms by (intro audit_up_extensions[of available roles "[]"]) (simp add: service_up_def)
  then have "cat = audit_schema [''pgcrypto''] roles []"
    using audit_up_run[of available "[]" roles "[]"] assms by (auto simp: service_up_def)
  then have b: "blocked cat ''audit_events'' Update" "blocked cat ''audit_events'' Delete" by (simp_all add: audit_blocked)
  show ?thesis using assms(2)
  proof (induction session arbitrary: rows)
    case (Cons st session)
    let ?rows = "case exec_dml cat ''audit_events'' st rows of Inl e \<Rightarrow> rows | Inr rows' \<Rightarrow> rows'"
    obtain a where "?rows = rows @ a"
    proof (cases "exec_dml cat ''audit_events'' st rows")
      case (Inr rows')
      then show ?thesis using exec_dml_grows[OF b _ Inr] Cons.prems that by auto
    qed (use that[of "[]"] in simp)
    moreover obtain c where "run_dml cat ''audit_events'' session ?rows = ?rows @ c" using Cons by auto
    ultimately show ?case by auto
  qed simp
qed

lemma truncate_passes_the_trigger: "exec_dml cat t TruncateTable rows = Inr []"
  by simp

section \<open>Samples\<close>

definition no_env :: db_env where "no_env = \<lparr>de_appUsername = None, de_appPassword = None\<rparr>"

definition migrated :: "db_service \<Rightarrow> catalog" where
  "migrated s = snd (migrate True (service_up s (\<lambda>_. True) no_env) (bare [] [] []))"

lemma sample_migrated:
  "migrate True (service_up s (\<lambda>_. True) no_env) (bare [] [] []) = (Inr (), migrated s)"
  using admin_up_run[of "\<lambda>_. True" "[]" no_env "[]" "[]"] expense_up_run[of "\<lambda>_. True" no_env "[]" "[]" "[]"]
    audit_up_run[of "\<lambda>_. True" "[]" "[]" "[]"]
  by (cases s) (auto simp: migrated_def service_up_def)


lemma org_units_tenant_column:
  "\<exists>t \<in> set (ca_tables (admin_schema rs g)). tb_name t = ''org_units'' \<and> ''tenant_id'' \<in> set (column_names t)"
  by code_simp


lemma migrated_log_append_only_witness:
  "\<exists>added. run_dml (migrated AuditDb) ''audit_events''
     [InsertRows [1], UpdateRows (\<lambda>_. True) (\<lambda>_. 9), DeleteRows (\<lambda>_. True)] [0::nat] = [0] @ added"
  by (rule migrated_log_append_only[OF sample_migrated]) simp

end
