(* ===== verification/WebApi.thy ===== *)
theory WebApi
  imports AuthzGuard HttpErrors
begin

text \<open>
  The backend boundary of the web application (apps/web/src/api.ts, apps/web/src/config.ts):
  the calls it makes to the gateway and how it turns an answer into what the screens show,
  and the way of a denial from the decision point to the screen.  The fetch of the browser
  and JSON.parse are arguments; the token held by the module is an argument of the calls.
\<close>

section \<open>Configuration\<close>

text \<open>The base URL loses one slash at its end.\<close>

definition gateway_url :: "string option \<Rightarrow> string" where
  "gateway_url env =
     (let url = or_default env ''http://localhost:8080'' in
      if url \<noteq> [] \<and> last url = CHR ''/'' then butlast url else url)"

definition FINANCE_MANAGER_ROLE_ID :: string where
  "FINANCE_MANAGER_ROLE_ID = ''0d000000-0000-4000-8000-000000000001''"

definition FINANCE_SCOPE :: string where "FINANCE_SCOPE = ''acme.finance''"

section \<open>Encoding a component\<close>

text \<open>The percent sign of an encoded byte is followed by two capital hexadecimal digits.\<close>

definition upper_hex_digit :: "nat \<Rightarrow> char" where
  "upper_hex_digit n = (if n < 10 then char_of (48 + n) else char_of (55 + n))"

definition is_unreserved :: "char \<Rightarrow> bool" where
  "is_unreserved c \<longleftrightarrow> is_lower c \<or> is_upper c \<or> is_digit c \<or> c \<in> set ''-_.!~*()'' \<or> c = CHR 0x27"

definition encode_char :: "char \<Rightarrow> string" where
  "encode_char c =
     (if is_unreserved c then [c]
      else [CHR ''%'', upper_hex_digit (of_char c div 16), upper_hex_digit (of_char c mod 16)])"

definition encodeURIComponent :: "string \<Rightarrow> string" where
  "encodeURIComponent s = concat (map encode_char s)"

section \<open>Calls\<close>

record http_call =
  hc_url :: string
  hc_method :: string
  hc_headers :: "(string \<times> string) list"
  hc_body :: "string option"

record web_response =
  wr_status :: nat
  wr_text :: string

text \<open>A fetch answers, or fails with the message of an Error or with something else.\<close>

datatype fetched = Answered web_response | NetworkFailure "string option"

datatype api_result = ApiOk nat json | ApiError nat json

definition authHeaders :: "string option \<Rightarrow> (string \<times> string) list" where
  "authHeaders accessToken =
     (''Content-Type'', ''application/json'') #
     (case accessToken of None \<Rightarrow> [] | Some t \<Rightarrow> [(''Authorization'', ''Bearer '' @ t)])"

definition safeJson :: "(string \<Rightarrow> json option) \<Rightarrow> string \<Rightarrow> json" where
  "safeJson parse text_body =
     or_default (parse text_body)
       (JObj [(''error'', JObj [(''code'', JStr ''bad_response''), (''message'', JStr text_body)])])"

definition ok_status :: "nat \<Rightarrow> bool" where "ok_status s \<longleftrightarrow> 200 \<le> s \<and> s \<le> 299"

definition toResult :: "(string \<Rightarrow> json option) \<Rightarrow> web_response \<Rightarrow> api_result" where
  "toResult parse res =
     (let text_body = wr_text res;
          body = (if length text_body > 0 then safeJson parse text_body else JNull)
      in if ok_status (wr_status res) then ApiOk (wr_status res) body
         else
           (let error = (case jget ''error'' body of
                           Some e \<Rightarrow> if e = JNull then None else Some e
                         | None \<Rightarrow> None)
            in ApiError (wr_status res) (or_default error
                 (JObj [(''code'', JStr (''http_'' @ nat_str (wr_status res))),
                        (''message'', JStr (if length text_body > 0 then text_body
                           else ''Request failed with status '' @ nat_str (wr_status res)))]))))"

definition web_request ::
  "(string \<Rightarrow> json option) \<Rightarrow> (http_call \<Rightarrow> fetched) \<Rightarrow> string option \<Rightarrow> string option \<Rightarrow> string \<Rightarrow> string \<Rightarrow> string option \<Rightarrow>
   api_result" where
  "web_request parse fetch env accessToken path http_method body =
     (case fetch \<lparr>hc_url = gateway_url env @ path, hc_method = http_method,
                  hc_headers = authHeaders accessToken, hc_body = body\<rparr> of
        Answered res \<Rightarrow> toResult parse res
      | NetworkFailure m \<Rightarrow> ApiError 0 (JObj [(''code'', JStr ''network_error''),
          (''message'', JStr (or_default m ''Network request failed (is the gateway up?)''))]))"

text \<open>The path, the method and the body of each call.\<close>

definition login_call :: "string \<Rightarrow> string \<Rightarrow> string \<times> string \<times> string option" where
  "login_call email password =
     (''/v1/auth/token'', ''POST'',
      Some (json_stringify (JObj [(''email'', JStr email), (''password'', JStr password)])))"

definition listExpenses_call :: "string \<times> string \<times> string option" where
  "listExpenses_call = (''/v1/expenses'', ''GET'', None)"

definition approveExpense_call :: "string \<Rightarrow> string \<times> string \<times> string option" where
  "approveExpense_call i =
     (''/v1/expenses/'' @ encodeURIComponent i @ ''/approve'', ''POST'', Some (json_stringify (JObj [])))"

definition listAssignments_call :: "string \<Rightarrow> string \<times> string \<times> string option" where
  "listAssignments_call userId =
     (''/v1/role-assignments?userId='' @ encodeURIComponent userId @ ''&limit=50'', ''GET'', None)"

definition revokeAssignment_call :: "string \<Rightarrow> string \<times> string \<times> string option" where
  "revokeAssignment_call i =
     (''/v1/role-assignments/'' @ encodeURIComponent i @ ''/revoke'', ''POST'', Some (json_stringify (JObj [])))"

definition grantFinanceManager_call :: "string \<Rightarrow> string \<times> string \<times> string option" where
  "grantFinanceManager_call userId =
     (''/v1/role-assignments'', ''POST'',
      Some (json_stringify (JObj [(''userId'', JStr userId), (''roleId'', JStr FINANCE_MANAGER_ROLE_ID),
                                  (''scope'', JStr FINANCE_SCOPE)])))"

definition listAuditEvents_call :: "string \<Rightarrow> string \<times> string \<times> string option" where
  "listAuditEvents_call tenantId =
     (''/v1/audit/events?tenantId='' @ encodeURIComponent tenantId @ ''&limit=15'', ''GET'', None)"

section \<open>An id stays in its place\<close>

lemma unreserved_no_delimiter: "is_unreserved c \<Longrightarrow> c \<notin> set ''/?#&=%''"
proof -
  have "list_all (\<lambda>c. \<not> is_unreserved c) ''/?#&=%''" by code_simp
  then show "is_unreserved c \<Longrightarrow> c \<notin> set ''/?#&=%''" unfolding list_all_iff by blast
qed

lemma upper_hex_unreserved: "n < 16 \<Longrightarrow> is_unreserved (upper_hex_digit n)"
  by (simp add: upper_hex_digit_def is_unreserved_def is_digit_def is_upper_def of_char_of)

lemma encoded_chars: "c \<in> set (encodeURIComponent s) \<Longrightarrow> is_unreserved c \<or> c = CHR ''%''"
proof -
  assume "c \<in> set (encodeURIComponent s)"
  then obtain x where c: "c \<in> set (encode_char x)" by (auto simp: encodeURIComponent_def)
  have "(of_char x :: nat) < 256" by (cases x) (simp add: of_char_def)
  then have "(of_char x :: nat) div 16 < 16" by (intro less_mult_imp_div_less) simp
  then show ?thesis using c by (auto simp: encode_char_def upper_hex_unreserved split: if_splits)
qed

lemma encoded_no_delimiter: "c \<in> set ''/?#&='' \<Longrightarrow> c \<notin> set (encodeURIComponent s)"
  using encoded_chars[of c s] unreserved_no_delimiter[of c] by auto

text \<open>Whatever the id is, the path of an approval has exactly the segments of its route.\<close>

lemma approval_path_segments:
  "split_on (CHR ''/'') (fst (approveExpense_call i)) = ['''', ''v1'', ''expenses'', encodeURIComponent i, ''approve'']"
proof -
  have "CHR ''/'' \<notin> set (encodeURIComponent i)" by (rule encoded_no_delimiter) simp
  then have "split_on (CHR ''/'') (encodeURIComponent i @ CHR ''/'' # ''approve'') = [encodeURIComponent i, ''approve'']"
    by (simp add: split_on_append_sep split_on_no_sep)
  then show ?thesis by (simp add: approveExpense_call_def)
qed

section \<open>The error envelope\<close>

definition envelope_json :: "error_body \<Rightarrow> json" where
  "envelope_json eb =
     JObj [(''error'', JObj ([(''code'', JStr (eb_code eb)), (''message'', JStr (eb_message eb))] @
        (case eb_reason eb of None \<Rightarrow> [] | Some r \<Rightarrow> [(''reason'', JStr r)]) @
        (case eb_decisionId eb of None \<Rightarrow> [] | Some d \<Rightarrow> [(''decisionId'', JStr d)]) @
        (case eb_traceId eb of None \<Rightarrow> [] | Some t \<Rightarrow> [(''traceId'', JStr t)])))]"

text \<open>An envelope that arrives with its status is shown with all its members.\<close>

lemma envelope_shown:
  assumes "parses_back parse [envelope_json eb]" and "\<not> ok_status status"
  shows "\<exists>err. toResult parse \<lparr>wr_status = status, wr_text = json_stringify (envelope_json eb)\<rparr> = ApiError status err \<and>
    jget ''code'' err = Some (JStr (eb_code eb)) \<and> jget ''message'' err = Some (JStr (eb_message eb)) \<and>
    jget ''reason'' err = map_option JStr (eb_reason eb) \<and> jget ''decisionId'' err = map_option JStr (eb_decisionId eb) \<and>
    jget ''traceId'' err = map_option JStr (eb_traceId eb)"
proof -
  have "parse (json_stringify (envelope_json eb)) = Some (envelope_json eb)"
    using assms(1) by (simp add: parses_back_def del: json_stringify.simps)
  moreover have "json_stringify (envelope_json eb) \<noteq> []" by (simp add: envelope_json_def)
  ultimately show ?thesis
    using assms(2)
    by (cases "eb_reason eb"; cases "eb_decisionId eb"; cases "eb_traceId eb")
      (simp_all add: toResult_def safeJson_def envelope_json_def Let_def del: json_stringify.simps)
qed

section \<open>A denial reaches the screen\<close>

lemma denied_reason_text:
  "cr_isAllowed response a \<noteq> Some True \<Longrightarrow> \<exists>r. par_reason (action_result response a) = Some r \<and> r \<noteq> []"
  by (cases "cr_isAllowed response a") (auto simp: action_result_def reasonFor_def Let_def split: if_splits)

text \<open>A decision the guard refused because of an answer of Cerbos.\<close>

lemma denied_by_pdp:
  assumes verdict: "gr_verdict (canActivate cerbos pip load u now t (Some options) (Some pc)) = Inl e"
    and asked: "PdpCheck q \<in> set (gr_trace (canActivate cerbos pip load u now t (Some options) (Some pc)))"
    and answer: "cerbos q = Inr response"
  shows "\<exists>a \<in> set (az_action options). cr_isAllowed response a \<noteq> Some True \<and>
    e = ForbiddenError (denyMessage (az_resourceKind options) (action_result response a))
          (par_reason (action_result response a)) (Some (''dec_'' @ u)) \<and>
    (\<exists>r. AuditRecord r \<in> set (gr_trace (canActivate cerbos pip load u now t (Some options) (Some pc))) \<and>
       dar_decisionId r = ''dec_'' @ u \<and> dar_action r = a \<and> dar_effect r = DENY \<and>
       dar_reason r = par_reason (action_result response a))"
proof -
  obtain resource where r: "load pc = Inr (Some resource)" "enforceTenantGuardrail pc resource = Inr ()"
    using asked by (auto simp: canActivate_def guard_stop_def split: option.splits sum.splits)
  note past = canActivate_past_guardrail[where load = load and pc = pc and resource = resource and cerbos = cerbos
      and pip = pip and u = u and now = now and t = t and options = options, OF r(2,1)]
  obtain eff where eff: "pip (pc_principalId pc) (pc_tenantId pc) (or_default (lr_scope resource) [])
      (or_default (az_sensitive options) False) = Inr eff"
    using asked unfolding past by (auto simp: guard_stop_def split: sum.splits)
  have q: "q = guard_request options pc resource eff"
    using asked unfolding past eff by (auto simp: guard_decide_trace split: sum.splits)
  obtain a where a: "a \<in> set (az_action options)" "cr_isAllowed response a \<noteq> Some True"
    and e: "e = ForbiddenError (denyMessage (az_resourceKind options) (action_result response a))
      (par_reason (action_result response a)) (Some (''dec_'' @ u))"
    using verdict answer unfolding past eff q
    by (auto simp: guard_decide_verdict split: option.splits dest: find_SomeD)
  obtain reason where reason: "par_reason (action_result response a) = Some reason" "reason \<noteq> []"
    using denied_reason_text[OF a(2)] by blast
  let ?r = "emitAudit now (''dec_'' @ u) (or_default t []) pc (cq_resource q) (action_result response a)"
  have "AuditRecord ?r \<in> set (gr_trace (canActivate cerbos pip load u now t (Some options) (Some pc)))"
    using answer a(1) unfolding past eff q by (auto simp: guard_decide_trace)
  moreover have "dar_decisionId ?r = ''dec_'' @ u" "dar_action ?r = a" "dar_effect ?r = DENY"
    "dar_reason ?r = par_reason (action_result response a)"
    using a(2) reason by (simp_all add: emitAudit_def truthy_def)
  ultimately show ?thesis using a e by blast
qed


text \<open>An answer in the success range that is not JSON is reported as a success whose data is an error.\<close>

lemma unreadable_success:
  assumes "parse body = None" and "body \<noteq> []"
  shows "toResult parse \<lparr>wr_status = 200, wr_text = body\<rparr> =
    ApiOk 200 (JObj [(''error'', JObj [(''code'', JStr ''bad_response''), (''message'', JStr body)])])"
  using assms by (simp add: toResult_def safeJson_def ok_status_def or_default_def)

definition denied_envelope :: error_body where
  "denied_envelope =
     \<lparr>eb_code = ''forbidden'', eb_message = ''Cannot write this doc'', eb_reason = Some ''no rule grants write'',
      eb_decisionId = Some ''dec_1'', eb_traceId = None\<rparr>"

definition denied_request :: guard_result where
  "denied_request = canActivate sample_cerbos (\<lambda>_ _ _ _. Inr sample_eff) (\<lambda>_. Inr (Some (sample_resource ''t1'')))
     ''1'' 0 None (Some (sample_options [''write''])) (Some sample_pc)"

definition denied_check :: cerbos_request where
  "denied_check = guard_request (sample_options [''write'']) sample_pc (sample_resource ''t1'') sample_eff"

lemma sample_denied:
  "gr_verdict denied_request = Inl (ForbiddenError ''Cannot write this doc'' (Some ''no rule grants write'') (Some ''dec_1''))"
  "PdpCheck denied_check \<in> set (gr_trace denied_request)"
  "sample_cerbos denied_check = Inr \<lparr>cr_isAllowed = (\<lambda>a. Some (a = ''read'')), cr_matchedPolicy = (\<lambda>a. None)\<rparr>"
  "toHttp_expense (ForbiddenError ''Cannot write this doc'' (Some ''no rule grants write'') (Some ''dec_1'')) None =
     (403, denied_envelope)"
proof -
  have past: "denied_request = guard_decide sample_cerbos ''1'' 0 [] (sample_options [''write'']) sample_pc
      (sample_resource ''t1'') sample_eff [PipResolve ''u1'' ''t1'' [] False]"
    by (simp add: denied_request_def canActivate_def enforceTenantGuardrail_def sample_options_def sample_pc_def
        sample_resource_def or_default_def)
  show answer: "sample_cerbos denied_check = Inr \<lparr>cr_isAllowed = (\<lambda>a. Some (a = ''read'')), cr_matchedPolicy = (\<lambda>a. None)\<rparr>"
    by (simp add: sample_cerbos_def denied_check_def guard_request_def cerbos_roles_def sample_eff_def)
  show "PdpCheck denied_check \<in> set (gr_trace denied_request)"
    unfolding past guard_decide_trace by (simp add: denied_check_def)
  show "gr_verdict denied_request = Inl (ForbiddenError ''Cannot write this doc'' (Some ''no rule grants write'') (Some ''dec_1''))"
    unfolding past guard_decide_verdict denied_check_def[symmetric] answer
    by (simp add: sample_options_def denyMessage_def underscores_to_spaces_def action_result_def reasonFor_def
        formatPolicy_def truthy_def or_default_def Let_def)
  show "toHttp_expense (ForbiddenError ''Cannot write this doc'' (Some ''no rule grants write'') (Some ''dec_1'')) None =
      (403, denied_envelope)"
    by code_simp
qed


end
