(* ===== verification/WebUi.thy ===== *)
theory WebUi
  imports WebApi "HOL-Library.List_Lexorder" "HOL-Library.Char_ord"
begin

text \<open>
  The screens of the web application (apps/web/src/App.tsx, apps/web/src/components): what
  each component keeps, what a click or an effect does and what happens when an answer of the
  gateway arrives.  A call that was sent is open until its answer arrives, and open calls are
  answered in any order; the continuation of a call whose screen has left the page changes
  nothing on it (React drops the update), but still runs.  A screen is known by the number of
  its mount: the page shows new screens after every login and every switch of the user.  State
  that was set is on the page before the next click.  Answers have the shapes the code casts
  them to (apps/web/src/types.ts).
\<close>

section \<open>Wire types and configuration\<close>

record web_error =
  we_code :: string
  we_message :: string
  we_reason :: "string option"
  we_decisionId :: "string option"
  we_traceId :: "string option"

record token_answer =
  tk_accessToken :: string
  tk_refreshToken :: string
  tk_tokenType :: string
  tk_expiresIn :: int
  tk_sub :: string
  tk_tid :: string
  tk_sid :: string

datatype web_status = WebPending | WebApproved | WebRejected

record web_expense =
  wx_id :: string
  wx_tenantId :: string
  wx_amount :: int
  wx_currency :: string
  wx_department :: string
  wx_ownerId :: string
  wx_status :: web_status
  wx_description :: string
  wx_createdAt :: string
  wx_updatedAt :: string

record approve_result =
  wa_id :: string
  wa_status :: web_status
  wa_approvedBy :: string
  wa_decisionId :: string
  wa_at :: string

record web_assignment =
  wg_id :: string
  wg_tenantId :: string
  wg_userId :: string
  wg_roleId :: string
  wg_scope :: string
  wg_status :: string
  wg_validUntil :: "string option"
  wg_delegatedBy :: "string option"
  wg_version :: int
  wg_createdAt :: string
  wg_updatedAt :: string

record web_event =
  wv_id :: string
  wv_seq :: int
  wv_tenantId :: string
  wv_actor :: string
  wv_action :: string
  wv_decision :: string
  wv_resourceKind :: string
  wv_resourceId :: string
  wv_reason :: "string option"
  wv_policy :: "string option"
  wv_decisionId :: "string option"
  wv_traceId :: "string option"
  wv_occurredAt :: string
  wv_recordedAt :: string
  wv_prevHash :: string
  wv_recordHash :: string

text \<open>A page is its items and its cursor; the screens read the items only.\<close>

record 'a web_page =
  wp_items :: "'a list"
  wp_nextCursor :: "string option"

datatype 'a answer = AnswerOk nat 'a | AnswerError nat web_error

datatype user_key = Riya | Sam | Dev

record seed_user =
  su_key :: user_key
  su_name :: string
  su_role :: string
  su_email :: string
  su_password :: string
  su_userId :: string
  su_isAdmin :: bool

definition SEED_USERS :: "seed_user list" where
  "SEED_USERS =
     [\<lparr>su_key = Riya, su_name = ''Riya'', su_role = ''finance_manager'', su_email = ''riya@acme.com'',
       su_password = ''Password123!'', su_userId = ''11111111-1111-4111-8111-111111111111'', su_isAdmin = False\<rparr>,
      \<lparr>su_key = Sam, su_name = ''Sam'', su_role = ''engineer'', su_email = ''sam@acme.com'',
       su_password = ''Password123!'', su_userId = ''22222222-2222-4222-8222-222222222222'', su_isAdmin = False\<rparr>,
      \<lparr>su_key = Dev, su_name = ''Dev'', su_role = ''org_admin'', su_email = ''dev@acme.com'',
       su_password = ''Password123!'', su_userId = ''33333333-3333-4333-8333-333333333333'', su_isAdmin = True\<rparr>]"

definition RIYA_USER_ID :: string where "RIYA_USER_ID = ''11111111-1111-4111-8111-111111111111''"

definition DEMO_EXPENSE_IDS :: "string list" where "DEMO_EXPENSE_IDS = [''exp_42'', ''exp_99'', ''exp_glx'']"

definition error_text :: "web_error \<Rightarrow> string" where
  "error_text e = we_code e @ '': '' @ we_message e"

text \<open>The dash and the marks of the screens, in UTF-8.\<close>

definition em_dash :: string where "em_dash = [CHR 0xE2, CHR 0x80, CHR 0x94]"

section \<open>What the components keep\<close>

record web_session =
  se_token :: string
  se_tenantId :: string
  se_userId :: string
  se_userKey :: user_key

record login_state =
  lg_pending :: "user_key option"
  lg_error :: "string option"

record expense_row =
  er_id :: string
  er_expense :: "web_expense option"

datatype approve_outcome = AllowOutcome approve_result | DenyOutcome nat web_error

text \<open>The effects of a component run again when what they depend on differs from last time.\<close>

record expenses_state =
  xs_rows :: "expense_row list"
  xs_loading :: bool
  xs_listError :: "string option"
  xs_pendingId :: "string option"
  xs_outcomes :: "string \<Rightarrow> approve_outcome option"
  xs_effect :: "nat option"

record admin_state =
  am_assignments :: "web_assignment list"
  am_loading :: bool
  am_error :: "string option"
  am_busy :: bool
  am_notice :: "string option"
  am_effect :: bool

record log_state =
  dl_events :: "web_event list"
  dl_loading :: bool
  dl_error :: "string option"
  dl_effect :: "nat option"

text \<open>A reload after a grant or revocation tells the shell when it is done.\<close>

datatype api_call =
    Login seed_user
  | ListExpenses
  | ApproveExpense string
  | ListAssignments bool
  | RevokeAssignment string
  | GrantFinanceManager
  | ListAuditEvents string

record open_call =
  oc_mount :: nat
  oc_token :: "string option"
  oc_call :: api_call

record web_ui =
  ui_token :: "string option"
  ui_session :: "web_session option"
  ui_refreshKey :: nat
  ui_mount :: nat
  ui_login :: login_state
  ui_expenses :: expenses_state
  ui_admin :: admin_state
  ui_log :: log_state
  ui_calls :: "open_call list"

definition fresh_login :: login_state where "fresh_login = \<lparr>lg_pending = None, lg_error = None\<rparr>"

definition fresh_expenses :: expenses_state where
  "fresh_expenses = \<lparr>xs_rows = [], xs_loading = True, xs_listError = None, xs_pendingId = None,
     xs_outcomes = (\<lambda>_. None), xs_effect = None\<rparr>"

definition fresh_admin :: admin_state where
  "fresh_admin = \<lparr>am_assignments = [], am_loading = True, am_error = None, am_busy = False, am_notice = None,
     am_effect = False\<rparr>"

definition fresh_log :: log_state where
  "fresh_log = \<lparr>dl_events = [], dl_loading = True, dl_error = None, dl_effect = None\<rparr>"

definition initial_ui :: web_ui where
  "initial_ui = \<lparr>ui_token = None, ui_session = None, ui_refreshKey = 0, ui_mount = 0, ui_login = fresh_login,
     ui_expenses = fresh_expenses, ui_admin = fresh_admin, ui_log = fresh_log, ui_calls = []\<rparr>"

section \<open>What the code does with them\<close>

definition new_screens :: "web_ui \<Rightarrow> web_ui" where
  "new_screens ui = ui\<lparr>ui_mount := ui_mount ui + 1, ui_login := fresh_login, ui_expenses := fresh_expenses,
     ui_admin := fresh_admin, ui_log := fresh_log\<rparr>"

text \<open>A state setter of a screen, called from a continuation of that screen.\<close>

definition on_screen :: "nat \<Rightarrow> (web_ui \<Rightarrow> web_ui) \<Rightarrow> web_ui \<Rightarrow> web_ui" where
  "on_screen m f ui = (if ui_mount ui = m then f ui else ui)"

text \<open>A call carries the token the module holds when it is sent.\<close>

definition send :: "nat \<Rightarrow> api_call \<Rightarrow> web_ui \<Rightarrow> web_ui" where
  "send m c ui = ui\<lparr>ui_calls := ui_calls ui @ [\<lparr>oc_mount = m, oc_token = ui_token ui, oc_call = c\<rparr>]\<rparr>"

definition bump :: "web_ui \<Rightarrow> web_ui" where "bump ui = ui\<lparr>ui_refreshKey := ui_refreshKey ui + 1\<rparr>"

definition setToken :: "string option \<Rightarrow> web_ui \<Rightarrow> web_ui" where "setToken t ui = ui\<lparr>ui_token := t\<rparr>"

definition currentUser :: "web_ui \<Rightarrow> seed_user option" where
  "currentUser ui =
     (case ui_session ui of None \<Rightarrow> None | Some s \<Rightarrow> find (\<lambda>u. su_key u = se_userKey s) SEED_USERS)"

definition shows_admin :: "web_ui \<Rightarrow> bool" where
  "shows_admin ui \<longleftrightarrow> (case currentUser ui of None \<Rightarrow> False | Some u \<Rightarrow> su_isAdmin u)"

definition logout :: "web_ui \<Rightarrow> web_ui" where
  "logout ui = new_screens ((setToken None ui)\<lparr>ui_session := None, ui_refreshKey := 0\<rparr>)"

text \<open>Login.\<close>

definition pick :: "seed_user \<Rightarrow> web_ui \<Rightarrow> web_ui" where
  "pick user ui = send (ui_mount ui) (Login user) (ui\<lparr>ui_login := \<lparr>lg_pending = Some (su_key user), lg_error = None\<rparr>\<rparr>)"

definition onLogin :: "web_session \<Rightarrow> web_ui \<Rightarrow> web_ui" where
  "onLogin s ui = new_screens (bump (ui\<lparr>ui_session := Some s\<rparr>))"

definition pick_answered :: "nat \<Rightarrow> seed_user \<Rightarrow> token_answer answer \<Rightarrow> web_ui \<Rightarrow> web_ui" where
  "pick_answered m user result ui =
     (let ui = on_screen m (\<lambda>ui. ui\<lparr>ui_login := (ui_login ui)\<lparr>lg_pending := None\<rparr>\<rparr>) ui in
      case result of
        AnswerError st e \<Rightarrow> on_screen m (\<lambda>ui. ui\<lparr>ui_login := (ui_login ui)\<lparr>lg_error := Some (error_text e)\<rparr>\<rparr>) ui
      | AnswerOk st t \<Rightarrow>
          onLogin \<lparr>se_token = tk_accessToken t, se_tenantId = tk_tid t, se_userId = tk_sub t, se_userKey = su_key user\<rparr>
            (setToken (Some (tk_accessToken t)) ui))"

text \<open>Expenses.\<close>

definition set_expenses :: "nat \<Rightarrow> (expenses_state \<Rightarrow> expenses_state) \<Rightarrow> web_ui \<Rightarrow> web_ui" where
  "set_expenses m f = on_screen m (\<lambda>ui. ui\<lparr>ui_expenses := f (ui_expenses ui)\<rparr>)"

definition expenses_load :: "nat \<Rightarrow> web_ui \<Rightarrow> web_ui" where
  "expenses_load m ui = send m ListExpenses (set_expenses m (\<lambda>x. x\<lparr>xs_loading := True, xs_listError := None\<rparr>) ui)"

definition by_id :: "web_expense list \<Rightarrow> string \<Rightarrow> web_expense option" where
  "by_id items = fold (\<lambda>e m. m(wx_id e \<mapsto> e)) items (\<lambda>_. None)"

definition merged_rows :: "web_expense list \<Rightarrow> expense_row list" where
  "merged_rows items =
     map (\<lambda>i. \<lparr>er_id = i, er_expense = by_id items i\<rparr>) (sort (dedupe (map wx_id items @ DEMO_EXPENSE_IDS)))"

definition expenses_loaded :: "nat \<Rightarrow> web_expense web_page answer \<Rightarrow> web_ui \<Rightarrow> web_ui" where
  "expenses_loaded m result ui =
     set_expenses m (\<lambda>x. case result of
         AnswerOk st page \<Rightarrow> x\<lparr>xs_loading := False, xs_rows := merged_rows (wp_items page)\<rparr>
       | AnswerError st e \<Rightarrow> x\<lparr>xs_loading := False, xs_listError := Some (error_text e), xs_rows := merged_rows []\<rparr>) ui"

definition onApprove :: "string \<Rightarrow> web_ui \<Rightarrow> web_ui" where
  "onApprove i ui = send (ui_mount ui) (ApproveExpense i) (set_expenses (ui_mount ui) (\<lambda>x. x\<lparr>xs_pendingId := Some i\<rparr>) ui)"

definition outcome_of :: "approve_result answer \<Rightarrow> approve_outcome" where
  "outcome_of result = (case result of AnswerOk st r \<Rightarrow> AllowOutcome r | AnswerError st e \<Rightarrow> DenyOutcome st e)"

definition approve_answered :: "nat \<Rightarrow> string \<Rightarrow> approve_result answer \<Rightarrow> web_ui \<Rightarrow> web_ui" where
  "approve_answered m i result ui =
     bump (set_expenses m (\<lambda>x. x\<lparr>xs_pendingId := None, xs_outcomes := (xs_outcomes x)(i \<mapsto> outcome_of result)\<rparr>) ui)"

text \<open>Admin.\<close>

definition set_admin :: "nat \<Rightarrow> (admin_state \<Rightarrow> admin_state) \<Rightarrow> web_ui \<Rightarrow> web_ui" where
  "set_admin m f = on_screen m (\<lambda>ui. ui\<lparr>ui_admin := f (ui_admin ui)\<rparr>)"

definition admin_load :: "nat \<Rightarrow> bool \<Rightarrow> web_ui \<Rightarrow> web_ui" where
  "admin_load m after ui =
     send m (ListAssignments after) (set_admin m (\<lambda>a. a\<lparr>am_loading := True, am_error := None\<rparr>) ui)"

definition admin_loaded :: "nat \<Rightarrow> bool \<Rightarrow> web_assignment web_page answer \<Rightarrow> web_ui \<Rightarrow> web_ui" where
  "admin_loaded m after result ui =
     (let ui = set_admin m (\<lambda>a. case result of
         AnswerOk st page \<Rightarrow> a\<lparr>am_loading := False, am_assignments := wp_items page\<rparr>
       | AnswerError st e \<Rightarrow> a\<lparr>am_loading := False, am_error := Some (error_text e)\<rparr>) ui
      in if after then bump ui else ui)"

definition is_finance_grant :: "web_assignment \<Rightarrow> bool" where
  "is_finance_grant a \<longleftrightarrow> wg_roleId a = FINANCE_MANAGER_ROLE_ID \<and> wg_status a = ''active''"

definition financeGrant :: "admin_state \<Rightarrow> web_assignment option" where
  "financeGrant a = find is_finance_grant (am_assignments a)"

definition onRevoke :: "string \<Rightarrow> web_ui \<Rightarrow> web_ui" where
  "onRevoke i ui = send (ui_mount ui) (RevokeAssignment i)
     (set_admin (ui_mount ui) (\<lambda>a. a\<lparr>am_busy := True, am_notice := None\<rparr>) ui)"

definition onGrant :: "web_ui \<Rightarrow> web_ui" where
  "onGrant ui = send (ui_mount ui) GrantFinanceManager
     (set_admin (ui_mount ui) (\<lambda>a. a\<lparr>am_busy := True, am_notice := None\<rparr>) ui)"

definition notice_of :: "string \<Rightarrow> string \<Rightarrow> web_assignment answer \<Rightarrow> string" where
  "notice_of success failure result =
     (case result of AnswerOk st a \<Rightarrow> success | AnswerError st e \<Rightarrow> failure @ em_dash @ '' '' @ error_text e)"

definition revoke_answered :: "nat \<Rightarrow> web_assignment answer \<Rightarrow> web_ui \<Rightarrow> web_ui" where
  "revoke_answered m result ui = admin_load m True (set_admin m (\<lambda>a. a\<lparr>am_busy := False,
     am_notice := Some (notice_of (''Revoked. Switch to Riya and retry an approve '' @ em_dash @
       '' it flips to 403 within seconds.'') ''Revoke failed '' result)\<rparr>) ui)"

definition grant_answered :: "nat \<Rightarrow> web_assignment answer \<Rightarrow> web_ui \<Rightarrow> web_ui" where
  "grant_answered m result ui = admin_load m True (set_admin m (\<lambda>a. a\<lparr>am_busy := False,
     am_notice := Some (notice_of (''Granted finance_manager. Switch to Riya and retry '' @ em_dash @
       '' the $8.5k approve flips back to 200.'') ''Grant failed '' result)\<rparr>) ui)"

text \<open>Decision log.\<close>

definition set_log :: "nat \<Rightarrow> (log_state \<Rightarrow> log_state) \<Rightarrow> web_ui \<Rightarrow> web_ui" where
  "set_log m f = on_screen m (\<lambda>ui. ui\<lparr>ui_log := f (ui_log ui)\<rparr>)"

definition log_load :: "nat \<Rightarrow> string \<Rightarrow> web_ui \<Rightarrow> web_ui" where
  "log_load m tenantId ui =
     send m (ListAuditEvents tenantId) (set_log m (\<lambda>l. l\<lparr>dl_loading := True, dl_error := None\<rparr>) ui)"

definition log_loaded :: "nat \<Rightarrow> web_event web_page answer \<Rightarrow> web_ui \<Rightarrow> web_ui" where
  "log_loaded m result ui =
     set_log m (\<lambda>l. case result of
         AnswerOk st page \<Rightarrow> l\<lparr>dl_loading := False, dl_events := wp_items page\<rparr>
       | AnswerError st e \<Rightarrow> l\<lparr>dl_loading := False, dl_error := Some (error_text e)\<rparr>) ui"

section \<open>Clicks, effects and answers\<close>

datatype ui_event =
    PickUser seed_user
  | SwitchUser
  | ClickApprove string
  | ClickRevoke string
  | ClickGrant
  | ClickRefresh
  | ExpensesEffect
  | AdminEffect
  | LogEffect

text \<open>A button acts when it is on the page and not disabled, an effect when it is due.\<close>

definition act :: "ui_event \<Rightarrow> web_ui \<Rightarrow> web_ui option" where
  "act event ui =
     (let m = ui_mount ui; x = ui_expenses ui; a = ui_admin ui in
      case ui_session ui of
        None \<Rightarrow>
          (case event of
             PickUser u \<Rightarrow> if u \<in> set SEED_USERS \<and> lg_pending (ui_login ui) = None then Some (pick u ui) else None
           | _ \<Rightarrow> None)
      | Some s \<Rightarrow>
          (case event of
             PickUser u \<Rightarrow> None
           | SwitchUser \<Rightarrow> if currentUser ui \<noteq> None then Some (logout ui) else None
           | ClickApprove i \<Rightarrow>
               if i \<in> set (map er_id (xs_rows x)) \<and> xs_pendingId x = None then Some (onApprove i ui) else None
           | ClickRevoke i \<Rightarrow>
               if shows_admin ui \<and> \<not> am_busy a \<and> (\<exists>g \<in> set (am_assignments a). wg_id g = i \<and> is_finance_grant g)
               then Some (onRevoke i ui) else None
           | ClickGrant \<Rightarrow>
               if shows_admin ui \<and> \<not> am_busy a \<and> financeGrant a = None then Some (onGrant ui) else None
           | ClickRefresh \<Rightarrow> Some (log_load m (se_tenantId s) ui)
           | ExpensesEffect \<Rightarrow>
               if xs_effect x \<noteq> Some (ui_refreshKey ui)
               then Some (expenses_load m (set_expenses m (\<lambda>x. x\<lparr>xs_effect := Some (ui_refreshKey ui)\<rparr>) ui)) else None
           | AdminEffect \<Rightarrow>
               if shows_admin ui \<and> \<not> am_effect a
               then Some (admin_load m False (set_admin m (\<lambda>a. a\<lparr>am_effect := True\<rparr>) ui)) else None
           | LogEffect \<Rightarrow>
               if dl_effect (ui_log ui) \<noteq> Some (ui_refreshKey ui)
               then Some (log_load m (se_tenantId s) (set_log m (\<lambda>l. l\<lparr>dl_effect := Some (ui_refreshKey ui)\<rparr>) ui))
               else None))"

datatype reply =
    TokenReply "token_answer answer"
  | ExpensesReply "web_expense web_page answer"
  | ApproveReply "approve_result answer"
  | AssignmentsReply "web_assignment web_page answer"
  | AssignmentReply "web_assignment answer"
  | EventsReply "web_event web_page answer"

fun resume :: "nat \<Rightarrow> api_call \<Rightarrow> reply \<Rightarrow> web_ui \<Rightarrow> web_ui option" where
  "resume m (Login u) (TokenReply r) ui = Some (pick_answered m u r ui)"
| "resume m ListExpenses (ExpensesReply r) ui = Some (expenses_loaded m r ui)"
| "resume m (ApproveExpense i) (ApproveReply r) ui = Some (approve_answered m i r ui)"
| "resume m (ListAssignments after) (AssignmentsReply r) ui = Some (admin_loaded m after r ui)"
| "resume m (RevokeAssignment i) (AssignmentReply r) ui = Some (revoke_answered m r ui)"
| "resume m GrantFinanceManager (AssignmentReply r) ui = Some (grant_answered m r ui)"
| "resume m (ListAuditEvents t) (EventsReply r) ui = Some (log_loaded m r ui)"
| "resume m _ _ ui = None"

definition receive :: "open_call \<Rightarrow> reply \<Rightarrow> web_ui \<Rightarrow> web_ui option" where
  "receive c r ui =
     (if c \<in> set (ui_calls ui)
      then resume (oc_mount c) (oc_call c) r (ui\<lparr>ui_calls := remove1 c (ui_calls ui)\<rparr>) else None)"

text \<open>A run of the page, with the answers it received.\<close>

inductive ui_run :: "(open_call \<times> reply) list \<Rightarrow> web_ui \<Rightarrow> bool" where
  start: "ui_run [] initial_ui"
| event: "ui_run h ui \<Longrightarrow> act e ui = Some ui' \<Longrightarrow> ui_run h ui'"
| answer: "ui_run h ui \<Longrightarrow> receive c r ui = Some ui' \<Longrightarrow> ui_run (h @ [(c, r)]) ui'"

section \<open>What the page shows\<close>

definition status_text :: "web_status \<Rightarrow> string" where
  "status_text s = (case s of WebPending \<Rightarrow> ''pending'' | WebApproved \<Rightarrow> ''approved'' | WebRejected \<Rightarrow> ''rejected'')"

text \<open>toLocaleString depends on the browser, it is the argument \<^term>\<open>locale_number\<close>.\<close>

definition fmtAmount :: "(int \<Rightarrow> string) \<Rightarrow> web_expense \<Rightarrow> string" where
  "fmtAmount locale_number e = wx_currency e @ '' '' @ locale_number (wx_amount e)"

record shown_row =
  sr_id :: string
  sr_amount :: string
  sr_department :: string
  sr_status :: string
  sr_busy :: bool
  sr_disabled :: bool
  sr_outcome :: "approve_outcome option"

definition shown_rows :: "(int \<Rightarrow> string) \<Rightarrow> expenses_state \<Rightarrow> shown_row list" where
  "shown_rows locale_number x =
     map (\<lambda>row. \<lparr>sr_id = er_id row,
        sr_amount = (case er_expense row of None \<Rightarrow> em_dash | Some e \<Rightarrow> fmtAmount locale_number e),
        sr_department = (case er_expense row of None \<Rightarrow> em_dash | Some e \<Rightarrow> wx_department e),
        sr_status = (case er_expense row of None \<Rightarrow> ''not readable'' | Some e \<Rightarrow> status_text (wx_status e)),
        sr_busy = (xs_pendingId x = Some (er_id row)),
        sr_disabled = (xs_pendingId x \<noteq> None),
        sr_outcome = xs_outcomes x (er_id row)\<rparr>) (xs_rows x)"

text \<open>The lines of a verdict; a denial shows its reason, or its message when it has none.\<close>

definition outcome_lines :: "approve_outcome \<Rightarrow> string list" where
  "outcome_lines out =
     (case out of
        AllowOutcome r \<Rightarrow> [[CHR 0xE2, CHR 0x9C, CHR 0x93] @ '' Approved (200)'', ''decisionId: '' @ wa_decisionId r,
          ''by '' @ wa_approvedBy r]
      | DenyOutcome st e \<Rightarrow>
          [[CHR 0xE2, CHR 0x9C, CHR 0x97] @ '' Denied ('' @ nat_str st @ '')'',
           ''reason: '' @ or_default (we_reason e) (we_message e)] @
          (case we_decisionId e of None \<Rightarrow> [] | Some d \<Rightarrow> [''decisionId: '' @ d]))"

text \<open>The screens: what is on the page, and which buttons are disabled or busy.\<close>

record expenses_screen =
  es_loading :: bool
  es_listError :: "string option"
  es_rows :: "shown_row list"

definition shown_expenses :: "(int \<Rightarrow> string) \<Rightarrow> expenses_state \<Rightarrow> expenses_screen" where
  "shown_expenses locale_number x =
     \<lparr>es_loading = xs_loading x, es_listError = xs_listError x, es_rows = shown_rows locale_number x\<rparr>"

record login_button =
  lb_key :: user_key
  lb_name :: string
  lb_role :: string
  lb_busy :: bool
  lb_disabled :: bool

definition shown_login :: "login_state \<Rightarrow> login_button list \<times> string option" where
  "shown_login l =
     (map (\<lambda>u. \<lparr>lb_key = su_key u, lb_name = su_name u, lb_role = su_role u,
        lb_busy = (lg_pending l = Some (su_key u)), lb_disabled = (lg_pending l \<noteq> None)\<rparr>) SEED_USERS,
      lg_error l)"

text \<open>A row of the assignments has a button for an active grant of the finance role only.\<close>

record admin_row =
  aw_id :: string
  aw_role :: string
  aw_scope :: string
  aw_status :: string
  aw_revokeDisabled :: "bool option"

record admin_screen =
  as_loading :: bool
  as_error :: "string option"
  as_rows :: "admin_row list"
  as_empty :: bool
  as_grantDisabled :: bool
  as_grantBusy :: bool
  as_notice :: "string option"

definition shown_assignment :: "bool \<Rightarrow> web_assignment \<Rightarrow> admin_row" where
  "shown_assignment busy g =
     \<lparr>aw_id = wg_id g,
      aw_role = wg_roleId g @ (if wg_roleId g = FINANCE_MANAGER_ROLE_ID then '' (finance_manager)'' else []),
      aw_scope = wg_scope g, aw_status = wg_status g,
      aw_revokeDisabled = (if is_finance_grant g then Some busy else None)\<rparr>"

definition shown_admin :: "admin_state \<Rightarrow> admin_screen" where
  "shown_admin a =
     \<lparr>as_loading = am_loading a, as_error = am_error a,
      as_rows = map (shown_assignment (am_busy a)) (am_assignments a),
      as_empty = (am_assignments a = [] \<and> \<not> am_loading a),
      as_grantDisabled = (am_busy a \<or> financeGrant a \<noteq> None), as_grantBusy = am_busy a, as_notice = am_notice a\<rparr>"

record log_row =
  lw_decision :: string
  lw_action :: string
  lw_resource :: string
  lw_reason :: string
  lw_decisionId :: string

record log_screen =
  ls_busy :: bool
  ls_error :: "string option"
  ls_empty :: bool
  ls_rows :: "log_row list"

definition shown_event :: "web_event \<Rightarrow> log_row" where
  "shown_event e =
     \<lparr>lw_decision = wv_decision e, lw_action = wv_action e,
      lw_resource = wv_resourceKind e @ ''/'' @ wv_resourceId e,
      lw_reason = or_default (wv_reason e) em_dash, lw_decisionId = or_default (wv_decisionId e) em_dash\<rparr>"

definition shown_log :: "log_state \<Rightarrow> log_screen" where
  "shown_log l =
     \<lparr>ls_busy = dl_loading l, ls_error = dl_error l,
      ls_empty = (\<not> dl_loading l \<and> dl_events l = [] \<and> dl_error l = None), ls_rows = map shown_event (dl_events l)\<rparr>"

text \<open>The shell shows the login, or the expenses, the decision log and, to an administrator, the grants.\<close>

datatype page =
    LoginPage "login_button list" "string option"
  | SessionPage expenses_screen "admin_screen option" log_screen

definition shown_user :: "web_ui \<Rightarrow> (string \<times> string) option" where
  "shown_user ui = map_option (\<lambda>u. (su_name u, su_role u)) (currentUser ui)"

definition shown_page :: "(int \<Rightarrow> string) \<Rightarrow> web_ui \<Rightarrow> page" where
  "shown_page locale_number ui =
     (case ui_session ui of
        None \<Rightarrow> (case shown_login (ui_login ui) of (buttons, error) \<Rightarrow> LoginPage buttons error)
      | Some s \<Rightarrow>
          SessionPage (shown_expenses locale_number (ui_expenses ui))
            (if shows_admin ui then Some (shown_admin (ui_admin ui)) else None) (shown_log (ui_log ui)))"

section \<open>A click acts exactly when its button is on the page and enabled\<close>

lemma approve_button:
  assumes "ui_session ui = Some s"
  shows "act (ClickApprove i) ui \<noteq> None \<longleftrightarrow>
    (\<exists>row \<in> set (es_rows (shown_expenses locale_number (ui_expenses ui))). sr_id row = i \<and> \<not> sr_disabled row)"
  using assms by (auto simp: act_def Let_def shown_expenses_def shown_rows_def)

lemma revoke_button:
  assumes "ui_session ui = Some s"
  shows "act (ClickRevoke i) ui \<noteq> None \<longleftrightarrow>
    shows_admin ui \<and> (\<exists>row \<in> set (as_rows (shown_admin (ui_admin ui))). aw_id row = i \<and> aw_revokeDisabled row = Some False)"
  using assms by (auto simp: act_def Let_def shown_admin_def shown_assignment_def)

lemma grant_button:
  assumes "ui_session ui = Some s"
  shows "act ClickGrant ui \<noteq> None \<longleftrightarrow> shows_admin ui \<and> \<not> as_grantDisabled (shown_admin (ui_admin ui))"
  using assms by (auto simp: act_def Let_def shown_admin_def)

lemma login_button:
  assumes "ui_session ui = None" and "u \<in> set SEED_USERS"
  shows "act (PickUser u) ui \<noteq> None \<longleftrightarrow> (\<exists>b \<in> set (fst (shown_login (ui_login ui))). lb_key b = su_key u \<and> \<not> lb_disabled b)"
  using assms by (auto simp: act_def Let_def shown_login_def)

text \<open>Nobody but an administrator of the demo is offered the grants.\<close>

lemma only_dev_administers: "shows_admin ui \<Longrightarrow> \<exists>s. ui_session ui = Some s \<and> se_userKey s = Dev"
  by (auto simp: shows_admin_def currentUser_def SEED_USERS_def split: option.splits if_splits)

end
