(* ===== verification/WebUiSafety.thy ===== *)
theory WebUiSafety
  imports WebUi
begin

text \<open>
  What the page shows comes from answers to calls its session sent, whatever the order of
  clicks and answers; and two ways in which a late continuation still reaches further than
  its screen.
\<close>

section \<open>Frames of the setters\<close>

lemma set_expenses_frame [simp]:
  "ui_token (set_expenses m f ui) = ui_token ui" "ui_session (set_expenses m f ui) = ui_session ui"
  "ui_mount (set_expenses m f ui) = ui_mount ui" "ui_login (set_expenses m f ui) = ui_login ui"
  "ui_admin (set_expenses m f ui) = ui_admin ui" "ui_log (set_expenses m f ui) = ui_log ui"
  "ui_calls (set_expenses m f ui) = ui_calls ui"
  "ui_expenses (set_expenses m f ui) = (if ui_mount ui = m then f (ui_expenses ui) else ui_expenses ui)"
  by (simp_all add: set_expenses_def on_screen_def)

lemma set_admin_frame [simp]:
  "ui_token (set_admin m f ui) = ui_token ui" "ui_session (set_admin m f ui) = ui_session ui"
  "ui_mount (set_admin m f ui) = ui_mount ui" "ui_login (set_admin m f ui) = ui_login ui"
  "ui_expenses (set_admin m f ui) = ui_expenses ui" "ui_log (set_admin m f ui) = ui_log ui"
  "ui_calls (set_admin m f ui) = ui_calls ui"
  "ui_admin (set_admin m f ui) = (if ui_mount ui = m then f (ui_admin ui) else ui_admin ui)"
  by (simp_all add: set_admin_def on_screen_def)

lemma set_log_frame [simp]:
  "ui_token (set_log m f ui) = ui_token ui" "ui_session (set_log m f ui) = ui_session ui"
  "ui_mount (set_log m f ui) = ui_mount ui" "ui_login (set_log m f ui) = ui_login ui"
  "ui_expenses (set_log m f ui) = ui_expenses ui" "ui_admin (set_log m f ui) = ui_admin ui"
  "ui_calls (set_log m f ui) = ui_calls ui"
  "ui_log (set_log m f ui) = (if ui_mount ui = m then f (ui_log ui) else ui_log ui)"
  by (simp_all add: set_log_def on_screen_def)

lemma send_frame [simp]:
  "ui_token (send m c ui) = ui_token ui" "ui_session (send m c ui) = ui_session ui"
  "ui_mount (send m c ui) = ui_mount ui" "ui_login (send m c ui) = ui_login ui"
  "ui_expenses (send m c ui) = ui_expenses ui" "ui_admin (send m c ui) = ui_admin ui" "ui_log (send m c ui) = ui_log ui"
  "ui_calls (send m c ui) = ui_calls ui @ [\<lparr>oc_mount = m, oc_token = ui_token ui, oc_call = c\<rparr>]"
  by (simp_all add: send_def)

lemma bump_frame [simp]:
  "ui_token (bump ui) = ui_token ui" "ui_session (bump ui) = ui_session ui" "ui_mount (bump ui) = ui_mount ui"
  "ui_login (bump ui) = ui_login ui" "ui_expenses (bump ui) = ui_expenses ui" "ui_admin (bump ui) = ui_admin ui"
  "ui_log (bump ui) = ui_log ui" "ui_calls (bump ui) = ui_calls ui"
  by (simp_all add: bump_def)

section \<open>What a screen shows was answered to its session\<close>

definition is_login :: "open_call \<Rightarrow> bool" where
  "is_login c \<longleftrightarrow> (case oc_call c of Login u \<Rightarrow> True | _ \<Rightarrow> False)"

definition is_approval :: "open_call \<Rightarrow> bool" where
  "is_approval c \<longleftrightarrow> (case oc_call c of ApproveExpense i \<Rightarrow> True | _ \<Rightarrow> False)"

definition answered :: "(open_call \<times> reply) list \<Rightarrow> string \<Rightarrow> api_call \<Rightarrow> reply \<Rightarrow> bool" where
  "answered h t k r \<longleftrightarrow> (\<exists>c. (c, r) \<in> set h \<and> oc_call c = k \<and> oc_token c = Some t)"

definition rows_from :: "(open_call \<times> reply) list \<Rightarrow> string \<Rightarrow> expense_row list \<Rightarrow> bool" where
  "rows_from h t rows \<longleftrightarrow> (\<forall>row e. row \<in> set rows \<and> er_expense row = Some e \<longrightarrow>
     (\<exists>st page. answered h t ListExpenses (ExpensesReply (AnswerOk st page)) \<and> e \<in> set (wp_items page)))"

definition outcomes_from :: "(open_call \<times> reply) list \<Rightarrow> string \<Rightarrow> (string \<Rightarrow> approve_outcome option) \<Rightarrow> bool" where
  "outcomes_from h t outcomes \<longleftrightarrow> (\<forall>i out. outcomes i = Some out \<longrightarrow>
     (\<exists>r. answered h t (ApproveExpense i) (ApproveReply r) \<and> out = outcome_of r))"

definition assignments_from :: "(open_call \<times> reply) list \<Rightarrow> string \<Rightarrow> web_assignment list \<Rightarrow> bool" where
  "assignments_from h t grants \<longleftrightarrow> (\<forall>g \<in> set grants.
     \<exists>after st page. answered h t (ListAssignments after) (AssignmentsReply (AnswerOk st page)) \<and> g \<in> set (wp_items page))"

definition events_from :: "(open_call \<times> reply) list \<Rightarrow> web_session \<Rightarrow> web_event list \<Rightarrow> bool" where
  "events_from h s events \<longleftrightarrow> (\<forall>e \<in> set events.
     \<exists>st page. answered h (se_token s) (ListAuditEvents (se_tenantId s)) (EventsReply (AnswerOk st page)) \<and>
       e \<in> set (wp_items page))"

definition session_from :: "(open_call \<times> reply) list \<Rightarrow> web_session \<Rightarrow> bool" where
  "session_from h s \<longleftrightarrow> (\<exists>c u st t. (c, TokenReply (AnswerOk st t)) \<in> set h \<and> oc_call c = Login u \<and>
     s = \<lparr>se_token = tk_accessToken t, se_tenantId = tk_tid t, se_userId = tk_sub t, se_userKey = su_key u\<rparr>)"

lemmas from_defs = rows_from_def outcomes_from_def assignments_from_def events_from_def session_from_def

lemma answered_more: "answered h t k r \<Longrightarrow> answered (h @ h') t k r" by (auto simp: answered_def)

lemma answered_now: "oc_call c = k \<Longrightarrow> oc_token c = Some t \<Longrightarrow> answered (h @ [(c, r)]) t k r"
  by (auto simp: answered_def)

lemma rows_from_more: "rows_from h t rows \<Longrightarrow> rows_from (h @ h') t rows"
  unfolding rows_from_def by (meson answered_more)

lemma outcomes_from_more: "outcomes_from h t f \<Longrightarrow> outcomes_from (h @ h') t f"
  unfolding outcomes_from_def by (meson answered_more)

lemma assignments_from_more: "assignments_from h t a \<Longrightarrow> assignments_from (h @ h') t a"
  unfolding assignments_from_def by (meson answered_more)

lemma events_from_more: "events_from h s l \<Longrightarrow> events_from (h @ h') s l"
  unfolding events_from_def by (meson answered_more)

lemma session_from_more: "session_from h s \<Longrightarrow> session_from (h @ h') s"
  unfolding session_from_def by fastforce

lemmas from_more = rows_from_more outcomes_from_more assignments_from_more events_from_more session_from_more

lemma from_fresh [simp]:
  "rows_from h t []" "outcomes_from h t (\<lambda>_. None)" "assignments_from h t []" "events_from h s []"
  by (simp_all add: from_defs)

lemma by_id_snoc: "by_id (items @ [e]) = (by_id items)(wx_id e \<mapsto> e)" by (simp add: by_id_def)

lemma by_id_member: "by_id items i = Some e \<Longrightarrow> e \<in> set items \<and> wx_id e = i"
proof (induction items rule: rev_induct)
  case Nil
  then show ?case by (simp add: by_id_def)
next
  case (snoc x xs)
  then show ?case by (auto simp: by_id_snoc split: if_splits)
qed

lemma merged_rows_member: "row \<in> set (merged_rows items) \<Longrightarrow> er_expense row = Some e \<Longrightarrow> e \<in> set items"
  by (auto simp: merged_rows_def dest: by_id_member)

section \<open>The invariant of a page\<close>

definition fits :: "web_session \<Rightarrow> open_call \<Rightarrow> bool" where
  "fits s c \<longleftrightarrow> oc_token c = Some (se_token s) \<and>
     (case oc_call c of ListAuditEvents t \<Rightarrow> t = se_tenantId s | _ \<Rightarrow> True)"

definition calls_ok :: "web_ui \<Rightarrow> bool" where
  "calls_ok ui \<longleftrightarrow> ui_token ui = map_option se_token (ui_session ui) \<and>
     (\<forall>c \<in> set (ui_calls ui). oc_mount c \<le> ui_mount ui) \<and>
     (\<forall>c \<in> set (ui_calls ui). is_login c \<longrightarrow> oc_mount c = ui_mount ui) \<and>
     length (filter is_login (ui_calls ui)) = (if lg_pending (ui_login ui) = None then 0 else 1) \<and>
     (ui_session ui = None \<longrightarrow> (\<forall>c \<in> set (ui_calls ui). oc_mount c = ui_mount ui \<longrightarrow> is_login c)) \<and>
     (ui_session ui \<noteq> None \<longrightarrow> lg_pending (ui_login ui) = None) \<and>
     (\<forall>s. ui_session ui = Some s \<longrightarrow> (\<forall>c \<in> set (ui_calls ui). oc_mount c = ui_mount ui \<longrightarrow> fits s c))"

definition shows_ok :: "(open_call \<times> reply) list \<Rightarrow> web_ui \<Rightarrow> bool" where
  "shows_ok h ui \<longleftrightarrow>
     (case ui_session ui of
        None \<Rightarrow> True
      | Some s \<Rightarrow> session_from h s \<and> rows_from h (se_token s) (xs_rows (ui_expenses ui)) \<and>
          outcomes_from h (se_token s) (xs_outcomes (ui_expenses ui)) \<and>
          assignments_from h (se_token s) (am_assignments (ui_admin ui)) \<and> events_from h s (dl_events (ui_log ui)))"

lemma calls_okI:
  assumes "ui_token ui = map_option se_token (ui_session ui)"
    and "\<And>c. c \<in> set (ui_calls ui) \<Longrightarrow> oc_mount c \<le> ui_mount ui"
    and "\<And>c. c \<in> set (ui_calls ui) \<Longrightarrow> is_login c \<Longrightarrow> oc_mount c = ui_mount ui"
    and "length (filter is_login (ui_calls ui)) = (if lg_pending (ui_login ui) = None then 0 else 1)"
    and "\<And>c. ui_session ui = None \<Longrightarrow> c \<in> set (ui_calls ui) \<Longrightarrow> oc_mount c = ui_mount ui \<Longrightarrow> is_login c"
    and "ui_session ui \<noteq> None \<Longrightarrow> lg_pending (ui_login ui) = None"
    and "\<And>s c. ui_session ui = Some s \<Longrightarrow> c \<in> set (ui_calls ui) \<Longrightarrow> oc_mount c = ui_mount ui \<Longrightarrow> fits s c"
  shows "calls_ok ui"
  unfolding calls_ok_def using assms(1-4,6) by (blast intro: assms(5,7))

lemma calls_okD:
  assumes "calls_ok ui"
  shows "ui_token ui = map_option se_token (ui_session ui)"
    and "\<And>c. c \<in> set (ui_calls ui) \<Longrightarrow> oc_mount c \<le> ui_mount ui"
    and "\<And>c. c \<in> set (ui_calls ui) \<Longrightarrow> is_login c \<Longrightarrow> oc_mount c = ui_mount ui"
    and "length (filter is_login (ui_calls ui)) = (if lg_pending (ui_login ui) = None then 0 else 1)"
    and "\<And>c. ui_session ui = None \<Longrightarrow> c \<in> set (ui_calls ui) \<Longrightarrow> oc_mount c = ui_mount ui \<Longrightarrow> is_login c"
    and "ui_session ui \<noteq> None \<Longrightarrow> lg_pending (ui_login ui) = None"
    and "\<And>s c. ui_session ui = Some s \<Longrightarrow> c \<in> set (ui_calls ui) \<Longrightarrow> oc_mount c = ui_mount ui \<Longrightarrow> fits s c"
  using assms unfolding calls_ok_def by blast+

lemma calls_ok_cong:
  assumes "ui_token ui' = ui_token ui" "ui_session ui' = ui_session ui" "ui_mount ui' = ui_mount ui"
    "lg_pending (ui_login ui') = lg_pending (ui_login ui)" "ui_calls ui' = ui_calls ui"
  shows "calls_ok ui' = calls_ok ui"
  unfolding calls_ok_def assms by (rule refl)

lemma calls_ok_frame [simp]:
  "calls_ok (set_expenses m f ui) = calls_ok ui" "calls_ok (set_admin m g ui) = calls_ok ui"
  "calls_ok (set_log m k ui) = calls_ok ui" "calls_ok (bump ui) = calls_ok ui"
  by (rule calls_ok_cong; simp)+

text \<open>A screen of a session sends with the token of the session, and asks for its own tenant.\<close>

definition sends :: "web_ui \<Rightarrow> nat \<Rightarrow> api_call \<Rightarrow> bool" where
  "sends ui m c \<longleftrightarrow> m \<le> ui_mount ui \<and> (\<forall>u. c \<noteq> Login u) \<and>
     (m = ui_mount ui \<longrightarrow> (case ui_session ui of None \<Rightarrow> False
        | Some s \<Rightarrow> (case c of ListAuditEvents t \<Rightarrow> t = se_tenantId s | _ \<Rightarrow> True)))"

lemma sends_call:
  assumes "calls_ok ui" and "sends ui m c"
  shows "\<not> is_login \<lparr>oc_mount = m, oc_token = ui_token ui, oc_call = c\<rparr>"
    and "\<And>s. ui_session ui = Some s \<Longrightarrow> m = ui_mount ui \<Longrightarrow> fits s \<lparr>oc_mount = m, oc_token = ui_token ui, oc_call = c\<rparr>"
  using calls_okD(1)[OF assms(1)] assms(2)
  by (auto simp: sends_def is_login_def fits_def split: option.splits api_call.splits)

lemma send_calls_ok:
  assumes ok: "calls_ok ui" and c: "sends ui m c"
  shows "calls_ok (send m c ui)"
proof (rule calls_okI, goal_cases)
  case 1
  then show ?case using calls_okD(1)[OF ok] by simp
next
  case (2 x)
  then show ?case using calls_okD(2)[OF ok] c by (auto simp: sends_def)
next
  case (3 x)
  then show ?case using calls_okD(3)[OF ok] sends_call(1)[OF ok c] by fastforce
next
  case 4
  then show ?case using calls_okD(4)[OF ok] sends_call(1)[OF ok c] by simp
next
  case (5 x)
  then show ?case using calls_okD(5)[OF ok] c by (fastforce simp: sends_def)
next
  case 6
  then show ?case using calls_okD(6)[OF ok] by simp
next
  case (7 s x)
  then show ?case using calls_okD(7)[OF ok] sends_call(2)[OF ok c] by fastforce
qed

lemma new_screens_frame [simp]:
  "ui_token (new_screens ui) = ui_token ui" "ui_session (new_screens ui) = ui_session ui"
  "ui_mount (new_screens ui) = ui_mount ui + 1" "ui_login (new_screens ui) = fresh_login"
  "ui_expenses (new_screens ui) = fresh_expenses" "ui_admin (new_screens ui) = fresh_admin"
  "ui_log (new_screens ui) = fresh_log" "ui_calls (new_screens ui) = ui_calls ui"
  by (simp_all add: new_screens_def)

lemma new_screens_calls_ok:
  assumes le: "\<forall>c \<in> set (ui_calls ui). oc_mount c \<le> ui_mount ui" and no: "filter is_login (ui_calls ui) = []"
    and token: "ui_token ui = map_option se_token (ui_session ui)"
  shows "calls_ok (new_screens ui)"
proof -
  have "oc_mount c \<noteq> ui_mount ui + 1" if "c \<in> set (ui_calls ui)" for c using le that by fastforce
  moreover have "\<not> is_login c" if "c \<in> set (ui_calls ui)" for c using no that by (auto simp: filter_empty_conv)
  ultimately show ?thesis
    by (intro calls_okI) (use le no token in \<open>auto simp: fresh_login_def le_Suc_eq\<close>)
qed

lemma logged_in_no_login:
  assumes "calls_ok ui" and "ui_session ui = Some s"
  shows "filter is_login (ui_calls ui) = []"
  using calls_okD(4,6)[OF assms(1)] assms(2) by simp

lemma logout_calls_ok:
  assumes "calls_ok ui" and "ui_session ui = Some s"
  shows "calls_ok (logout ui)"
  using calls_okD(2)[OF assms(1)] logged_in_no_login[OF assms] unfolding logout_def setToken_def
  by (intro new_screens_calls_ok) auto

lemma pick_calls_ok:
  assumes ok: "calls_ok ui" and no: "ui_session ui = None" "lg_pending (ui_login ui) = None"
  shows "calls_ok (pick u ui)"
proof -
  have "filter is_login (ui_calls ui) = []" using calls_okD(4)[OF ok] no by simp
  then show ?thesis
    unfolding pick_def send_def
    by (intro calls_okI) (use calls_okD(1,2,5)[OF ok] no in \<open>auto simp: is_login_def filter_empty_conv\<close>)
qed

lemmas button_defs = onApprove_def onRevoke_def onGrant_def expenses_load_def admin_load_def log_load_def

lemma act_calls_ok:
  assumes ok: "calls_ok ui" and act: "act e ui = Some ui'"
  shows "calls_ok ui'"
proof (cases "ui_session ui")
  case None
  then show ?thesis using act pick_calls_ok[OF ok None] by (cases e) (auto simp: act_def Let_def split: if_splits)
next
  case (Some s)
  then show ?thesis
    using act logout_calls_ok[OF ok Some]
    by (cases e) (auto simp: act_def Let_def button_defs sends_def ok intro!: send_calls_ok split: if_splits)
qed

text \<open>Taking an answered call off the open ones.\<close>

lemma take_call:
  assumes ok: "calls_ok ui" and "\<not> is_login c"
  shows "calls_ok (ui\<lparr>ui_calls := remove1 c (ui_calls ui)\<rparr>)"
proof -
  have no: "filter is_login (remove1 c (ui_calls ui)) = filter is_login (ui_calls ui)"
    using assms(2) by (simp add: filter_remove1 remove1_idem)
  have sub: "x \<in> set (ui_calls ui)" if "x \<in> set (remove1 c (ui_calls ui))" for x
    using that set_remove1_subset by fast
  let ?ui = "ui\<lparr>ui_calls := remove1 c (ui_calls ui)\<rparr>"
  note d = calls_okD[OF ok]
  show ?thesis
  proof (rule calls_okI, goal_cases)
    case (3 x)
    from d(3)[OF sub this(2)] this(1) show ?case by simp
  next
    case (5 x)
    from d(5)[OF _ sub] this show ?case by simp
  next
    case (7 s x)
    from d(7)[OF _ sub] this show ?case by simp
  qed (use d(1,2,4,6) sub no in simp_all)
qed

lemma take_login:
  assumes ok: "calls_ok ui" and mem: "c \<in> set (ui_calls ui)" and login: "is_login c"
  shows "oc_mount c = ui_mount ui" and "ui_session ui = None"
    and "filter is_login (remove1 c (ui_calls ui)) = []"
proof -
  show "oc_mount c = ui_mount ui" by (rule calls_okD(3)[OF ok mem login])
  have c: "c \<in> set (filter is_login (ui_calls ui))" using mem login by simp
  then have l: "length (filter is_login (ui_calls ui)) = 1" "lg_pending (ui_login ui) \<noteq> None"
    using calls_okD(4)[OF ok] by (cases "lg_pending (ui_login ui)"; simp del: set_filter)+
  show "ui_session ui = None"
  proof (rule ccontr)
    assume "ui_session ui \<noteq> None"
    then show False using calls_okD(6)[OF ok] l(2) by simp
  qed
  obtain x where "filter is_login (ui_calls ui) = [x]" using l(1) by (auto simp: length_Suc_conv)
  then show "filter is_login (remove1 c (ui_calls ui)) = []" using c by (simp add: filter_remove1)
qed

lemma call_of_screen:
  assumes "calls_ok ui" and "c \<in> set (ui_calls ui)" and "\<not> is_login c" and "oc_mount c = ui_mount ui"
  obtains s where "ui_session ui = Some s" "fits s c"
proof (cases "ui_session ui")
  case None
  then show thesis using calls_okD(5)[OF assms(1) None assms(2,4)] assms(3) by simp
next
  case (Some s)
  then show thesis using calls_okD(7)[OF assms(1) Some assms(2,4)] that by simp
qed

lemma pick_answered_calls_ok:
  assumes ok: "calls_ok ui" and "c \<in> set (ui_calls ui)" and "is_login c"
  shows "calls_ok (pick_answered (oc_mount c) u r (ui\<lparr>ui_calls := remove1 c (ui_calls ui)\<rparr>))"
proof -
  note t = take_login[OF assms]
  have sub: "x \<in> set (ui_calls ui)" if "x \<in> set (remove1 c (ui_calls ui))" for x
    using that set_remove1_subset by fast
  have login: "\<not> is_login x" if "x \<in> set (remove1 c (ui_calls ui))" for x
    using t(3) that by (simp add: filter_empty_conv)
  have own: "oc_mount x \<noteq> ui_mount ui" if "x \<in> set (remove1 c (ui_calls ui))" for x
    using calls_okD(5)[OF ok t(2) sub[OF that]] login[OF that] by blast
  show ?thesis
  proof (cases r)
    case (AnswerOk st a)
    then show ?thesis unfolding pick_answered_def onLogin_def Let_def
      by (auto intro!: new_screens_calls_ok simp: on_screen_def setToken_def bump_def t(1,3) sub calls_okD(2)[OF ok])
  next
    case (AnswerError st e)
    let ?ui = "ui\<lparr>ui_calls := remove1 c (ui_calls ui), ui_login := (ui_login ui)\<lparr>lg_pending := None, lg_error := Some (error_text e)\<rparr>\<rparr>"
    have "calls_ok ?ui"
      by (rule calls_okI) (use t(2,3) own login sub calls_okD(1,2)[OF ok] in simp_all)
    moreover have "pick_answered (oc_mount c) u r (ui\<lparr>ui_calls := remove1 c (ui_calls ui)\<rparr>) = ?ui"
      using AnswerError t(1) by (simp add: pick_answered_def Let_def on_screen_def)
    ultimately show ?thesis by simp
  qed
qed

text \<open>What the page shows.\<close>

lemma shows_ok_cong:
  assumes "ui_session ui' = ui_session ui" "xs_rows (ui_expenses ui') = xs_rows (ui_expenses ui)"
    "xs_outcomes (ui_expenses ui') = xs_outcomes (ui_expenses ui)"
    "am_assignments (ui_admin ui') = am_assignments (ui_admin ui)" "dl_events (ui_log ui') = dl_events (ui_log ui)"
  shows "shows_ok h ui' = shows_ok h ui"
  unfolding shows_ok_def assms by (rule refl)

lemma act_shows_ok:
  assumes ok: "shows_ok h ui" and act: "act e ui = Some ui'"
  shows "shows_ok h ui'"
proof (cases "ui_session ui' = None")
  case True
  then show ?thesis by (simp add: shows_ok_def)
next
  case False
  have "shows_ok h ui' = shows_ok h ui"
    by (rule shows_ok_cong; use False act in \<open>cases e; auto simp: act_def Let_def button_defs pick_def logout_def
        setToken_def split: if_splits option.splits\<close>)
  then show ?thesis using ok by simp
qed

lemma shows_ok_more: "shows_ok h ui \<Longrightarrow> shows_ok (h @ h') ui"
  by (cases "ui_session ui") (simp_all add: shows_ok_def from_more)

text \<open>An answer that arrives.\<close>

lemmas answer_defs = expenses_loaded_def approve_answered_def admin_loaded_def revoke_answered_def grant_answered_def
  log_loaded_def admin_load_def Let_def

lemma receive_cases:
  assumes "receive c r ui = Some ui'"
  obtains "c \<in> set (ui_calls ui)" "resume (oc_mount c) (oc_call c) r (ui\<lparr>ui_calls := remove1 c (ui_calls ui)\<rparr>) = Some ui'"
  using assms by (auto simp: receive_def split: if_splits)

lemma login_call: "is_login c \<longleftrightarrow> (\<exists>u. oc_call c = Login u)"
  by (auto simp: is_login_def split: api_call.splits)

lemma screen_answer_calls_ok:
  assumes ok: "calls_ok ui" and "k \<noteq> Login u" and "resume m k r ui = Some ui'" and "\<And>u. k \<noteq> Login u"
    and "m \<le> ui_mount ui" and "m = ui_mount ui \<Longrightarrow> ui_session ui \<noteq> None"
  shows "calls_ok ui'"
proof -
  have after: "calls_ok (send m (ListAssignments True) (set_admin m f (set_admin m g ui)))" for f g
    by (rule send_calls_ok) (use ok assms(5,6) in \<open>auto simp: sends_def split: option.splits\<close>)
  show ?thesis
    using assms(3,4) ok after by (cases k; cases r) (auto simp: answer_defs)
qed

lemma receive_calls_ok:
  assumes ok: "calls_ok ui" and "receive c r ui = Some ui'"
  shows "calls_ok ui'"
proof -
  obtain mem: "c \<in> set (ui_calls ui)"
    and run: "resume (oc_mount c) (oc_call c) r (ui\<lparr>ui_calls := remove1 c (ui_calls ui)\<rparr>) = Some ui'"
    using assms(2) by (rule receive_cases)
  show ?thesis
  proof (cases "is_login c")
    case True
    then obtain u where "oc_call c = Login u" by (auto simp: login_call)
    then show ?thesis
      using run pick_answered_calls_ok[OF ok mem True] by (cases r) auto
  next
    case False
    then have "oc_call c \<noteq> Login u" for u by (auto simp: login_call)
    moreover have "ui_session ui \<noteq> None" if "oc_mount c = ui_mount ui"
      using call_of_screen[OF ok mem False that] by auto
    ultimately show ?thesis
      using screen_answer_calls_ok[OF take_call[OF ok False] _ run] calls_okD(2)[OF ok mem] by simp
  qed
qed

lemma merged_rows_from:
  "answered h t ListExpenses (ExpensesReply (AnswerOk st page)) \<Longrightarrow> rows_from h t (merged_rows (wp_items page))"
  unfolding rows_from_def using merged_rows_member by blast

lemma no_rows_from: "rows_from h t (merged_rows [])"
  unfolding rows_from_def using merged_rows_member by fastforce

lemma assignments_now:
  "answered h t (ListAssignments after) (AssignmentsReply (AnswerOk st page)) \<Longrightarrow> assignments_from h t (wp_items page)"
  unfolding assignments_from_def by blast

lemma events_now:
  "answered h (se_token s) (ListAuditEvents (se_tenantId s)) (EventsReply (AnswerOk st page)) \<Longrightarrow>
   events_from h s (wp_items page)"
  unfolding events_from_def by blast

lemma outcome_from:
  "outcomes_from h t f \<Longrightarrow> answered h t (ApproveExpense i) (ApproveReply r) \<Longrightarrow> outcomes_from h t (f(i \<mapsto> outcome_of r))"
  unfolding outcomes_from_def by auto

lemma pick_answered_shows_ok:
  assumes "ui_session ui = None" and "oc_call c = Login u"
  shows "shows_ok (h @ [(c, TokenReply r)]) (pick_answered m u r ui)"
  using assms
  by (cases r) (force simp: pick_answered_def Let_def on_screen_def shows_ok_def onLogin_def setToken_def
      fresh_expenses_def fresh_admin_def fresh_log_def session_from_def)+

lemma late_answer_shows_ok:
  assumes "resume m k r ui = Some ui'" and "\<And>u. k \<noteq> Login u" and "m \<noteq> ui_mount ui" and "shows_ok h ui"
  shows "shows_ok h ui'"
proof -
  have "shows_ok h ui' = shows_ok h ui"
    by (rule shows_ok_cong; use assms(1-3) in \<open>cases k; cases r; auto simp: answer_defs\<close>)
  then show ?thesis using assms(4) by simp
qed

lemma screen_answer_shows_ok:
  assumes run: "resume (ui_mount ui) (oc_call c) r ui = Some ui'" and "\<And>u. oc_call c \<noteq> Login u"
    and s: "ui_session ui = Some s" "fits s c" and ok: "shows_ok (h @ [(c, r)]) ui"
  shows "shows_ok (h @ [(c, r)]) ui'"
proof -
  let ?h = "h @ [(c, r)]"
  have t: "oc_token c = Some (se_token s)" and "\<And>t. oc_call c = ListAuditEvents t \<Longrightarrow> t = se_tenantId s"
    using s(2) by (auto simp: fits_def)
  then have now: "answered ?h (se_token s) (oc_call c) r" by (simp add: answered_now)
  have o: "session_from ?h s" "rows_from ?h (se_token s) (xs_rows (ui_expenses ui))"
    "outcomes_from ?h (se_token s) (xs_outcomes (ui_expenses ui))"
    "assignments_from ?h (se_token s) (am_assignments (ui_admin ui))" "events_from ?h s (dl_events (ui_log ui))"
    using ok s(1) by (simp_all add: shows_ok_def)
  show ?thesis
  proof (cases "oc_call c")
    case ListExpenses
    then show ?thesis using run o now s(1)
      by (cases r) (auto simp: answer_defs shows_ok_def no_rows_from intro: merged_rows_from split: answer.splits)
  next
    case (ApproveExpense i)
    then show ?thesis using run o now s(1) by (cases r) (auto simp: answer_defs shows_ok_def intro: outcome_from)
  next
    case (ListAssignments after)
    then show ?thesis using run o now s(1)
      by (cases r) (auto simp: answer_defs shows_ok_def intro: assignments_now split: answer.splits)
  next
    case (ListAuditEvents tenant)
    then show ?thesis using run o now s \<open>\<And>t. _ \<Longrightarrow> t = se_tenantId s\<close>
      by (cases r) (auto simp: answer_defs shows_ok_def intro: events_now split: answer.splits)
  qed (use run o s(1) assms(2) in \<open>cases r; auto simp: answer_defs shows_ok_def\<close>)+
qed

lemma receive_shows_ok:
  assumes ok: "calls_ok ui" and old: "shows_ok h ui" and "receive c r ui = Some ui'"
  shows "shows_ok (h @ [(c, r)]) ui'"
proof -
  obtain mem: "c \<in> set (ui_calls ui)"
    and run: "resume (oc_mount c) (oc_call c) r (ui\<lparr>ui_calls := remove1 c (ui_calls ui)\<rparr>) = Some ui'"
    using assms(3) by (rule receive_cases)
  let ?ui = "ui\<lparr>ui_calls := remove1 c (ui_calls ui)\<rparr>"
  have shown: "shows_ok (h @ [(c, r)]) ?ui"
    using shows_ok_more[OF old] shows_ok_cong[of ?ui ui] by simp
  show ?thesis
  proof (cases "is_login c")
    case True
    then obtain u where u: "oc_call c = Login u" by (auto simp: login_call)
    have "ui_session ?ui = None" using take_login(2)[OF ok mem True] by simp
    then show ?thesis using run u pick_answered_shows_ok by (cases r) auto
  next
    case False
    then have k: "oc_call c \<noteq> Login u" for u by (auto simp: login_call)
    show ?thesis
    proof (cases "oc_mount c = ui_mount ui")
      case True
      then obtain s where "ui_session ui = Some s" "fits s c" using call_of_screen[OF ok mem False] by blast
      then show ?thesis using screen_answer_shows_ok[of ?ui c r ui' s h] run k True shown by simp
    next
      case other: False
      then show ?thesis using late_answer_shows_ok[OF run k _ shown] by simp
    qed
  qed
qed

lemma ui_run_ok: "ui_run h ui \<Longrightarrow> calls_ok ui \<and> shows_ok h ui"
proof (induction rule: ui_run.induct)
  case start
  then show ?case by (simp add: calls_ok_def shows_ok_def initial_ui_def fresh_login_def)
next
  case (event h ui e ui')
  then show ?case using act_calls_ok act_shows_ok by blast
next
  case (answer h ui c r ui')
  then show ?case using receive_calls_ok receive_shows_ok by blast
qed

section \<open>Every run\<close>


text \<open>A run given by its steps; an answer names its call by the position among the open ones.\<close>

datatype page_step = Do ui_event | Arrive nat reply

fun play :: "page_step list \<Rightarrow> (open_call \<times> reply) list \<times> web_ui \<Rightarrow> ((open_call \<times> reply) list \<times> web_ui) option" where
  "play [] st = Some st"
| "play (Do e # steps) (h, ui) = (case act e ui of None \<Rightarrow> None | Some ui' \<Rightarrow> play steps (h, ui'))"
| "play (Arrive n r # steps) (h, ui) =
     (if n < length (ui_calls ui)
      then (case receive (ui_calls ui ! n) r ui of
              None \<Rightarrow> None
            | Some ui' \<Rightarrow> play steps (h @ [(ui_calls ui ! n, r)], ui'))
      else None)"

lemma play_run: "play steps st = Some (h', ui') \<Longrightarrow> ui_run (fst st) (snd st) \<Longrightarrow> ui_run h' ui'"
  by (induction steps st rule: play.induct) (auto split: option.splits if_splits intro: ui_run.intros)

definition sample_token :: "string \<Rightarrow> token_answer" where
  "sample_token t = \<lparr>tk_accessToken = t, tk_refreshToken = [], tk_tokenType = ''Bearer'', tk_expiresIn = 900,
     tk_sub = t, tk_tid = ''t1'', tk_sid = []\<rparr>"

definition web_expense_of :: "string \<Rightarrow> web_status \<Rightarrow> web_expense" where
  "web_expense_of i st = \<lparr>wx_id = i, wx_tenantId = ''t1'', wx_amount = 8500, wx_currency = ''USD'', wx_department = ''finance'',
     wx_ownerId = ''riya'', wx_status = st, wx_description = [], wx_createdAt = [], wx_updatedAt = []\<rparr>"

definition expenses_page :: "web_expense list \<Rightarrow> reply" where
  "expenses_page es = ExpensesReply (AnswerOk 200 \<lparr>wp_items = es, wp_nextCursor = None\<rparr>)"

definition allowed :: "string \<Rightarrow> reply" where
  "allowed i = ApproveReply (AnswerOk 200 \<lparr>wa_id = i, wa_status = WebApproved, wa_approvedBy = ''riya'',
     wa_decisionId = ''dec_1'', wa_at = []\<rparr>)"

text \<open>Riya approves and the user is switched to Sam before the verdict arrives.\<close>

definition switched_run :: "page_step list" where
  "switched_run = [Do (PickUser (SEED_USERS ! 0)), Arrive 0 (TokenReply (AnswerOk 200 (sample_token ''riya''))),
     Do ExpensesEffect, Arrive 0 (expenses_page [web_expense_of ''exp_42'' WebPending]), Do (ClickApprove ''exp_42''),
     Do SwitchUser, Do (PickUser (SEED_USERS ! 1)), Arrive 1 (TokenReply (AnswerOk 200 (sample_token ''sam''))),
     Do ExpensesEffect, Arrive 0 (allowed ''exp_42''), Arrive 0 (expenses_page [])]"


section \<open>Late continuations\<close>

text \<open>
  Two lists under way are not told apart: the one that was computed first may arrive last, and
  its rows replace the newer ones, beside a verdict that says otherwise.
\<close>

definition crossed_run :: "page_step list" where
  "crossed_run = [Do (PickUser (SEED_USERS ! 0)), Arrive 0 (TokenReply (AnswerOk 200 (sample_token ''riya''))),
     Do ExpensesEffect, Arrive 0 (expenses_page [web_expense_of ''exp_42'' WebPending]),
     Do (ClickApprove ''exp_99''), Arrive 0 (allowed ''exp_99''), Do ExpensesEffect,
     Do (ClickApprove ''exp_42''), Arrive 1 (allowed ''exp_42''), Do ExpensesEffect,
     Arrive 1 (expenses_page [web_expense_of ''exp_42'' WebApproved]),
     Arrive 0 (expenses_page [web_expense_of ''exp_42'' WebPending])]"

lemma older_list_replaces_newer:
  "case play crossed_run ([], initial_ui) of None \<Rightarrow> False
   | Some (h, ui) \<Rightarrow> ui_calls ui = [] \<and>
       map (\<lambda>row. (er_id row, map_option wx_status (er_expense row))) (take 1 (xs_rows (ui_expenses ui))) =
         [(''exp_42'', Some WebPending)] \<and>
       (case xs_outcomes (ui_expenses ui) ''exp_42'' of Some (AllowOutcome r) \<Rightarrow> True | _ \<Rightarrow> False)"
  by code_simp

text \<open>
  The continuation of a revocation reloads the assignments even when its screen is gone, and
  then with the token of whoever is logged in.
\<close>

definition finance_grant :: web_assignment where
  "finance_grant = \<lparr>wg_id = ''g1'', wg_tenantId = ''t1'', wg_userId = RIYA_USER_ID, wg_roleId = FINANCE_MANAGER_ROLE_ID,
     wg_scope = ''acme.finance'', wg_status = ''active'', wg_validUntil = None, wg_delegatedBy = None, wg_version = 1,
     wg_createdAt = [], wg_updatedAt = []\<rparr>"

definition left_screen_run :: "page_step list" where
  "left_screen_run = [Do (PickUser (SEED_USERS ! 2)), Arrive 0 (TokenReply (AnswerOk 200 (sample_token ''dev''))),
     Do AdminEffect, Arrive 0 (AssignmentsReply (AnswerOk 200 \<lparr>wp_items = [finance_grant], wp_nextCursor = None\<rparr>)),
     Do (ClickRevoke ''g1''), Do SwitchUser, Do (PickUser (SEED_USERS ! 0)),
     Arrive 1 (TokenReply (AnswerOk 200 (sample_token ''riya''))),
     Arrive 0 (AssignmentReply (AnswerOk 200 finance_grant))]"

lemma left_screen_acts_with_next_token:
  "case play left_screen_run ([], initial_ui) of None \<Rightarrow> False
   | Some (h, ui) \<Rightarrow> ui_calls ui = [\<lparr>oc_mount = 1, oc_token = Some ''riya'', oc_call = ListAssignments True\<rparr>]"
  by code_simp

section \<open>Rows and verdicts\<close>

text \<open>Whatever the list says, the demo expenses are offered, so that a denial can be seen.\<close>

lemma demo_rows_offered: "set DEMO_EXPENSE_IDS \<subseteq> er_id ` set (merged_rows items)"
  by (auto simp: merged_rows_def dedupe_set image_image)

lemma one_row_per_id: "distinct (map er_id (merged_rows items))" "sorted (map er_id (merged_rows items))"
  by (simp_all add: merged_rows_def dedupe_distinct comp_def)

text \<open>One approval at a time: while one is pending every button of the list is disabled.\<close>

lemma pending_disables: "xs_pendingId x \<noteq> None \<Longrightarrow> row \<in> set (shown_rows locale_number x) \<Longrightarrow> sr_disabled row"
  by (auto simp: shown_rows_def)

lemma pending_blocks: "ui_session ui = Some s \<Longrightarrow> xs_pendingId (ui_expenses ui) \<noteq> None \<Longrightarrow> act (ClickApprove i) ui = None"
  by (simp add: act_def Let_def)

end
