(* ===== verification/RequestContext.thy ===== *)
theory RequestContext
  imports AuditIngest ExpenseApi Gateway
begin

text \<open>
  The trace id of a request (apps/*/src/shared/presentation/request-context.ts, the same file
  in all five services), the access log (logging.interceptor.ts), and what becomes of the
  trace id: it goes into the audit record of every decision of the request, and the ingest of
  the audit service takes no trace id of more than 255 characters.  The uuid that is drawn is
  an argument.
\<close>

section \<open>The trace id\<close>

definition TRACE_ID_HEADER :: string where "TRACE_ID_HEADER = ''x-trace-id''"

text \<open>The id is kept on the request and echoed as a header of the response.\<close>

definition requestContext_use :: "string \<Rightarrow> request_headers \<Rightarrow> string" where
  "requestContext_use uuid headers =
     (case headers TRACE_ID_HEADER of
        Some (HOne s) \<Rightarrow> s
      | Some (HMany (s # _)) \<Rightarrow> s
      | _ \<Rightarrow> ''trc_'' @ uuid)"

section \<open>The access log\<close>

record access_line =
  al_method :: string
  al_url :: string
  al_traceId :: string
  al_durationMs :: int
  al_outcome :: "string option"

text \<open>One line per request; a handler that throws is logged as a warning with an outcome.\<close>

definition logging_intercept :: "string \<Rightarrow> string \<Rightarrow> string \<Rightarrow> int \<Rightarrow> int \<Rightarrow> 'a result \<Rightarrow> access_line" where
  "logging_intercept http_method url traceId start end_time outcome =
     \<lparr>al_method = http_method, al_url = url, al_traceId = traceId, al_durationMs = end_time - start,
      al_outcome = (case outcome of Inl e \<Rightarrow> Some ''error'' | Inr x \<Rightarrow> None)\<rparr>"

section \<open>Through the gateway\<close>

lemma forward_header_other:
  "key \<notin> to_lower ` fst ` set hs \<Longrightarrow> foldl forward_header out hs key = out key"
  by (induction hs arbitrary: out) (auto simp: forward_header_def Let_def split: prod.splits option.splits)

lemma trace_header_forwarded:
  "buildForwardedHeaders hs identity injected TRACE_ID_HEADER = foldl forward_header Map.empty hs TRACE_ID_HEADER"
  by (auto simp: buildForwardedHeaders_def Let_def TRACE_ID_HEADER_def identity_header_defs split: option.splits)

text \<open>A trace id that the client sends reaches the service; one the gateway draws does not.\<close>

lemma client_trace_id_reaches_service:
  assumes "fst (gateway_request verify hmac mcfg cfg nowMs r cache) = Inr req"
    and "hr_headers r = as @ (TRACE_ID_HEADER, Some (HOne s)) # bs"
    and "TRACE_ID_HEADER \<notin> to_lower ` fst ` set bs"
  shows "requestContext_use uuid (received_headers req) = s"
proof -
  obtain identity where p: "proxy_request hmac mcfg cfg nowMs (proxy_command_of r identity) = Inr req"
    using assms(1) by (auto simp: gateway_request_def split: prod.splits sum.splits)
  have low: "to_lower TRACE_ID_HEADER = TRACE_ID_HEADER" and keep: "\<not> dropped_header TRACE_ID_HEADER"
    by code_simp+
  have "ur_headers req TRACE_ID_HEADER = Some s"
    using request_identity[OF p]
    by (simp add: trace_header_forwarded proxy_command_of_def assms(2) forward_header_other[OF assms(3)]
        forward_header_def low keep header_text_def)
  then show ?thesis by (simp add: requestContext_use_def received_headers_def)
qed

lemma drawn_trace_id_not_forwarded:
  assumes "fst (gateway_request verify hmac mcfg cfg nowMs r cache) = Inr req"
    and "TRACE_ID_HEADER \<notin> to_lower ` fst ` set (hr_headers r)"
  shows "requestContext_use uuid (received_headers req) = ''trc_'' @ uuid"
proof -
  obtain identity where p: "proxy_request hmac mcfg cfg nowMs (proxy_command_of r identity) = Inr req"
    using assms(1) by (auto simp: gateway_request_def split: prod.splits sum.splits)
  then have "ur_headers req TRACE_ID_HEADER = None"
    using request_identity[OF p] by (simp add: trace_header_forwarded proxy_command_of_def forward_header_other[OF assms(2)])
  then show ?thesis by (simp add: requestContext_use_def received_headers_def)
qed

section \<open>Into the audit log\<close>

lemma guard_record_trace_id:
  assumes "AuditRecord r \<in> set (gr_trace (canActivate cerbos pip load u now t options (Some pc)))"
  shows "dar_traceId r = or_default t []"
proof -
  have decide: "dar_traceId r = t'"
    if "AuditRecord r \<in> set (gr_trace (guard_decide cerbos u now t' o' pc res eff [PipResolve a b c e]))"
    for t' o' res eff a b c e
    using that by (auto simp: guard_decide_trace emitAudit_def split: sum.splits)
  show ?thesis
    using assms by (auto simp: canActivate_def guard_stop_def Let_def dest: decide split: option.splits sum.splits)
qed

lemma approval_record_trace_id:
  assumes run: "expense_service d rnd now (Some traceId) between headers (PostApprove i body) db = (r, trace, db')"
    and mem: "AuditRecord rec \<in> set trace"
  shows "dar_traceId rec = traceId"
proof -
  obtain pc where pc: "expense_identity d now headers = Inr pc"
    and c: "approve_controller d rnd now (Some traceId) between pc i body db = (r, trace, db')"
    using run mem by (auto simp: expense_service_def split: sum.splits)
  obtain tenantId where "trace = gr_trace (canActivate (xd_cerbos d) (xd_pip d)
      (\<lambda>_. load_in_tenant d tenantId i db) (rnd i) now (Some traceId) (Some approve_options) (Some pc))"
    using c mem by (auto simp: approve_controller_def Let_def split: sum.splits bool.splits if_splits prod.splits)
  then show ?thesis using guard_record_trace_id mem by fastforce
qed

text \<open>The ingest refuses the record, the sink only logs a warning, and the log stays as it was.\<close>

lemma long_trace_id_refused:
  assumes "255 < length (dar_traceId r)"
  shows "audit_service a eventId now env aborts headers (PostEvent (toIngestBody r)) log =
    (Inl (bad_request (au_messages a)), log)"
proof -
  have "\<not> recordAuditEventRequest_valid a (toIngestBody r)"
    using assms unfolding recordAuditEventRequest_valid_def
    by (simp add: ingest_members dto_optional_def is_text_def is_text_where_def del: jget.simps)
  then show ?thesis by (simp add: audit_service_def audit_identity_def record_route_def)
qed

text \<open>
  C39. A client can keep its decisions out of the audit log.  When it sends a trace id of more
  than 255 characters, the expense service approves as ever and hands the record of the ALLOW
  decision to the sink, but the audit service answers 400 to that record and to every other
  one of the request and stores nothing, whatever its log, its clock and its environment.
\<close>

theorem long_trace_id_escapes_audit:
  assumes header: "headers TRACE_ID_HEADER = Some (HOne s)" "255 < length s"
    and run: "expense_service d rnd now (Some (requestContext_use uuid headers)) between headers (PostApprove i body) db =
      (Inr (ApproveAnswer resp events), trace, db')"
  shows "(\<exists>r. AuditRecord r \<in> set trace \<and> dar_effect r = ALLOW \<and> dar_decisionId r = ''dec_'' @ rnd i) \<and>
    (\<forall>r. AuditRecord r \<in> set trace \<longrightarrow>
       audit_service a eventId later env aborts hs (PostEvent (toIngestBody r)) log = (Inl (bad_request (au_messages a)), log))"
proof -
  have s: "requestContext_use uuid headers = s" using header(1) by (simp add: requestContext_use_def)
  let ?g = "\<lambda>pc tenantId. canActivate (xd_cerbos d) (xd_pip d) (\<lambda>_. load_in_tenant d tenantId i db) (rnd i) now
      (Some s) (Some approve_options) (Some pc)"
  obtain pc tenantId where "gr_verdict (?g pc tenantId) = Inr True" and trace: "trace = gr_trace (?g pc tenantId)"
    using run unfolding s
    by (auto simp: expense_service_def approve_controller_def Let_def split: sum.splits bool.splits if_splits prod.splits)
  from allowed_audited[OF this(1), of "''approve''"]
  have "\<exists>r. AuditRecord r \<in> set trace \<and> dar_effect r = ALLOW \<and> dar_decisionId r = ''dec_'' @ rnd i"
    unfolding trace by (auto simp: approve_options_def)
  moreover have "255 < length (dar_traceId r)" if "AuditRecord r \<in> set trace" for r
    using approval_record_trace_id[OF run that] header(2) s by simp
  ultimately show ?thesis using long_trace_id_refused by blast
qed

lemma middleware_reads:
  assumes "headers TOKEN_HEADER = headers' TOKEN_HEADER" and "headers SIGNATURE_HEADER = headers' SIGNATURE_HEADER"
  shows "middleware_use hmac parse opts nowMs headers = middleware_use hmac parse opts nowMs headers'"
proof -
  have one: "singleHeader headers TOKEN_HEADER = singleHeader headers' TOKEN_HEADER"
    "singleHeader headers SIGNATURE_HEADER = singleHeader headers' SIGNATURE_HEADER"
    using assms by (simp_all add: singleHeader_def)
  have claims: "assertHeaderMatchesSignedClaims parse headers = assertHeaderMatchesSignedClaims parse headers'"
    by (rule ext) (simp add: assertHeaderMatchesSignedClaims_def one)
  show ?thesis unfolding middleware_use_def verifySignedToken_def decodePlaceholder_def one claims by (rule refl)
qed

definition long_trace_request :: request_headers where
  "long_trace_request = (sample_request (\<lambda>k m. k))(TRACE_ID_HEADER := Some (HOne (replicate 256 CHR ''a'')))"

lemma long_trace_identity:
  "expense_identity sample_service 359000 long_trace_request = expense_identity sample_service 359000 (sample_request (\<lambda>k m. k))"
  unfolding expense_identity_def
  by (rule middleware_reads) (simp_all add: long_trace_request_def TRACE_ID_HEADER_def TOKEN_HEADER_def SIGNATURE_HEADER_def)

lemma approve_any_trace:
  "\<exists>resp events trace db'. approve_controller sample_service (\<lambda>_. ''9'') 359000 (Some t) (\<lambda>db. db)
     \<lparr>pc_principalId = ''u1'', pc_tenantId = ''t1'', pc_actorId = ''u1'', pc_sessionId = ''s1'', pc_platformAdmin = False\<rparr>
     ''e1'' [] sample_expenses = (Inr (ApproveAnswer resp events), trace, db')"
proof -
  let ?pc = "\<lparr>pc_principalId = ''u1'', pc_tenantId = ''t1'', pc_actorId = ''u1'', pc_sessionId = ''s1'', pc_platformAdmin = False\<rparr>"
  have "is_ok (rbind (fst (approve_controller sample_service (\<lambda>_. ''9'') 359000 (Some t) (\<lambda>db. db) ?pc ''e1'' [] sample_expenses))
     (\<lambda>a. case a of ApproveAnswer resp events \<Rightarrow> Inr () | ListAnswer v \<Rightarrow> Inl (Crash [])))"
    by code_simp
  then show ?thesis by (auto simp: is_ok_def rbind_def prod_eq_iff split: sum.splits expense_answer.splits)
qed

lemma long_trace_id_escapes_audit_witness:
  "\<exists>resp events trace db'. expense_service sample_service (\<lambda>_. ''9'') 359000
      (Some (requestContext_use ''x'' long_trace_request)) (\<lambda>db. db) long_trace_request (PostApprove ''e1'' []) sample_expenses =
      (Inr (ApproveAnswer resp events), trace, db') \<and>
    (\<exists>r. AuditRecord r \<in> set trace \<and> dar_effect r = ALLOW \<and> dar_decisionId r = ''dec_9'' \<and>
       audit_service (sample_deps sample_record) ''e9'' 0 (\<lambda>_ db. db) (\<lambda>_. None) (\<lambda>_. None) (PostEvent (toIngestBody r))
         \<lparr>adb_rows = [], adb_nextSeq = 1\<rparr> = (Inl (bad_request []), \<lparr>adb_rows = [], adb_nextSeq = 1\<rparr>))"
proof -
  obtain resp events trace db' where run: "expense_service sample_service (\<lambda>_. ''9'') 359000
      (Some (requestContext_use ''x'' long_trace_request)) (\<lambda>db. db) long_trace_request (PostApprove ''e1'' []) sample_expenses =
      (Inr (ApproveAnswer resp events), trace, db')"
    using approve_any_trace[of "requestContext_use ''x'' long_trace_request"]
    by (auto simp: expense_service_def long_trace_identity sample_identity_accepted)
  have "long_trace_request TRACE_ID_HEADER = Some (HOne (replicate 256 CHR ''a''))" by (simp add: long_trace_request_def)
  note hidden = long_trace_id_escapes_audit[OF this _ run, of "sample_deps sample_record" "''e9''" 0 "\<lambda>_ db. db" "\<lambda>_. None"
      "\<lambda>_. None" "\<lparr>adb_rows = [], adb_nextSeq = 1\<rparr>", simplified]
  then obtain r where "AuditRecord r \<in> set trace" "dar_effect r = ALLOW" "dar_decisionId r = ''dec_9''" by blast
  then show ?thesis using run hidden by (auto simp: sample_deps_def)
qed

end
