(* ===== verification/Runtime.thy ===== *)
theory Runtime
  imports RequestContext
begin

text \<open>
  What the services run on: identity and equality of the kernel's base classes
  (packages/kernel/src/domain), the dispatcher that logs domain events, the sending of an
  audit record (packages/authz/src/audit/http-audit.sink.ts), the context of a request that
  travels with its asynchronous calls (tenant-context.ts) and the health probes.
\<close>

section \<open>Entities and value objects\<close>

text \<open>An id that is not given is drawn; two ids are equal when their texts are.\<close>

definition uniqueEntityID :: "string option \<Rightarrow> string \<Rightarrow> string" where
  "uniqueEntityID given uuid = or_default given uuid"

definition uniqueEntityID_equals :: "string \<Rightarrow> string option \<Rightarrow> bool" where
  "uniqueEntityID_equals i other = (case other of None \<Rightarrow> False | Some j \<Rightarrow> i = j)"

text \<open>
  An entity is its reference, its id and its properties; another object may be absent or not
  be an entity at all.
\<close>

record 'props entity_object =
  eo_ref :: nat
  eo_id :: string
  eo_props :: 'props

datatype 'props other_object = Absent | NoEntity | EntityObject "'props entity_object"

definition entity_equals :: "'props entity_object \<Rightarrow> 'props other_object \<Rightarrow> bool" where
  "entity_equals e other =
     (case other of
        Absent \<Rightarrow> False
      | NoEntity \<Rightarrow> False
      | EntityObject o' \<Rightarrow> if eo_ref e = eo_ref o' then True else uniqueEntityID_equals (eo_id e) (Some (eo_id o')))"

text \<open>Value objects are compared as they are printed: the order of the members counts.\<close>

definition valueObject_equals :: "(string \<times> json) list \<Rightarrow> (string \<times> json) list option option \<Rightarrow> bool" where
  "valueObject_equals props other =
     (case other of
        None \<Rightarrow> False
      | Some None \<Rightarrow> False
      | Some (Some props') \<Rightarrow> json_stringify (JObj props) = json_stringify (JObj props'))"

section \<open>Domain events\<close>

record domain_event =
  de_name :: string
  de_aggregateId :: string

definition dispatch :: "domain_event list \<Rightarrow> string list" where
  "dispatch events = map (\<lambda>e. ''domain event '' @ de_name e @ '' for aggregate '' @ de_aggregateId e @
     '' (placeholder dispatcher '' @ [CHR 0xE2, CHR 0x80, CHR 0x94] @ '' bind a real event bus)'') events"

section \<open>The audit sink\<close>

record sink_request =
  sq_path :: string
  sq_method :: string
  sq_headers :: "(string \<times> string) list"
  sq_body :: string

datatype sink_fetch = SinkStatus nat | SinkError string

definition sink_record :: "decision_audit_record \<Rightarrow> sink_request" where
  "sink_record r = \<lparr>sq_path = ''/v1/audit/events'', sq_method = ''POST'',
     sq_headers = [(''content-type'', ''application/json''), (''x-trace-id'', dar_traceId r)],
     sq_body = json_stringify (JObj (toIngestBody r))\<rparr>"

text \<open>The answer only decides whether a warning is logged; nothing is sent again.\<close>

definition sink_settled :: "decision_audit_record \<Rightarrow> sink_fetch \<Rightarrow> string option" where
  "sink_settled r outcome =
     (case outcome of
        SinkStatus st \<Rightarrow>
          if 200 \<le> st \<and> st \<le> 299 then None
          else Some (''Audit sink non-OK '' @ nat_str st @ '' for decision '' @ dar_decisionId r)
      | SinkError e \<Rightarrow> Some (''Audit sink error for decision '' @ dar_decisionId r @ '': '' @ e))"

section \<open>The context of a request\<close>

text \<open>The store of the current asynchronous flow: the tenant and, inside the transaction, its runner.\<close>

record 'runner context_store =
  cs_tenantId :: string
  cs_queryRunner :: "'runner option"

definition enterWith :: "'runner context_store \<Rightarrow> 'runner context_store option \<Rightarrow> 'runner context_store option" where
  "enterWith store current = Some store"

definition run_with ::
  "'runner context_store \<Rightarrow> ('runner context_store option \<Rightarrow> 'a) \<Rightarrow> 'runner context_store option \<Rightarrow>
   'a \<times> 'runner context_store option" where
  "run_with store f current = (f (Some store), current)"

definition getTenantId :: "'runner context_store option \<Rightarrow> string result" where
  "getTenantId current =
     (case current of
        None \<Rightarrow> Inl (Crash ''No tenant context bound to the current request'')
      | Some store \<Rightarrow> Inr (cs_tenantId store))"

definition getQueryRunner :: "'runner context_store option \<Rightarrow> 'runner result" where
  "getQueryRunner current =
     (case current of
        None \<Rightarrow> Inl (Crash ''No tenant-scoped QueryRunner bound to the current request'')
      | Some store \<Rightarrow>
          (case cs_queryRunner store of
             None \<Rightarrow> Inl (Crash ''No tenant-scoped QueryRunner bound to the current request'')
           | Some runner \<Rightarrow> Inr runner))"

section \<open>Health probes\<close>

text \<open>The gateway and the identity service check nothing, the others the database when it is enabled.\<close>

datatype health_indicator = PingDatabase nat

definition health_indicators :: "bool \<Rightarrow> health_indicator list" where
  "health_indicators db_enabled = (if \<not> db_enabled then [] else [PingDatabase 1500])"

definition gateway_health_indicators :: "health_indicator list" where
  "gateway_health_indicators = []"

section \<open>Equality is what it says\<close>

lemma entity_equals_same_id:
  assumes "eo_ref e = eo_ref e' \<Longrightarrow> e = e'"
  shows "entity_equals e (EntityObject e') \<longleftrightarrow> eo_id e = eo_id e'"
  using assms by (auto simp: entity_equals_def uniqueEntityID_equals_def)

text \<open>Every value object of the program wraps one text, so printing it loses nothing.\<close>

lemma wrapped_text_equality:
  "valueObject_equals [(k, JStr a)] (Some (Some [(k, JStr b)])) \<longleftrightarrow> a = b"
  by (simp add: valueObject_equals_def json_member_def)

text \<open>With two members their order counts, although objects that differ in it are the same to the code.\<close>

lemma member_order_counts:
  "\<not> valueObject_equals [(''a'', JStr ''1''), (''b'', JStr ''2'')] (Some (Some [(''b'', JStr ''2''), (''a'', JStr ''1'')]))"
  by code_simp

section \<open>A record the ingest refuses\<close>

lemma refused_record_only_logged:
  "sink_settled r (SinkStatus 400) = Some (''Audit sink non-OK 400 for decision '' @ dar_decisionId r)"
proof -
  have "nat_str 400 = ''400''" by code_simp
  then show ?thesis by (simp add: sink_settled_def)
qed

text \<open>Outside of a request nothing has a tenant, and a transaction is needed for a runner.\<close>

lemma no_runner_without_transaction:
  "getQueryRunner current = Inr runner \<Longrightarrow> \<exists>store. current = Some store \<and> getTenantId current = Inr (cs_tenantId store) \<and>
     cs_queryRunner store = Some runner"
  by (auto simp: getQueryRunner_def getTenantId_def split: option.splits)

end
