(* ===== verification/RunnerLife.thy ===== *)
theory RunnerLife
  imports Runtime
begin

text \<open>
  The life of a database connection in a request
  (apps/expense/src/shared/infrastructure/database/rls.interceptor.ts; the administration
  service has the same file): it is taken from the pool, a transaction is opened, the tenant
  is set, the handler runs and the transaction ends.  TenantDb says what the statements see;
  here it is what happens when one of the steps fails, or the handler never answers.  The
  query runner is TypeORM's: each call of it succeeds or fails as the environment says.
\<close>

section \<open>The query runner\<close>

record query_runner =
  qr_connected :: bool
  qr_active :: bool
  qr_committed :: bool
  qr_released :: bool

record runner_env =
  re_connect :: "unit result"
  re_start :: "unit result"
  re_set_config :: "unit result"
  re_commit :: "unit result"
  re_rollback :: "unit result"

definition created_runner :: query_runner where
  "created_runner = \<lparr>qr_connected = False, qr_active = False, qr_committed = False, qr_released = False\<rparr>"

definition connect :: "runner_env \<Rightarrow> query_runner \<Rightarrow> unit result \<times> query_runner" where
  "connect env q = (re_connect env, if is_ok (re_connect env) then q\<lparr>qr_connected := True\<rparr> else q)"

definition startTransaction :: "runner_env \<Rightarrow> query_runner \<Rightarrow> unit result \<times> query_runner" where
  "startTransaction env q = (re_start env, if is_ok (re_start env) then q\<lparr>qr_active := True\<rparr> else q)"

definition commitTransaction :: "runner_env \<Rightarrow> query_runner \<Rightarrow> unit result \<times> query_runner" where
  "commitTransaction env q =
     (re_commit env, if is_ok (re_commit env) then q\<lparr>qr_active := False, qr_committed := True\<rparr> else q)"

definition rollbackTransaction :: "runner_env \<Rightarrow> query_runner \<Rightarrow> unit result \<times> query_runner" where
  "rollbackTransaction env q = (re_rollback env, if is_ok (re_rollback env) then q\<lparr>qr_active := False\<rparr> else q)"

definition release :: "query_runner \<Rightarrow> query_runner" where
  "release q = q\<lparr>qr_connected := False, qr_released := True\<rparr>"

section \<open>The first value of the handler\<close>

text \<open>What an observable tells its subscriber; a promise may never be settled.\<close>

datatype 'v notified = NextValue 'v | ErrorNote exn | CompleteNote

datatype 'v settled = Settled "'v result" | Unsettled

fun firstValueFromHandle :: "'v notified list \<Rightarrow> 'v settled" where
  "firstValueFromHandle [] = Unsettled"
| "firstValueFromHandle (NextValue v # ns) = Settled (Inr v)"
| "firstValueFromHandle (ErrorNote e # ns) = Settled (Inl e)"
| "firstValueFromHandle (CompleteNote # ns) = firstValueFromHandle ns"

section \<open>The transaction of a request\<close>

definition bind_runner :: "nat option \<Rightarrow> nat context_store option \<Rightarrow> nat context_store option" where
  "bind_runner runner store = map_option (\<lambda>s. s\<lparr>cs_queryRunner := runner\<rparr>) store"

text \<open>The body of the try block, with the runner and the store it leaves.\<close>

definition try_block ::
  "runner_env \<Rightarrow> nat \<Rightarrow> 'v notified list \<Rightarrow> query_runner \<Rightarrow> nat context_store option \<Rightarrow>
   'v settled \<times> query_runner \<times> nat context_store option" where
  "try_block env runner ns q store =
     (case re_set_config env of
        Inl e \<Rightarrow> (Settled (Inl e), q, store)
      | Inr _ \<Rightarrow>
          (let store = bind_runner (Some runner) store in
           case firstValueFromHandle ns of
             Unsettled \<Rightarrow> (Unsettled, q, store)
           | Settled (Inl e) \<Rightarrow> (Settled (Inl e), q, store)
           | Settled (Inr v) \<Rightarrow>
               (case commitTransaction env q of
                  (Inl e, q) \<Rightarrow> (Settled (Inl e), q, store)
                | (Inr _, q) \<Rightarrow> (Settled (Inr v), q, store))))"

definition catch_block :: "runner_env \<Rightarrow> exn \<Rightarrow> query_runner \<Rightarrow> 'v settled \<times> query_runner" where
  "catch_block env err q =
     (if qr_active q
      then (case rollbackTransaction env q of
              (Inl e, q) \<Rightarrow> (Settled (Inl e), q)
            | (Inr _, q) \<Rightarrow> (Settled (Inl err), q))
      else (Settled (Inl err), q))"

definition runWithRls_life ::
  "runner_env \<Rightarrow> nat \<Rightarrow> 'v notified list \<Rightarrow> nat context_store option \<Rightarrow>
   'v settled \<times> query_runner \<times> nat context_store option" where
  "runWithRls_life env runner ns store =
     (case connect env created_runner of
        (Inl e, q) \<Rightarrow> (Settled (Inl e), q, store)
      | (Inr _, q) \<Rightarrow>
          (case startTransaction env q of
             (Inl e, q) \<Rightarrow> (Settled (Inl e), q, store)
           | (Inr _, q) \<Rightarrow>
               (case try_block env runner ns q store of
                  (Unsettled, q, store) \<Rightarrow> (Unsettled, q, store)
                | (Settled (Inr v), q, store) \<Rightarrow> (Settled (Inr v), release q, bind_runner None store)
                | (Settled (Inl err), q, store) \<Rightarrow>
                    (case catch_block env err q of
                       (outcome, q) \<Rightarrow> (outcome, release q, bind_runner None store)))))"

section \<open>What is left behind\<close>

lemmas life_defs = runWithRls_life_def try_block_def catch_block_def connect_def startTransaction_def commitTransaction_def
  rollbackTransaction_def release_def created_runner_def Let_def

lemma unsettled_iff: "firstValueFromHandle ns = Unsettled \<longleftrightarrow> set ns \<subseteq> {CompleteNote}"
  by (induction ns rule: firstValueFromHandle.induct) auto

text \<open>
  C40. A connection that was taken goes back to the pool, with the runner unbound from the
  request, on every path but two: when the transaction cannot be started, because that call
  stands before the try block, and when the handler completes without a value or never
  answers.  The request answers a value exactly when the tenant was set, the handler gave that
  value first and the commit went through; what was not committed is rolled back unless the
  rollback fails.
\<close>

theorem connection_returned_except:
  assumes "re_connect env = Inr ()" and "runWithRls_life env runner ns store = (outcome, q, store')"
  shows "(qr_released q \<longleftrightarrow> is_ok (re_start env) \<and> (is_ok (re_set_config env) \<longrightarrow> \<not> set ns \<subseteq> {CompleteNote})) \<and>
    (qr_connected q \<longleftrightarrow> \<not> qr_released q) \<and>
    (qr_released q \<longrightarrow> (\<forall>s. store' = Some s \<longrightarrow> cs_queryRunner s = None)) \<and>
    (outcome = Settled (Inr v) \<longleftrightarrow> is_ok (re_start env) \<and> is_ok (re_set_config env) \<and>
       firstValueFromHandle ns = Settled (Inr v) \<and> is_ok (re_commit env)) \<and>
    (qr_committed q \<longleftrightarrow> (\<exists>x. outcome = Settled (Inr x))) \<and>
    (qr_released q \<and> is_ok (re_rollback env) \<longrightarrow> \<not> qr_active q)"
  using assms unfolding unsettled_iff[symmetric]
  by (cases "firstValueFromHandle ns"; cases "re_start env"; cases "re_set_config env"; cases "re_commit env";
      cases "re_rollback env")
    (auto simp: life_defs is_ok_def bind_runner_def eq_commute[of "Settled _" "firstValueFromHandle ns"] split: sum.splits)

definition working_env :: runner_env where
  "working_env = \<lparr>re_connect = Inr (), re_start = Inr (), re_set_config = Inr (), re_commit = Inr (), re_rollback = Inr ()\<rparr>"

text \<open>The two leaks, and the ordinary request.\<close>

lemma failed_start_keeps_connection:
  "runWithRls_life (working_env\<lparr>re_start := Inl e\<rparr>) runner ns store =
     (Settled (Inl e), created_runner\<lparr>qr_connected := True\<rparr>, store)"
  by (simp add: life_defs working_env_def is_ok_def)

lemma empty_handler_keeps_transaction:
  "runWithRls_life working_env runner [CompleteNote :: 'v notified] store =
     (Unsettled, created_runner\<lparr>qr_connected := True, qr_active := True\<rparr>, bind_runner (Some runner) store)"
  by (simp add: life_defs working_env_def is_ok_def)

lemma connection_returned_except_witness:
  "\<exists>outcome q store'. runWithRls_life working_env 7 [NextValue (3::nat)] (Some \<lparr>cs_tenantId = ''t1'', cs_queryRunner = None\<rparr>) =
     (outcome, q, store') \<and> outcome = Settled (Inr 3) \<and> qr_released q \<and> \<not> qr_active q"
proof -
  obtain outcome q store' where run: "runWithRls_life working_env 7 [NextValue (3::nat)]
      (Some \<lparr>cs_tenantId = ''t1'', cs_queryRunner = None\<rparr>) = (outcome, q, store')"
    by (metis prod_cases3)
  have "re_connect working_env = Inr ()" by (simp add: working_env_def)
  from connection_returned_except[OF this run, of 3] show ?thesis
    using run by (simp add: working_env_def is_ok_def)
qed

end
