(* ===== verification/Mappers.thy ===== *)
theory Mappers
  imports AuditLog Expense
begin

text \<open>
  The mappers between an entity and its row where the two differ
  (apps/audit/src/modules/audit-event/infrastructure/audit-event.mapper.ts,
  apps/expense/src/modules/expense/infrastructure/expense.mapper.ts): the driver hands over a
  bigint and a numeric as text, which Number turns into a double.  The repositories of this
  development store entities; here is what that leaves out.
\<close>

section \<open>Numbers from text\<close>

definition digit_value :: "char \<Rightarrow> nat" where "digit_value c = of_char c - 48"

definition digits_value :: "string \<Rightarrow> nat" where
  "digits_value s = foldl (\<lambda>n c. 10 * n + digit_value c) 0 s"

fun bit_count :: "nat \<Rightarrow> nat" where
  "bit_count n = (if n = 0 then 0 else Suc (bit_count (n div 2)))"

declare bit_count.simps [simp del]

text \<open>A whole number as a double: 53 bits, the rest is rounded to the nearest, ties to even.\<close>

definition round_double :: "nat \<Rightarrow> nat" where
  "round_double n =
     (if n \<le> 2 ^ 53 then n
      else (let m = 2 ^ (bit_count n - 53); q = n div m; r = n mod m
            in (if 2 * r < m \<or> 2 * r = m \<and> even q then q else q + 1) * m))"

text \<open>The text of a number: a sign, digits, and a fraction that has to be zero here.\<close>

definition js_number :: "string \<Rightarrow> int option" where
  "js_number s =
     (let neg = (s \<noteq> [] \<and> hd s = CHR ''-'');
          t = (if neg then tl s else s);
          whole = takeWhile (\<lambda>c. c \<noteq> CHR ''.'') t;
          fraction = drop (length whole + 1) t;
          n = int (round_double (digits_value whole))
      in if whole \<noteq> [] \<and> list_all is_digit whole \<and> list_all (\<lambda>c. c = CHR ''0'') fraction
         then Some (if neg then - n else n) else None)"

definition toFixed2 :: "int \<Rightarrow> string" where "toFixed2 x = int_str x @ ''.00''"

section \<open>Rows\<close>

record expense_orm =
  xo_id :: string
  xo_tenantId :: string
  xo_amount :: string
  xo_currency :: string
  xo_department :: string
  xo_ownerId :: string
  xo_status :: expense_status
  xo_description :: string
  xo_scope :: string
  xo_version :: int
  xo_createdAt :: int
  xo_updatedAt :: int

definition expense_toOrm :: "expense \<Rightarrow> expense_orm" where
  "expense_toOrm e =
     \<lparr>xo_id = ex_id e, xo_tenantId = ex_tenantId e, xo_amount = toFixed2 (ex_amount e),
      xo_currency = ex_currency e, xo_department = ex_department e, xo_ownerId = ex_ownerId e,
      xo_status = ex_status e, xo_description = ex_description e, xo_scope = ex_scope e,
      xo_version = ex_version e, xo_createdAt = ex_createdAt e, xo_updatedAt = ex_updatedAt e\<rparr>"

text \<open>None is an amount with cents, which the model of an amount does not have.\<close>

definition expense_toDomain :: "expense_orm \<Rightarrow> expense result option" where
  "expense_toDomain orm =
     (case js_number (xo_amount orm) of
        None \<Rightarrow> None
      | Some amount \<Rightarrow> Some (expense_fromSnapshot
          \<lparr>ex_id = xo_id orm, ex_tenantId = xo_tenantId orm, ex_amount = amount,
           ex_currency = xo_currency orm, ex_department = xo_department orm, ex_ownerId = xo_ownerId orm,
           ex_status = xo_status orm, ex_description = xo_description orm, ex_scope = xo_scope orm,
           ex_version = xo_version orm, ex_createdAt = xo_createdAt orm, ex_updatedAt = xo_updatedAt orm\<rparr>))"

text \<open>The sequence number is left to the database, so a row to be inserted has none.\<close>

record audit_orm =
  ao_id :: string
  ao_tenantId :: string
  ao_actor :: string
  ao_action :: string
  ao_decision :: string
  ao_resourceKind :: string
  ao_resourceId :: string
  ao_reason :: "string option"
  ao_policy :: "string option"
  ao_decisionId :: "string option"
  ao_traceId :: "string option"
  ao_occurredAt :: int
  ao_recordedAt :: int
  ao_seq :: "string option"
  ao_prevHash :: string
  ao_recordHash :: string

definition auditEvent_toOrm :: "audit_event \<Rightarrow> audit_orm" where
  "auditEvent_toOrm e =
     \<lparr>ao_id = ae_id e, ao_tenantId = ae_tenantId e, ao_actor = ae_actor e, ao_action = ae_action e,
      ao_decision = ae_decision e, ao_resourceKind = ae_resourceKind e, ao_resourceId = ae_resourceId e,
      ao_reason = ae_reason e, ao_policy = ae_policy e, ao_decisionId = ae_decisionId e, ao_traceId = ae_traceId e,
      ao_occurredAt = ae_occurredAt e, ao_recordedAt = ae_recordedAt e, ao_seq = None,
      ao_prevHash = ae_prevHash e, ao_recordHash = ae_recordHash e\<rparr>"

definition auditEvent_toDomain :: "audit_orm \<Rightarrow> audit_event option" where
  "auditEvent_toDomain orm =
     (case Option.bind (ao_seq orm) js_number of
        None \<Rightarrow> None
      | Some seq \<Rightarrow> Some
          \<lparr>ae_id = ao_id orm, ae_tenantId = ao_tenantId orm, ae_actor = ao_actor orm, ae_action = ao_action orm,
           ae_decision = ao_decision orm, ae_resourceKind = ao_resourceKind orm, ae_resourceId = ao_resourceId orm,
           ae_reason = ao_reason orm, ae_policy = ao_policy orm, ae_decisionId = ao_decisionId orm,
           ae_traceId = ao_traceId orm, ae_occurredAt = ao_occurredAt orm, ae_recordedAt = ao_recordedAt orm,
           ae_seq = seq, ae_prevHash = ao_prevHash orm, ae_recordHash = ao_recordHash orm\<rparr>)"

section \<open>A number that was printed is read back\<close>

lemma digits_value_snoc: "digits_value (s @ [c]) = 10 * digits_value s + digit_value c"
  by (simp add: digits_value_def)

lemma digit_value_char: "digit_value (digit_char n) = n mod 10"
proof -
  have "list_all (\<lambda>k. digit_value (digit_char k) = k) [0, 1, 2, 3, 4, 5, 6, 7, 8, 9]" by code_simp
  moreover have "digit_char n = digit_char (n mod 10)" by (simp add: digit_char_def)
  moreover have "n mod 10 \<in> set [0, 1, 2, 3, 4, 5, 6, 7, 8, 9]" by (simp add: atLeastLessThan_iff) presburger
  ultimately show ?thesis unfolding list_all_iff by metis
qed

lemma digits_value_nat_str: "digits_value (nat_str n) = n"
proof (induction n rule: nat_str.induct)
  case (1 n)
  show ?case
  proof (cases "n < 10")
    case True
    then show ?thesis by (subst nat_str.simps) (simp add: digits_value_def digit_value_char)
  next
    case False
    then have "nat_str n = nat_str (n div 10) @ [digit_char n]" by (subst nat_str.simps) simp
    then show ?thesis using 1[OF False] by (simp add: digits_value_snoc digit_value_char)
  qed
qed

lemma nat_str_digits: "c \<in> set (nat_str n) \<Longrightarrow> is_digit c \<and> c \<noteq> CHR ''.'' \<and> c \<noteq> CHR ''-''"
proof -
  have "list_all (\<lambda>c. is_digit c \<and> c \<noteq> CHR ''.'' \<and> c \<noteq> CHR ''-'') ''0123456789''" by code_simp
  then show "c \<in> set (nat_str n) \<Longrightarrow> is_digit c \<and> c \<noteq> CHR ''.'' \<and> c \<noteq> CHR ''-''"
    using nat_str_chars[of n] unfolding list_all_iff by blast
qed

lemma js_number_digits:
  assumes "list_all (\<lambda>c. c = CHR ''0'') (drop 1 rest)" and "rest = [] \<or> hd rest = CHR ''.''"
  shows "js_number (nat_str n @ rest) = Some (int (round_double n))"
    and "js_number (CHR ''-'' # nat_str n @ rest) = Some (- int (round_double n))"
proof -
  have all: "list_all is_digit (nat_str n)" "\<forall>c \<in> set (nat_str n). c \<noteq> CHR ''.''"
    using nat_str_digits[of _ n] by (auto simp: list_all_iff)
  have hd: "hd (nat_str n) \<noteq> CHR ''-''" using nat_str_digits[of "hd (nat_str n)" n] nat_str_ne[of n] by simp
  have whole: "takeWhile (\<lambda>c. c \<noteq> CHR ''.'') (nat_str n @ rest) = nat_str n"
    using all(2) assms(2) by (cases rest) (simp_all add: takeWhile_append2 takeWhile_eq_all_conv)
  have frac: "drop (Suc (length (nat_str n))) (nat_str n @ rest) = drop 1 rest" by simp
  have hd': "hd (nat_str n @ rest) \<noteq> CHR ''-''" using hd nat_str_ne[of n] by simp
  show "js_number (nat_str n @ rest) = Some (int (round_double n))"
    unfolding js_number_def Let_def using all(1) hd' assms(1) nat_str_ne[of n]
    by (simp add: whole digits_value_nat_str)
  show "js_number (CHR ''-'' # nat_str n @ rest) = Some (- int (round_double n))"
    unfolding js_number_def Let_def using all(1) assms(1) nat_str_ne[of n]
    by (simp add: whole digits_value_nat_str)
qed

lemma round_double_small: "n \<le> 2 ^ 53 \<Longrightarrow> round_double n = n"
  by (simp add: round_double_def)

lemma js_number_toFixed2: "\<bar>x\<bar> \<le> 2 ^ 53 \<Longrightarrow> js_number (toFixed2 x) = Some x"
  using js_number_digits[of "''.00''" "nat x"] js_number_digits[of "''.00''" "nat (- x)"]
    round_double_small[of "nat x"] round_double_small[of "nat (- x)"]
  by (cases "x < 0") (simp_all add: toFixed2_def int_str_def nat_le_iff)

section \<open>A row that was written is read back as the entity\<close>

lemma expense_row_roundtrip: "\<bar>ex_amount e\<bar> \<le> 2 ^ 53 \<Longrightarrow> expense_toDomain (expense_toOrm e) = Some (Inr e)"
  by (simp add: expense_toDomain_def expense_toOrm_def js_number_toFixed2 expense_fromSnapshot_def)

lemma audit_row_roundtrip:
  assumes "n \<le> 2 ^ 53"
  shows "auditEvent_toDomain ((auditEvent_toOrm e)\<lparr>ao_seq := Some (nat_str n)\<rparr>) = Some (e\<lparr>ae_seq := int n\<rparr>)"
  using js_number_digits(1)[of "[]" n] round_double_small[OF assms] by (simp add: auditEvent_toDomain_def auditEvent_toOrm_def)

text \<open>Beyond that two sequence numbers of the database may be one to the code.\<close>

lemma large_sequence_numbers_collide:
  "js_number (nat_str (2 ^ 53 + 1)) = js_number (nat_str (2 ^ 53))"
proof -
  have "bit_count (2 ^ 53 + 1) = 54" by (simp add: bit_count.simps)
  then have "round_double (2 ^ 53 + 1) = round_double (2 ^ 53)" by (simp add: round_double_def Let_def)
  then show ?thesis using js_number_digits(1)[of "[]" "2 ^ 53 + 1"] js_number_digits(1)[of "[]" "2 ^ 53"] by simp
qed

end
