(* ===== verification/Spec2Isabelle.thy ===== *)
theory Spec2Isabelle
  imports HttpErrors AuditIngest AuthzGuard OrgTree PolicyLife Listings Gateway RateLimit AccessLife PipClient IdentityLife ExpenseAccess
    ExpenseApi TenantIsolation AdminSafety Boot Lifecycle IdentityApi Seed SchemaSafety WebUiSafety RunnerLife Mappers
begin

text \<open>
  A verification of the multi-tenant access-control system of this repository.

  \<^bold>\<open>The program.\<close>  Five services and three shared packages.  The identity service
  (apps/identity) checks a password and signs an RS256 access token.  The gateway
  (apps/gateway) verifies that token against the published key set, limits the rate, routes by
  path, mints a short-lived HS256 token of the identity and forwards the request.  Every
  service behind it trusts only that internal token (packages/authz, IdentityContextMiddleware).
  The administration service (apps/authz-admin) keeps tenants, organisation units, roles, role
  assignments, permissions and policies in Postgres under row-level security, compiles
  policies for the Cerbos server and answers which roles a user holds at a scope (the PIP).
  The expense service (apps/expense) is the worked enforcement point: its guard loads the
  resource, asks the PIP and then Cerbos (the PDP), and sends every decision to the audit
  service (apps/audit), which appends it to a hash chain.  The web application (apps/web)
  talks to the gateway only.  packages/kernel has the errors, guards and pagination,
  packages/contracts the shared types.

  \<^bold>\<open>Theories\<close>, in the order of the layers.
  \<^item> Prelude, Kernel, HttpErrors, JsStd, Base64: the result type and its combinators, the
    string routines of JavaScript, packages/kernel, the exception filter of each service
    (toHttp), JSON.stringify, toISOString and base64url.
  \<^item> Keyset, NewestFirst, OptimisticLock: what every repository shares; the locale keyset is
    the contract between an order, a cursor and its test, and versioned_table the one of the
    optimistic lock.
  \<^item> HashChain, AuditLog, AuditSafety, AuditIngest: apps/audit.  audit_db is the table,
    append_tx one serializable transaction, append_loop its retries, verifyChain the replay;
    audit_service is the HTTP surface.
  \<^item> IdentityToken, Pdp, PipClient, AuthzGuard: packages/authz.  middleware_use,
    pdp_check, pip_resolve and canActivate are the middleware, the two clients and the guard;
    the guard returns its verdict with the trace of its calls.
  \<^item> TenantDb, TenantIsolation, Sql, Schema, SchemaSafety, Seed: the tenant guards, the
    interceptor, row-level security (rls_statement), the migrations as statements on a
    catalogue, and the seed scripts.
  \<^item> OrgPath, OrgUnit, OrgTree; Role, RoleAssignment, EffectiveRoles, AccessLife;
    PolicyCompile, PolicySafety, PolicyStore, PolicyLife; Tenant, Permission, Directory;
    Listings; Views, AdminApi, AdminSafety: the modules of apps/authz-admin, each with its
    aggregate, repository and use cases, then all routes of the service (admin_service).
  \<^item> Expense, ExpenseAccess, ExpenseApi: apps/expense, with the guarded approval, the filtered
    listing and the whole service (expense_service).  Lifecycle orders the statuses of all aggregates.
  \<^item> Routes, EdgeAuth, Gateway, RateLimit: apps/gateway; gateway_request is a whole request.
  \<^item> IdentityProvider, IdentityLife, IdentityApi: apps/identity.
  \<^item> Config, Boot: the configuration of all services and what a boot that succeeds entails.
  \<^item> HttpApi, WebApi: what the controllers share, and the API client of the web application.
  \<^item> WebUi, WebUiSafety: the screens of apps/web as a state (web_ui) with clicks and effects
    (act) and answers that arrive in any order (receive); ui_run is a run of the page.
  \<^item> RequestContext, Runtime: the trace id of a request, the access log, the base classes of the
    kernel, the audit sink, the context store of a request and the health probes.
  \<^item> RunnerLife, Mappers: the connection of a request through every failure of the interceptor
    (runWithRls_life), and the rows of the audit and expense tables with their numbers as text.

  \<^bold>\<open>Conventions.\<close>  A definition has the name it has in the source, with a suffix or prefix
  where two clash (tenant_save, approveExpense_call); a record is a class or interface, a
  datatype an enumeration or union.  An operation that can throw returns a sum: Inl is what it
  throws, an exn, and Inr its result.  State is passed and returned; a request that throws in
  a transaction leaves it as it was.  A string is the list of its UTF-8 bytes, so a length is
  that of the source for ASCII text; text is ordered byte by byte (the C collation).  A JSON
  number is whole, or beyond the range of a double; amounts of money are whole.  Instants are
  milliseconds and the clock stands still within a request.  Ids in a table are in the canonical
  form of Postgres.  Where a theory works on the rows a tenant sees, the theories TenantDb
  and TenantIsolation say why: what a handler does under row-level security is what it does on
  the list of the visible rows.

  \<^bold>\<open>What is a parameter.\<close>  SHA-256, HMAC, RSA, scrypt and the import of a key; JSON.parse and
  Number; the uuid, e-mail, URL and date checks of libraries and their messages; the casts of
  Postgres (pg_uuid, pg_timestamp, pg_id, pg_bigint), the order a join yields rows in (plan), its serialization failures and the other
  sessions (env, aborts); the Cerbos server and the evaluation of its expressions; fetch; the
  environment, the file system and random values.  What is relied on is a named hypothesis of
  the property that needs it, for the objects it is needed for: that parsing a text gives back
  the object that was printed (parses_back), that a signature that was made verifies, that no
  two of the strings hashed collide; each such property has a witness with concrete functions.

  \<^bold>\<open>What the lemmas show.\<close>
  \<^item> Audit: every append under any interference keeps the chain; the replay is exact; equal
    heads mean equal logs; a decision of the guard arrives whole; reads stay in the tenant;
    the migrated table only grows; but a trace id that is too long keeps a decision out.
  \<^item> Identity: whom a service acts for is whom the gateway verified, end to end; tokens are
    accepted for their lifetime; refresh tokens work once; failed logins look alike; in
    production no published secret of the gateway and no unsigned token is in use.
  \<^item> Authorization: the guard allows if and only if tenant, PIP and PDP do; what is approved
    is what was authorised; a list shows exactly what may be read; a denial reaches the
    screen and the log under one id; stale answers of the PIP are bounded.
  \<^item> Policies: compiling keeps the meaning, the tenant guardrail wins, versions are gapless.
  \<^item> Tenancy: noninterference of tenants under row-level security, the migrations that set it
    up, a boot check that ensures it, connections that return to the pool, and administration requests that stay in their tenant.
  \<^item> Data: the organisation tree stays a tree, roles well-formed, paging reads every row
    once, effective roles refine their specification, lifecycles are one way.
  \<^item> Screens: what the page shows was answered to the session on it; a button is enabled
    exactly when its click acts.
  \<^item> Lemmas that are not properties record where the code and its documentation part; the
    names say what happens (staged_version_already_enforced, empty_tenant_reads_every_tenant).

  \<^bold>\<open>Bounds and fuel.\<close>  An append is tried five times, as in the source; append_loop recurses on the
  tries that are left.  A client that follows cursors is walk_pages with as much fuel as the
  listing has rows, plus one: every page but the last is not empty, and Listings proves that it
  ends.  All other recursion is structural or has a measure.  Times, counters and versions are
  unbounded integers, as the doubles of the source are exact far beyond them; columns that
  overflow or truncate raise the error of the database.

  \<^bold>\<open>Not modelled.\<close>  OpenAPI documents, dependency injection and the start of the servers; the
  layout and the fixed texts of the web application, and the double effects of the strict mode
  of React; the end-to-end tests; a COMMIT that fails, a disk
  write that stops half way, the timing of password checks; merged concurrent key-set fetches;
  response headers for caches.  The manifest lists every such part with its reason.
\<close>

end
